(* ===== verification/Lustre_Prelude.thy ===== *)
theory Lustre_Prelude
  imports Main "HOL-Library.Word" "HOL-Library.Monad_Syntax"
begin

unbundle bit_operations_syntax

text \<open>
  Shared vocabulary of the development: the C integer types as machine words, the error
  numbers the modelled functions return, the option monad that carries failed assertions,
  and the generic lemmas on words and lists the component theories use.

  Conventions of the whole development.
  \<^item> \<open>__u64\<close>, \<open>loff_t\<close> and \<open>unsigned long\<close> (64-bit build) are \<open>64 word\<close>, \<open>__u32\<close> and
    \<open>int\<close> are \<open>32 word\<close>, \<open>__u16\<close> is \<open>16 word\<close>; signed comparisons are written with \<open>sint\<close>.
  \<^item> A failing \<open>LASSERT\<close> (or a division by zero) stops the node. Functions whose source has
    one return an \<open>option\<close>; \<open>None\<close> is the stop.
  \<^item> A function that returns 0 or a negative error number returns \<open>errno + 'a\<close>, with \<open>Inl\<close>
    for the error.
  \<^item> A function that returns a code and updates memory on failure as well returns a pair
    of an \<open>rc\<close> and the new state; \<open>None\<close> is the code 0.
  \<^item> Spin locks, reference counts and debug output have no counterpart: every definition is
    the sequential effect of its function.
\<close>

type_synonym u64 = "64 word"
type_synonym u32 = "32 word"
type_synonym u16 = "16 word"

datatype errno =
    EAGAIN | ENOENT | EINVAL | ENOMEM | ENOSPC | ERANGE | EALREADY | EDEADLK | EUSERS
  | ENOTSUPP | ETIMEDOUT | EIO | EINPROGRESS | ENODEV | EBADF | EPERM | ENODATA | EOVERFLOW
  | E2BIG | EEXIST | EROFS | EPROTO | EFAULT | ESHUTDOWN | ESTALE | EBUSY | ENOTEMPTY | ENOSYS
  | EOPNOTSUPP | EINTR

text \<open>The return code of a function that also updates its arguments: \<open>None\<close> is 0.\<close>

type_synonym rc = "errno option"

text \<open>\<open>LASSERT(c)\<close>: go on when \<open>c\<close> holds, stop the node otherwise.\<close>

definition LASSERT :: "bool \<Rightarrow> unit option" where
  "LASSERT c = (if c then Some () else None)"

lemma LASSERT_simps [simp]:
  "LASSERT True = Some ()"
  "LASSERT False = None"
  by (simp_all add: LASSERT_def)

lemma LASSERT_eq_Some [simp]: "LASSERT c = Some u \<longleftrightarrow> c"
  by (simp add: LASSERT_def)

section \<open>Words read as natural numbers\<close>

named_theorems word_nat "values of word operations as natural numbers, without overflow"

lemma unat_eqI: "unat x = unat y \<Longrightarrow> x = y" for x y :: "'a::len word"
  by (simp add: word_unat_eq_iff)

lemma unat_less_pow: "unat x < 2 ^ LENGTH('a)" for x :: "'a::len word"
  by (rule unsigned_less)

lemma unat_add_small [word_nat]:
  "unat x + unat y < 2 ^ LENGTH('a) \<Longrightarrow> unat (x + y) = unat x + unat y"
  for x y :: "'a::len word"
  by (simp add: unat_word_ariths)

lemma unat_mult_small [word_nat]:
  "unat x * unat y < 2 ^ LENGTH('a) \<Longrightarrow> unat (x * y) = unat x * unat y"
  for x y :: "'a::len word"
  by (simp add: unat_word_ariths)

lemma unat_minus_small [word_nat]:
  "y \<le> x \<Longrightarrow> unat (x - y) = unat x - unat y" for x y :: "'a::len word"
  by (simp add: unat_sub)

lemma unat_minus_one_pos [word_nat]:
  "x \<noteq> 0 \<Longrightarrow> unat (x - 1) = unat x - 1" for x :: "'a::len word"
  by (simp add: unat_minus_one)

lemma sint_small: "unat x < 2 ^ (LENGTH('a) - 1) \<Longrightarrow> sint x = int (unat x)" for x :: "'a::len word"
proof -
  assume "unat x < 2 ^ (LENGTH('a) - 1)"
  then have "int (unat x) < 2 ^ (LENGTH('a) - 1)"
    by (metis of_nat_less_iff of_nat_numeral of_nat_power)
  then have "signed_take_bit (LENGTH('a) - 1) (int (unat x)) = int (unat x)"
    by (intro signed_take_bit_int_eq_self) (rule order_trans [of _ 0], simp_all)
  then show ?thesis by (simp add: sint_uint)
qed

lemma unat_of_nat_small [word_nat]: "n < 2 ^ LENGTH('a) \<Longrightarrow> unat (of_nat n :: 'a::len word) = n"
  by (simp add: unat_of_nat take_bit_nat_eq_self)

lemma unat_of_nat_plus_1 [word_nat]:
  "Suc n < 2 ^ LENGTH('a) \<Longrightarrow> unat (of_nat n + 1 :: 'a::len word) = Suc n"
  using unat_of_nat_small [where 'a = 'a, of "Suc n"] by (simp only: of_nat_Suc add.commute)

lemma scast_of_nat_u32: "n < 2 ^ 31 \<Longrightarrow> (scast (of_nat n :: u32) :: u64) = of_nat n"
proof -
  assume "n < 2 ^ 31"
  then have "unat (of_nat n :: u32) = n" by (intro unat_of_nat_small) simp
  with \<open>n < 2 ^ 31\<close> have "sint (of_nat n :: u32) = int n"
    using sint_small [of "of_nat n :: u32"] by simp
  then show ?thesis unfolding scast_eq by simp
qed

lemma of_nat_eqI: "unat x = n \<Longrightarrow> x = of_nat n" for x :: "'a::len word"
  by auto

section \<open>Words read as bits\<close>

lemma unat_exp: "n < LENGTH('a) \<Longrightarrow> unat (2 ^ n :: 'a::len word) = 2 ^ n"
  using unat_of_nat_small [of "2 ^ n", where 'a = 'a] by simp

lemma bit_less_exp: "x < 2 ^ n \<Longrightarrow> bit x k \<Longrightarrow> k < n" for x :: "'a::len word"
proof (rule ccontr)
  assume a: "x < 2 ^ n" "bit x k" "\<not> k < n"
  from a(2) have k: "k < LENGTH('a)" by (rule bit_imp_le_length)
  with a(3) have n: "n < LENGTH('a)" by simp
  have "unat x < 2 ^ n" using a(1) n by (simp add: word_less_nat_alt unat_exp)
  also have "\<dots> \<le> 2 ^ k" using a(3) by (simp add: power_increasing)
  finally have "unat x div 2 ^ k = 0" by simp
  moreover have "bit (unat x) k" using a(2) by (simp add: bit_unsigned_iff k)
  ultimately show False by (simp add: bit_iff_odd)
qed

lemma less_exp_bit: "(\<And>k. bit x k \<Longrightarrow> k < n) \<Longrightarrow> n < LENGTH('a) \<Longrightarrow> x < 2 ^ n" for x :: "'a::len word"
proof -
  assume a: "\<And>k. bit x k \<Longrightarrow> k < n" and n: "n < LENGTH('a)"
  have "take_bit n x = x" by (rule bit_word_eqI) (use a in \<open>auto simp: bit_simps\<close>)
  then have "unat x = take_bit n (unat x)" by (metis unsigned_take_bit_eq)
  then have "unat x < 2 ^ n" by (metis take_bit_nat_less_exp)
  then show ?thesis using n by (simp add: word_less_nat_alt unat_exp)
qed

lemma less_exp_drop: "x < 2 ^ n \<Longrightarrow> drop_bit n x = 0" for x :: "'a::len word"
  by (rule bit_word_eqI) (auto simp: bit_simps dest: bit_less_exp)

lemma less_exp_mask: "x < 2 ^ n \<Longrightarrow> x AND mask n = x" for x :: "'a::len word"
  by (rule bit_word_eqI) (auto simp: bit_simps dest: bit_less_exp bit_imp_le_length)

lemma unat_ucast_u32 [simp]: "unat (ucast (x::u32) :: u64) = unat x"
  using unat_less_pow [of x] by (simp add: unsigned_ucast_eq take_bit_nat_eq_self)

end
