(* ===== verification/Lov_Offset.thy ===== *)
theory Lov_Offset
  imports Lustre_Prelude
begin

text \<open>
  The striping arithmetic of the LOV layer (\<open>lustre/lov/lov_offset.c\<close>) and the merge of the
  per-object attributes of a striped file (\<open>lustre/lov/lov_merge.c\<close>). The first section is
  the translation of the code on 64-bit words; the second is the arithmetic of RAID-0
  striping on natural numbers, proved once in the locale \<open>raid0\<close>; the third shows that the
  code computes it.
\<close>

section \<open>Data\<close>

record lu_extent =
  e_start :: u64
  e_end :: u64

record ost_lvb =
  lvb_size :: u64
  lvb_mtime :: u64
  lvb_atime :: u64
  lvb_ctime :: u64
  lvb_blocks :: u64

record lov_oinfo =
  loi_ost_idx :: u32
  loi_kms_valid :: bool
  loi_kms :: u64
  loi_lvb :: ost_lvb

record lov_stripe_md_entry =
  lsme_extent :: lu_extent
  lsme_id :: u32
  lsme_magic :: u32
  lsme_flags :: u32
  lsme_pattern :: u32
  lsme_timestamp :: u64
  lsme_stripe_size :: u32
  lsme_stripe_count :: u16
  lsme_layout_gen :: u16
  lsme_oinfo :: "lov_oinfo list"

record lov_stripe_md =
  lsm_magic :: u32
  lsm_layout_gen :: u32
  lsm_flags :: u16
  lsm_is_released :: bool
  lsm_mirror_count :: u16
  lsm_entry_count :: u16
  lsm_entries :: "lov_stripe_md_entry list"

definition OBD_OBJECT_EOF :: u64 where
  "OBD_OBJECT_EOF = 0xffffffffffffffff"

definition LOV_PATTERN_MDT :: u32 where
  "LOV_PATTERN_MDT = 0x100"

definition LOV_PATTERN_F_MASK :: u32 where
  "LOV_PATTERN_F_MASK = 0xffff0000"

definition lov_pattern :: "u32 \<Rightarrow> u32" where
  "lov_pattern pattern = pattern AND NOT LOV_PATTERN_F_MASK"

definition lsme_is_dom :: "lov_stripe_md_entry \<Rightarrow> bool" where
  "lsme_is_dom lsme \<longleftrightarrow> lov_pattern (lsme_pattern lsme) = LOV_PATTERN_MDT"


text \<open>\<open>lsm->lsm_entries[index]\<close>; reading past the array has no defined result.\<close>

definition lsm_entry :: "lov_stripe_md \<Rightarrow> nat \<Rightarrow> lov_stripe_md_entry option" where
  "lsm_entry lsm index =
     (if index < length (lsm_entries lsm) then Some (lsm_entries lsm ! index) else None)"

section \<open>The code\<close>

text \<open>\<open>lov_do_div64(a, b)\<close> returns the remainder and leaves the quotient in \<open>a\<close>.\<close>

definition lov_do_div64 :: "u64 \<Rightarrow> u64 \<Rightarrow> (u64 \<times> u64) option" where
  "lov_do_div64 n base = (if base = 0 then None else Some (n mod base, n div base))"

definition stripe_width :: "lov_stripe_md \<Rightarrow> nat \<Rightarrow> u64 option" where
  "stripe_width lsm index = do {
     entry \<leftarrow> lsm_entry lsm index;
     LASSERT (index < unat (lsm_entry_count lsm));
     Some (if lsme_is_dom entry then ucast (lsme_stripe_size entry)
           else ucast (lsme_stripe_size entry) * ucast (lsme_stripe_count entry))
   }"

definition lov_stripe_size :: "lov_stripe_md \<Rightarrow> nat \<Rightarrow> u64 \<Rightarrow> u32 \<Rightarrow> u64 option" where
  "lov_stripe_size lsm index ost_size stripeno = do {
     entry \<leftarrow> lsm_entry lsm index;
     let ssize = ucast (lsme_stripe_size entry);
     if ost_size = 0 then Some 0
     else do {
       swidth \<leftarrow> stripe_width lsm index;
       (stripe_size, ost_size) \<leftarrow> lov_do_div64 ost_size ssize;
       Some (if stripe_size \<noteq> 0
             then ost_size * swidth + scast stripeno * ssize + stripe_size
             else (ost_size - 1) * swidth + scast (stripeno + 1) * ssize)
     }
   }"

text \<open>\<open>PAGE_SHIFT\<close> is a constant of the kernel build, here the parameter \<open>page_shift\<close>.\<close>

definition lov_stripe_pgoff :: "nat \<Rightarrow> lov_stripe_md \<Rightarrow> nat \<Rightarrow> u64 \<Rightarrow> u32 \<Rightarrow> u64 option" where
  "lov_stripe_pgoff page_shift lsm index stripe_index stripe = do {
     offset \<leftarrow> lov_stripe_size lsm index (push_bit page_shift stripe_index + 1) stripe;
     Some (signed_drop_bit page_shift offset)
   }"

text \<open>The result is the return value (-1, 0 or 1) with the value stored in \<open>*obdoff\<close>.\<close>

definition lov_stripe_offset ::
    "lov_stripe_md \<Rightarrow> nat \<Rightarrow> u64 \<Rightarrow> u32 \<Rightarrow> (int \<times> u64) option" where
  "lov_stripe_offset lsm index lov_off stripeno = do {
     entry \<leftarrow> lsm_entry lsm index;
     let ssize = ucast (lsme_stripe_size entry);
     if lov_off = OBD_OBJECT_EOF then Some (0, OBD_OBJECT_EOF)
     else do {
       swidth \<leftarrow> stripe_width lsm index;
       (stripe_off, lov_off) \<leftarrow> lov_do_div64 lov_off swidth;
       let this_stripe = scast stripeno * ssize;
       let (stripe_off, ret) =
         (if sint stripe_off < sint this_stripe then (0, - 1)
          else let stripe_off = stripe_off - this_stripe
               in if ssize \<le> stripe_off then (ssize, 1) else (stripe_off, 0));
       Some (ret, lov_off * ssize + stripe_off)
     }
   }"

definition lov_size_to_stripe :: "lov_stripe_md \<Rightarrow> nat \<Rightarrow> u64 \<Rightarrow> u32 \<Rightarrow> u64 option" where
  "lov_size_to_stripe lsm index file_size stripeno = do {
     entry \<leftarrow> lsm_entry lsm index;
     let ssize = ucast (lsme_stripe_size entry);
     if file_size = OBD_OBJECT_EOF then Some OBD_OBJECT_EOF
     else do {
       swidth \<leftarrow> stripe_width lsm index;
       (stripe_off, file_size) \<leftarrow> lov_do_div64 file_size swidth;
       let this_stripe = scast stripeno * ssize;
       let (file_size, stripe_off) =
         (if sint stripe_off < sint this_stripe then
            (if 0 < file_size then (file_size - 1, ssize) else (file_size, 0))
          else let stripe_off = stripe_off - this_stripe
               in (file_size, if ssize \<le> stripe_off then ssize else stripe_off));
       Some (file_size * ssize + stripe_off)
     }
   }"


text \<open>The return type \<open>int\<close> keeps the low 32 bits of the quotient.\<close>

definition lov_stripe_number :: "lov_stripe_md \<Rightarrow> nat \<Rightarrow> u64 \<Rightarrow> u32 option" where
  "lov_stripe_number lsm index lov_off = do {
     entry \<leftarrow> lsm_entry lsm index;
     let ssize = ucast (lsme_stripe_size entry);
     swidth \<leftarrow> stripe_width lsm index;
     (stripe_off, lov_off) \<leftarrow> lov_do_div64 lov_off swidth;
     (_, stripe_off) \<leftarrow> lov_do_div64 stripe_off ssize;
     Some (ucast stripe_off)
   }"

definition OST_LVB_ERR_INIT :: u64 where
  "OST_LVB_ERR_INIT = 0xffbadbad80000000"

definition OST_LVB_ERR_MASK :: u64 where
  "OST_LVB_ERR_MASK = 0xffbadbad00000000"

definition OST_LVB_IS_ERR :: "u64 \<Rightarrow> bool" where
  "OST_LVB_IS_ERR blocks \<longleftrightarrow> blocks AND OST_LVB_ERR_MASK = OST_LVB_ERR_MASK"

definition OST_LVB_GET_ERR :: "u64 \<Rightarrow> u32" where
  "OST_LVB_GET_ERR blocks = ucast (blocks - OST_LVB_ERR_INIT)"

text \<open>The local variables of \<open>lov_merge_lvb_kms\<close>.\<close>

record lvb_merge =
  m_size :: u64
  m_kms :: u64
  m_blocks :: u64
  m_mtime :: u64
  m_atime :: u64
  m_ctime :: u64
  m_rc :: u32

text \<open>One round of the loop, for the object \<open>loi\<close> of stripe \<open>i\<close>.\<close>

definition lov_merge_one ::
    "lov_stripe_md \<Rightarrow> nat \<Rightarrow> nat \<Rightarrow> lov_oinfo \<Rightarrow> lvb_merge \<Rightarrow> lvb_merge option" where
  "lov_merge_one lsm index i loi m =
    (let lvb = loi_lvb loi in
     if OST_LVB_IS_ERR (lvb_blocks lvb)
     then Some (m\<lparr>m_rc := OST_LVB_GET_ERR (lvb_blocks lvb)\<rparr>)
     else do {
       lov_size \<leftarrow> lov_stripe_size lsm index (loi_kms loi) (of_nat i);
       let kms = (if m_kms m < lov_size then lov_size else m_kms m);
       let tmpsize = (if loi_kms loi < lvb_size lvb then lvb_size lvb else loi_kms loi);
       lov_size \<leftarrow> lov_stripe_size lsm index tmpsize (of_nat i);
       Some \<lparr>m_size = (if m_size m < lov_size then lov_size else m_size m),
             m_kms = kms,
             m_blocks = m_blocks m + lvb_blocks lvb,
             m_mtime = (if sint (m_mtime m) < sint (lvb_mtime lvb) then lvb_mtime lvb else m_mtime m),
             m_atime = (if sint (m_atime m) < sint (lvb_atime lvb) then lvb_atime lvb else m_atime m),
             m_ctime = (if sint (m_ctime m) < sint (lvb_ctime lvb) then lvb_ctime lvb else m_ctime m),
             m_rc = m_rc m\<rparr>
     })"

fun lov_merge_loop ::
    "lov_stripe_md \<Rightarrow> nat \<Rightarrow> nat \<Rightarrow> lov_oinfo list \<Rightarrow> lvb_merge \<Rightarrow> lvb_merge option" where
  "lov_merge_loop lsm index i [] m = Some m"
| "lov_merge_loop lsm index i (loi # lois) m =
     Option.bind (lov_merge_one lsm index i loi m) (lov_merge_loop lsm index (Suc i) lois)"

text \<open>Result: return code, the updated \<open>*lvb\<close> and the value stored in \<open>*kms_place\<close>.\<close>

definition lov_merge_lvb_kms ::
    "lov_stripe_md \<Rightarrow> nat \<Rightarrow> ost_lvb \<Rightarrow> (u32 \<times> ost_lvb \<times> u64) option" where
  "lov_merge_lvb_kms lsm index lvb = do {
     lse \<leftarrow> lsm_entry lsm index;
     LASSERT (unat (lsme_stripe_count lse) \<le> length (lsme_oinfo lse));
     m \<leftarrow> lov_merge_loop lsm index 0 (take (unat (lsme_stripe_count lse)) (lsme_oinfo lse))
            \<lparr>m_size = 0, m_kms = 0, m_blocks = 0, m_mtime = lvb_mtime lvb,
             m_atime = lvb_atime lvb, m_ctime = lvb_ctime lvb, m_rc = 0\<rparr>;
     Some (m_rc m,
           lvb\<lparr>lvb_size := m_size m, lvb_blocks := m_blocks m, lvb_mtime := m_mtime m,
               lvb_atime := m_atime m, lvb_ctime := m_ctime m\<rparr>,
           m_kms m)
   }"

section \<open>RAID-0 striping on natural numbers\<close>

text \<open>
  A file of stripes of \<open>ssize\<close> bytes over \<open>scount\<close> objects: \<open>file_stripe\<close> is the object that
  holds byte \<open>off\<close> of the file, \<open>obj_off\<close> its position in that object and \<open>file_off\<close> the way
  back.
\<close>

definition file_stripe :: "nat \<Rightarrow> nat \<Rightarrow> nat \<Rightarrow> nat" where
  "file_stripe ssize scount off = off mod (ssize * scount) div ssize"

definition obj_off :: "nat \<Rightarrow> nat \<Rightarrow> nat \<Rightarrow> nat" where
  "obj_off ssize scount off = off div (ssize * scount) * ssize + off mod ssize"

definition file_off :: "nat \<Rightarrow> nat \<Rightarrow> nat \<Rightarrow> nat \<Rightarrow> nat" where
  "file_off ssize scount i obd = obd div ssize * (ssize * scount) + i * ssize + obd mod ssize"

text \<open>The first position of object \<open>i\<close> that lies at or after byte \<open>off\<close> of the file.\<close>

definition obj_ceil :: "nat \<Rightarrow> nat \<Rightarrow> nat \<Rightarrow> nat \<Rightarrow> nat" where
  "obj_ceil ssize scount i off =
     off div (ssize * scount) * ssize +
     (let r = off mod (ssize * scount)
      in if r < i * ssize then 0 else if r - i * ssize < ssize then r - i * ssize else ssize)"

text \<open>The size of the file whose last byte is the last byte of an object of size \<open>s\<close>.\<close>

definition file_size_of :: "nat \<Rightarrow> nat \<Rightarrow> nat \<Rightarrow> nat \<Rightarrow> nat" where
  "file_size_of ssize scount i s = (if s = 0 then 0 else Suc (file_off ssize scount i (s - 1)))"

locale raid0 =
  fixes ssize scount :: nat
  assumes ssize_pos: "0 < ssize" and scount_pos: "0 < scount"
begin

lemma file_stripe_less: "file_stripe ssize scount off < scount"
  using ssize_pos scount_pos
  by (simp add: file_stripe_def div_less_iff_less_mult mult.commute)

lemma mod_width_mod: "off mod (ssize * scount) mod ssize = off mod ssize"
  by (simp add: mod_mod_cancel)

lemma file_off_obj_off:
  "file_off ssize scount (file_stripe ssize scount off) (obj_off ssize scount off) = off"
proof -
  have d: "obj_off ssize scount off div ssize = off div (ssize * scount)"
    and m: "obj_off ssize scount off mod ssize = off mod ssize"
    using ssize_pos by (simp_all add: obj_off_def)
  have "file_stripe ssize scount off * ssize + off mod ssize = off mod (ssize * scount)"
    using div_mult_mod_eq [of "off mod (ssize * scount)" ssize]
    by (simp only: file_stripe_def mod_width_mod)
  then show ?thesis
    unfolding file_off_def d m by (simp add: add.assoc div_mult_mod_eq)
qed

lemma in_width: "i < scount \<Longrightarrow> i * ssize + obd mod ssize < ssize * scount"
proof -
  assume "i < scount"
  then have "Suc i * ssize \<le> scount * ssize" by (intro mult_le_mono1) simp
  moreover have "obd mod ssize < ssize" using ssize_pos by simp
  ultimately show ?thesis by (simp add: mult.commute)
qed

lemma file_off_div_mod:
  assumes "i < scount"
  shows "file_off ssize scount i obd div (ssize * scount) = obd div ssize"
    and "file_off ssize scount i obd mod (ssize * scount) = i * ssize + obd mod ssize"
  using in_width [OF assms, of obd] ssize_pos scount_pos
  by (simp_all add: file_off_def add.assoc)

lemma file_stripe_file_off: "i < scount \<Longrightarrow> file_stripe ssize scount (file_off ssize scount i obd) = i"
  using ssize_pos by (simp add: file_stripe_def file_off_div_mod)

lemma obj_off_file_off: "i < scount \<Longrightarrow> obj_off ssize scount (file_off ssize scount i obd) = obd"
proof -
  assume i: "i < scount"
  have "file_off ssize scount i obd mod ssize = obd mod ssize"
    using mod_width_mod [of "file_off ssize scount i obd"]
    by (simp add: file_off_div_mod(2) [OF i])
  then show ?thesis using i by (simp add: obj_off_def file_off_div_mod(1))
qed

lemma file_off_mono:
  assumes i: "i < scount" and ab: "a < b"
  shows "file_off ssize scount i a < file_off ssize scount i b"
proof (cases "a div ssize = b div ssize")
  case True
  then have "a mod ssize < b mod ssize"
    using ab div_mult_mod_eq [of a ssize, unfolded True] div_mult_mod_eq [of b ssize] by linarith
  with True show ?thesis by (simp add: file_off_def)
next
  case False
  then have "Suc (a div ssize) \<le> b div ssize"
    using ab by (meson Suc_leI div_le_mono le_neq_implies_less less_imp_le)
  then have "Suc (a div ssize) * (ssize * scount) \<le> b div ssize * (ssize * scount)"
    by (rule mult_le_mono1)
  with in_width [OF i, of a] show ?thesis by (simp add: file_off_def)
qed

lemma file_off_le_iff:
  "i < scount \<Longrightarrow> file_off ssize scount i a \<le> file_off ssize scount i b \<longleftrightarrow> a \<le> b"
  using file_off_mono [of i a b] file_off_mono [of i b a]
  by (cases a b rule: linorder_cases) auto

text \<open>\<open>obj_ceil\<close> is the left adjoint of \<open>file_off\<close>.\<close>

lemma obj_ceil_galois:
  assumes i: "i < scount"
  shows "obj_ceil ssize scount i off \<le> obd \<longleftrightarrow> off \<le> file_off ssize scount i obd"
proof -
  define W where "W = ssize * scount"
  define q where "q = off div W"
  define r where "r = off mod W"
  define Q where "Q = obd div ssize"
  define R where "R = obd mod ssize"
  define t where "t = i * ssize"
  define c where "c = (if r < t then 0 else if r - t < ssize then r - t else ssize)"
  have W: "0 < W" using ssize_pos scount_pos by (simp add: W_def)
  have off: "off = q * W + r" unfolding q_def r_def by (rule div_mult_mod_eq [symmetric])
  have obd: "obd = Q * ssize + R" unfolding Q_def R_def by (rule div_mult_mod_eq [symmetric])
  have bounds: "c \<le> ssize" "r < W" "R < ssize" "t + R < W"
    using W ssize_pos in_width [OF i, of obd] by (simp_all add: c_def r_def R_def t_def W_def)
  have c_le: "c \<le> R \<longleftrightarrow> r \<le> t + R" using bounds(3) by (auto simp: c_def)
  have eqs: "obj_ceil ssize scount i off = q * ssize + c"
    "file_off ssize scount i obd = Q * W + (t + R)"
    by (simp_all add: obj_ceil_def file_off_def Let_def c_def q_def r_def t_def W_def Q_def R_def)
  consider (lt) "Suc Q \<le> q" | (eq) "Q = q" | (gt) "Suc q \<le> Q" by linarith
  then show ?thesis
  proof cases
    case lt
    have "Suc Q * ssize \<le> q * ssize" "Suc Q * W \<le> q * W" using lt by (rule mult_le_mono1)+
    then show ?thesis unfolding eqs using off obd bounds by simp
  next
    case eq
    then show ?thesis unfolding eqs using off obd c_le by simp
  next
    case gt
    have "Suc q * ssize \<le> Q * ssize" "Suc q * W \<le> Q * W" using gt by (rule mult_le_mono1)+
    then show ?thesis unfolding eqs using off obd bounds by simp
  qed
qed

lemma file_off_eq_iff:
  "i < scount \<Longrightarrow> file_off ssize scount i obd = off \<longleftrightarrow>
     file_stripe ssize scount off = i \<and> obj_off ssize scount off = obd"
  using file_off_obj_off [of off] file_stripe_file_off [of i obd] obj_off_file_off [of i obd]
  by auto

lemma obj_ceil_stripe:
  "file_stripe ssize scount off = i \<Longrightarrow> obj_ceil ssize scount i off = obj_off ssize scount off"
proof -
  assume i: "file_stripe ssize scount off = i"
  then have isc: "i < scount" using file_stripe_less by blast
  have "obj_ceil ssize scount i off \<le> obd \<longleftrightarrow> obj_off ssize scount off \<le> obd" for obd
    using obj_ceil_galois [OF isc, of off obd] file_off_le_iff [OF isc, of "obj_off ssize scount off" obd]
      file_off_obj_off [of off] i by simp
  then show ?thesis by (meson dual_order.antisym order_refl)
qed

lemma obj_ceil_Suc:
  assumes i: "i < scount"
  shows "obj_ceil ssize scount i (Suc off) =
    obj_ceil ssize scount i off + (if file_stripe ssize scount off = i then 1 else 0)"
proof -
  let ?d = "if file_stripe ssize scount off = i then 1 else 0"
  have "obj_ceil ssize scount i (Suc off) \<le> obd \<longleftrightarrow> obj_ceil ssize scount i off + ?d \<le> obd" for obd
  proof -
    have "obj_ceil ssize scount i (Suc off) \<le> obd \<longleftrightarrow>
        off \<le> file_off ssize scount i obd \<and> off \<noteq> file_off ssize scount i obd"
      unfolding obj_ceil_galois [OF i] by auto
    also have "\<dots> \<longleftrightarrow> obj_ceil ssize scount i off \<le> obd \<and>
        \<not> (file_stripe ssize scount off = i \<and> obj_off ssize scount off = obd)"
      using obj_ceil_galois [OF i] file_off_eq_iff [OF i, of obd off] by auto
    also have "\<dots> \<longleftrightarrow> obj_ceil ssize scount i off + ?d \<le> obd"
      using obj_ceil_stripe [of off i] by auto
    finally show ?thesis .
  qed
  then show ?thesis by (meson dual_order.antisym order_refl)
qed

text \<open>The positions of object \<open>i\<close> that a byte range \<open>[a, b]\<close> of the file touches.\<close>

lemma obj_range:
  "i < scount \<Longrightarrow> a \<le> file_off ssize scount i obd \<and> file_off ssize scount i obd \<le> b \<longleftrightarrow>
     obj_ceil ssize scount i a \<le> obd \<and> obd < obj_ceil ssize scount i (Suc b)"
  using obj_ceil_galois [of i a obd] obj_ceil_galois [of i "Suc b" obd] by auto

lemma obj_ceil_mono: "i < scount \<Longrightarrow> a \<le> b \<Longrightarrow> obj_ceil ssize scount i a \<le> obj_ceil ssize scount i b"
  using obj_ceil_galois [of i a "obj_ceil ssize scount i b"]
    obj_ceil_galois [of i b "obj_ceil ssize scount i b"] by simp

text \<open>Sizes: an object of size \<open>s\<close> fits in a file of size \<open>n\<close> exactly when \<open>s\<close> is at most
  the part of the object below \<open>n\<close>.\<close>

lemma file_size_of_galois:
  "i < scount \<Longrightarrow> file_size_of ssize scount i s \<le> n \<longleftrightarrow> s \<le> obj_ceil ssize scount i n"
  using obj_ceil_galois [of i n "s - 1"] by (cases s) (auto simp: file_size_of_def)

lemma file_size_of_obj_ceil_le:
  "i < scount \<Longrightarrow> file_size_of ssize scount i (obj_ceil ssize scount i n) \<le> n"
  by (simp add: file_size_of_galois)

lemma file_size_of_last_stripe:
  "file_size_of ssize scount (file_stripe ssize scount n)
     (obj_ceil ssize scount (file_stripe ssize scount n) (Suc n)) = Suc n"
  using file_off_obj_off [of n] file_stripe_less [of n]
  by (simp add: obj_ceil_Suc obj_ceil_stripe file_size_of_def)

lemma file_size_of_mono:
  "i < scount \<Longrightarrow> s \<le> s' \<Longrightarrow> file_size_of ssize scount i s \<le> file_size_of ssize scount i s'"
  using file_size_of_galois [of i s "file_size_of ssize scount i s'"]
    file_size_of_galois [of i s' "file_size_of ssize scount i s'"] by simp

end

section \<open>The code computes RAID-0 striping\<close>

text \<open>
  The geometry of a component: its stripe size and the number of objects it is striped over
  (one for data on the MDT). A component without stripes or with empty stripes counts as one
  of size one here; the code stops on it, and \<open>lsm_entry_ok\<close> rules it out below.
\<close>

definition lsme_ssize :: "lov_stripe_md_entry \<Rightarrow> nat" where
  "lsme_ssize e = max 1 (unat (lsme_stripe_size e))"

definition lsme_scount :: "lov_stripe_md_entry \<Rightarrow> nat" where
  "lsme_scount e = (if lsme_is_dom e then 1 else max 1 (unat (lsme_stripe_count e)))"

interpretation lsme: raid0 "lsme_ssize e" "lsme_scount e" for e
  by unfold_locales (simp_all add: lsme_ssize_def lsme_scount_def less_max_iff_disj)

text \<open>Component \<open>index\<close> of the layout is \<open>e\<close>, with at least one stripe of at least one byte.\<close>

definition lsm_entry_ok :: "lov_stripe_md \<Rightarrow> nat \<Rightarrow> lov_stripe_md_entry \<Rightarrow> bool" where
  "lsm_entry_ok lsm index e \<longleftrightarrow>
     lsm_entry lsm index = Some e \<and> index < unat (lsm_entry_count lsm) \<and>
     0 < lsme_stripe_size e \<and> (lsme_is_dom e \<or> 0 < lsme_stripe_count e)"

lemma lsm_entry_okD:
  assumes "lsm_entry_ok lsm index e"
  shows "lsm_entry lsm index = Some e" "index < unat (lsm_entry_count lsm)"
    "lsme_ssize e = unat (lsme_stripe_size e)"
    "lsme_scount e = (if lsme_is_dom e then 1 else unat (lsme_stripe_count e))"
  using assms
  by (auto simp: lsm_entry_ok_def lsme_ssize_def lsme_scount_def max_def unat_gt_0 not_le
      word_neq_0_conv Suc_le_eq)

lemma lsme_ssize_bound: "lsme_ssize e < 2 ^ 32"
  using unat_less_pow [of "lsme_stripe_size e"] by (simp add: lsme_ssize_def)

lemma lsme_scount_bound: "lsme_scount e < 2 ^ 16"
  using unat_less_pow [of "lsme_stripe_count e"] by (simp add: lsme_scount_def)

lemma lsme_width_bound: "lsme_ssize e * lsme_scount e < 2 ^ 48"
proof -
  have "lsme_ssize e * lsme_scount e \<le> (2 ^ 32 - 1) * (2 ^ 16 - 1)"
    using lsme_ssize_bound [of e] lsme_scount_bound [of e] by (intro mult_le_mono) simp_all
  then show ?thesis by simp
qed

lemma ucast_ssize:
  "lsm_entry_ok lsm index e \<Longrightarrow> (ucast (lsme_stripe_size e) :: u64) = of_nat (lsme_ssize e)"
  by (simp add: lsm_entry_okD)

lemma stripe_width_refine:
  "lsm_entry_ok lsm index e \<Longrightarrow> stripe_width lsm index = Some (of_nat (lsme_ssize e * lsme_scount e))"
  by (simp add: lsm_entry_okD stripe_width_def)

lemma div_mod_of_nat:
  fixes x :: u64
  assumes "0 < n" "n < 2 ^ 64"
  shows "x mod of_nat n = of_nat (unat x mod n)" "x div of_nat n = of_nat (unat x div n)"
  using assms
  by (simp_all add: of_nat_eqI unat_mod_distrib unat_div_distrib unat_of_nat_small)

lemma of_nat_eq_0_small: "n < 2 ^ 64 \<Longrightarrow> (of_nat n :: u64) = 0 \<longleftrightarrow> n = 0"
  by (auto simp: word_of_nat_eq_0_iff dest: dvd_imp_le)

definition stripe_side :: "nat \<Rightarrow> nat \<Rightarrow> nat \<Rightarrow> nat \<Rightarrow> int" where
  "stripe_side ssize scount i off =
     (let r = off mod (ssize * scount)
      in if r < i * ssize then - 1 else if r - i * ssize < ssize then 0 else 1)"

lemma lov_do_div64_of_nat:
  "0 < n \<Longrightarrow> n < 2 ^ 64 \<Longrightarrow>
     lov_do_div64 x (of_nat n) = Some (of_nat (unat x mod n), of_nat (unat x div n))"
  by (simp add: lov_do_div64_def div_mod_of_nat of_nat_eq_0_small)

lemma this_stripe_of_nat:
  assumes "i < lsme_scount e"
  shows "scast (of_nat i :: u32) * of_nat (lsme_ssize e) = (of_nat (i * lsme_ssize e) :: u64)"
    and "i * lsme_ssize e < 2 ^ 48"
proof -
  have "i < 2 ^ 31" using assms lsme_scount_bound [of e] by simp
  then show "scast (of_nat i :: u32) * of_nat (lsme_ssize e) = (of_nat (i * lsme_ssize e) :: u64)"
    by (simp add: scast_of_nat_u32)
  have "i * lsme_ssize e \<le> lsme_scount e * lsme_ssize e" using assms by (intro mult_le_mono1) simp
  then show "i * lsme_ssize e < 2 ^ 48" 
    by (rule le_less_trans) (use lsme_width_bound [of e] in \<open>simp add: mult.commute\<close>)
qed

lemma sint_of_nat_small: "n < 2 ^ 48 \<Longrightarrow> sint (of_nat n :: u64) = int n"
  using sint_small [of "of_nat n :: u64"] unat_of_nat_small [where 'a = 64, of n] by simp

lemma of_nat_le_small:
  "m < 2 ^ 64 \<Longrightarrow> n < 2 ^ 64 \<Longrightarrow> (of_nat m :: u64) \<le> of_nat n \<longleftrightarrow> m \<le> n"
  by (simp add: word_le_nat_alt unat_of_nat_small)

lemma mod_width_small:
  "x mod (lsme_ssize e * lsme_scount e) < 2 ^ 48"
proof -
  have "0 < lsme_ssize e * lsme_scount e" using lsme.ssize_pos lsme.scount_pos by simp
  then have "x mod (lsme_ssize e * lsme_scount e) < lsme_ssize e * lsme_scount e" by simp
  then show ?thesis using lsme_width_bound [of e] by linarith
qed

lemma lov_stripe_offset_refine:
  assumes ok: "lsm_entry_ok lsm index e" and i: "i < lsme_scount e" and off: "off \<noteq> OBD_OBJECT_EOF"
  shows "lov_stripe_offset lsm index off (of_nat i) =
    Some (stripe_side (lsme_ssize e) (lsme_scount e) i (unat off),
          of_nat (obj_ceil (lsme_ssize e) (lsme_scount e) i (unat off)))"
proof -
  define W where "W = lsme_ssize e * lsme_scount e"
  define r where "r = unat off mod W"
  define t where "t = i * lsme_ssize e"
  have W: "0 < W" "W < 2 ^ 64" and entry: "lsm_entry lsm index = Some e"
    using lsm_entry_okD [OF ok] lsme_width_bound [of e] lsme.ssize_pos [of e] lsme.scount_pos [of e]
    by (simp_all add: W_def)
  have r: "r < 2 ^ 48" using mod_width_small [of _ e] by (simp add: r_def W_def)
  have t: "t < 2 ^ 48" "(scast (of_nat i :: u32) * of_nat (lsme_ssize e) :: u64) = of_nat t"
    using this_stripe_of_nat [OF i] by (simp_all add: t_def)
  have lt: "sint (of_nat r :: u64) < sint (of_nat t :: u64) \<longleftrightarrow> r < t"
    using r t(1) by (simp add: sint_of_nat_small)
  have ge: "of_nat (lsme_ssize e) \<le> (of_nat r - of_nat t :: u64) \<longleftrightarrow> lsme_ssize e \<le> r - t" if "\<not> r < t"
  proof -
    have "(of_nat r - of_nat t :: u64) = of_nat (r - t)" using that by (simp add: of_nat_diff)
    then show ?thesis using r lsme_ssize_bound [of e] by (simp add: of_nat_le_small)
  qed
  have "lov_do_div64 off (of_nat W) = Some (of_nat r, of_nat (unat off div W))"
    using lov_do_div64_of_nat [OF W, of off] by (simp add: r_def)
  then show ?thesis
    using off entry ge lt t(2)
    by (auto simp: lov_stripe_offset_def stripe_width_refine [OF ok] ucast_ssize [OF ok] W_def [symmetric]
        Let_def obj_ceil_def stripe_side_def r_def [symmetric] t_def [symmetric] of_nat_diff not_le)
qed

lemma lov_size_to_stripe_refine:
  assumes ok: "lsm_entry_ok lsm index e" and i: "i < lsme_scount e" and sz: "fsz \<noteq> OBD_OBJECT_EOF"
  shows "lov_size_to_stripe lsm index fsz (of_nat i) =
    Some (of_nat (obj_ceil (lsme_ssize e) (lsme_scount e) i (unat fsz)))"
proof -
  define W where "W = lsme_ssize e * lsme_scount e"
  define r where "r = unat fsz mod W"
  define q where "q = unat fsz div W"
  define t where "t = i * lsme_ssize e"
  have W: "0 < W" "W < 2 ^ 64" and entry: "lsm_entry lsm index = Some e"
    using lsm_entry_okD [OF ok] lsme_width_bound [of e] lsme.ssize_pos [of e] lsme.scount_pos [of e]
    by (simp_all add: W_def)
  have r: "r < 2 ^ 48" using mod_width_small [of _ e] by (simp add: r_def W_def)
  have t: "t < 2 ^ 48" "(scast (of_nat i :: u32) * of_nat (lsme_ssize e) :: u64) = of_nat t"
    using this_stripe_of_nat [OF i] by (simp_all add: t_def)
  have lt: "sint (of_nat r :: u64) < sint (of_nat t :: u64) \<longleftrightarrow> r < t"
    using r t(1) by (simp add: sint_of_nat_small)
  have ge: "of_nat (lsme_ssize e) \<le> (of_nat r - of_nat t :: u64) \<longleftrightarrow> lsme_ssize e \<le> r - t" if "\<not> r < t"
  proof -
    have "(of_nat r - of_nat t :: u64) = of_nat (r - t)" using that by (simp add: of_nat_diff)
    then show ?thesis using r lsme_ssize_bound [of e] by (simp add: of_nat_le_small)
  qed
  have "q < 2 ^ 64" unfolding q_def
    by (rule le_less_trans [OF div_le_dividend]) (use unat_less_pow [of fsz] in simp)
  then have q0: "0 < (of_nat q :: u64) \<longleftrightarrow> 0 < q"
    by (simp add: word_neq_0_conv [symmetric] of_nat_eq_0_small)
  have "lov_do_div64 fsz (of_nat W) = Some (of_nat r, of_nat q)"
    using lov_do_div64_of_nat [OF W, of fsz] by (simp add: r_def q_def)
  then show ?thesis
    using sz entry ge lt t(2) q0
    by (cases q)
      (auto simp: lov_size_to_stripe_def stripe_width_refine [OF ok] ucast_ssize [OF ok] W_def [symmetric]
        Let_def obj_ceil_def r_def [symmetric] q_def [symmetric] t_def [symmetric] of_nat_diff not_le
        distrib_right)
qed

lemma file_size_of_eq:
  assumes "0 < ssize" "0 < s"
  shows "file_size_of ssize scount i s =
    (if s mod ssize \<noteq> 0 then s div ssize * (ssize * scount) + i * ssize + s mod ssize
     else (s div ssize - 1) * (ssize * scount) + Suc i * ssize)"
proof -
  have s: "s = Suc (s - 1)" using assms by simp
  show ?thesis
    using assms mod_Suc [of "s - 1" ssize] div_Suc [of "s - 1" ssize]
      mod_less_divisor [of ssize "s - 1"]
    unfolding s [symmetric] file_size_of_def file_off_def by (auto split: if_splits)
qed

lemma lov_stripe_size_refine:
  assumes ok: "lsm_entry_ok lsm index e" and i: "i < lsme_scount e"
  shows "lov_stripe_size lsm index s (of_nat i) =
    Some (of_nat (file_size_of (lsme_ssize e) (lsme_scount e) i (unat s)))"
proof (cases "s = 0")
  case True
  then show ?thesis
    using lsm_entry_okD [OF ok] by (simp add: lov_stripe_size_def file_size_of_def)
next
  case False
  define q where "q = unat s div lsme_ssize e"
  define m where "m = unat s mod lsme_ssize e"
  have ss: "0 < lsme_ssize e" "lsme_ssize e < 2 ^ 64" and entry: "lsm_entry lsm index = Some e"
    using lsm_entry_okD [OF ok] lsme_ssize_bound [of e] lsme.ssize_pos [of e] by simp_all
  have s0: "0 < unat s" using False by (simp add: unat_gt_0)
  have i31: "Suc i < 2 ^ 31" using i lsme_scount_bound [of e] by simp
  have sc: "(scast (of_nat i :: u32) :: u64) = of_nat i"
    "(scast (of_nat i + 1 :: u32) :: u64) = of_nat (Suc i)"
    using i31 scast_of_nat_u32 [of i] scast_of_nat_u32 [of "Suc i"] by (simp_all add: add.commute)
  have m: "(of_nat m :: u64) = 0 \<longleftrightarrow> m = 0"
    using mod_less_divisor [OF ss(1), of "unat s"] ss(2) by (intro of_nat_eq_0_small) (simp add: m_def)
  have qm: "m = 0 \<Longrightarrow> 0 < q" using s0 by (auto simp: q_def m_def div_greater_zero_iff mod_greater_zero_iff_not_dvd dvd_imp_le)
  have "lov_do_div64 s (of_nat (lsme_ssize e)) = Some (of_nat m, of_nat q)"
    using lov_do_div64_of_nat [OF ss, of s] by (simp add: q_def m_def)
  then show ?thesis
    using False entry m qm
    by (auto simp: lov_stripe_size_def stripe_width_refine [OF ok] ucast_ssize [OF ok] sc
        file_size_of_eq [OF ss(1) s0] q_def [symmetric] m_def [symmetric] of_nat_diff Let_def
        distrib_right)
qed

lemma lov_stripe_number_refine:
  assumes ok: "lsm_entry_ok lsm index e"
  shows "lov_stripe_number lsm index off =
    Some (of_nat (file_stripe (lsme_ssize e) (lsme_scount e) (unat off)))"
proof -
  define W where "W = lsme_ssize e * lsme_scount e"
  define r where "r = unat off mod W"
  have W: "0 < W" "W < 2 ^ 64" and ss: "0 < lsme_ssize e" "lsme_ssize e < 2 ^ 64"
    and entry: "lsm_entry lsm index = Some e"
    using lsm_entry_okD [OF ok] lsme_width_bound [of e] lsme_ssize_bound [of e] lsme.ssize_pos [of e]
      lsme.scount_pos [of e] by (simp_all add: W_def)
  have r: "r < 2 ^ 48" using mod_width_small [of _ e] by (simp add: r_def W_def)
  have "unat (of_nat r :: u64) = r" using r by (intro unat_of_nat_small) simp
  then have d: "lov_do_div64 off (of_nat W) = Some (of_nat r, of_nat (unat off div W))"
    "lov_do_div64 (of_nat r) (of_nat (lsme_ssize e)) = Some (of_nat (r mod lsme_ssize e), of_nat (r div lsme_ssize e))"
    using lov_do_div64_of_nat [OF W, of off] lov_do_div64_of_nat [OF ss, of "of_nat r"]
    by (simp_all add: r_def)
  have "r div lsme_ssize e < 2 ^ 64" 
    by (rule le_less_trans [OF div_le_dividend]) (use r in simp)
  then have "(ucast (of_nat (r div lsme_ssize e) :: u64) :: u32) = of_nat (r div lsme_ssize e)"
    by (simp add: unsigned_of_nat take_bit_nat_eq_self)
  then show ?thesis
    using entry d
    by (simp add: lov_stripe_number_def stripe_width_refine [OF ok] ucast_ssize [OF ok] W_def [symmetric]
        file_stripe_def r_def [symmetric])
qed

section \<open>Properties\<close>

context raid0
begin

lemma obj_off_le: "obj_off ssize scount off \<le> off"
proof -
  have "off div (ssize * scount) * ssize \<le> off div ssize * ssize"
    using div_le_mono2 [of ssize "ssize * scount" off] ssize_pos scount_pos
    by (intro mult_le_mono1) simp
  then show ?thesis
    using div_mult_mod_eq [of off ssize] unfolding obj_off_def by linarith
qed

lemma le_file_size_of: "i < scount \<Longrightarrow> s \<le> file_size_of ssize scount i s"
proof (cases s)
  case (Suc n)
  assume "i < scount"
  then have "n \<le> file_off ssize scount i n"
    using obj_off_le [of "file_off ssize scount i n"] obj_off_file_off by simp
  with Suc show ?thesis by (simp add: file_size_of_def)
qed simp

lemma stripe_side_eq_0: "stripe_side ssize scount i off = 0 \<longleftrightarrow> file_stripe ssize scount off = i"
proof -
  let ?r = "off mod (ssize * scount)"
  have "?r div ssize = i \<longleftrightarrow> i * ssize \<le> ?r \<and> ?r < Suc i * ssize"
    using ssize_pos less_eq_div_iff_mult_less_eq [of ssize i ?r] div_less_iff_less_mult [of ssize ?r "Suc i"]
    by auto
  then show ?thesis
    by (auto simp: stripe_side_def file_stripe_def Let_def)
qed

end

lemma EOF_unat: "unat OBD_OBJECT_EOF = 2 ^ 64 - 1"
  by (simp add: OBD_OBJECT_EOF_def)

lemma unat_less_EOF: "off \<noteq> OBD_OBJECT_EOF \<Longrightarrow> unat off < 2 ^ 64 - 1"
  using unat_less_pow [of off] EOF_unat by (simp add: word_unat_eq_iff)

text \<open>
  C7. Where a byte of a file lands and where it came from agree: for every file offset, the
  stripe number the code computes holds that offset (\<open>lov_stripe_offset\<close> returns 0), and the
  file size computed back from an object that ends with that byte is the offset plus one.
\<close>

theorem lov_offset_roundtrip:
  assumes ok: "lsm_entry_ok lsm index e" and off: "off \<noteq> OBD_OBJECT_EOF"
  shows "\<exists>stripe obd. lov_stripe_number lsm index off = Some stripe \<and>
    lov_stripe_offset lsm index off stripe = Some (0, obd) \<and>
    lov_stripe_size lsm index (obd + 1) stripe = Some (off + 1)"
proof -
  define i where "i = file_stripe (lsme_ssize e) (lsme_scount e) (unat off)"
  define obd where "obd = obj_off (lsme_ssize e) (lsme_scount e) (unat off)"
  have i: "i < lsme_scount e" unfolding i_def by (rule lsme.file_stripe_less)
  have "Suc obd < 2 ^ 64" using lsme.obj_off_le [of e "unat off"] unat_less_EOF [OF off]
    unfolding obd_def by linarith
  then have obd1: "unat (of_nat obd + 1 :: u64) = Suc obd"
    by (intro unat_of_nat_plus_1) simp
  have "lov_stripe_size lsm index (of_nat obd + 1) (of_nat i) = Some (off + 1)"
    using lov_stripe_size_refine [OF ok i, of "of_nat obd + 1"] lsme.file_off_obj_off [of e "unat off"]
    unfolding obd1 by (simp add: file_size_of_def i_def obd_def)
  moreover have "lov_stripe_offset lsm index off (of_nat i) = Some (0, of_nat obd)"
    using lov_stripe_offset_refine [OF ok i off] lsme.obj_ceil_stripe [of e "unat off" i]
    by (simp add: lsme.stripe_side_eq_0 i_def obd_def)
  ultimately show ?thesis
    using lov_stripe_number_refine [OF ok, of off] by (auto simp: i_def)
qed

text \<open>A layout of one component, three objects, four bytes to a stripe.\<close>

definition sample_oinfo :: "u64 \<Rightarrow> lov_oinfo" where
  "sample_oinfo kms = \<lparr>loi_ost_idx = 0, loi_kms_valid = True, loi_kms = kms,
     loi_lvb = \<lparr>lvb_size = 0, lvb_mtime = 0, lvb_atime = 0, lvb_ctime = 0, lvb_blocks = 1\<rparr>\<rparr>"

definition sample_entry :: lov_stripe_md_entry where
  "sample_entry = \<lparr>lsme_extent = \<lparr>e_start = 0, e_end = 0xffffffffffffffff\<rparr>, lsme_id = 1, lsme_magic = 0,
     lsme_flags = 0x10, lsme_pattern = 1, lsme_timestamp = 0, lsme_stripe_size = 4,
     lsme_stripe_count = 3, lsme_layout_gen = 0,
     lsme_oinfo = [sample_oinfo 8, sample_oinfo 5, sample_oinfo 4]\<rparr>"

definition sample_lsm :: lov_stripe_md where
  "sample_lsm = \<lparr>lsm_magic = 0, lsm_layout_gen = 0, lsm_flags = 0, lsm_is_released = False,
     lsm_mirror_count = 0, lsm_entry_count = 1, lsm_entries = [sample_entry]\<rparr>"

lemma sample_dom [simp]: "\<not> lsme_is_dom sample_entry"
  by (simp add: lsme_is_dom_def lov_pattern_def sample_entry_def LOV_PATTERN_F_MASK_def LOV_PATTERN_MDT_def)

lemma sample_ok: "lsm_entry_ok sample_lsm 0 sample_entry"
  by (simp add: lsm_entry_ok_def lsm_entry_def sample_lsm_def) (simp add: sample_entry_def)

lemma sample_geometry: "lsme_ssize sample_entry = 4" "lsme_scount sample_entry = 3"
  by (simp_all add: lsme_ssize_def lsme_scount_def) (simp_all add: sample_entry_def)


theorem lov_offset_roundtrip_witness:
  "lsm_entry_ok sample_lsm 0 sample_entry \<and> (17 :: u64) \<noteq> OBD_OBJECT_EOF \<and>
   (\<exists>stripe obd. lov_stripe_number sample_lsm 0 17 = Some stripe \<and>
     lov_stripe_offset sample_lsm 0 17 stripe = Some (0, obd) \<and>
     lov_stripe_size sample_lsm 0 (obd + 1) stripe = Some (17 + 1))"
proof -
  have "(17 :: u64) \<noteq> OBD_OBJECT_EOF" by (simp add: OBD_OBJECT_EOF_def)
  then show ?thesis using sample_ok lov_offset_roundtrip [OF sample_ok, of 17] by blast
qed





lemma obj_ceil_u64:
  assumes "off \<noteq> OBD_OBJECT_EOF" "i < lsme_scount e"
  shows "unat (of_nat (obj_ceil (lsme_ssize e) (lsme_scount e) i (unat off)) :: u64) =
    obj_ceil (lsme_ssize e) (lsme_scount e) i (unat off)"
proof (rule unat_of_nat_small)
  let ?c = "obj_ceil (lsme_ssize e) (lsme_scount e) i (unat off)"
  have "file_size_of (lsme_ssize e) (lsme_scount e) i ?c \<le> unat off"
    using lsme.file_size_of_obj_ceil_le [OF assms(2)] .
  moreover have "?c \<le> file_size_of (lsme_ssize e) (lsme_scount e) i ?c"
    by (rule lsme.le_file_size_of [OF assms(2)])
  ultimately show "?c < 2 ^ LENGTH(64)"
    using unat_less_EOF [OF assms(1)] by simp
qed




lemma lov_merge_one_ok:
  assumes ok: "lsm_entry_ok lsm index e" and i: "i < lsme_scount e"
    and loi: "\<not> OST_LVB_IS_ERR (lvb_blocks (loi_lvb loi))" "lvb_size (loi_lvb loi) \<le> loi_kms loi"
      "file_size_of (lsme_ssize e) (lsme_scount e) i (unat (loi_kms loi)) < 2 ^ 64"
  shows "\<exists>m'. lov_merge_one lsm index i loi m = Some m' \<and> m_rc m' = m_rc m \<and>
    unat (m_kms m') = max (unat (m_kms m)) (file_size_of (lsme_ssize e) (lsme_scount e) i (unat (loi_kms loi))) \<and>
    unat (m_size m') = max (unat (m_size m)) (file_size_of (lsme_ssize e) (lsme_scount e) i (unat (loi_kms loi)))"
proof -
  define f where "f = file_size_of (lsme_ssize e) (lsme_scount e) i (unat (loi_kms loi))"
  have sz: "lov_stripe_size lsm index (loi_kms loi) (of_nat i) = Some (of_nat f)"
    unfolding f_def by (rule lov_stripe_size_refine [OF ok i])
  have u: "unat (of_nat f :: u64) = f" using loi(3) by (intro unat_of_nat_small) (simp add: f_def)
  have "(if loi_kms loi < lvb_size (loi_lvb loi) then lvb_size (loi_lvb loi) else loi_kms loi) = loi_kms loi"
    using loi(2) by (simp add: not_less [symmetric])
  then show ?thesis
    unfolding f_def [symmetric] using loi(1) sz u
    by (simp add: lov_merge_one_def Let_def word_less_nat_alt max_def)
qed

text \<open>
  The merge loop, by what its maxima stay below: \<open>kms\<close> and \<open>size\<close> are the least upper bounds
  of the sizes the objects give the file, and no object in error is met.
\<close>

lemma lov_merge_loop_bounds:
  assumes ok: "lsm_entry_ok lsm index e"
    and "i + length lois \<le> lsme_scount e"
    and "\<forall>k < length lois. \<not> OST_LVB_IS_ERR (lvb_blocks (loi_lvb (lois ! k))) \<and>
        lvb_size (loi_lvb (lois ! k)) \<le> loi_kms (lois ! k) \<and>
        file_size_of (lsme_ssize e) (lsme_scount e) (i + k) (unat (loi_kms (lois ! k))) < 2 ^ 64"
  shows "\<exists>m'. lov_merge_loop lsm index i lois m = Some m' \<and> m_rc m' = m_rc m \<and>
    (\<forall>n. (unat (m_kms m') \<le> n) = (unat (m_kms m) \<le> n \<and> (\<forall>k < length lois.
       file_size_of (lsme_ssize e) (lsme_scount e) (i + k) (unat (loi_kms (lois ! k))) \<le> n))) \<and>
    (\<forall>n. (unat (m_size m') \<le> n) = (unat (m_size m) \<le> n \<and> (\<forall>k < length lois.
       file_size_of (lsme_ssize e) (lsme_scount e) (i + k) (unat (loi_kms (lois ! k))) \<le> n)))"
  using assms(2,3)
proof (induction lois arbitrary: i m)
  case Nil
  then show ?case by simp
next
  case (Cons loi lois)
  let ?F = "\<lambda>j l. file_size_of (lsme_ssize e) (lsme_scount e) j (unat (loi_kms l))"
  have i: "i < lsme_scount e" using Cons.prems(1) by simp
  have loi: "\<not> OST_LVB_IS_ERR (lvb_blocks (loi_lvb loi))" "lvb_size (loi_lvb loi) \<le> loi_kms loi"
    "?F i loi < 2 ^ 64"
    using Cons.prems(2) [rule_format, of 0] by auto
  obtain m1 where m1: "lov_merge_one lsm index i loi m = Some m1" and rc: "m_rc m1 = m_rc m"
    and kms: "unat (m_kms m1) = max (unat (m_kms m)) (?F i loi)"
    and sz: "unat (m_size m1) = max (unat (m_size m)) (?F i loi)"
    using lov_merge_one_ok [OF ok i loi] by blast
  have "\<forall>k < length lois. \<not> OST_LVB_IS_ERR (lvb_blocks (loi_lvb (lois ! k))) \<and>
        lvb_size (loi_lvb (lois ! k)) \<le> loi_kms (lois ! k) \<and> ?F (Suc i + k) (lois ! k) < 2 ^ 64"
    using Cons.prems(2) by fastforce
  then obtain m' where "lov_merge_loop lsm index (Suc i) lois m1 = Some m'" "m_rc m' = m_rc m1"
    "\<forall>n. (unat (m_kms m') \<le> n) = (unat (m_kms m1) \<le> n \<and> (\<forall>k < length lois. ?F (Suc i + k) (lois ! k) \<le> n))"
    "\<forall>n. (unat (m_size m') \<le> n) = (unat (m_size m1) \<le> n \<and> (\<forall>k < length lois. ?F (Suc i + k) (lois ! k) \<le> n))"
    using Cons.IH [of "Suc i" m1] Cons.prems(1) by auto
  then show ?case using m1 rc kms sz by (auto simp: All_less_Suc2)
qed

text \<open>
  C8. Truncating a striped file and merging its objects back gives the size asked for: when
  every object has the size \<open>lov_size_to_stripe\<close> assigns to it for a file of \<open>fsize\<close> bytes and
  none is in error, \<open>lov_merge_lvb_kms\<close> succeeds with both the known minimum size and the
  file size equal to \<open>fsize\<close>.
\<close>

theorem lov_truncate_merge:
  assumes ok: "lsm_entry_ok lsm index e" and dom: "\<not> lsme_is_dom e"
    and len: "length (lsme_oinfo e) = unat (lsme_stripe_count e)" and fsize: "fsize \<noteq> OBD_OBJECT_EOF"
    and objs: "\<forall>i < length (lsme_oinfo e).
        lov_size_to_stripe lsm index fsize (of_nat i) = Some (loi_kms (lsme_oinfo e ! i)) \<and>
        lvb_size (loi_lvb (lsme_oinfo e ! i)) \<le> loi_kms (lsme_oinfo e ! i) \<and>
        \<not> OST_LVB_IS_ERR (lvb_blocks (loi_lvb (lsme_oinfo e ! i)))"
  shows "\<exists>lvb'. lov_merge_lvb_kms lsm index lvb = Some (0, lvb', fsize) \<and> lvb_size lvb' = fsize"
proof -
  let ?lois = "lsme_oinfo e" and ?n = "unat fsize"
  let ?F = "\<lambda>i. file_size_of (lsme_ssize e) (lsme_scount e) i (unat (loi_kms (?lois ! i)))"
  have sc: "lsme_scount e = length ?lois" using lsm_entry_okD [OF ok] dom len by simp
  have kms: "unat (loi_kms (?lois ! i)) = obj_ceil (lsme_ssize e) (lsme_scount e) i ?n" if "i < length ?lois" for i
    using objs [rule_format, OF that] lov_size_to_stripe_refine [OF ok _ fsize, of i]
      obj_ceil_u64 [OF fsize, of i e] that sc by auto
  have F_le: "?F i \<le> ?n" if "i < length ?lois" for i
    using kms [OF that] lsme.file_size_of_obj_ceil_le [of i e ?n] that sc by simp
  have F_eq: "\<exists>i < length ?lois. ?F i = ?n" if "0 < ?n"
  proof (intro exI conjI)
    let ?i = "file_stripe (lsme_ssize e) (lsme_scount e) (?n - 1)"
    show i: "?i < length ?lois" using lsme.file_stripe_less [of e] sc by simp
    show "?F ?i = ?n" using kms [OF i] lsme.file_size_of_last_stripe [of e "?n - 1"] that by simp
  qed
  have F64: "?F i < 2 ^ 64" if "i < length ?lois" for i
    using F_le [OF that] unat_less_pow [of fsize] by simp
  let ?m = "\<lparr>m_size = 0, m_kms = 0, m_blocks = 0, m_mtime = lvb_mtime lvb,
             m_atime = lvb_atime lvb, m_ctime = lvb_ctime lvb, m_rc = 0\<rparr> :: lvb_merge"
  obtain m where m: "lov_merge_loop lsm index 0 ?lois ?m = Some m" "m_rc m = 0"
    "\<And>n. (unat (m_kms m) \<le> n) = (\<forall>k < length ?lois. ?F k \<le> n)"
    "\<And>n. (unat (m_size m) \<le> n) = (\<forall>k < length ?lois. ?F k \<le> n)"
    using lov_merge_loop_bounds [OF ok, of 0 ?lois ?m] sc objs F64 by auto
  have "unat (m_kms m) = ?n" "unat (m_size m) = ?n"
    using m(3) [of ?n] m(3) [of "unat (m_kms m)"] m(4) [of ?n] m(4) [of "unat (m_size m)"] F_le F_eq
    by (metis order_antisym order_refl not_gr_zero le_zero_eq)+
  then have "m_kms m = fsize" "m_size m = fsize" by (simp_all add: word_unat_eq_iff)
  then show ?thesis
    using m(1,2) lsm_entry_okD(1) [OF ok] len by (simp add: lov_merge_lvb_kms_def)
qed

theorem lov_truncate_merge_witness:
  "\<exists>lvb'. lov_merge_lvb_kms sample_lsm 0 (loi_lvb (sample_oinfo 0)) = Some (0, lvb', 17) \<and> lvb_size lvb' = 17"
proof (rule lov_truncate_merge [OF sample_ok sample_dom])
  have n: "\<And>P. (\<forall>i < 3 :: nat. P i) \<longleftrightarrow> P 0 \<and> P 1 \<and> P 2"
    by (simp add: numeral_eq_Suc All_less_Suc) auto
  have len: "length (lsme_oinfo sample_entry) = 3" by (simp add: sample_entry_def)
  show "length (lsme_oinfo sample_entry) = unat (lsme_stripe_count sample_entry)"
    by (simp add: sample_entry_def)
  show eof: "(17 :: u64) \<noteq> OBD_OBJECT_EOF" by (simp add: OBD_OBJECT_EOF_def)
  show "\<forall>i < length (lsme_oinfo sample_entry).
        lov_size_to_stripe sample_lsm 0 17 (of_nat i) = Some (loi_kms (lsme_oinfo sample_entry ! i)) \<and>
        lvb_size (loi_lvb (lsme_oinfo sample_entry ! i)) \<le> loi_kms (lsme_oinfo sample_entry ! i) \<and>
        \<not> OST_LVB_IS_ERR (lvb_blocks (loi_lvb (lsme_oinfo sample_entry ! i)))"
    unfolding len n using lov_size_to_stripe_refine [OF sample_ok _ eof, of 0]
      lov_size_to_stripe_refine [OF sample_ok _ eof, of 1]
      lov_size_to_stripe_refine [OF sample_ok _ eof, of 2]
    by (simp add: sample_geometry obj_ceil_def Let_def)
      (simp add: sample_entry_def sample_oinfo_def OST_LVB_IS_ERR_def OST_LVB_ERR_MASK_def)
qed

end
