(* ===== verification/FID.thy ===== *)
theory FID
  imports Lustre_Prelude
begin

text \<open>
  File identifiers: \<open>struct lu_fid\<close>, the partition of the sequence space into legacy inode
  numbers (IGIF), legacy object numbers (IDIF), reserved and normal sequences, the wire format
  \<open>struct ost_id\<close>, the names of lock resources, and the flattening of an identifier to an
  inode number (\<open>lustre_user.h\<close>, \<open>lustre_idl.h\<close>, \<open>uapi/lustre_fid.h\<close>, \<open>lustre_ostid.h\<close>,
  \<open>lustre_fid.h\<close>). The lemmas show that the classes of sequences are disjoint and
  that every conversion the code offers in both directions loses nothing, on the identifiers
  for which the code uses it.
\<close>

section \<open>Identifiers and the classes of sequences\<close>

record lu_fid =
  f_seq :: u64
  f_oid :: u32
  f_ver :: u32

definition FID_SEQ_OST_MDT0 :: u64 where [simp]: "FID_SEQ_OST_MDT0 = 0"
definition FID_SEQ_LLOG :: u64 where [simp]: "FID_SEQ_LLOG = 1"
definition FID_SEQ_ECHO :: u64 where [simp]: "FID_SEQ_ECHO = 2"
definition FID_SEQ_RSVD :: u64 where [simp]: "FID_SEQ_RSVD = 11"
definition FID_SEQ_IGIF :: u64 where [simp]: "FID_SEQ_IGIF = 12"
definition FID_SEQ_IGIF_MAX :: u64 where [simp]: "FID_SEQ_IGIF_MAX = 0x0ffffffff"
definition FID_SEQ_IDIF :: u64 where [simp]: "FID_SEQ_IDIF = 0x100000000"
definition FID_SEQ_IDIF_MAX :: u64 where [simp]: "FID_SEQ_IDIF_MAX = 0x1ffffffff"
definition FID_SEQ_START :: u64 where [simp]: "FID_SEQ_START = 0x200000000"
definition FID_SEQ_LOCAL_FILE :: u64 where [simp]: "FID_SEQ_LOCAL_FILE = 0x200000001"
definition FID_SEQ_DOT_LUSTRE :: u64 where [simp]: "FID_SEQ_DOT_LUSTRE = 0x200000002"
definition FID_SEQ_LOCAL_NAME :: u64 where [simp]: "FID_SEQ_LOCAL_NAME = 0x200000003"
definition FID_SEQ_SPECIAL :: u64 where [simp]: "FID_SEQ_SPECIAL = 0x200000004"
definition FID_SEQ_ROOT :: u64 where [simp]: "FID_SEQ_ROOT = 0x200000007"
definition FID_SEQ_UPDATE_LOG :: u64 where [simp]: "FID_SEQ_UPDATE_LOG = 0x200000009"
definition FID_SEQ_UPDATE_LOG_DIR :: u64 where [simp]: "FID_SEQ_UPDATE_LOG_DIR = 0x20000000a"
definition FID_SEQ_NORMAL :: u64 where [simp]: "FID_SEQ_NORMAL = 0x200000400"
definition FID_SEQ_LOV_DEFAULT :: u64 where [simp]: "FID_SEQ_LOV_DEFAULT = 0xffffffffffffffff"
definition OBIF_MAX_OID :: u64 where [simp]: "OBIF_MAX_OID = push_bit 32 1"
definition IDIF_MAX_OID :: u64 where [simp]: "IDIF_MAX_OID = push_bit 48 1"
definition IDIF_OID_MASK :: u64 where [simp]: "IDIF_OID_MASK = push_bit 48 1 - 1"
definition LUSTRE_FID_INIT_OID :: u32 where [simp]: "LUSTRE_FID_INIT_OID = 1"
definition FID_OID_ROOT :: u32 where [simp]: "FID_OID_ROOT = 1"

definition fid_is_zero :: "lu_fid \<Rightarrow> bool" where
  "fid_is_zero fid \<longleftrightarrow> f_seq fid = 0 \<and> f_oid fid = 0"

definition fid_zero :: "lu_fid" where
  "fid_zero = \<lparr> f_seq = 0, f_oid = 0, f_ver = 0 \<rparr>"

definition fid_ver_oid :: "lu_fid \<Rightarrow> u64" where
  "fid_ver_oid fid = push_bit 32 (ucast (f_ver fid)) OR ucast (f_oid fid)"

definition fid_seq_is_mdt0 :: "u64 \<Rightarrow> bool" where
  "fid_seq_is_mdt0 seq \<longleftrightarrow> seq = FID_SEQ_OST_MDT0"

definition fid_seq_is_mdt :: "u64 \<Rightarrow> bool" where
  "fid_seq_is_mdt seq \<longleftrightarrow> seq = FID_SEQ_OST_MDT0 \<or> seq \<ge> FID_SEQ_NORMAL"

definition fid_seq_is_echo :: "u64 \<Rightarrow> bool" where
  "fid_seq_is_echo seq \<longleftrightarrow> seq = FID_SEQ_ECHO"

definition fid_seq_is_llog :: "u64 \<Rightarrow> bool" where
  "fid_seq_is_llog seq \<longleftrightarrow> seq = FID_SEQ_LLOG"

definition fid_is_llog :: "lu_fid \<Rightarrow> bool" where
  "fid_is_llog fid \<longleftrightarrow> fid_seq_is_llog (f_seq fid) \<and> f_oid fid > 0"

definition fid_seq_is_rsvd :: "u64 \<Rightarrow> bool" where
  "fid_seq_is_rsvd seq \<longleftrightarrow> seq > FID_SEQ_OST_MDT0 \<and> seq \<le> FID_SEQ_RSVD"

definition fid_seq_is_special :: "u64 \<Rightarrow> bool" where
  "fid_seq_is_special seq \<longleftrightarrow> seq = FID_SEQ_SPECIAL"

definition fid_seq_is_local_file :: "u64 \<Rightarrow> bool" where
  "fid_seq_is_local_file seq \<longleftrightarrow> seq = FID_SEQ_LOCAL_FILE \<or> seq = FID_SEQ_LOCAL_NAME"

definition fid_seq_is_root :: "u64 \<Rightarrow> bool" where
  "fid_seq_is_root seq \<longleftrightarrow> seq = FID_SEQ_ROOT"

definition fid_seq_is_dot :: "u64 \<Rightarrow> bool" where
  "fid_seq_is_dot seq \<longleftrightarrow> seq = FID_SEQ_DOT_LUSTRE"

definition fid_seq_is_default :: "u64 \<Rightarrow> bool" where
  "fid_seq_is_default seq \<longleftrightarrow> seq = FID_SEQ_LOV_DEFAULT"

definition fid_is_mdt0 :: "lu_fid \<Rightarrow> bool" where
  "fid_is_mdt0 fid \<longleftrightarrow> fid_seq_is_mdt0 (f_seq fid)"

definition fid_seq_is_igif :: "u64 \<Rightarrow> bool" where
  "fid_seq_is_igif seq \<longleftrightarrow> seq \<ge> FID_SEQ_IGIF \<and> seq \<le> FID_SEQ_IGIF_MAX"

definition fid_is_igif :: "lu_fid \<Rightarrow> bool" where
  "fid_is_igif fid \<longleftrightarrow> fid_seq_is_igif (f_seq fid)"

definition fid_seq_is_idif :: "u64 \<Rightarrow> bool" where
  "fid_seq_is_idif seq \<longleftrightarrow> seq \<ge> FID_SEQ_IDIF \<and> seq \<le> FID_SEQ_IDIF_MAX"

definition fid_is_idif :: "lu_fid \<Rightarrow> bool" where
  "fid_is_idif fid \<longleftrightarrow> fid_seq_is_idif (f_seq fid)"

definition fid_seq_is_norm :: "u64 \<Rightarrow> bool" where
  "fid_seq_is_norm seq \<longleftrightarrow> seq \<ge> FID_SEQ_NORMAL"

definition fid_is_norm :: "lu_fid \<Rightarrow> bool" where
  "fid_is_norm fid \<longleftrightarrow> fid_seq_is_norm (f_seq fid)"

definition fid_is_root :: "lu_fid \<Rightarrow> bool" where
  "fid_is_root fid \<longleftrightarrow> f_seq fid = FID_SEQ_ROOT \<and> f_oid fid = FID_OID_ROOT"

definition fid_seq_in_fldb :: "u64 \<Rightarrow> bool" where
  "fid_seq_in_fldb seq \<longleftrightarrow>
     fid_seq_is_igif seq \<or> fid_seq_is_norm seq \<or> fid_seq_is_root seq \<or> fid_seq_is_dot seq"

definition fid_is_md_operative :: "lu_fid \<Rightarrow> bool" where
  "fid_is_md_operative fid \<longleftrightarrow>
     fid_is_mdt0 fid \<or> fid_is_igif fid \<or> fid_is_norm fid \<or> fid_is_root fid"

section \<open>Legacy objects in the IDIF sequences\<close>

definition fid_idif_seq :: "u64 \<Rightarrow> u32 \<Rightarrow> u64" where
  "fid_idif_seq objid ost_idx =
     FID_SEQ_IDIF OR ucast (push_bit 16 ost_idx) OR (drop_bit 32 objid AND 0xffff)"

definition fid_idif_id :: "u64 \<Rightarrow> u32 \<Rightarrow> u32 \<Rightarrow> u64" where
  "fid_idif_id seq oid ver =
     push_bit 48 (ucast ver) OR push_bit 32 (seq AND 0xffff) OR ucast oid"

definition idif_ost_idx :: "u64 \<Rightarrow> u32" where
  "idif_ost_idx seq = ucast (drop_bit 16 seq AND 0xffff)"

definition fid_idif_ost_idx :: "lu_fid \<Rightarrow> u32" where
  "fid_idif_ost_idx fid = idif_ost_idx (f_seq fid)"

definition fid_is_last_id :: "lu_fid \<Rightarrow> bool" where
  "fid_is_last_id fid =
     (if f_oid fid \<noteq> 0 then False
      else if fid_is_idif fid \<and> (f_seq fid AND 0xFFFF) \<noteq> 0 then False
      else if f_seq fid = FID_SEQ_UPDATE_LOG \<or> f_seq fid = FID_SEQ_UPDATE_LOG_DIR
              \<or> fid_seq_is_igif (f_seq fid) then False
      else True)"

definition fid_is_namespace_visible :: "lu_fid \<Rightarrow> bool" where
  "fid_is_namespace_visible fid \<longleftrightarrow>
     (\<not> fid_is_last_id fid \<and> (fid_seq_is_norm (f_seq fid) \<or> fid_seq_is_igif (f_seq fid)))
     \<or> fid_is_root fid \<or> fid_seq_is_dot (f_seq fid)"


definition lu_igif_ino :: "lu_fid \<Rightarrow> u64" where
  "lu_igif_ino fid = f_seq fid"

definition lu_igif_gen :: "lu_fid \<Rightarrow> u32" where
  "lu_igif_gen fid = f_oid fid"

definition lu_last_id_fid :: "u64 \<Rightarrow> u32 \<Rightarrow> lu_fid option" where
  "lu_last_id_fid seq ost_idx =
     (if fid_seq_is_mdt0 seq then
        Some \<lparr> f_seq = fid_idif_seq 0 ost_idx, f_oid = 0, f_ver = 0 \<rparr>
      else do {
        LASSERT (fid_seq_is_norm seq \<or> fid_seq_is_echo seq \<or> fid_seq_is_idif seq);
        Some \<lparr> f_seq = seq, f_oid = 0, f_ver = 0 \<rparr>
      })"

definition fid_set_id :: "lu_fid \<Rightarrow> u64 \<Rightarrow> errno + lu_fid" where
  "fid_set_id fid oid =
     (if fid_seq_is_igif (f_seq fid) then Inl EBADF
      else if fid_is_idif fid then
        (if oid \<ge> IDIF_MAX_OID then Inl EBADF
         else Inr \<lparr> f_seq = fid_idif_seq oid (fid_idif_ost_idx fid),
                    f_oid = ucast oid, f_ver = ucast (drop_bit 48 oid) \<rparr>)
      else
        (if oid > OBIF_MAX_OID then Inl EBADF
         else Inr (fid\<lparr> f_oid := ucast oid \<rparr>)))"

definition lu_fid_diff :: "lu_fid \<Rightarrow> lu_fid \<Rightarrow> u32 option" where
  "lu_fid_diff fid1 fid2 = do {
     LASSERT (f_seq fid1 = f_seq fid2);
     Some (if fid_is_idif fid1 \<and> fid_is_idif fid2 then
             ucast (fid_idif_id (f_seq fid1) (f_oid fid1) (f_ver fid1)
                    - fid_idif_id (f_seq fid2) (f_oid fid2) (f_ver fid2))
           else f_oid fid1 - f_oid fid2)
   }"

section \<open>The wire format \<open>ost_id\<close>\<close>

text \<open>
  \<open>struct ost_id\<close> is a union of an id/seq pair and an identifier, stored in the byte order of a
  little-endian host: \<open>oi_id\<close> overlays \<open>f_seq\<close>, the low half of \<open>oi_seq\<close> overlays \<open>f_oid\<close> and
  its high half \<open>f_ver\<close>. The record holds the pair and \<open>oi_fid\<close> is the other view.
\<close>

record ost_id =
  oi_id :: u64
  oi_seq :: u64

definition oi_fid :: "ost_id \<Rightarrow> lu_fid" where
  "oi_fid oi = \<lparr> f_seq = oi_id oi, f_oid = ucast (oi_seq oi),
                 f_ver = ucast (drop_bit 32 (oi_seq oi)) \<rparr>"

definition oi_of_fid :: "lu_fid \<Rightarrow> ost_id" where
  "oi_of_fid fid = \<lparr> oi_id = f_seq fid, oi_seq = fid_ver_oid fid \<rparr>"

definition ostid_seq :: "ost_id \<Rightarrow> u64" where
  "ostid_seq ostid =
     (if fid_seq_is_mdt0 (oi_seq ostid) then FID_SEQ_OST_MDT0
      else if fid_seq_is_default (oi_seq ostid) then FID_SEQ_LOV_DEFAULT
      else if fid_is_idif (oi_fid ostid) then FID_SEQ_OST_MDT0
      else f_seq (oi_fid ostid))"

definition ostid_id :: "ost_id \<Rightarrow> u64" where
  "ostid_id ostid =
     (if fid_seq_is_mdt0 (oi_seq ostid) then oi_id ostid AND IDIF_OID_MASK
      else if fid_seq_is_default (oi_seq ostid) then oi_id ostid
      else if fid_is_idif (oi_fid ostid) then
        fid_idif_id (f_seq (oi_fid ostid)) (f_oid (oi_fid ostid)) 0
      else ucast (f_oid (oi_fid ostid)))"

definition ostid_set_seq :: "ost_id \<Rightarrow> u64 \<Rightarrow> ost_id" where
  "ostid_set_seq oi seq =
     (if fid_seq_is_mdt0 seq \<or> fid_seq_is_default seq then oi\<lparr> oi_seq := seq \<rparr>
      else
        let fid = (oi_fid oi)\<lparr> f_seq := seq \<rparr> in
        oi_of_fid (if f_oid fid = 0 \<and> f_ver fid = 0
                   then fid\<lparr> f_oid := LUSTRE_FID_INIT_OID \<rparr> else fid))"

definition ostid_set_seq_mdt0 :: "ost_id \<Rightarrow> ost_id" where
  "ostid_set_seq_mdt0 oi = ostid_set_seq oi FID_SEQ_OST_MDT0"

definition ostid_set_id :: "ost_id \<Rightarrow> u64 \<Rightarrow> rc \<times> ost_id" where
  "ostid_set_id oi oid =
     (if fid_seq_is_mdt0 (oi_seq oi) then
        (if oid \<ge> IDIF_MAX_OID then (Some E2BIG, oi)
         else (None, oi\<lparr> oi_id := oid \<rparr>))
      else if fid_is_idif (oi_fid oi) then
        (if oid \<ge> IDIF_MAX_OID then (Some E2BIG, oi)
         else (None, oi_of_fid \<lparr> f_seq = fid_idif_seq oid (fid_idif_ost_idx (oi_fid oi)),
                                 f_oid = ucast oid, f_ver = ucast (drop_bit 48 oid) \<rparr>))
      else
        (if oid \<ge> OBIF_MAX_OID then (Some E2BIG, oi)
         else (None, oi_of_fid ((oi_fid oi)\<lparr> f_oid := ucast oid \<rparr>))))"

definition fid_to_ostid :: "lu_fid \<Rightarrow> ost_id \<Rightarrow> rc \<times> ost_id" where
  "fid_to_ostid fid ostid =
     (if fid_seq_is_igif (f_seq fid) then (Some EBADF, ostid)
      else if fid_is_idif fid then
        ostid_set_id (ostid_set_seq_mdt0 ostid)
          (fid_idif_id (f_seq fid) (f_oid fid) (f_ver fid))
      else (None, oi_of_fid fid))"

definition ostid_to_fid :: "lu_fid \<Rightarrow> ost_id \<Rightarrow> u32 \<Rightarrow> rc \<times> lu_fid" where
  "ostid_to_fid fid ostid ost_idx =
     (let seq = ostid_seq ostid in
      if ost_idx > 0xffff then (Some EBADF, fid)
      else if fid_seq_is_mdt0 seq then
        let oid = ostid_id ostid in
        if oid \<ge> IDIF_MAX_OID then (Some EBADF, fid)
        else (None, \<lparr> f_seq = fid_idif_seq oid ost_idx, f_oid = ucast oid,
                      f_ver = ucast (drop_bit 48 oid) \<rparr>)
      else if \<not> fid_seq_is_default seq then
        (if f_ver (oi_fid ostid) \<noteq> 0 then (Some EBADF, fid)
         else (None, oi_fid ostid))
      else (None, fid))"

section \<open>Names of lock resources\<close>

text \<open>\<open>struct ldlm_res_id\<close> is an array of \<open>RES_NAME_SIZE\<close> (4) numbers.\<close>

type_synonym ldlm_res_id = "u64 list"

definition LUSTRE_RES_ID_SEQ_OFF :: nat where [simp]: "LUSTRE_RES_ID_SEQ_OFF = 0"
definition LUSTRE_RES_ID_VER_OID_OFF :: nat where [simp]: "LUSTRE_RES_ID_VER_OID_OFF = 1"
definition LUSTRE_RES_ID_QUOTA_SEQ_OFF :: nat where [simp]: "LUSTRE_RES_ID_QUOTA_SEQ_OFF = 2"
definition LUSTRE_RES_ID_QUOTA_VER_OID_OFF :: nat
  where [simp]: "LUSTRE_RES_ID_QUOTA_VER_OID_OFF = 3"
definition LUSTRE_RES_ID_HSH_OFF :: nat where [simp]: "LUSTRE_RES_ID_HSH_OFF = 3"

definition fid_build_reg_res_name :: "lu_fid \<Rightarrow> ldlm_res_id" where
  "fid_build_reg_res_name fid =
     (replicate 4 0)[LUSTRE_RES_ID_SEQ_OFF := f_seq fid,
                     LUSTRE_RES_ID_VER_OID_OFF := fid_ver_oid fid]"

definition fid_res_name_eq :: "lu_fid \<Rightarrow> ldlm_res_id \<Rightarrow> bool" where
  "fid_res_name_eq fid res \<longleftrightarrow>
     res ! LUSTRE_RES_ID_SEQ_OFF = f_seq fid \<and>
     res ! LUSTRE_RES_ID_VER_OID_OFF = fid_ver_oid fid"

definition fid_extract_from_res_name :: "ldlm_res_id \<Rightarrow> lu_fid option" where
  "fid_extract_from_res_name res = do {
     let fid = \<lparr> f_seq = res ! LUSTRE_RES_ID_SEQ_OFF,
                 f_oid = ucast (res ! LUSTRE_RES_ID_VER_OID_OFF),
                 f_ver = ucast (drop_bit 32 (res ! LUSTRE_RES_ID_VER_OID_OFF)) \<rparr>;
     LASSERT (fid_res_name_eq fid res);
     Some fid
   }"

definition fid_build_quota_res_name :: "lu_fid \<Rightarrow> lu_fid \<Rightarrow> ldlm_res_id" where
  "fid_build_quota_res_name glb_fid qid_fid =
     (fid_build_reg_res_name glb_fid)
       [LUSTRE_RES_ID_QUOTA_SEQ_OFF := f_seq qid_fid,
        LUSTRE_RES_ID_QUOTA_VER_OID_OFF := fid_ver_oid qid_fid]"

definition fid_extract_from_quota_res :: "ldlm_res_id \<Rightarrow> (lu_fid \<times> lu_fid) option" where
  "fid_extract_from_quota_res res = do {
     glb_fid \<leftarrow> fid_extract_from_res_name res;
     Some (glb_fid,
           \<lparr> f_seq = res ! LUSTRE_RES_ID_QUOTA_SEQ_OFF,
             f_oid = ucast (res ! LUSTRE_RES_ID_QUOTA_VER_OID_OFF),
             f_ver = ucast (drop_bit 32 (res ! LUSTRE_RES_ID_QUOTA_VER_OID_OFF)) \<rparr>)
   }"

definition fid_build_pdo_res_name :: "lu_fid \<Rightarrow> u32 \<Rightarrow> ldlm_res_id" where
  "fid_build_pdo_res_name fid hash =
     (fid_build_reg_res_name fid)[LUSTRE_RES_ID_HSH_OFF := ucast hash]"

definition ostid_build_res_name :: "ost_id \<Rightarrow> ldlm_res_id" where
  "ostid_build_res_name oi =
     (if fid_seq_is_mdt0 (ostid_seq oi) then
        (replicate 4 0)[LUSTRE_RES_ID_SEQ_OFF := ostid_id oi,
                        LUSTRE_RES_ID_VER_OID_OFF := ostid_seq oi]
      else fid_build_reg_res_name (oi_fid oi))"

definition ostid_res_name_eq :: "ost_id \<Rightarrow> ldlm_res_id \<Rightarrow> bool" where
  "ostid_res_name_eq oi name =
     (if fid_seq_is_mdt0 (ostid_seq oi) then
        name ! LUSTRE_RES_ID_SEQ_OFF = ostid_id oi \<and>
        name ! LUSTRE_RES_ID_VER_OID_OFF = ostid_seq oi
      else
        name ! LUSTRE_RES_ID_SEQ_OFF = ostid_seq oi \<and>
        name ! LUSTRE_RES_ID_VER_OID_OFF = ostid_id oi)"

text \<open>
  The conversion leaves the second half of its local \<open>oi\<close> unset; the argument \<open>junk\<close> is its
  content. On an error of \<open>fid_to_ostid\<close> the caller's name is left as it is.
\<close>

definition ost_fid_build_resid :: "u64 \<Rightarrow> lu_fid \<Rightarrow> ldlm_res_id \<Rightarrow> ldlm_res_id" where
  "ost_fid_build_resid junk fid resname =
     (if fid_is_mdt0 fid \<or> fid_is_idif fid then
        (case fid_to_ostid fid \<lparr> oi_id = 0, oi_seq = junk \<rparr> of
           (Some _, _) \<Rightarrow> resname
         | (None, oi) \<Rightarrow> ostid_build_res_name oi)
      else fid_build_reg_res_name fid)"

definition ost_fid_from_resid :: "lu_fid \<Rightarrow> ldlm_res_id \<Rightarrow> u32 \<Rightarrow> lu_fid option" where
  "ost_fid_from_resid fid name ost_idx =
     (if fid_seq_is_mdt0 (name ! LUSTRE_RES_ID_VER_OID_OFF) then
        let oi = ostid_set_seq \<lparr> oi_id = 0, oi_seq = 0 \<rparr> (name ! LUSTRE_RES_ID_VER_OID_OFF);
            oi = snd (ostid_set_id oi (name ! LUSTRE_RES_ID_SEQ_OFF))
        in Some (snd (ostid_to_fid fid oi ost_idx))
      else fid_extract_from_res_name name)"

section \<open>Inode numbers\<close>


definition fid_flatten32 :: "lu_fid \<Rightarrow> u32" where
  "fid_flatten32 fid =
     (if fid_is_igif fid then ucast (lu_igif_ino fid)
      else
        let seq = f_seq fid - FID_SEQ_START;
            ino = ucast (push_bit 12 (seq AND 0x000fffff) + (drop_bit 8 seq AND 0xfffff000)
                         + (drop_bit (64 - (40 - 8)) seq AND 0xffffff00)
                         + ucast (f_oid fid AND 0xff000fff)
                         + ucast (push_bit 8 (f_oid fid AND 0x00fff000)))
        in if ino \<noteq> 0 then ino else f_oid fid)"

section \<open>Lemmas on the packed formats\<close>

lemma ucast_ver_oid: "(ucast (push_bit 32 (ucast (v::u32) :: u64) OR ucast (p::u32)) :: u32) = p"
  by (rule bit_word_eqI) (auto simp: bit_simps)

lemma ucast_drop_ver_oid: "(ucast (drop_bit 32 (push_bit 32 (ucast (v::u32) :: u64) OR ucast (p::u32))) :: u32) = v"
  by (rule bit_word_eqI) (auto simp: bit_simps dest: bit_imp_le_length)

lemma ver_oid_split: "push_bit 32 (ucast (ucast (drop_bit 32 (x::u64)) :: u32)) OR ucast (ucast x :: u32) = x"
  by (rule bit_word_eqI) (auto simp: bit_simps dest: bit_imp_le_length)

lemma oi_fid_of_fid [simp]: "oi_fid (oi_of_fid fid) = fid"
  unfolding oi_fid_def oi_of_fid_def fid_ver_oid_def
  by (simp only: ost_id.simps ucast_ver_oid ucast_drop_ver_oid) simp

lemma oi_of_oi_fid [simp]: "oi_of_fid (oi_fid oi) = oi"
  by (simp add: oi_fid_def oi_of_fid_def fid_ver_oid_def ver_oid_split)

lemma mask16: "(0xffff :: u64) = mask 16" by (simp add: mask_eq_exp_minus_1)
lemma exp32: "(0x100000000 :: u64) = 2 ^ 32" by simp
lemmas idif_bits = fid_idif_id_def fid_idif_seq_def idif_ost_idx_def FID_SEQ_IDIF_def mask16 exp32 bit_simps

lemma idif_id_seq:
  assumes "x < 2 ^ 48"
  shows "fid_idif_id (fid_idif_seq x i) (ucast x) v = push_bit 48 (ucast v) OR x"
proof (rule bit_word_eqI)
  fix n assume n: "n < LENGTH(64)"
  show "bit (fid_idif_id (fid_idif_seq x i) (ucast x) v) n = bit (push_bit 48 (ucast v) OR x) n"
    using n bit_less_exp [OF assms, of n]
    unfolding idif_bits by auto
qed

lemma idif_ost_idx_seq: "i \<le> 0xffff \<Longrightarrow> idif_ost_idx (fid_idif_seq x i) = i"
proof (rule bit_word_eqI)
  fix n assume "i \<le> 0xffff" and n: "n < LENGTH(32)"
  then have "i < 2 ^ 16" by (simp add: word_less_nat_alt word_le_nat_alt)
  from bit_less_exp [OF this, of n] n
  show "bit (idif_ost_idx (fid_idif_seq x i)) n = bit i n"
    unfolding idif_bits by auto
qed

lemma idif_seq_range: "fid_seq_is_idif (fid_idif_seq x i)"
proof -
  have "fid_idif_seq x i < 2 ^ 33"
  proof (rule less_exp_bit)
    show "k < 33" if "bit (fid_idif_seq x i) k" for k
      using that unfolding idif_bits by auto
  qed simp
  moreover have "bit (fid_idif_seq x i) 32"
    unfolding idif_bits by simp
  then have "\<not> fid_idif_seq x i < 2 ^ 32" 
    using bit_less_exp [of "fid_idif_seq x i" 32 32] by auto
  ultimately show ?thesis
    by (simp add: fid_seq_is_idif_def word_le_nat_alt word_less_nat_alt)
qed

lemma idif_hi:
  assumes "fid_seq_is_idif s"
  shows "bit s 32" "bit s k \<Longrightarrow> k \<le> 32"
proof -
  have l: "s < 2 ^ 33" and g: "2 ^ 32 \<le> s"
    using assms by (simp_all add: fid_seq_is_idif_def word_le_nat_alt word_less_nat_alt)
  show "bit s k \<Longrightarrow> k \<le> 32" using bit_less_exp [OF l, of k] by simp
  show "bit s 32"
  proof (rule ccontr)
    assume n: "\<not> bit s 32"
    have "s < 2 ^ 32"
    proof (rule less_exp_bit)
      fix k assume "bit s k"
      then show "k < 32" using bit_less_exp [OF l, of k] n by (cases "k = 32") auto
    qed simp
    with g show False by simp
  qed
qed

lemma idif_seq_id:
  assumes "fid_seq_is_idif s"
  shows "fid_idif_seq (fid_idif_id s p 0) (idif_ost_idx s) = s"
proof (rule bit_word_eqI)
  fix n assume n: "n < LENGTH(64)"
  show "bit (fid_idif_seq (fid_idif_id s p 0) (idif_ost_idx s)) n = bit s n"
    using n idif_hi(2) [OF assms, of n] idif_hi(1) [OF assms] bit_imp_le_length [of p "32 + n"]
    unfolding idif_bits by auto
qed

lemma idif_id_bounds:
  "fid_idif_id s p 0 < 2 ^ 48" "ucast (fid_idif_id s p 0) = p"
proof -
  show "fid_idif_id s p 0 < 2 ^ 48"
  proof (rule less_exp_bit)
    show "k < 48" if "bit (fid_idif_id s p 0) k" for k
      using that unfolding idif_bits by (auto dest: bit_imp_le_length)
  qed simp
  show "ucast (fid_idif_id s p 0) = p"
    by (rule bit_word_eqI) (auto simp: idif_bits dest: bit_imp_le_length)
qed

lemma fid_ver_oid_0 [simp]: "fid_ver_oid fid = 0 \<longleftrightarrow> f_oid fid = 0 \<and> f_ver fid = 0"
proof
  assume "fid_ver_oid fid = 0"
  then have "(ucast (fid_ver_oid fid) :: u32) = 0" "(ucast (drop_bit 32 (fid_ver_oid fid)) :: u32) = 0"
    by simp_all
  then show "f_oid fid = 0 \<and> f_ver fid = 0"
    unfolding fid_ver_oid_def ucast_ver_oid ucast_drop_ver_oid by simp
qed (simp add: fid_ver_oid_def)
text \<open>
  The identifiers of objects on the server with index \<open>ost_idx\<close>: an IDIF that names this
  server, or any identifier outside the legacy classes with an object number.
\<close>

definition ost_fid_ok :: "u32 \<Rightarrow> lu_fid \<Rightarrow> bool" where
  "ost_fid_ok ost_idx fid \<longleftrightarrow> ost_idx \<le> 0xffff \<and> f_ver fid = 0 \<and>
     (if fid_is_idif fid then fid_idif_ost_idx fid = ost_idx
      else f_oid fid \<noteq> 0 \<and> f_seq fid \<noteq> FID_SEQ_OST_MDT0 \<and> f_seq fid \<noteq> FID_SEQ_LOV_DEFAULT
           \<and> \<not> fid_is_igif fid)"

lemma IDIF_consts: "IDIF_MAX_OID = 2 ^ 48" "IDIF_OID_MASK = mask 48" by (simp_all add: mask_eq_exp_minus_1)

lemma fid_to_ostid_idif:
  assumes "fid_is_idif fid" "f_ver fid = 0"
  shows "fid_to_ostid fid oi = (None, \<lparr> oi_id = fid_idif_id (f_seq fid) (f_oid fid) 0, oi_seq = 0 \<rparr>)"
proof -
  have "\<not> fid_seq_is_igif (f_seq fid)"
    using assms by (auto simp: fid_is_idif_def fid_seq_is_idif_def fid_seq_is_igif_def word_le_nat_alt)
  then show ?thesis
  using assms idif_id_bounds(1) [of "f_seq fid" "f_oid fid"]
  by (cases oi) (simp add: fid_to_ostid_def ostid_set_id_def ostid_set_seq_mdt0_def ostid_set_seq_def fid_seq_is_mdt0_def)
qed

lemma ostid_to_fid_legacy:
  assumes "x < 2 ^ 48" "i \<le> 0xffff"
  shows "ostid_to_fid fid0 \<lparr> oi_id = x, oi_seq = 0 \<rparr> i =
     (None, \<lparr> f_seq = fid_idif_seq x i, f_oid = ucast x, f_ver = 0 \<rparr>)"
  using assms less_exp_mask [OF assms(1)] less_exp_drop [OF assms(1)]
  unfolding ostid_to_fid_def IDIF_consts ostid_id_def
  by (simp add: ostid_seq_def fid_seq_is_mdt0_def linorder_not_le [symmetric] del: IDIF_OID_MASK_def)

lemma ver_oid_default: "f_ver fid = 0 \<Longrightarrow> fid_ver_oid fid \<noteq> 0xffffffffffffffff"
  using unat_less_pow [of "f_oid fid"] 
  by (auto simp: fid_ver_oid_def dest!: arg_cong [of _ _ unat])

lemma oi_of_fid_sel [simp]: "oi_id (oi_of_fid fid) = f_seq fid" "oi_seq (oi_of_fid fid) = fid_ver_oid fid"
  by (simp_all add: oi_of_fid_def)

lemma ostid_to_fid_reg:
  assumes "ost_fid_ok i fid" "\<not> fid_is_idif fid"
  shows "ostid_to_fid fid0 (oi_of_fid fid) i = (None, fid)"
proof -
  have "ostid_seq (oi_of_fid fid) = f_seq fid"
    using assms ver_oid_default [of fid]
    by (simp add: ostid_seq_def ost_fid_ok_def fid_seq_is_mdt0_def fid_seq_is_default_def)
  then show ?thesis using assms
    by (simp add: ostid_to_fid_def Let_def ost_fid_ok_def fid_seq_is_mdt0_def fid_seq_is_default_def linorder_not_le [symmetric])
qed

lemma idif_fid_eq:
  assumes "ost_fid_ok i fid" "fid_is_idif fid"
  shows "\<lparr> f_seq = fid_idif_seq (fid_idif_id (f_seq fid) (f_oid fid) 0) i,
           f_oid = ucast (fid_idif_id (f_seq fid) (f_oid fid) 0), f_ver = 0 \<rparr> = fid"
  using assms idif_seq_id [of "f_seq fid" "f_oid fid"]
  by (simp add: ost_fid_ok_def fid_is_idif_def fid_idif_ost_idx_def idif_id_bounds)

lemma ost_fid_ok_cases:
  "ost_fid_ok i fid \<Longrightarrow> i \<le> 0xffff \<and> f_ver fid = 0"
  by (simp add: ost_fid_ok_def)

lemma ucast_fid_ver_oid [simp]:
  "(ucast (fid_ver_oid fid) :: u32) = f_oid fid"
  "(ucast (drop_bit 32 (fid_ver_oid fid)) :: u32) = f_ver fid"
  unfolding fid_ver_oid_def by (rule ucast_ver_oid, rule ucast_drop_ver_oid)

lemma lu_fid_eta [simp]: "\<lparr> f_seq = f_seq fid, f_oid = f_oid fid, f_ver = f_ver fid \<rparr> = fid"
  by simp

lemma fid_extract_name:
  "fid_res_name_eq fid res \<Longrightarrow> fid_extract_from_res_name res = Some fid"
  by (simp add: fid_extract_from_res_name_def Let_def fid_res_name_eq_def)

lemma fid_build_name: "fid_build_reg_res_name fid = [f_seq fid, fid_ver_oid fid, 0, 0]"
  by (simp add: fid_build_reg_res_name_def numeral_eq_Suc)

lemma ost_resid_idif:
  assumes "ost_fid_ok i fid" "fid_is_idif fid"
  shows "ost_fid_from_resid fid0 (ost_fid_build_resid junk fid res) i = Some fid"
proof -
  let ?x = "fid_idif_id (f_seq fid) (f_oid fid) 0"
  note b = idif_id_bounds(1) [of "f_seq fid" "f_oid fid"] and ok = ost_fid_ok_cases [OF assms(1)]
  have "ost_fid_build_resid junk fid res = [?x, 0, 0, 0]"
    using assms ok less_exp_mask [OF b]
    by (simp add: ost_fid_build_resid_def fid_to_ostid_idif ostid_build_res_name_def ostid_seq_def
        fid_seq_is_mdt0_def ostid_id_def IDIF_consts numeral_eq_Suc del: IDIF_OID_MASK_def)
  then show ?thesis
    using idif_fid_eq [OF assms] b ostid_to_fid_legacy [OF b, of i fid0] ok
    by (simp add: ost_fid_from_resid_def Let_def fid_seq_is_mdt0_def ostid_set_seq_def
        ostid_set_id_def linorder_not_le [symmetric])
qed

lemma ost_resid_reg:
  assumes "ost_fid_ok i fid" "\<not> fid_is_idif fid"
  shows "ost_fid_from_resid fid0 (ost_fid_build_resid junk fid res) i = Some fid"
  using assms
  by (simp add: ost_fid_build_resid_def ost_fid_ok_def fid_is_mdt0_def fid_seq_is_mdt0_def
      fid_build_name ost_fid_from_resid_def fid_extract_name fid_res_name_eq_def)

lemma fid_to_ostid_reg:
  "ost_fid_ok i fid \<Longrightarrow> \<not> fid_is_idif fid \<Longrightarrow> fid_to_ostid fid oi = (None, oi_of_fid fid)"
  by (simp add: fid_to_ostid_def ost_fid_ok_def fid_is_igif_def)



section \<open>Properties\<close>

text \<open>
  C12. An identifier of an object on server \<open>ost_idx\<close> survives the packing into the wire format
  \<open>ost_id\<close> and back, and the packing into the name of its lock resource and back; neither
  direction fails. This covers legacy objects, whose 48-bit number and server index are spread
  over the sequence and object fields of an IDIF.
\<close>

theorem ostid_fid_roundtrip:
  assumes "ost_fid_ok ost_idx fid"
  shows "\<exists>oi'. fid_to_ostid fid oi = (None, oi') \<and> ostid_to_fid fid0 oi' ost_idx = (None, fid)
           \<and> ost_fid_from_resid fid0 (ost_fid_build_resid junk fid res) ost_idx = Some fid"
proof (cases "fid_is_idif fid")
  case True
  note b = idif_id_bounds(1) [of "f_seq fid" "f_oid fid"] and ok = ost_fid_ok_cases [OF assms]
  from ok idif_fid_eq [OF assms True] ostid_to_fid_legacy [OF b, of ost_idx fid0]
  show ?thesis by (simp add: fid_to_ostid_idif True ost_resid_idif [OF assms True])
next
  case False
  then show ?thesis
    by (simp add: fid_to_ostid_reg [OF assms False] ostid_to_fid_reg [OF assms False]
        ost_resid_reg [OF assms False])
qed

lemma ostid_fid_roundtrip_witness:
  "ostid_to_fid fid_zero (snd (fid_to_ostid \<lparr> f_seq = 0x100030004, f_oid = 7, f_ver = 0 \<rparr>
       \<lparr> oi_id = 0, oi_seq = 5 \<rparr>)) 3 = (None, \<lparr> f_seq = 0x100030004, f_oid = 7, f_ver = 0 \<rparr>)"
proof -
  have "ost_fid_ok 3 \<lparr> f_seq = 0x100030004, f_oid = 7, f_ver = 0 \<rparr>"
    by (simp add: ost_fid_ok_def fid_is_idif_def fid_seq_is_idif_def fid_idif_ost_idx_def
        idif_ost_idx_def drop_bit_eq_div)
  from ostid_fid_roundtrip [OF this, of "\<lparr> oi_id = 0, oi_seq = 5 \<rparr>" fid_zero 0 "[]"]
  show ?thesis by auto
qed

text \<open>
  C17. The name of a lock resource determines the identifier it was built from, for plain and
  for quota resources, and the assertion in the extraction never fires on any name.
\<close>

theorem fid_res_name_roundtrip:
  "fid_extract_from_res_name (fid_build_reg_res_name fid) = Some fid
   \<and> fid_extract_from_quota_res (fid_build_quota_res_name fid qid) = Some (fid, qid)
   \<and> fid_extract_from_res_name (fid_build_pdo_res_name fid hash) = Some fid
   \<and> fid_extract_from_res_name res \<noteq> None"
proof (intro conjI)
  have q: "fid_build_quota_res_name fid qid = [f_seq fid, fid_ver_oid fid, f_seq qid, fid_ver_oid qid]"
    by (simp add: fid_build_quota_res_name_def fid_build_name numeral_eq_Suc)
  show "fid_extract_from_res_name (fid_build_reg_res_name fid) = Some fid"
    by (rule fid_extract_name) (simp add: fid_build_name fid_res_name_eq_def)
  have "fid_extract_from_res_name (fid_build_quota_res_name fid qid) = Some fid"
    by (rule fid_extract_name) (simp add: q fid_res_name_eq_def)
  then show "fid_extract_from_quota_res (fid_build_quota_res_name fid qid) = Some (fid, qid)"
    by (simp add: fid_extract_from_quota_res_def) (simp add: q nth_Cons')
  show "fid_extract_from_res_name (fid_build_pdo_res_name fid hash) = Some fid"
    by (rule fid_extract_name)
      (simp add: fid_build_pdo_res_name_def fid_build_name fid_res_name_eq_def)
  show "fid_extract_from_res_name res \<noteq> None"
    by (simp add: fid_extract_from_res_name_def Let_def fid_res_name_eq_def fid_ver_oid_def
        ver_oid_split)
qed



text \<open>
  C21. Setting the object number of a normal identifier is accepted up to and including
  \<open>2 ^ 32\<close>, one more than the field can hold: the identifier then has object number 0, which
  is the identifier of the file that keeps the last used number, while \<open>ostid_set_id\<close>
  refuses the same number. Every other accepted number is the one stored.
\<close>

theorem fid_set_id_normal:
  assumes "fid_is_norm fid" "fid_is_norm (oi_fid oi)" "oi_seq oi \<noteq> 0"
  shows "(case fid_set_id fid oid of
            Inl e \<Rightarrow> e = EBADF \<and> oid > 2 ^ 32
          | Inr fid' \<Rightarrow> oid \<le> 2 ^ 32 \<and> (ucast (f_oid fid') = oid \<longleftrightarrow> oid \<noteq> 2 ^ 32))
         \<and> fid_is_last_id (projr (fid_set_id fid (2 ^ 32)))
         \<and> fst (ostid_set_id oi (2 ^ 32)) = Some E2BIG"
proof -
  have n: "\<not> fid_seq_is_igif s" "\<not> fid_seq_is_idif s" "s \<noteq> FID_SEQ_UPDATE_LOG"
      "s \<noteq> FID_SEQ_UPDATE_LOG_DIR" if "fid_seq_is_norm s" for s
    using that by (auto simp: fid_seq_is_norm_def fid_seq_is_igif_def fid_seq_is_idif_def word_le_nat_alt)
  have u: "(ucast (ucast oid :: u32) = oid) \<longleftrightarrow> oid < 2 ^ 32"
  proof
    assume "ucast (ucast oid :: u32) = oid"
    from arg_cong [OF this, of unat] unat_less_pow [of "ucast oid :: u32"]
    show "oid < 2 ^ 32" by (simp add: word_less_nat_alt)
  next
    assume "oid < 2 ^ 32"
    from bit_less_exp [OF this] show "ucast (ucast oid :: u32) = oid"
      by (intro bit_word_eqI) (auto simp: bit_simps)
  qed
  have t: "oid \<le> 2 ^ 32 \<Longrightarrow> oid < 2 ^ 32 \<longleftrightarrow> oid \<noteq> 2 ^ 32" by auto
  show ?thesis
    using assms n [of "f_seq fid"] n [of "f_seq (oi_fid oi)"] u t
    by (auto simp: fid_set_id_def fid_is_norm_def fid_is_idif_def fid_is_last_id_def ostid_set_id_def
        fid_seq_is_mdt0_def simp del: FID_SEQ_UPDATE_LOG_def FID_SEQ_UPDATE_LOG_DIR_def)
qed

lemma fid_set_id_normal_witness:
  "fid_is_last_id (projr (fid_set_id \<lparr> f_seq = 0x200000400, f_oid = 1, f_ver = 0 \<rparr> (2 ^ 32)))"
  using fid_set_id_normal [of "\<lparr> f_seq = 0x200000400, f_oid = 1, f_ver = 0 \<rparr>"
      "\<lparr> oi_id = 0x200000400, oi_seq = 1 \<rparr>" 0]
  by (simp add: fid_is_norm_def fid_seq_is_norm_def oi_fid_def)

end
