(* ===== verification/Seq_Range.thy ===== *)
theory Seq_Range
  imports FID
begin

text \<open>
  Ranges of sequences: \<open>struct lu_seq_range\<close> (\<open>lustre_idl.h\<close>) and its helpers
  (\<open>seq_range.h\<close>), with the set of sequences a range stands for and the allocation of a part of
  a range (\<open>range_alloc\<close> of \<open>fid_handler.c\<close>), which the sequence servers use.
\<close>

section \<open>Definitions\<close>

record lu_seq_range =
  lsr_start :: u64
  lsr_end :: u64
  lsr_index :: u32
  lsr_flags :: u32

definition LU_SEQ_RANGE_MDT :: u32 where [simp]: "LU_SEQ_RANGE_MDT = 0x0"
definition LU_SEQ_RANGE_OST :: u32 where [simp]: "LU_SEQ_RANGE_OST = 0x1"
definition LU_SEQ_RANGE_ANY :: u32 where [simp]: "LU_SEQ_RANGE_ANY = 0x3"
definition LU_SEQ_RANGE_MASK :: u32 where [simp]: "LU_SEQ_RANGE_MASK = 0x3"

definition fld_range_type :: "lu_seq_range \<Rightarrow> u32" where
  "fld_range_type r = lsr_flags r AND LU_SEQ_RANGE_MASK"

definition fld_range_is_ost :: "lu_seq_range \<Rightarrow> bool" where
  "fld_range_is_ost r \<longleftrightarrow> fld_range_type r = LU_SEQ_RANGE_OST"

definition fld_range_is_mdt :: "lu_seq_range \<Rightarrow> bool" where
  "fld_range_is_mdt r \<longleftrightarrow> fld_range_type r = LU_SEQ_RANGE_MDT"

definition fld_range_is_any :: "lu_seq_range \<Rightarrow> bool" where
  "fld_range_is_any r \<longleftrightarrow> fld_range_type r = LU_SEQ_RANGE_ANY"

definition fld_range_set_type :: "lu_seq_range \<Rightarrow> u32 \<Rightarrow> lu_seq_range" where
  "fld_range_set_type r flags = r\<lparr> lsr_flags := lsr_flags r OR flags \<rparr>"

definition fld_range_set_mdt :: "lu_seq_range \<Rightarrow> lu_seq_range" where
  "fld_range_set_mdt r = fld_range_set_type r LU_SEQ_RANGE_MDT"

definition fld_range_set_ost :: "lu_seq_range \<Rightarrow> lu_seq_range" where
  "fld_range_set_ost r = fld_range_set_type r LU_SEQ_RANGE_OST"

definition lu_seq_range_space :: "lu_seq_range \<Rightarrow> u64" where
  "lu_seq_range_space r = lsr_end r - lsr_start r"

definition lu_seq_range_init :: "lu_seq_range" where
  "lu_seq_range_init = \<lparr> lsr_start = 0, lsr_end = 0, lsr_index = 0, lsr_flags = 0 \<rparr>"

definition lu_seq_range_within :: "lu_seq_range \<Rightarrow> u64 \<Rightarrow> bool" where
  "lu_seq_range_within r seq \<longleftrightarrow> seq \<ge> lsr_start r \<and> seq < lsr_end r"

definition lu_seq_range_is_sane :: "lu_seq_range \<Rightarrow> bool" where
  "lu_seq_range_is_sane r \<longleftrightarrow> lsr_end r \<ge> lsr_start r"

definition lu_seq_range_is_zero :: "lu_seq_range \<Rightarrow> bool" where
  "lu_seq_range_is_zero r \<longleftrightarrow> lsr_start r = 0 \<and> lsr_end r = 0"

definition lu_seq_range_is_exhausted :: "lu_seq_range \<Rightarrow> bool" where
  "lu_seq_range_is_exhausted r \<longleftrightarrow> lu_seq_range_space r = 0"

definition lu_seq_range_compare_loc :: "lu_seq_range \<Rightarrow> lu_seq_range \<Rightarrow> bool" where
  "lu_seq_range_compare_loc r1 r2 \<longleftrightarrow> lsr_index r1 \<noteq> lsr_index r2 \<or> lsr_flags r1 \<noteq> lsr_flags r2"

definition LUSTRE_SEQ_SPACE_RANGE :: lu_seq_range where
  "LUSTRE_SEQ_SPACE_RANGE =
     \<lparr> lsr_start = FID_SEQ_NORMAL, lsr_end = NOT 0, lsr_index = 0, lsr_flags = 0 \<rparr>"

definition LUSTRE_SEQ_ZERO_RANGE :: lu_seq_range where
  "LUSTRE_SEQ_ZERO_RANGE = \<lparr> lsr_start = 0, lsr_end = 0, lsr_index = 0, lsr_flags = 0 \<rparr>"

text \<open>\<open>range_alloc to from width\<close> returns the new values of \<open>*to\<close> and \<open>*from\<close>.\<close>

definition range_alloc ::
    "lu_seq_range \<Rightarrow> lu_seq_range \<Rightarrow> u64 \<Rightarrow> lu_seq_range \<times> lu_seq_range" where
  "range_alloc to from width =
     (let width = min (lu_seq_range_space from) width in
      (to\<lparr> lsr_start := lsr_start from, lsr_end := lsr_start from + width \<rparr>,
       from\<lparr> lsr_start := lsr_start from + width \<rparr>))"

section \<open>The sequences of a range\<close>

definition seqs :: "lu_seq_range \<Rightarrow> u64 set" where
  "seqs r = {s. lu_seq_range_within r s}"

lemma seqs_iff: "s \<in> seqs r \<longleftrightarrow> lsr_start r \<le> s \<and> s < lsr_end r"
  by (auto simp: seqs_def lu_seq_range_within_def)

lemma sane_space:
  "lu_seq_range_is_sane r \<Longrightarrow>
     unat (lu_seq_range_space r) = unat (lsr_end r) - unat (lsr_start r)"
  by (simp add: lu_seq_range_is_sane_def lu_seq_range_space_def unat_minus_small)

lemma exhausted_iff: "lu_seq_range_is_exhausted r \<longleftrightarrow> lsr_start r = lsr_end r"
  by (auto simp: lu_seq_range_is_exhausted_def lu_seq_range_space_def)

lemma seqs_empty_iff: "lu_seq_range_is_sane r \<Longrightarrow> seqs r = {} \<longleftrightarrow> lu_seq_range_is_exhausted r"
  by (auto simp: seqs_iff exhausted_iff lu_seq_range_is_sane_def set_eq_iff)

text \<open>An allocation splits the sequences of the source range in two, and never wraps.\<close>

lemma range_alloc_split:
  assumes "lu_seq_range_is_sane from" "range_alloc to from width = (to', from')"
  shows "lu_seq_range_is_sane to'" "lu_seq_range_is_sane from'"
    "seqs from = seqs to' \<union> seqs from'" "seqs to' \<inter> seqs from' = {}"
    "lsr_index to' = lsr_index to" "lsr_flags to' = lsr_flags to"
    "lsr_index from' = lsr_index from" "lsr_flags from' = lsr_flags from"
proof -
  define w where "w = min (lu_seq_range_space from) width"
  have "unat w \<le> unat (lsr_end from) - unat (lsr_start from)"
    unfolding w_def sane_space [OF assms(1), symmetric]
    by (metis min.cobounded1 word_le_nat_alt)
  then have m: "unat (lsr_start from + w) = unat (lsr_start from) + unat w"
      "lsr_start from \<le> lsr_start from + w" "lsr_start from + w \<le> lsr_end from"
    using assms(1) unat_less_pow [of "lsr_end from"]
    by (auto simp: lu_seq_range_is_sane_def word_le_nat_alt unat_add_small)
  have e: "to' = to\<lparr> lsr_start := lsr_start from, lsr_end := lsr_start from + w \<rparr>"
      "from' = from\<lparr> lsr_start := lsr_start from + w \<rparr>"
    using assms(2) by (auto simp: range_alloc_def Let_def w_def)
  show "lu_seq_range_is_sane to'" "lu_seq_range_is_sane from'"
    using m by (simp_all add: e lu_seq_range_is_sane_def)
  show "seqs from = seqs to' \<union> seqs from'" "seqs to' \<inter> seqs from' = {}"
    using m by (auto simp: seqs_iff e)
  show "lsr_index to' = lsr_index to" "lsr_flags to' = lsr_flags to"
    "lsr_index from' = lsr_index from" "lsr_flags from' = lsr_flags from"
    by (simp_all add: e)
qed

lemma range_alloc_nonempty:
  assumes "lu_seq_range_is_sane from" "\<not> lu_seq_range_is_exhausted from" "width \<noteq> 0"
    "range_alloc to from width = (to', from')"
  shows "\<not> lu_seq_range_is_exhausted to'"
  using assms
  by (auto simp: range_alloc_def Let_def lu_seq_range_is_exhausted_def lu_seq_range_space_def
      min_def split: if_splits)

end
