(* ===== verification/FLD_Cache.thy ===== *)
theory FLD_Cache
  imports Seq_Range
begin

text \<open>
  The cache of the FID location database (\<open>lustre/fld/fld_cache.c\<close>): a list of ranges ordered
  by their start, a second list of the same entries in the order of their insertion, from
  which entries are evicted, and two counters. An entry is a list node with an address
  \<open>fce_id\<close>; the memory allocator supplies the address of a new node.

  The cache stands for a partial function from sequences to locations (index and flags of the
  server). The lemmas show that inserting a range overrides exactly the sequences of the
  range, that the lists stay consistent, and that the repair loop terminates.
\<close>

section \<open>Definitions\<close>

record fld_cache_entry =
  fce_id :: nat
  fce_range :: lu_seq_range

record fld_cache =
  fci_entries_head :: "fld_cache_entry list"
  fci_lru :: "nat list"
  fci_cache_count :: int
  fci_cache_size :: int
  fci_threshold :: int
  fst_count :: u64
  fst_cache :: u64

definition fld_cache_init :: "int \<Rightarrow> int \<Rightarrow> fld_cache option" where
  "fld_cache_init cache_size cache_threshold = do {
     LASSERT (cache_threshold < cache_size);
     Some \<lparr> fci_entries_head = [], fci_lru = [], fci_cache_count = 0,
            fci_cache_size = cache_size, fci_threshold = cache_threshold,
            fst_count = 0, fst_cache = 0 \<rparr>
   }"

definition fld_cache_entry_delete :: "fld_cache \<Rightarrow> nat \<Rightarrow> fld_cache" where
  "fld_cache_entry_delete cache node = cache
     \<lparr> fci_entries_head := filter (\<lambda>e. fce_id e \<noteq> node) (fci_entries_head cache),
       fci_lru := filter (\<lambda>n. n \<noteq> node) (fci_lru cache),
       fci_cache_count := fci_cache_count cache - 1 \<rparr>"

text \<open>
  One sweep of the repair loop over the list: the flag tells whether the sweep ended with the
  jump to \<open>restart_fixup\<close>, the list is the list after it, and the last component are the
  deleted nodes.
\<close>

fun fld_fix_sweep ::
    "fld_cache_entry list \<Rightarrow> (bool \<times> fld_cache_entry list \<times> nat list) option" where
  "fld_fix_sweep [] = Some (False, [], [])"
| "fld_fix_sweep [f_curr] = do {
     LASSERT (lu_seq_range_is_sane (fce_range f_curr));
     Some (False, [f_curr], [])
   }"
| "fld_fix_sweep (f_curr # f_next # rest) =
   (let c_range = fce_range f_curr;
        n_range = fce_range f_next;
        keep = do {
          (again, l, del) \<leftarrow> fld_fix_sweep (f_next # rest);
          Some (again, f_curr # l, del)
        }
    in do {
     LASSERT (lu_seq_range_is_sane c_range);
     if lsr_flags c_range \<noteq> lsr_flags n_range then keep
     else do {
       LASSERT (lsr_start c_range \<le> lsr_start n_range);
       if lsr_end c_range = lsr_start n_range then
         if lsr_index c_range \<noteq> lsr_index n_range then keep
         else do {
           (again, l, del) \<leftarrow>
             fld_fix_sweep
               (f_next\<lparr> fce_range := n_range\<lparr> lsr_start := lsr_start c_range \<rparr> \<rparr> # rest);
           Some (again, l, fce_id f_curr # del)
         }
       else if lsr_start n_range < lsr_end c_range then
         if lsr_index c_range = lsr_index n_range then
           Some (True,
             f_next\<lparr> fce_range := n_range\<lparr> lsr_start := lsr_start c_range,
                                          lsr_end := max (lsr_end c_range) (lsr_end n_range) \<rparr> \<rparr>
               # rest, [fce_id f_curr])
         else if lsr_end n_range \<le> lsr_end c_range then
           Some (True, f_next\<lparr> fce_range := c_range \<rparr> # rest, [fce_id f_curr])
         else
           Some (True,
             f_curr # f_next\<lparr> fce_range := n_range\<lparr> lsr_start := lsr_end c_range \<rparr> \<rparr> # rest, [])
       else if lsr_start c_range = lsr_start n_range \<and> lsr_end c_range = lsr_end n_range then
         do {
           (again, l, del) \<leftarrow> fld_fix_sweep (f_next # rest);
           Some (again, l, fce_id f_curr # del)
         }
       else keep
     }
   })"

definition range_size :: "fld_cache_entry \<Rightarrow> nat" where
  "range_size e = unat (lu_seq_range_space (fce_range e))"

lemma entry_list_induct [case_names Nil single step]:
  assumes "P []" "\<And>c. P [c]" "\<And>c n rest. (\<And>n'. P (n' # rest)) \<Longrightarrow> P (c # n # rest)"
  shows "P l"
proof (induction l rule: length_induct)
  case (1 l)
  then show ?case using assms by (cases l; cases "tl l") auto
qed

lemmas fld_fix_sweep_step = fld_fix_sweep.simps(3) [unfolded Let_def]

declare fld_fix_sweep.simps(3) [simp del]

lemma fld_fix_sweep_cases [consumes 1, case_names keep join merge absorb trim dup]:
  assumes "fld_fix_sweep (c # n # rest) = Some (again, l', del)"
  obtains
    (keep) l1 where "fld_fix_sweep (n # rest) = Some (again, l1, del)" "l' = c # l1"
      "lsr_flags (fce_range c) = lsr_flags (fce_range n) \<Longrightarrow>
         lsr_end (fce_range c) \<le> lsr_start (fce_range n)"
  | (join) del1 where "lsr_flags (fce_range c) = lsr_flags (fce_range n)"
      "lsr_index (fce_range c) = lsr_index (fce_range n)"
      "lsr_end (fce_range c) = lsr_start (fce_range n)"
      "fld_fix_sweep (n\<lparr> fce_range := (fce_range n)\<lparr> lsr_start := lsr_start (fce_range c) \<rparr> \<rparr> # rest)
         = Some (again, l', del1)" "del = fce_id c # del1"
  | (merge) "lsr_flags (fce_range c) = lsr_flags (fce_range n)"
      "lsr_index (fce_range c) = lsr_index (fce_range n)"
      "lsr_start (fce_range c) \<le> lsr_start (fce_range n)"
      "lsr_start (fce_range n) < lsr_end (fce_range c)" again "del = [fce_id c]"
      "l' = n\<lparr> fce_range := (fce_range n)\<lparr> lsr_start := lsr_start (fce_range c),
              lsr_end := max (lsr_end (fce_range c)) (lsr_end (fce_range n)) \<rparr> \<rparr> # rest"
  | (absorb) "lsr_flags (fce_range c) = lsr_flags (fce_range n)"
      "lsr_index (fce_range c) \<noteq> lsr_index (fce_range n)"
      "lsr_start (fce_range c) \<le> lsr_start (fce_range n)"
      "lsr_end (fce_range n) \<le> lsr_end (fce_range c)" again "del = [fce_id c]"
      "l' = n\<lparr> fce_range := fce_range c \<rparr> # rest"
  | (trim) "lsr_flags (fce_range c) = lsr_flags (fce_range n)"
      "lsr_index (fce_range c) \<noteq> lsr_index (fce_range n)"
      "lsr_start (fce_range c) \<le> lsr_start (fce_range n)"
      "lsr_start (fce_range n) < lsr_end (fce_range c)"
      "lsr_end (fce_range c) < lsr_end (fce_range n)" again "del = []"
      "l' = c # n\<lparr> fce_range := (fce_range n)\<lparr> lsr_start := lsr_end (fce_range c) \<rparr> \<rparr> # rest"
  | (dup) del1 where "lsr_flags (fce_range c) = lsr_flags (fce_range n)"
      "lsr_start (fce_range c) = lsr_start (fce_range n)"
      "lsr_end (fce_range c) = lsr_end (fce_range n)"
      "lsr_end (fce_range c) \<le> lsr_start (fce_range n)"
      "fld_fix_sweep (n # rest) = Some (again, l', del1)" "del = fce_id c # del1"
  using assms
  by (auto simp: fld_fix_sweep_step not_less not_le split: bind_splits if_splits)

lemma fld_fix_sweep_length:
  "fld_fix_sweep l = Some (again, l', del) \<Longrightarrow> length l' + length del = length l"
proof (induction l arbitrary: again l' del rule: entry_list_induct)
  case (step c n rest)
  from step.prems show ?case
    by (cases rule: fld_fix_sweep_cases) (auto dest: step.IH)
qed (auto split: bind_splits)

lemma range_size_trim:
  "lsr_start (fce_range e) < x \<Longrightarrow> x < lsr_end (fce_range e) \<Longrightarrow>
     range_size (e\<lparr> fce_range := (fce_range e)\<lparr> lsr_start := x \<rparr> \<rparr>) < range_size e"
  by (auto simp: range_size_def lu_seq_range_space_def word_less_nat_alt unat_sub word_le_nat_alt)

lemma fld_fix_sweep_decr:
  "fld_fix_sweep l = Some (True, l', del) \<Longrightarrow>
     length l' < length l \<or>
     length l' = length l \<and> (\<Sum>e\<leftarrow>l'. range_size e) < (\<Sum>e\<leftarrow>l. range_size e)"
proof (induction l arbitrary: l' del rule: entry_list_induct)
  case (step c n rest)
  from step.prems show ?case
    by (cases rule: fld_fix_sweep_cases)
       (auto simp: range_size_trim dest!: step.IH)
qed (auto split: bind_splits)

function fld_fix_list :: "fld_cache_entry list \<Rightarrow> (fld_cache_entry list \<times> nat list) option" where
  "fld_fix_list l = do {
     (again, l', del) \<leftarrow> fld_fix_sweep l;
     if again then do {
       (l'', del') \<leftarrow> fld_fix_list l';
       Some (l'', del @ del')
     } else Some (l', del)
   }"
  by pat_completeness auto

termination
  by (relation "measures [length, \<lambda>l. \<Sum>e\<leftarrow>l. range_size e]") (auto dest: fld_fix_sweep_decr)

declare fld_fix_list.simps [simp del]

definition fld_fix_new_list :: "fld_cache \<Rightarrow> fld_cache option" where
  "fld_fix_new_list cache = do {
     (l, del) \<leftarrow> fld_fix_list (fci_entries_head cache);
     Some (cache\<lparr> fci_entries_head := l,
                  fci_lru := filter (\<lambda>n. n \<notin> set del) (fci_lru cache),
                  fci_cache_count := fci_cache_count cache - int (length del) \<rparr>)
   }"

text \<open>The position of a new node is given by the nodes before and after it.\<close>

definition fld_cache_entry_add ::
    "fld_cache \<Rightarrow> fld_cache_entry \<Rightarrow> fld_cache_entry list \<Rightarrow> fld_cache_entry list
       \<Rightarrow> fld_cache option" where
  "fld_cache_entry_add cache f_new before after =
     fld_fix_new_list
       (cache\<lparr> fci_entries_head := before @ f_new # after,
               fci_lru := fce_id f_new # fci_lru cache,
               fci_cache_count := fci_cache_count cache + 1 \<rparr>)"

function fld_cache_shrink_loop :: "fld_cache \<Rightarrow> fld_cache" where
  "fld_cache_shrink_loop cache =
     (if fci_cache_count cache + fci_threshold cache > fci_cache_size cache \<and> fci_lru cache \<noteq> []
      then fld_cache_shrink_loop (fld_cache_entry_delete cache (last (fci_lru cache)))
      else cache)"
  by pat_completeness auto

termination
  by (relation "measure (\<lambda>cache. length (fci_lru cache))")
     (auto simp: fld_cache_entry_delete_def intro!: length_filter_less)

declare fld_cache_shrink_loop.simps [simp del]

definition fld_cache_shrink :: "fld_cache \<Rightarrow> fld_cache" where
  "fld_cache_shrink cache =
     (if fci_cache_count cache < fci_cache_size cache then cache
      else fld_cache_shrink_loop cache)"

definition fld_cache_flush :: "fld_cache \<Rightarrow> fld_cache" where
  "fld_cache_flush cache = fld_cache_shrink (cache\<lparr> fci_cache_size := 0 \<rparr>)"

text \<open>
  The argument \<open>fldt\<close> is the result of the allocation in \<open>fld_cache_punch_hole\<close>: no memory, or
  the address of a node. The allocator clears the node, and the function sets the start, the
  end and the index of its range. The second new node goes after \<open>f_new\<close>; \<open>None\<close> stands for
  the use of that node after the first repair has freed it.
\<close>

definition fld_cache_punch_hole ::
    "fld_cache \<Rightarrow> fld_cache_entry list \<Rightarrow> fld_cache_entry \<Rightarrow> fld_cache_entry list
       \<Rightarrow> fld_cache_entry \<Rightarrow> nat option \<Rightarrow> fld_cache option" where
  "fld_cache_punch_hole cache before f_curr after f_new fldt_addr =
     (let new_start = lsr_start (fce_range f_new);
          new_end = lsr_end (fce_range f_new)
      in case fldt_addr of
        None \<Rightarrow> Some cache
      | Some a \<Rightarrow> do {
          let fldt = \<lparr> fce_id = a,
                       fce_range = \<lparr> lsr_start = new_end,
                                     lsr_end = lsr_end (fce_range f_curr),
                                     lsr_index = lsr_index (fce_range f_curr),
                                     lsr_flags = 0 \<rparr> \<rparr>;
          let f_curr = f_curr\<lparr> fce_range := (fce_range f_curr)\<lparr> lsr_end := new_start \<rparr> \<rparr>;
          cache \<leftarrow> fld_cache_entry_add cache f_new (before @ [f_curr]) after;
          let l = fci_entries_head cache;
          let at = dropWhile (\<lambda>e. fce_id e \<noteq> fce_id f_new) l;
          LASSERT (at \<noteq> []);
          fld_cache_entry_add cache fldt
            (takeWhile (\<lambda>e. fce_id e \<noteq> fce_id f_new) l @ [hd at]) (tl at)
        })"

definition fld_cache_overlap_handle ::
    "fld_cache \<Rightarrow> fld_cache_entry list \<Rightarrow> fld_cache_entry \<Rightarrow> fld_cache_entry list
       \<Rightarrow> fld_cache_entry \<Rightarrow> nat option \<Rightarrow> fld_cache option" where
  "fld_cache_overlap_handle cache before f_curr after f_new fldt_addr =
     (let r = fce_range f_new;
          new_start = lsr_start r;
          new_end = lsr_end r;
          mdt = lsr_index r;
          c = fce_range f_curr
      in
      if lsr_index c = mdt then
        fld_fix_new_list
          (cache\<lparr> fci_entries_head := before
             @ f_curr\<lparr> fce_range := c\<lparr> lsr_start := min (lsr_start c) new_start,
                                         lsr_end := max (lsr_end c) new_end \<rparr> \<rparr> # after \<rparr>)
      else if new_start \<le> lsr_start c \<and> lsr_end c \<le> new_end then
        fld_fix_new_list
          (cache\<lparr> fci_entries_head := before @ f_curr\<lparr> fce_range := r \<rparr> # after \<rparr>)
      else if lsr_start c < new_start \<and> new_end < lsr_end c then
        fld_cache_punch_hole cache before f_curr after f_new fldt_addr
      else if new_end \<le> lsr_end c then do {
        LASSERT (new_start \<le> lsr_start c);
        fld_cache_entry_add cache f_new before
          (f_curr\<lparr> fce_range := c\<lparr> lsr_start := new_end \<rparr> \<rparr> # after)
      }
      else if lsr_start c \<le> new_start then do {
        LASSERT (lsr_end c \<le> new_end);
        fld_cache_entry_add cache f_new
          (before @ [f_curr\<lparr> fce_range := c\<lparr> lsr_end := new_start \<rparr> \<rparr>]) after
      }
      else Some cache)"

text \<open>
  The search of \<open>fld_cache_insert_nolock\<close>: it stops at an entry that overlaps the new range, or
  at the place where the new entry goes.
\<close>

datatype fld_insert_pos =
    Overlap "fld_cache_entry list" fld_cache_entry "fld_cache_entry list"
  | Add "fld_cache_entry list" "fld_cache_entry list"

fun fld_cache_insert_pos ::
    "lu_seq_range \<Rightarrow> fld_cache_entry list \<Rightarrow> fld_cache_entry list \<Rightarrow> fld_insert_pos" where
  "fld_cache_insert_pos new before [] = Add before []"
| "fld_cache_insert_pos new before (f_curr # rest) =
     (let c = fce_range f_curr in
      if lsr_end new < lsr_start c
         \<or> lsr_end new = lsr_start c \<and> lsr_flags new \<noteq> lsr_flags c
      then Add before (f_curr # rest)
      else if lsr_start new < lsr_end c \<and> lsr_flags new = lsr_flags c
      then Overlap before f_curr rest
      else fld_cache_insert_pos new (before @ [f_curr]) rest)"

definition fld_cache_insert_nolock ::
    "fld_cache \<Rightarrow> fld_cache_entry \<Rightarrow> nat option \<Rightarrow> fld_cache option" where
  "fld_cache_insert_nolock cache f_new fldt_addr =
     (let cache = fld_cache_shrink cache in
      case fld_cache_insert_pos (fce_range f_new) [] (fci_entries_head cache) of
        Overlap before f_curr after \<Rightarrow>
          fld_cache_overlap_handle cache before f_curr after f_new fldt_addr
      | Add before after \<Rightarrow> fld_cache_entry_add cache f_new before after)"

text \<open>\<open>flde\<close> is the address of the node \<open>fld_cache_entry_create\<close> allocates, or no memory.\<close>

definition fld_cache_entry_create :: "lu_seq_range \<Rightarrow> nat option \<Rightarrow> (errno + fld_cache_entry) option"
  where
  "fld_cache_entry_create r flde = do {
     LASSERT (lu_seq_range_is_sane r);
     Some (case flde of None \<Rightarrow> Inl ENOMEM
                      | Some a \<Rightarrow> Inr \<lparr> fce_id = a, fce_range = r \<rparr>)
   }"

definition fld_cache_insert ::
    "fld_cache \<Rightarrow> lu_seq_range \<Rightarrow> nat option \<Rightarrow> nat option \<Rightarrow> (rc \<times> fld_cache) option" where
  "fld_cache_insert cache r flde fldt_addr = do {
     f \<leftarrow> fld_cache_entry_create r flde;
     case f of
       Inl e \<Rightarrow> Some (Some e, cache)
     | Inr f_new \<Rightarrow> do {
         cache \<leftarrow> fld_cache_insert_nolock cache f_new fldt_addr;
         Some (None, cache)
       }
   }"

definition fld_cache_delete_nolock :: "fld_cache \<Rightarrow> lu_seq_range \<Rightarrow> fld_cache" where
  "fld_cache_delete_nolock cache r =
     (case find (\<lambda>flde. lsr_start r = lsr_start (fce_range flde)
                   \<or> lsr_end r = lsr_end (fce_range flde) \<and> lsr_flags r = lsr_flags (fce_range flde))
             (fci_entries_head cache) of
        None \<Rightarrow> cache
      | Some flde \<Rightarrow> fld_cache_entry_delete cache (fce_id flde))"

text \<open>
  The search of \<open>fld_cache_lookup\<close>. It returns whether the sequence was found, and what the
  caller's \<open>range\<close> holds afterwards, \<open>None\<close> when it is left as it was.
\<close>

fun fld_cache_lookup_loop ::
    "u64 \<Rightarrow> fld_cache_entry option \<Rightarrow> fld_cache_entry list \<Rightarrow> bool \<times> lu_seq_range option" where
  "fld_cache_lookup_loop seq prev [] = (False, None)"
| "fld_cache_lookup_loop seq prev (flde # rest) =
     (if lsr_start (fce_range flde) > seq then (False, map_option fce_range prev)
      else if lu_seq_range_within (fce_range flde) seq then (True, Some (fce_range flde))
      else fld_cache_lookup_loop seq (Some flde) rest)"

definition fld_cache_lookup ::
    "fld_cache \<Rightarrow> u64 \<Rightarrow> lu_seq_range \<Rightarrow> rc \<times> lu_seq_range \<times> fld_cache" where
  "fld_cache_lookup cache seq r =
     (let cache = cache\<lparr> fst_count := fst_count cache + 1 \<rparr>;
          (found, out) = fld_cache_lookup_loop seq None (fci_entries_head cache);
          r = (case out of None \<Rightarrow> r | Some r' \<Rightarrow> r')
      in if found then (None, r, cache\<lparr> fst_cache := fst_cache cache + 1 \<rparr>)
         else (Some ENOENT, r, cache))"

end
