(* ===== verification/FLD_Cache_Correct.thy ===== *)
theory FLD_Cache_Correct
  imports FLD_Cache "HOL-Library.Multiset"
begin

text \<open>
  Correctness of the location cache of \<open>FLD_Cache\<close>. An ordered list of non-overlapping ranges is
  \<open>fld_clean\<close>; while an insertion is under way the list is \<open>fld_dirty\<close>: one entry may reach over
  the entries after it. A sweep of the repair loop keeps \<open>fld_dirty\<close>, keeps the location of every
  sequence (the first entry that holds it), and leaves a clean list unless it asks for another
  sweep. From this follow the properties of the operations at the end of the theory, and the
  interface \<open>location_cache\<close> that the users of the cache build on.
\<close>

section \<open>Locations, clean and dirty lists\<close>

definition fld_loc :: "fld_cache_entry list \<Rightarrow> u64 \<Rightarrow> (u32 \<times> u32) option" where
  "fld_loc l s = map_option (\<lambda>e. (lsr_index (fce_range e), lsr_flags (fce_range e)))
                   (find (\<lambda>e. lu_seq_range_within (fce_range e) s) l)"

abbreviation range_loc :: "lu_seq_range \<Rightarrow> u32 \<times> u32" where
  "range_loc r \<equiv> (lsr_index r, lsr_flags r)"

lemma fld_loc_simps [simp]:
  "fld_loc [] s = None"
  "fld_loc (e # l) s = (if lu_seq_range_within (fce_range e) s then Some (range_loc (fce_range e)) else fld_loc l s)"
  by (simp_all add: fld_loc_def)

lemma fld_loc_append: "fld_loc (l @ l') s = (case fld_loc l s of None \<Rightarrow> fld_loc l' s | Some x \<Rightarrow> Some x)"
  by (induction l) auto

definition range_nonempty :: "lu_seq_range \<Rightarrow> bool" where
  "range_nonempty r \<longleftrightarrow> lsr_start r < lsr_end r"

definition entry_before :: "fld_cache_entry \<Rightarrow> fld_cache_entry \<Rightarrow> bool" where
  "entry_before a b \<longleftrightarrow> lsr_end (fce_range a) \<le> lsr_start (fce_range b)"

fun fld_clean :: "fld_cache_entry list \<Rightarrow> bool" where
  "fld_clean [] \<longleftrightarrow> True"
| "fld_clean (c # l) \<longleftrightarrow> range_nonempty (fce_range c) \<and> list_all (entry_before c) l \<and> fld_clean l"

fun fld_dirty :: "fld_cache_entry list \<Rightarrow> bool" where
  "fld_dirty [] \<longleftrightarrow> True"
| "fld_dirty (c # l) \<longleftrightarrow> range_nonempty (fce_range c) \<and>
     (list_all (entry_before c) l \<and> fld_dirty l \<or>
      fld_clean l \<and> list_all (\<lambda>b. lsr_start (fce_range c) \<le> lsr_start (fce_range b) \<and>
         (lsr_flags (fce_range b) \<noteq> lsr_flags (fce_range c) \<longrightarrow> entry_before c b)) l)"

lemma clean_dirty: "fld_clean l \<Longrightarrow> fld_dirty l"
  by (induction l) auto

lemma range_nonempty_sane [simp]: "range_nonempty r \<Longrightarrow> lu_seq_range_is_sane r"
  by (simp add: range_nonempty_def lu_seq_range_is_sane_def)

lemma sweep_starts:
  "fld_fix_sweep l = Some (again, l', del) \<Longrightarrow> list_all (\<lambda>b. x \<le> lsr_start (fce_range b)) l
    \<Longrightarrow> list_all (\<lambda>b. x \<le> lsr_start (fce_range b)) l'"
proof (induction l arbitrary: again l' del rule: entry_list_induct)
  case (step c n rest)
  from step.prems(1) show ?case
    by (cases rule: fld_fix_sweep_cases) (use step.prems(2) in \<open>auto dest: step.IH\<close>)
qed (auto split: bind_splits)

lemma list_all_before_trans: "entry_before c n \<Longrightarrow> range_nonempty (fce_range n) \<Longrightarrow> list_all (entry_before n) l \<Longrightarrow> list_all (entry_before c) l"
  by (auto simp: list_all_iff entry_before_def range_nonempty_def)

lemma dirty_tail: "fld_dirty (c # l) \<Longrightarrow> fld_dirty l"
  by (auto simp: clean_dirty)

lemma dirty_join:
  assumes "fld_dirty (c # n # rest)" "entry_before c n" "lsr_flags (fce_range c) = lsr_flags (fce_range n)"
  shows "fld_dirty (n\<lparr> fce_range := (fce_range n)\<lparr> lsr_start := lsr_start (fce_range c) \<rparr> \<rparr> # rest)"
  using assms dirty_tail [OF assms(1)] by (auto simp: range_nonempty_def entry_before_def list_all_iff)

lemma dirty_starts: "fld_dirty (c # l) \<Longrightarrow> list_all (\<lambda>b. lsr_start (fce_range c) \<le> lsr_start (fce_range b)) l"
  by (auto simp: range_nonempty_def entry_before_def list_all_iff)

lemma sweep_total:
  "fld_dirty l \<Longrightarrow> fld_fix_sweep l \<noteq> None"
proof (induction l rule: entry_list_induct)
  case (step c n rest)
  have "lsr_start (fce_range c) \<le> lsr_start (fce_range n)" "range_nonempty (fce_range c)"
    using dirty_starts [OF step.prems] step.prems by auto
  moreover have "fld_fix_sweep (n # rest) \<noteq> None"
    using step.IH dirty_tail [OF step.prems] by blast
  moreover have "lsr_end (fce_range c) = lsr_start (fce_range n) \<Longrightarrow>
      lsr_flags (fce_range c) = lsr_flags (fce_range n) \<Longrightarrow>
      fld_fix_sweep (n\<lparr> fce_range := (fce_range n)\<lparr> lsr_start := lsr_start (fce_range c) \<rparr> \<rparr> # rest) \<noteq> None"
    using step.IH dirty_join [OF step.prems] by (auto simp: entry_before_def)
  ultimately show ?case
    by (auto simp: fld_fix_sweep_step split: bind_splits if_splits)
qed auto

lemma list_all_before_mono:
  "list_all (entry_before n) l \<Longrightarrow> lsr_end (fce_range c) \<le> lsr_end (fce_range n) \<Longrightarrow> list_all (entry_before c) l"
  by (auto simp: list_all_iff entry_before_def)

lemma list_all_starts_before:
  "list_all (\<lambda>b. lsr_end (fce_range c) \<le> lsr_start (fce_range b)) l \<longleftrightarrow> list_all (entry_before c) l"
  by (simp add: entry_before_def list_all_iff)

lemma dirty_keep:
  assumes "fld_dirty (c # n # rest)"
    "lsr_flags (fce_range c) = lsr_flags (fce_range n) \<Longrightarrow> entry_before c n"
  shows "list_all (entry_before c) (n # rest)"
  using assms by (auto simp: range_nonempty_def entry_before_def list_all_iff)

lemma sweep_dirty:
  "fld_fix_sweep l = Some (again, l', del) \<Longrightarrow> fld_dirty l \<Longrightarrow> fld_dirty l' \<and> (\<not> again \<longrightarrow> fld_clean l')"
proof (induction l arbitrary: again l' del rule: entry_list_induct)
  case (step c n rest)
  note d = step.prems(2)
  from step.prems(1) show ?case
  proof (cases rule: fld_fix_sweep_cases)
    case (keep l1)
    then have b: "list_all (entry_before c) (n # rest)"
      using dirty_keep [OF d] by (auto simp: entry_before_def)
    have "list_all (entry_before c) l1"
      using sweep_starts [OF keep(1), of "lsr_end (fce_range c)"] b
      unfolding list_all_starts_before by simp
    moreover have "fld_dirty l1 \<and> (\<not> again \<longrightarrow> fld_clean l1)"
      using step.IH [OF keep(1)] dirty_tail [OF d] by blast
    ultimately show ?thesis using d keep(2) by auto
  next
    case (join del1)
    from step.IH [OF join(4)] dirty_join [OF d] join(1,3) show ?thesis by (auto simp: entry_before_def)
  next
    case merge
    with d show ?thesis by (auto simp: range_nonempty_def entry_before_def list_all_iff max_def)
  next
    case absorb
    with d show ?thesis by (auto simp: range_nonempty_def entry_before_def list_all_iff)
  next
    case trim
    with d show ?thesis by (auto simp: range_nonempty_def entry_before_def list_all_iff clean_dirty)
  next
    case (dup del1)
    with d show ?thesis by (auto simp: range_nonempty_def entry_before_def)
  qed
qed (auto split: bind_splits)

lemma sweep_loc:
  "fld_fix_sweep l = Some (again, l', del) \<Longrightarrow> fld_dirty l \<Longrightarrow> fld_loc l' s = fld_loc l s"
proof (induction l arbitrary: again l' del rule: entry_list_induct)
  case (step c n rest)
  note d = step.prems(2)
  have ne: "range_nonempty (fce_range c)" "range_nonempty (fce_range n)" using d dirty_tail [OF d] by auto
  from step.prems(1) show ?case
  proof (cases rule: fld_fix_sweep_cases)
    case (keep l1)
    with step.IH [OF keep(1)] dirty_tail [OF d] show ?thesis by simp
  next
    case (join del1)
    with ne step.IH [OF join(4)] dirty_join [OF d] show ?thesis
      by (auto simp: entry_before_def lu_seq_range_within_def range_nonempty_def)
  next
    case merge
    with ne show ?thesis by (auto simp: lu_seq_range_within_def range_nonempty_def max_def)
  next
    case absorb
    with ne show ?thesis by (auto simp: lu_seq_range_within_def range_nonempty_def)
  next
    case trim
    with ne show ?thesis by (auto simp: lu_seq_range_within_def range_nonempty_def)
  next
    case (dup del1)
    with ne show ?thesis by (auto simp: range_nonempty_def)
  qed
qed (auto split: bind_splits)

lemma fix_list_dirty:
  "fld_dirty l \<Longrightarrow> \<exists>l' del. fld_fix_list l = Some (l', del) \<and> fld_clean l' \<and> fld_loc l' = fld_loc l"
proof (induction l rule: fld_fix_list.induct)
  case (1 l)
  from sweep_total [OF "1.prems"] obtain again l1 del where s: "fld_fix_sweep l = Some (again, l1, del)"
    by auto
  have d: "fld_dirty l1" "\<not> again \<longrightarrow> fld_clean l1" "fld_loc l1 = fld_loc l"
    using sweep_dirty [OF s "1.prems"] sweep_loc [OF s "1.prems"] by auto
  show ?case
  proof (cases again)
    case True
    from "1.IH" [OF s refl refl True d(1)] obtain l' del' where
      "fld_fix_list l1 = Some (l', del')" "fld_clean l'" "fld_loc l' = fld_loc l1" by auto
    with s True d(3) show ?thesis by (subst fld_fix_list.simps) auto
  next
    case False
    with s d show ?thesis by (subst fld_fix_list.simps) auto
  qed
qed

lemma clean_append:
  "fld_clean (l @ l') \<longleftrightarrow> fld_clean l \<and> fld_clean l' \<and> (\<forall>b\<in>set l. list_all (entry_before b) l')"
  by (induction l) (auto simp: list_all_append)

lemma dirty_append:
  "fld_clean l \<Longrightarrow> \<forall>b\<in>set l. list_all (entry_before b) l' \<Longrightarrow> fld_dirty l' \<Longrightarrow> fld_dirty (l @ l')"
  by (induction l) (auto simp: list_all_append)

definition disjoint_ranges :: "lu_seq_range \<Rightarrow> lu_seq_range \<Rightarrow> bool" where
  "disjoint_ranges a b \<longleftrightarrow> lsr_end a \<le> lsr_start b \<or> lsr_end b \<le> lsr_start a"

definition fld_compat :: "fld_cache_entry list \<Rightarrow> lu_seq_range \<Rightarrow> bool" where
  "fld_compat l r \<longleftrightarrow> range_nonempty r \<and>
     list_all (\<lambda>e. lsr_flags (fce_range e) \<noteq> lsr_flags r \<longrightarrow> disjoint_ranges (fce_range e) r) l"

lemma insert_pos_spec:
  assumes "fld_clean (b0 @ l)" "fld_compat (b0 @ l) r" "\<forall>b\<in>set b0. lsr_end (fce_range b) \<le> lsr_start r"
  shows "case fld_cache_insert_pos r b0 l of
      Add b a \<Rightarrow> b0 @ l = b @ a \<and> (\<forall>e\<in>set b. lsr_end (fce_range e) \<le> lsr_start r)
                 \<and> (\<forall>e\<in>set a. lsr_end r \<le> lsr_start (fce_range e))
    | Overlap b c a \<Rightarrow> b0 @ l = b @ c # a \<and> (\<forall>e\<in>set b. lsr_end (fce_range e) \<le> lsr_start r)
                 \<and> lsr_flags (fce_range c) = lsr_flags r \<and> lsr_start r < lsr_end (fce_range c)
                 \<and> lsr_start (fce_range c) \<le> lsr_end r"
  using assms
proof (induction l arbitrary: b0)
  case (Cons c l)
  have n: "range_nonempty (fce_range c)" "range_nonempty r" "list_all (entry_before c) l"
    using Cons.prems by (auto simp: clean_append fld_compat_def)
  have f: "lsr_flags (fce_range c) \<noteq> lsr_flags r \<longrightarrow> disjoint_ranges (fce_range c) r"
    using Cons.prems by (auto simp: fld_compat_def)
  show ?case
  proof (cases "lsr_end r < lsr_start (fce_range c) \<or> lsr_end r = lsr_start (fce_range c) \<and> lsr_flags r \<noteq> lsr_flags (fce_range c)")
    case True
    with n Cons.prems(3) show ?thesis by (auto simp: Let_def list_all_iff entry_before_def range_nonempty_def)
  next
    case False
    note F = False
    show ?thesis
    proof (cases "lsr_start r < lsr_end (fce_range c) \<and> lsr_flags r = lsr_flags (fce_range c)")
      case True
      with F Cons.prems(3) show ?thesis by (auto simp: Let_def)
    next
      case False
      with F f n have "lsr_end (fce_range c) \<le> lsr_start r"
        by (auto simp: disjoint_ranges_def)
      moreover have "fld_cache_insert_pos r b0 (c # l) = fld_cache_insert_pos r (b0 @ [c]) l"
        using False F by (auto simp: Let_def)
      ultimately show ?thesis
        using Cons.IH [of "b0 @ [c]"] Cons.prems
        by (simp del: fld_cache_insert_pos.simps split: fld_insert_pos.splits)
    qed
  qed
qed simp

lemma fld_loc_before:
  "\<forall>e\<in>set b. lsr_end (fce_range e) \<le> lsr_start r \<Longrightarrow> lu_seq_range_within r s \<Longrightarrow> fld_loc b s = None"
  by (induction b) (auto simp: lu_seq_range_within_def)

lemma fld_loc_after:
  "\<forall>e\<in>set a. x \<le> lsr_start (fce_range e) \<Longrightarrow> s < x \<Longrightarrow> fld_loc a s = None"
  by (induction a) (auto simp: lu_seq_range_within_def)

text \<open>What an insertion does to the locations.\<close>

definition loc_override :: "lu_seq_range \<Rightarrow> (u64 \<Rightarrow> (u32 \<times> u32) option) \<Rightarrow> u64 \<Rightarrow> (u32 \<times> u32) option" where
  "loc_override r f s = (if lu_seq_range_within r s then Some (range_loc r) else f s)"

lemma override_middle_at:
  assumes "\<forall>e\<in>set b. lsr_end (fce_range e) \<le> lsr_start r"
    "fld_loc x s = loc_override r (fld_loc y) s"
  shows "fld_loc (b @ x) s = loc_override r (fld_loc (b @ y)) s"
  using assms fld_loc_before [OF assms(1), of s]
  by (auto simp: fld_loc_append loc_override_def split: option.splits)

lemma override_middle:
  assumes "\<forall>e\<in>set b. lsr_end (fce_range e) \<le> lsr_start r"
    "\<And>s. fld_loc x s = loc_override r (fld_loc y) s"
  shows "fld_loc (b @ x) = loc_override r (fld_loc (b @ y))"
  using override_middle_at [OF assms] by (rule ext)

lemma clean_nonempty: "fld_clean l \<Longrightarrow> e \<in> set l \<Longrightarrow> range_nonempty (fce_range e)"
  by (induction l) auto

definition fld_overlap :: "fld_cache_entry list \<Rightarrow> fld_cache_entry \<Rightarrow> fld_cache_entry list \<Rightarrow> lu_seq_range \<Rightarrow> bool" where
  "fld_overlap b c a r \<longleftrightarrow> fld_clean (b @ c # a) \<and> fld_compat (b @ c # a) r
     \<and> (\<forall>e\<in>set b. lsr_end (fce_range e) \<le> lsr_start r)
     \<and> lsr_flags (fce_range c) = lsr_flags r
     \<and> lsr_start r < lsr_end (fce_range c) \<and> lsr_start (fce_range c) \<le> lsr_end r"

lemma fld_overlapD:
  assumes "fld_overlap b c a r"
  shows "lsr_start (fce_range c) < lsr_end (fce_range c)" "lsr_start r < lsr_end r"
    "fld_clean b" "fld_clean a" 
    "\<forall>e\<in>set a. lsr_end (fce_range c) \<le> lsr_start (fce_range e)"
    "\<forall>e\<in>set b. lsr_end (fce_range e) \<le> lsr_start (fce_range c)"
    "\<forall>e\<in>set b. \<forall>x\<in>set a. lsr_end (fce_range e) \<le> lsr_start (fce_range x)"
    "\<forall>e\<in>set b. lsr_end (fce_range e) \<le> lsr_start r"
    "lsr_flags (fce_range c) = lsr_flags r"
    "lsr_start r < lsr_end (fce_range c)" "lsr_start (fce_range c) \<le> lsr_end r"
    "\<forall>e\<in>set a. lsr_flags (fce_range e) \<noteq> lsr_flags r \<longrightarrow> lsr_end r \<le> lsr_start (fce_range e)"
proof -
  show "lsr_start (fce_range c) < lsr_end (fce_range c)" "lsr_start r < lsr_end r"
    "fld_clean b" "fld_clean a" 
    "\<forall>e\<in>set b. lsr_end (fce_range e) \<le> lsr_start (fce_range c)"
    "\<forall>e\<in>set b. \<forall>x\<in>set a. lsr_end (fce_range e) \<le> lsr_start (fce_range x)"
    "\<forall>e\<in>set b. lsr_end (fce_range e) \<le> lsr_start r"
    "lsr_flags (fce_range c) = lsr_flags r"
    "lsr_start r < lsr_end (fce_range c)" "lsr_start (fce_range c) \<le> lsr_end r"
    using assms by (auto simp: fld_overlap_def clean_append fld_compat_def range_nonempty_def entry_before_def list_all_iff)
  show a: "\<forall>e\<in>set a. lsr_end (fce_range c) \<le> lsr_start (fce_range e)"
    using assms by (auto simp: fld_overlap_def clean_append entry_before_def list_all_iff)
  show "\<forall>e\<in>set a. lsr_flags (fce_range e) \<noteq> lsr_flags r \<longrightarrow> lsr_end r \<le> lsr_start (fce_range e)"
  proof (intro ballI impI)
    fix e assume e: "e \<in> set a" "lsr_flags (fce_range e) \<noteq> lsr_flags r"
    then have "disjoint_ranges (fce_range e) r" "range_nonempty (fce_range e)" "lsr_start r < lsr_end (fce_range c)"
      using assms by (auto simp: fld_overlap_def fld_compat_def list_all_iff clean_append clean_nonempty)
    moreover have "lsr_end (fce_range c) \<le> lsr_start (fce_range e)" using a e by blast
    ultimately show "lsr_end r \<le> lsr_start (fce_range e)"
      by (auto simp: disjoint_ranges_def range_nonempty_def)
  qed
qed

lemma overlap_extend:
  assumes "fld_overlap b c a r" "lsr_index (fce_range c) = lsr_index r"
  defines "l \<equiv> b @ c\<lparr> fce_range := (fce_range c)\<lparr> lsr_start := min (lsr_start (fce_range c)) (lsr_start r),
                        lsr_end := max (lsr_end (fce_range c)) (lsr_end r) \<rparr> \<rparr> # a"
  shows "fld_dirty l" "fld_loc l = loc_override r (fld_loc (b @ c # a))"
proof -
  note f = fld_overlapD [OF assms(1)]
  show "fld_dirty l" unfolding l_def using f
    by (intro dirty_append) (auto simp: range_nonempty_def entry_before_def list_all_iff min_def max_def)
  show "fld_loc l = loc_override r (fld_loc (b @ c # a))" unfolding l_def
    using f(1,2,9-11) assms(2)
    by (intro override_middle [OF f(8)])
       (auto simp: loc_override_def lu_seq_range_within_def min_def max_def)
qed

lemma overlap_overshadow:
  assumes "fld_overlap b c a r" "lsr_start r \<le> lsr_start (fce_range c)" "lsr_end (fce_range c) \<le> lsr_end r"
  shows "fld_dirty (b @ c\<lparr> fce_range := r \<rparr> # a)" 
   "fld_loc (b @ c\<lparr> fce_range := r \<rparr> # a) = loc_override r (fld_loc (b @ c # a))"
proof -
  note f = fld_overlapD [OF assms(1)]
  show "fld_dirty (b @ c\<lparr> fce_range := r \<rparr> # a)" using f assms(2,3)
    by (intro dirty_append) (auto simp: range_nonempty_def entry_before_def list_all_iff)
  show "fld_loc (b @ c\<lparr> fce_range := r \<rparr> # a) = loc_override r (fld_loc (b @ c # a))"
    using f(1,2) assms(2,3)
    by (intro override_middle [OF f(8)]) (auto simp: loc_override_def lu_seq_range_within_def)
qed

lemma overlap_left:
  assumes "fld_overlap b c a (fce_range f)" "lsr_start (fce_range f) \<le> lsr_start (fce_range c)"
   "lsr_end (fce_range f) < lsr_end (fce_range c)"
  defines "l \<equiv> b @ f # c\<lparr> fce_range := (fce_range c)\<lparr> lsr_start := lsr_end (fce_range f) \<rparr> \<rparr> # a"
  shows "fld_dirty l" "fld_loc l = loc_override (fce_range f) (fld_loc (b @ c # a))"
proof -
  note f = fld_overlapD [OF assms(1)]
  have "fld_clean l" unfolding l_def clean_append using f assms(2,3)
    by (auto simp: range_nonempty_def entry_before_def list_all_iff)
  then show "fld_dirty l" by (rule clean_dirty)
  show "fld_loc l = loc_override (fce_range f) (fld_loc (b @ c # a))" unfolding l_def
    using f(1,2,11) assms(2,3)
    by (intro override_middle [OF f(8)]) (auto simp: loc_override_def lu_seq_range_within_def)
qed

lemma overlap_right:
  assumes "fld_overlap b c a (fce_range f)" "lsr_start (fce_range c) < lsr_start (fce_range f)"
    "lsr_end (fce_range c) < lsr_end (fce_range f)"
  defines "l \<equiv> (b @ [c\<lparr> fce_range := (fce_range c)\<lparr> lsr_end := lsr_start (fce_range f) \<rparr> \<rparr>]) @ f # a"
  shows "fld_dirty l" "fld_loc l = loc_override (fce_range f) (fld_loc (b @ c # a))"
proof -
  note f = fld_overlapD [OF assms(1)]
  show "fld_dirty l" unfolding l_def using f assms(2,3)
    by (intro dirty_append) (auto simp: clean_append range_nonempty_def entry_before_def list_all_iff)
  have "fld_loc (c\<lparr> fce_range := (fce_range c)\<lparr> lsr_end := lsr_start (fce_range f) \<rparr> \<rparr> # f # a) s
       = loc_override (fce_range f) (fld_loc (c # a)) s" for s
    using f(1,2,10) assms(2,3) by (auto simp: loc_override_def lu_seq_range_within_def)
  from override_middle [OF f(8) this] 
  show "fld_loc l = loc_override (fce_range f) (fld_loc (b @ c # a))" unfolding l_def by simp
qed

lemma clean_sweep:
  assumes "fld_clean l"
  obtains l' del where "fld_fix_sweep l = Some (False, l', del)"
proof -
  have "\<exists>l' del. fld_fix_sweep l = Some (False, l', del)"
    using assms
  proof (induction l rule: entry_list_induct)
    case (step c n rest)
    obtain again l' del where s: "fld_fix_sweep (c # n # rest) = Some (again, l', del)"
      using sweep_total [OF clean_dirty [OF step.prems]] by auto
    then show ?case
    proof (cases rule: fld_fix_sweep_cases)
      case (keep l1)
      with step.IH [of n] step.prems s show ?thesis by auto
    next
      case (join del1)
      have "fld_clean (n\<lparr> fce_range := (fce_range n)\<lparr> lsr_start := lsr_start (fce_range c) \<rparr> \<rparr> # rest)"
        using step.prems by (auto simp: range_nonempty_def entry_before_def list_all_iff)
      from step.IH [OF this] join s show ?thesis by auto
    next
      case (dup del1)
      with step.IH [of n] step.prems s show ?thesis by auto
    qed (use step.prems in \<open>auto simp: entry_before_def range_nonempty_def\<close>)
  qed (auto split: bind_splits)
  with that show thesis by blast
qed

lemma clean_pair:
  "fld_clean (c # n # a) \<Longrightarrow> lsr_start (fce_range c) \<le> lsr_start (fce_range n)
     \<and> lsr_end (fce_range c) \<le> lsr_start (fce_range n) \<and> lu_seq_range_is_sane (fce_range c)
     \<and> lsr_end (fce_range c) \<noteq> lsr_end (fce_range n)"
  by (auto simp: entry_before_def range_nonempty_def lu_seq_range_is_sane_def)

lemma sweep_keep:
  assumes "fld_clean (c # n # a)" "fld_fix_sweep (n # a) = Some (again, l, del)"
    "\<not> (lsr_flags (fce_range c) = lsr_flags (fce_range n) \<and> lsr_end (fce_range c) = lsr_start (fce_range n)
        \<and> lsr_index (fce_range c) = lsr_index (fce_range n))"
  shows "fld_fix_sweep (c # n # a) = Some (again, c # l, del)"
  using clean_pair [OF assms(1)] assms(2,3) by (auto simp: fld_fix_sweep_step)

lemma sweep_join:
  assumes "fld_clean (c # n # a)" 
    "fld_fix_sweep (n\<lparr> fce_range := (fce_range n)\<lparr> lsr_start := lsr_start (fce_range c) \<rparr> \<rparr> # a) = Some (again, l, del)"
    "lsr_flags (fce_range c) = lsr_flags (fce_range n) \<and> lsr_end (fce_range c) = lsr_start (fce_range n)
        \<and> lsr_index (fce_range c) = lsr_index (fce_range n)"
  shows "fld_fix_sweep (c # n # a) = Some (again, l, fce_id c # del)"
  using clean_pair [OF assms(1)] assms(2,3) by (simp add: fld_fix_sweep_step)

lemma sweep_head:
  assumes "fld_clean (n # a)" "\<forall>e\<in>set a. lsr_end (fce_range n) < lsr_start (fce_range e)"
  shows "\<exists>a' del. fld_fix_sweep a = Some (False, a', del) \<and> fld_fix_sweep (n # a) = Some (False, n # a', del)"
proof -
  from assms have "fld_clean a" by simp
  then obtain a' del where s: "fld_fix_sweep a = Some (False, a', del)" by (rule clean_sweep)
  show ?thesis
  proof (cases a)
    case Nil
    then show ?thesis using assms by auto
  next
    case (Cons x xs)
    have "fld_fix_sweep (n # a) = Some (False, n # a', del)"
      using assms s unfolding Cons by (intro sweep_keep) auto
    with s show ?thesis by auto
  qed
qed

lemma sweep_split:
  assumes "fld_clean (p @ n # a)"
    "\<forall>e\<in>set p. lsr_end (fce_range e) = lsr_start (fce_range n) \<longrightarrow> lsr_index (fce_range e) \<noteq> lsr_index (fce_range n)"
    "\<forall>e\<in>set a. lsr_end (fce_range n) < lsr_start (fce_range e)"
  shows "\<exists>p' a' del del'. fld_fix_sweep (p @ n # a) = Some (False, p' @ n # a', del)
           \<and> fce_id ` set p' \<subseteq> fce_id ` set p \<and> fld_fix_sweep a = Some (False, a', del')"
  using assms
proof (induction p rule: entry_list_induct)
  case Nil
  from sweep_head [of n a] Nil.prems show ?case by force
next
  case (single c)
  then have "fld_clean (n # a)" by simp
  from sweep_head [OF this single.prems(3)] obtain a' del where
    s: "fld_fix_sweep a = Some (False, a', del)" "fld_fix_sweep (n # a) = Some (False, n # a', del)" by blast
  have "fld_fix_sweep (c # n # a) = Some (False, c # n # a', del)"
    by (rule sweep_keep) (use single.prems s in auto)
  then have "fld_fix_sweep ([c] @ n # a) = Some (False, [c] @ n # a', del)" by simp
  with s(1) show ?case by (metis order.refl)
next
  case (step c q rest)
  let ?q = "q\<lparr> fce_range := (fce_range q)\<lparr> lsr_start := lsr_start (fce_range c) \<rparr> \<rparr>"
  have cl: "fld_clean (c # q # (rest @ n # a))" using step.prems by simp
  show ?case
  proof (cases "lsr_flags (fce_range c) = lsr_flags (fce_range q) \<and> lsr_end (fce_range c) = lsr_start (fce_range q)
                \<and> lsr_index (fce_range c) = lsr_index (fce_range q)")
    case True
    have "fld_clean ((?q # rest) @ n # a)"
      using cl by (auto simp: range_nonempty_def entry_before_def list_all_iff)
    from step.IH [OF this] step.prems(2,3) obtain p' a' del del' where
      i: "fld_fix_sweep ((?q # rest) @ n # a) = Some (False, p' @ n # a', del)"
         "fce_id ` set p' \<subseteq> fce_id ` set (?q # rest)" "fld_fix_sweep a = Some (False, a', del')" by auto
    have "fld_fix_sweep ((c # q # rest) @ n # a) = Some (False, p' @ n # a', fce_id c # del)"
      using sweep_join [OF cl _ True, of False "p' @ n # a'" del] i(1) by simp
    with i(2,3) show ?thesis by fastforce
  next
    case False
    have "fld_clean ((q # rest) @ n # a)" using cl by simp
    from step.IH [OF this] step.prems(2,3) obtain p' a' del del' where
      i: "fld_fix_sweep ((q # rest) @ n # a) = Some (False, p' @ n # a', del)"
         "fce_id ` set p' \<subseteq> fce_id ` set (q # rest)" "fld_fix_sweep a = Some (False, a', del')" by auto
    have "fld_fix_sweep ((c # q # rest) @ n # a) = Some (False, (c # p') @ n # a', del)"
      using sweep_keep [OF cl _ False, of False "p' @ n # a'" del] i(1) by simp
    moreover have "fce_id ` set (c # p') \<subseteq> fce_id ` set (c # q # rest)" using i(2) by auto
    ultimately show ?thesis using i(3) by blast
  qed
qed
lemma fix_list_sweep: "fld_fix_sweep l = Some (False, l', del) \<Longrightarrow> fld_fix_list l = Some (l', del)"
  by (subst fld_fix_list.simps) simp

lemma clean_insert_gap:
  assumes "fld_clean (p @ f # a)" "range_nonempty (fce_range t)" "lsr_end (fce_range f) \<le> lsr_start (fce_range t)"
    "\<forall>e\<in>set a. lsr_end (fce_range t) \<le> lsr_start (fce_range e)"
  shows "fld_clean (p @ f # t # a)"
  using assms by (auto simp: clean_append entry_before_def range_nonempty_def list_all_iff)

lemma overlap_punch:
  assumes "fld_overlap b c a (fce_range f)" "lsr_index (fce_range c) \<noteq> lsr_index (fce_range f)"
    "lsr_start (fce_range c) < lsr_start (fce_range f)" "lsr_end (fce_range f) < lsr_end (fce_range c)"
    "lsr_flags (fce_range c) = lsr_flags t"
    and t: "lsr_start t = lsr_end (fce_range f)" "lsr_end t = lsr_end (fce_range c)" "lsr_index t = lsr_index (fce_range c)"
  defines "l \<equiv> (b @ [c\<lparr> fce_range := (fce_range c)\<lparr> lsr_end := lsr_start (fce_range f) \<rparr> \<rparr>]) @ f # a"
  shows "\<exists>p' a' del. fld_fix_list l = Some (p' @ f # a', del) \<and> fce_id ` set p' \<subseteq> fce_id ` set (b @ [c])
      \<and> (\<forall>e. fce_range e = t \<longrightarrow> fld_clean (p' @ f # e # a') 
         \<and> fld_loc (p' @ f # e # a') = loc_override (fce_range f) (fld_loc (b @ c # a)))"
proof -
  let ?c = "c\<lparr> fce_range := (fce_range c)\<lparr> lsr_end := lsr_start (fce_range f) \<rparr> \<rparr>"
  note f = fld_overlapD [OF assms(1)]
  have cl: "fld_clean l" unfolding l_def clean_append using f assms(3,4)
    by (auto simp: range_nonempty_def entry_before_def list_all_iff)
  have "\<exists>p' a' del del'. fld_fix_sweep l = Some (False, p' @ f # a', del)
           \<and> fce_id ` set p' \<subseteq> fce_id ` set (b @ [?c]) \<and> fld_fix_sweep a = Some (False, a', del')"
    unfolding l_def
    by (rule sweep_split) (use cl [unfolded l_def] f assms(2,3,4) in \<open>auto simp: order.strict_iff_order\<close>)
  then obtain p' a' del del' where s: "fld_fix_sweep l = Some (False, p' @ f # a', del)"
    "fce_id ` set p' \<subseteq> fce_id ` set (b @ [c])" "fld_fix_sweep a = Some (False, a', del')" by auto
  have c': "fld_clean (p' @ f # a')" using sweep_dirty [OF s(1) clean_dirty [OF cl]] by simp
  have st: "\<forall>e\<in>set a'. lsr_end (fce_range c) \<le> lsr_start (fce_range e)"
    using sweep_starts [OF s(3), of "lsr_end (fce_range c)"] f(5) by (simp add: list_all_iff)
  have lc: "fld_loc (p' @ f # a') = fld_loc l" using sweep_loc [OF s(1) clean_dirty [OF cl]] by auto
  have "fld_clean (p' @ f # e # a')" if e: "fce_range e = t" for e
    using clean_insert_gap [OF c'] st t e assms(4) by (simp add: range_nonempty_def)
  moreover have "fld_loc (p' @ f # e # a') s = loc_override (fce_range f) (fld_loc (b @ c # a)) s"
    if e: "fce_range e = t" for e s
  proof (cases "lu_seq_range_within t s")
    case True
    have "\<forall>e\<in>set p'. lsr_end (fce_range e) \<le> lsr_start t"
      using c' f(2) t by (auto simp: clean_append entry_before_def)
    from fld_loc_before [OF this True] have "fld_loc (p' @ f # e # a') s = Some (range_loc t)"
      using True e t f(2) by (auto simp: fld_loc_append lu_seq_range_within_def)
    moreover have "fld_loc b s = None"
      using f(6) True t f(11) assms(3) f(2) by (intro fld_loc_before [of b t s]) (auto intro: order.trans)
    ultimately show ?thesis using True t f(1,2) assms(3,5)
      by (auto simp: loc_override_def fld_loc_append lu_seq_range_within_def)
  next
    case False
    then have "fld_loc (p' @ f # e # a') s = fld_loc l s"
      unfolding lc [symmetric] using e by (simp add: fld_loc_append split: option.split)
    moreover have "fld_loc (?c # f # a) s = loc_override (fce_range f) (fld_loc (c # a)) s"
      using False t f(1,2) assms(3,4) by (auto simp: loc_override_def lu_seq_range_within_def)
    ultimately show ?thesis
      using override_middle_at [OF f(8), of "?c # f # a" s "c # a"] unfolding l_def by simp
  qed
  ultimately show ?thesis
    using fix_list_sweep [OF s(1)] s(2)
    by (intro exI [of _ p'] exI [of _ a'] exI [of _ del]) (simp add: fun_eq_iff del: set_append)
qed

lemma sweep_ids:
  "fld_fix_sweep l = Some (again, l', del) \<Longrightarrow>
     mset (map fce_id l') + mset del = mset (map fce_id l)"
proof (induction l arbitrary: again l' del rule: entry_list_induct)
  case (step c n rest)
  from step.prems show ?case
    by (cases rule: fld_fix_sweep_cases) (auto dest!: step.IH)
qed (auto split: bind_splits)

lemma fix_list_ids:
  "fld_fix_list l = Some (l', del) \<Longrightarrow> mset (map fce_id l') + mset del = mset (map fce_id l)"
proof (induction l arbitrary: l' del rule: fld_fix_list.induct)
  case (1 l)
  from "1.prems" obtain again l1 d1 where s: "fld_fix_sweep l = Some (again, l1, d1)"
    by (subst (asm) fld_fix_list.simps) (auto split: bind_splits)
  show ?case
  proof (cases again)
    case True
    with "1.prems" s obtain d2 where "fld_fix_list l1 = Some (l', d2)" "del = d1 @ d2"
      by (subst (asm) fld_fix_list.simps) (auto split: bind_splits)
    with "1.IH" [OF s refl refl True] sweep_ids [OF s] show ?thesis by (simp add: union_assoc union_commute union_lcomm)
  next
    case False
    with "1.prems" s sweep_ids [OF s] show ?thesis by (subst (asm) fld_fix_list.simps) auto
  qed
qed

definition fld_book :: "fld_cache \<Rightarrow> bool" where
  "fld_book cache \<longleftrightarrow> distinct (map fce_id (fci_entries_head cache)) \<and> distinct (fci_lru cache)
     \<and> set (fci_lru cache) = fce_id ` set (fci_entries_head cache)
     \<and> fci_cache_count cache = int (length (fci_entries_head cache))"

definition fld_cache_ok :: "fld_cache \<Rightarrow> bool" where
  "fld_cache_ok cache \<longleftrightarrow> fld_clean (fci_entries_head cache) \<and> fld_book cache"

lemma fix_new_list_ok:
  assumes "fld_dirty (fci_entries_head cache)" "fld_book cache"
  shows "\<exists>cache' l del. fld_fix_new_list cache = Some cache' \<and> fld_cache_ok cache'
     \<and> fld_fix_list (fci_entries_head cache) = Some (l, del) \<and> fci_entries_head cache' = l
     \<and> fld_loc (fci_entries_head cache') = fld_loc (fci_entries_head cache)
     \<and> fci_cache_size cache' = fci_cache_size cache \<and> fci_threshold cache' = fci_threshold cache
     \<and> fce_id ` set (fci_entries_head cache') \<subseteq> fce_id ` set (fci_entries_head cache)"
proof -
  from fix_list_dirty [OF assms(1)] obtain l del where
    f: "fld_fix_list (fci_entries_head cache) = Some (l, del)" "fld_clean l"
       "fld_loc l = fld_loc (fci_entries_head cache)" by blast
  note m = fix_list_ids [OF f(1)]
  have "distinct (map fce_id l @ del)"
    using assms(2) m by (metis fld_book_def mset_append mset_eq_imp_distinct_iff)
  moreover have "set (map fce_id (fci_entries_head cache)) = set (map fce_id l @ del)"
    using m by (metis mset_append mset_eq_setD)
  moreover have "length l + length del = length (fci_entries_head cache)"
    using arg_cong [OF m, of size] by simp
  ultimately show ?thesis
    using assms(2) f by (auto simp: fld_fix_new_list_def fld_cache_ok_def fld_book_def)
qed

lemma length_filter_key:
  "distinct (map f l) \<Longrightarrow> k \<in> f ` set l \<Longrightarrow> Suc (length (filter (\<lambda>x. f x \<noteq> k) l)) = length l"
proof (induction l)
  case (Cons x l)
  show ?case
  proof (cases "f x = k")
    case True
    with Cons.prems have "filter (\<lambda>x. f x \<noteq> k) l = l"
      by (simp add: filter_id_conv) (metis image_eqI)
    with True show ?thesis by simp
  next
    case False
    with Cons show ?thesis by auto
  qed
qed simp

lemma clean_filter: "fld_clean l \<Longrightarrow> fld_clean (filter P l)"
  by (induction l) (auto simp: list_all_iff)

lemma fld_loc_filter:
  assumes "fld_clean l"
  shows "fld_loc (filter P l) s = None \<or> fld_loc (filter P l) s = fld_loc l s"
  using assms
proof (induction l)
  case (Cons c l)
  have "lu_seq_range_within (fce_range c) s \<Longrightarrow> fld_loc (filter P l) s = None"
    using Cons.prems 
    by (intro fld_loc_after [of _ "lsr_end (fce_range c)"]) (auto simp: list_all_iff entry_before_def lu_seq_range_within_def)
  with Cons show ?case by auto
qed simp

lemma fld_cache_ok_delete:
  assumes "fld_cache_ok cache" "n \<in> set (fci_lru cache)"
  shows "fld_cache_ok (fld_cache_entry_delete cache n)"
proof -
  have "Suc (length (filter (\<lambda>e. fce_id e \<noteq> n) (fci_entries_head cache))) = length (fci_entries_head cache)"
    using assms by (intro length_filter_key) (auto simp: fld_cache_ok_def fld_book_def)
  with assms show ?thesis
    by (auto simp: fld_cache_ok_def fld_book_def fld_cache_entry_delete_def distinct_map_filter clean_filter)
qed

text \<open>A part of a cache: some of its entries are gone.\<close>

definition fld_part :: "fld_cache \<Rightarrow> fld_cache \<Rightarrow> bool" where
  "fld_part cache' cache \<longleftrightarrow> set (fci_entries_head cache') \<subseteq> set (fci_entries_head cache)
     \<and> (\<forall>s. fld_loc (fci_entries_head cache') s = None
            \<or> fld_loc (fci_entries_head cache') s = fld_loc (fci_entries_head cache) s)
     \<and> fci_cache_size cache' = fci_cache_size cache \<and> fci_threshold cache' = fci_threshold cache"

lemma fld_part_trans: "fld_part a b \<Longrightarrow> fld_part b c \<Longrightarrow> fld_part a c"
  unfolding fld_part_def by (metis subset_trans)

lemma fld_part_delete: "fld_cache_ok cache \<Longrightarrow> fld_part (fld_cache_entry_delete cache n) cache"
  using fld_loc_filter [of "fci_entries_head cache"]
  by (auto simp: fld_part_def fld_cache_entry_delete_def fld_cache_ok_def)

lemma shrink_loop_ok:
  "fld_cache_ok cache \<Longrightarrow> fld_cache_ok (fld_cache_shrink_loop cache) \<and> fld_part (fld_cache_shrink_loop cache) cache
    \<and> (fci_lru (fld_cache_shrink_loop cache) = [] \<or>
        fci_cache_count (fld_cache_shrink_loop cache) + fci_threshold cache \<le> fci_cache_size cache)"
proof (induction cache rule: fld_cache_shrink_loop.induct)
  case (1 cache)
  show ?case
  proof (cases "fci_cache_count cache + fci_threshold cache > fci_cache_size cache \<and> fci_lru cache \<noteq> []")
    case True
    let ?c = "fld_cache_entry_delete cache (last (fci_lru cache))"
    have "fld_cache_ok ?c" using True "1.prems" by (intro fld_cache_ok_delete) auto
    moreover have "fci_threshold ?c = fci_threshold cache" "fci_cache_size ?c = fci_cache_size cache"
      by (simp_all add: fld_cache_entry_delete_def)
    moreover have "fld_cache_shrink_loop cache = fld_cache_shrink_loop ?c"
      using True by (subst fld_cache_shrink_loop.simps) simp
    ultimately show ?thesis using "1.IH" [OF True] fld_part_trans fld_part_delete [OF "1.prems"] by metis
  next
    case False
    then have "fld_cache_shrink_loop cache = cache" by (subst fld_cache_shrink_loop.simps) auto
    with False "1.prems" show ?thesis by (auto simp: fld_part_def)
  qed
qed

lemma shrink_ok:
  "fld_cache_ok cache \<Longrightarrow> fld_cache_ok (fld_cache_shrink cache) \<and> fld_part (fld_cache_shrink cache) cache"
  using shrink_loop_ok by (auto simp: fld_cache_shrink_def fld_part_def)

lemma entry_add_ok:
  assumes "fld_book cache" "fld_dirty (b @ f # a)" "fce_id f \<notin> set (fci_lru cache)"
    "map fce_id (b @ a) = map fce_id (fci_entries_head cache)"
  shows "\<exists>cache'. fld_cache_entry_add cache f b a = Some cache' \<and> fld_cache_ok cache'
     \<and> fld_loc (fci_entries_head cache') = fld_loc (b @ f # a)
     \<and> (\<exists>del. fld_fix_list (b @ f # a) = Some (fci_entries_head cache', del))"
proof -
  let ?c = "cache\<lparr> fci_entries_head := b @ f # a, fci_lru := fce_id f # fci_lru cache,
               fci_cache_count := fci_cache_count cache + 1 \<rparr>"
  have s: "fce_id ` set (fci_entries_head cache) = fce_id ` set (b @ a)"
    using assms(4) by (metis set_map)
  have d: "distinct (map fce_id (b @ a))" "length (b @ a) = length (fci_entries_head cache)"
    using assms(1,4) by (simp_all add: fld_book_def) (metis length_append length_map)
  have "fld_book ?c"
    using assms(1,3) d s by (auto simp: fld_book_def)
  from fix_new_list_ok [OF _ this] assms(2) show ?thesis
    unfolding fld_cache_entry_add_def by auto
qed

definition fld_suffix_clash :: "fld_cache_entry list \<Rightarrow> lu_seq_range \<Rightarrow> bool" where
  "fld_suffix_clash l r \<longleftrightarrow> list_ex (\<lambda>e. lsr_flags (fce_range e) = lsr_flags r
     \<and> lsr_index (fce_range e) \<noteq> lsr_index r
     \<and> lsr_start (fce_range e) < lsr_start r \<and> lsr_end (fce_range e) = lsr_end r) l"

definition fld_punches :: "fld_cache_entry list \<Rightarrow> lu_seq_range \<Rightarrow> bool" where
  "fld_punches l r \<longleftrightarrow> list_ex (\<lambda>e. lsr_flags (fce_range e) = lsr_flags r
     \<and> lsr_index (fce_range e) \<noteq> lsr_index r
     \<and> lsr_start (fce_range e) < lsr_start r \<and> lsr_end r < lsr_end (fce_range e)) l"

lemma takeWhile_split:
  "k \<notin> fce_id ` set p \<Longrightarrow> fce_id f = k \<Longrightarrow>
     takeWhile (\<lambda>e. fce_id e \<noteq> k) (p @ f # a) = p \<and> dropWhile (\<lambda>e. fce_id e \<noteq> k) (p @ f # a) = f # a"
  by (induction p) auto

lemma punch_hole_ok:
  assumes "fld_overlap b c a (fce_range f)" "fld_cache_ok cache" "fci_entries_head cache = b @ c # a"
    and "fce_id f \<notin> set (fci_lru cache)" "x \<notin> set (fci_lru cache)" "x \<noteq> fce_id f"
    and "lsr_index (fce_range c) \<noteq> lsr_index (fce_range f)" "lsr_flags (fce_range f) = 0"
    and "lsr_start (fce_range c) < lsr_start (fce_range f)" "lsr_end (fce_range f) < lsr_end (fce_range c)"
  shows "\<exists>cache'. fld_cache_punch_hole cache b c a f (Some x) = Some cache' \<and> fld_cache_ok cache'
     \<and> fld_loc (fci_entries_head cache') = loc_override (fce_range f) (fld_loc (b @ c # a))"
proof -
  let ?c = "c\<lparr> fce_range := (fce_range c)\<lparr> lsr_end := lsr_start (fce_range f) \<rparr> \<rparr>"
  define t where "t = \<lparr> fce_id = x, fce_range = \<lparr> lsr_start = lsr_end (fce_range f),
     lsr_end = lsr_end (fce_range c), lsr_index = lsr_index (fce_range c), lsr_flags = 0 \<rparr> \<rparr>"
  have fl: "lsr_flags (fce_range c) = lsr_flags (fce_range t)"
    using fld_overlapD(9) [OF assms(1)] assms(8) by (simp add: t_def)
  from overlap_punch [OF assms(1,7,9,10) fl] obtain p' a' del where
    p: "fld_fix_list ((b @ [?c]) @ f # a) = Some (p' @ f # a', del)" "fce_id ` set p' \<subseteq> fce_id ` set (b @ [c])"
      "fld_clean (p' @ f # t # a')" "fld_loc (p' @ f # t # a') = loc_override (fce_range f) (fld_loc (b @ c # a))"
    by (auto simp: t_def)
  note fo = fld_overlapD [OF assms(1)]
  have d: "fld_dirty ((b @ [?c]) @ f # a)" using fo assms(9,10)
    by (intro dirty_append) (auto simp: clean_append range_nonempty_def entry_before_def list_all_iff clean_dirty)
  have bk: "fld_book cache" "map fce_id ((b @ [?c]) @ a) = map fce_id (fci_entries_head cache)"
    using assms(2,3) by (simp_all add: fld_cache_ok_def)
  from entry_add_ok [OF bk(1) d assms(4) bk(2)] obtain c1 del' where
    c1: "fld_cache_entry_add cache f (b @ [?c]) a = Some c1" "fld_cache_ok c1"
      "fld_fix_list ((b @ [?c]) @ f # a) = Some (fci_entries_head c1, del')" by blast
  have e1: "fci_entries_head c1 = p' @ f # a'" using c1(3) p(1) by simp
  have "set (fci_lru cache) = fce_id ` set (b @ c # a)" using assms(2,3) by (simp add: fld_cache_ok_def fld_book_def)
  have "set (fci_lru c1) \<subseteq> insert (fce_id f) (set (fci_lru cache))"
    using c1(1) by (auto simp: fld_cache_entry_add_def fld_fix_new_list_def split: bind_splits if_splits)
  then have "x \<notin> set (fci_lru c1)" using assms(5,6) by auto
  moreover have "fce_id f \<notin> fce_id ` set p'"
    using p(2) assms(4) \<open>set (fci_lru cache) = _\<close> by auto
  note w = takeWhile_split [OF this refl, of a']
  moreover have "fld_book c1" "map fce_id ((p' @ [f]) @ a') = map fce_id (fci_entries_head c1)"
    "fld_dirty ((p' @ [f]) @ t # a')" "fce_id t = x"
    using c1(2) e1 clean_dirty [OF p(3)] by (simp_all add: fld_cache_ok_def t_def)
  ultimately obtain c2 where c2: "fld_cache_entry_add c1 t (p' @ [f]) a' = Some c2" "fld_cache_ok c2"
    "fld_loc (fci_entries_head c2) = fld_loc ((p' @ [f]) @ t # a')"
    using entry_add_ok [of c1 "p' @ [f]" t a'] by blast
  have "fld_cache_punch_hole cache b c a f (Some x) = Some c2"
    using c1(1) e1 w c2(1) by (simp add: fld_cache_punch_hole_def t_def)
  with c2(2,3) p(4) show ?thesis by simp
qed

lemma overlap_handle_ok:
  assumes "fld_overlap b c a (fce_range f)" "fld_cache_ok cache" "fci_entries_head cache = b @ c # a"
    and "fce_id f \<notin> set (fci_lru cache)" "x \<notin> set (fci_lru cache)" "x \<noteq> fce_id f"
    and "\<not> fld_suffix_clash (b @ c # a) (fce_range f)"
    and "fld_punches (b @ c # a) (fce_range f) \<longrightarrow> lsr_flags (fce_range f) = 0"
  shows "\<exists>cache'. fld_cache_overlap_handle cache b c a f (Some x) = Some cache' \<and> fld_cache_ok cache'
     \<and> fld_loc (fci_entries_head cache') = loc_override (fce_range f) (fld_loc (b @ c # a))"
proof -
  note fo = fld_overlapD [OF assms(1)]
  have bk: "fld_book cache" using assms(2) by (simp add: fld_cache_ok_def)
  have upd: "\<exists>cache'. fld_fix_new_list (cache\<lparr> fci_entries_head := b @ c\<lparr> fce_range := r \<rparr> # a \<rparr>) = Some cache'
      \<and> fld_cache_ok cache' \<and> fld_loc (fci_entries_head cache') = fld_loc (b @ c\<lparr> fce_range := r \<rparr> # a)"
    if "fld_dirty (b @ c\<lparr> fce_range := r \<rparr> # a)" for r
    using fix_new_list_ok [of "cache\<lparr> fci_entries_head := b @ c\<lparr> fce_range := r \<rparr> # a \<rparr>"] that bk assms(3)
    by (auto simp: fld_book_def)
  have add: "\<exists>cache'. fld_cache_entry_add cache f b' a' = Some cache' \<and> fld_cache_ok cache'
      \<and> fld_loc (fci_entries_head cache') = fld_loc (b' @ f # a')"
    if "fld_dirty (b' @ f # a')" "map fce_id (b' @ a') = map fce_id (b @ c # a)" for b' a'
    using entry_add_ok [OF bk that(1) assms(4)] that(2) assms(3) by auto
  consider (ext) "lsr_index (fce_range c) = lsr_index (fce_range f)"
    | (shadow) "lsr_index (fce_range c) \<noteq> lsr_index (fce_range f)"
        "lsr_start (fce_range f) \<le> lsr_start (fce_range c)" "lsr_end (fce_range c) \<le> lsr_end (fce_range f)"
    | (punch) "lsr_index (fce_range c) \<noteq> lsr_index (fce_range f)"
        "lsr_start (fce_range c) < lsr_start (fce_range f)" "lsr_end (fce_range f) < lsr_end (fce_range c)"
    | (left) "lsr_index (fce_range c) \<noteq> lsr_index (fce_range f)"
        "lsr_start (fce_range f) \<le> lsr_start (fce_range c)" "lsr_end (fce_range f) < lsr_end (fce_range c)"
    | (right) "lsr_index (fce_range c) \<noteq> lsr_index (fce_range f)"
        "lsr_start (fce_range c) < lsr_start (fce_range f)" "lsr_end (fce_range c) < lsr_end (fce_range f)"
    using assms(7) fo(9) by (fastforce simp: fld_suffix_clash_def not_le not_less)
  then show ?thesis
  proof cases
    case ext
    with upd [OF overlap_extend(1) [OF assms(1) ext]] overlap_extend(2) [OF assms(1) ext] show ?thesis
      by (simp add: fld_cache_overlap_handle_def Let_def)
  next
    case shadow
    with upd [OF overlap_overshadow(1) [OF assms(1) shadow(2,3)]] overlap_overshadow(2) [OF assms(1) shadow(2,3)]
    show ?thesis by (simp add: fld_cache_overlap_handle_def Let_def)
  next
    case punch
    then have "fld_punches (b @ c # a) (fce_range f)" using fo(9) by (simp add: fld_punches_def)
    moreover have "\<not> lsr_start (fce_range f) \<le> lsr_start (fce_range c)" using punch(2) by simp
    ultimately show ?thesis
      using punch_hole_ok [OF assms(1-6) punch(1) _ punch(2,3)] assms(8) punch
      by (simp add: fld_cache_overlap_handle_def Let_def)
  next
    case left
    then have "\<not> lsr_end (fce_range c) \<le> lsr_end (fce_range f)"
      "\<not> lsr_start (fce_range c) < lsr_start (fce_range f)"
      "lsr_end (fce_range f) \<le> lsr_end (fce_range c)" by simp_all
    with left(1,2) add [OF overlap_left(1) [OF assms(1) left(2,3)]]
      overlap_left(2) [OF assms(1) left(2,3)]
    show ?thesis by (simp add: fld_cache_overlap_handle_def Let_def)
  next
    case right
    then have "\<not> lsr_start (fce_range f) \<le> lsr_start (fce_range c)"
      "\<not> lsr_end (fce_range f) < lsr_end (fce_range c)"
      "\<not> lsr_end (fce_range f) \<le> lsr_end (fce_range c)"
      "lsr_start (fce_range c) \<le> lsr_start (fce_range f)"
      "lsr_end (fce_range c) \<le> lsr_end (fce_range f)" by simp_all
    with right(1) add [OF overlap_right(1) [OF assms(1) right(2,3)]]
      overlap_right(2) [OF assms(1) right(2,3)]
    show ?thesis by (simp add: fld_cache_overlap_handle_def Let_def)
  qed
qed

lemma insert_nolock_ok:
  assumes "fld_cache_ok cache" "fld_compat (fci_entries_head (fld_cache_shrink cache)) (fce_range f)"
    and "fce_id f \<notin> set (fci_lru cache)" "x \<notin> set (fci_lru cache)" "x \<noteq> fce_id f"
    and "\<not> fld_suffix_clash (fci_entries_head (fld_cache_shrink cache)) (fce_range f)"
    and "fld_punches (fci_entries_head (fld_cache_shrink cache)) (fce_range f) \<longrightarrow> lsr_flags (fce_range f) = 0"
  shows "\<exists>cache'. fld_cache_insert_nolock cache f (Some x) = Some cache' \<and> fld_cache_ok cache'
     \<and> fld_loc (fci_entries_head cache') = loc_override (fce_range f) (fld_loc (fci_entries_head (fld_cache_shrink cache)))"
proof -
  define c where "c = fld_cache_shrink cache"
  have c: "fld_cache_ok c" "fld_part c cache" using shrink_ok [OF assms(1)] by (simp_all add: c_def)
  have "set (fci_lru c) \<subseteq> set (fci_lru cache)"
    using c assms(1) by (auto simp: fld_cache_ok_def fld_book_def fld_part_def)
  then have fr: "fce_id f \<notin> set (fci_lru c)" "x \<notin> set (fci_lru c)" using assms(3,4) by auto
  have cl: "fld_clean (fci_entries_head c)" "fld_book c" using c(1) by (simp_all add: fld_cache_ok_def)
  have sp: "case fld_cache_insert_pos (fce_range f) [] (fci_entries_head c) of
      Add b a \<Rightarrow> fci_entries_head c = b @ a \<and> (\<forall>e\<in>set b. lsr_end (fce_range e) \<le> lsr_start (fce_range f))
                 \<and> (\<forall>e\<in>set a. lsr_end (fce_range f) \<le> lsr_start (fce_range e))
    | Overlap b e a \<Rightarrow> fci_entries_head c = b @ e # a \<and> fld_overlap b e a (fce_range f)"
    using insert_pos_spec [of "[]" "fci_entries_head c" "fce_range f"] cl(1) assms(2)
    by (auto simp: c_def fld_overlap_def split: fld_insert_pos.splits)
  show ?thesis
  proof (cases "fld_cache_insert_pos (fce_range f) [] (fci_entries_head c)")
    case (Overlap b e a)
    with sp have o: "fci_entries_head c = b @ e # a" "fld_overlap b e a (fce_range f)" by simp_all
    from overlap_handle_ok [OF o(2) c(1) o(1) fr assms(5)] assms(6,7) o(1) Overlap show ?thesis
      by (simp add: fld_cache_insert_nolock_def c_def Let_def)
  next
    case (Add b a)
    with sp have o: "fci_entries_head c = b @ a" "\<forall>e\<in>set b. lsr_end (fce_range e) \<le> lsr_start (fce_range f)"
      "\<forall>e\<in>set a. lsr_end (fce_range f) \<le> lsr_start (fce_range e)" by simp_all
    have "fld_clean (b @ f # a)" using cl(1) o assms(2)
      by (auto simp: clean_append entry_before_def list_all_iff fld_compat_def)
    then have "fld_dirty (b @ f # a)" by (rule clean_dirty)
    moreover have "fld_loc (b @ f # a) = loc_override (fce_range f) (fld_loc (b @ a))"
      by (rule override_middle [OF o(2)]) (simp add: loc_override_def)
    ultimately show ?thesis
      using entry_add_ok [OF cl(2) _ fr(1), of b a] o(1) Add
      by (auto simp: fld_cache_insert_nolock_def c_def [symmetric] Let_def)
  qed
qed

lemma insert_nolock_clash:
  assumes "fld_cache_ok cache" "fld_compat (fci_entries_head (fld_cache_shrink cache)) (fce_range f)"
    and "fld_suffix_clash (fci_entries_head (fld_cache_shrink cache)) (fce_range f)"
  shows "fld_cache_insert_nolock cache f x = None"
proof -
  define c where "c = fld_cache_shrink cache"
  have cl: "fld_clean (fci_entries_head c)" using shrink_ok [OF assms(1)] by (simp add: c_def fld_cache_ok_def)
  obtain e where e: "e \<in> set (fci_entries_head c)" "lsr_flags (fce_range e) = lsr_flags (fce_range f)"
    "lsr_index (fce_range e) \<noteq> lsr_index (fce_range f)" "lsr_start (fce_range e) < lsr_start (fce_range f)"
    "lsr_end (fce_range e) = lsr_end (fce_range f)"
    using assms(3) by (auto simp: fld_suffix_clash_def c_def list_ex_iff)
  have ne: "lsr_start (fce_range f) < lsr_end (fce_range f)" using assms(2) by (simp add: fld_compat_def range_nonempty_def)
  note sp = insert_pos_spec [of "[]" "fci_entries_head c" "fce_range f"]
  show ?thesis
  proof (cases "fld_cache_insert_pos (fce_range f) [] (fci_entries_head c)")
    case (Overlap b g a)
    with sp cl assms(2) have o: "fci_entries_head c = b @ g # a"
      "\<forall>e\<in>set b. lsr_end (fce_range e) \<le> lsr_start (fce_range f)"
      "lsr_start (fce_range f) < lsr_end (fce_range g)" by (auto simp: c_def)
    have "g = e"
    proof (rule ccontr)
      assume "g \<noteq> e"
      with e(1) o(1) have "e \<in> set b \<or> e \<in> set a" by auto
      with o(2) e(5) ne have "e \<in> set a" by auto
      with cl o(1) have "lsr_end (fce_range g) \<le> lsr_start (fce_range e)"
        by (auto simp: clean_append list_all_iff entry_before_def)
      with e(4) o(3) show False by simp
    qed
    with Overlap e(2-5) show ?thesis
      by (auto simp: fld_cache_insert_nolock_def fld_cache_overlap_handle_def Let_def c_def [symmetric])
  next
    case (Add b a)
    with sp cl assms(2) e(1) have "lsr_end (fce_range e) \<le> lsr_start (fce_range f) \<or>
       lsr_end (fce_range f) \<le> lsr_start (fce_range e)" by (auto simp: c_def)
    with e(4,5) ne show ?thesis by auto
  qed
qed

lemma lookup_loop_loc:
  "fld_clean l \<Longrightarrow> fst (fld_cache_lookup_loop s p l) \<longleftrightarrow> fld_loc l s \<noteq> None"
  "fld_clean l \<Longrightarrow> fld_cache_lookup_loop s p l = (True, Some r) \<Longrightarrow>
     fld_loc l s = Some (range_loc r) \<and> lu_seq_range_within r s"
proof -
  have n: "fld_clean (c # l) \<Longrightarrow> s < lsr_start (fce_range c) \<Longrightarrow> fld_loc l s = None" for c l
    by (rule fld_loc_after [of _ "lsr_end (fce_range c)"])
       (auto simp: list_all_iff entry_before_def range_nonempty_def)
  show "fld_clean l \<Longrightarrow> fst (fld_cache_lookup_loop s p l) \<longleftrightarrow> fld_loc l s \<noteq> None"
  proof (induction l arbitrary: p)
    case (Cons c l)
    then show ?case using n [OF Cons.prems] by (auto simp: lu_seq_range_within_def)
  qed simp
  show "fld_clean l \<Longrightarrow> fld_cache_lookup_loop s p l = (True, Some r) \<Longrightarrow>
     fld_loc l s = Some (range_loc r) \<and> lu_seq_range_within r s"
    by (induction l arbitrary: p) (auto split: if_splits)
qed

section \<open>The interface of the cache\<close>

text \<open>
  What a user of the cache relies on: an insertion that the cache admits overrides the
  locations of the inserted range and nothing else, apart from entries it evicts. The argument
  of type \<open>'n\<close> is the memory the insertion takes.
\<close>

definition coherent :: "(u64 \<Rightarrow> 'l option) \<Rightarrow> (u64 \<Rightarrow> 'l option) \<Rightarrow> bool" where
  "coherent f truth \<longleftrightarrow> (\<forall>s l. f s = Some l \<longrightarrow> truth s = Some l)"

locale location_cache =
  fixes inv :: "'c \<Rightarrow> bool"
    and loc_of :: "'c \<Rightarrow> u64 \<Rightarrow> (u32 \<times> u32) option"
    and evict :: "'c \<Rightarrow> 'c"
    and ins :: "'c \<Rightarrow> lu_seq_range \<Rightarrow> 'n \<Rightarrow> 'c option"
    and admits :: "'c \<Rightarrow> lu_seq_range \<Rightarrow> 'n \<Rightarrow> bool"
  assumes evict_inv: "inv c \<Longrightarrow> inv (evict c)"
    and evict_loc: "inv c \<Longrightarrow> loc_of (evict c) s = None \<or> loc_of (evict c) s = loc_of c s"
    and ins_loc: "inv c \<Longrightarrow> admits c r n \<Longrightarrow>
          \<exists>c'. ins c r n = Some c' \<and> inv c' \<and> loc_of c' = loc_override r (loc_of (evict c))"
begin

lemma ins_found:
  assumes "inv c" "admits c r n" "lu_seq_range_within r s"
  shows "\<exists>c'. ins c r n = Some c' \<and> loc_of c' s = Some (range_loc r)"
  using ins_loc [OF assms(1,2)] assms(3) by (auto simp: loc_override_def)

text \<open>A cache that never disagrees with the truth still does not after a true insertion.\<close>

lemma ins_coherent:
  assumes "inv c" "admits c r n" "coherent (loc_of c) truth"
    "\<forall>s. lu_seq_range_within r s \<longrightarrow> truth s = Some (range_loc r)"
  shows "\<exists>c'. ins c r n = Some c' \<and> inv c' \<and> coherent (loc_of c') truth"
proof -
  from ins_loc [OF assms(1,2)] obtain c' where
    c': "ins c r n = Some c'" "inv c'" "loc_of c' = loc_override r (loc_of (evict c))" by blast
  moreover have "coherent (loc_of c') truth"
    using assms(3,4) evict_loc [OF assms(1)] unfolding c'(3) coherent_def loc_override_def
    by (metis option.distinct(1))
  ultimately show ?thesis by blast
qed

end

definition fld_admits :: "fld_cache \<Rightarrow> lu_seq_range \<Rightarrow> nat \<times> nat \<Rightarrow> bool" where
  "fld_admits cache r n \<longleftrightarrow>
     (let l = fci_entries_head (fld_cache_shrink cache) in
      fld_compat l r \<and> fst n \<notin> set (fci_lru cache) \<and> snd n \<notin> set (fci_lru cache) \<and> snd n \<noteq> fst n
      \<and> \<not> fld_suffix_clash l r \<and> (fld_punches l r \<longrightarrow> lsr_flags r = LU_SEQ_RANGE_MDT))"

definition fld_insert_mem :: "fld_cache \<Rightarrow> lu_seq_range \<Rightarrow> nat \<times> nat \<Rightarrow> fld_cache option" where
  "fld_insert_mem cache r n = fld_cache_insert_nolock cache \<lparr> fce_id = fst n, fce_range = r \<rparr> (Some (snd n))"

interpretation fldc: location_cache fld_cache_ok "\<lambda>c. fld_loc (fci_entries_head c)" fld_cache_shrink
    fld_insert_mem fld_admits
proof
  show "fld_cache_ok c \<Longrightarrow> fld_cache_ok (fld_cache_shrink c)" for c
    using shrink_ok by blast
  show "fld_cache_ok c \<Longrightarrow> fld_loc (fci_entries_head (fld_cache_shrink c)) s = None \<or>
      fld_loc (fci_entries_head (fld_cache_shrink c)) s = fld_loc (fci_entries_head c) s" for c s
    using shrink_ok by (auto simp: fld_part_def)
  show "fld_cache_ok c \<Longrightarrow> fld_admits c r n \<Longrightarrow> \<exists>c'. fld_insert_mem c r n = Some c' \<and> fld_cache_ok c'
      \<and> fld_loc (fci_entries_head c')
          = loc_override r (fld_loc (fci_entries_head (fld_cache_shrink c)))" for c r n
    using insert_nolock_ok [of c "\<lparr> fce_id = fst n, fce_range = r \<rparr>" "snd n"]
    by (auto simp: fld_admits_def fld_insert_mem_def Let_def)
qed

section \<open>Properties\<close>

text \<open>The location the code reports for a sequence, whatever the caller's range held before.\<close>

definition fld_cache_location :: "fld_cache \<Rightarrow> u64 \<Rightarrow> (u32 \<times> u32) option" where
  "fld_cache_location cache s =
     (case fld_cache_lookup cache s lu_seq_range_init of
        (None, r, _) \<Rightarrow> Some (range_loc r) | (Some _, _) \<Rightarrow> None)"

lemma lookup_loop_true: "fld_cache_lookup_loop s p l = (True, x) \<Longrightarrow> x \<noteq> None"
  by (induction l arbitrary: p) (auto split: if_splits)

lemma fld_cache_location_loc:
  assumes "fld_cache_ok cache"
  shows "fld_cache_location cache s = fld_loc (fci_entries_head cache) s"
proof -
  have c: "fld_clean (fci_entries_head cache)" using assms by (simp add: fld_cache_ok_def)
  obtain b x where e: "fld_cache_lookup_loop s None (fci_entries_head cache) = (b, x)" by fastforce
  show ?thesis
    using lookup_loop_loc [OF c, of s None] lookup_loop_true e
    by (cases b; cases x; cases "fld_loc (fci_entries_head cache) s")
       (auto simp: fld_cache_location_def fld_cache_lookup_def)
qed

text \<open>
  C4. Inserting a range the cache admits succeeds, keeps the cache well-formed (ordered,
  without overlaps, list, eviction order and counter in step), and afterwards the code reports
  the new location for every sequence of the range and, for every other sequence, what it
  reported for the cache after the eviction step: all merging, splitting and trimming of
  neighbours is invisible.
\<close>

theorem fld_cache_insert_correct:
  assumes "fld_cache_ok cache" "fld_admits cache r (a, x)"
  shows "\<exists>cache'. fld_cache_insert cache r (Some a) (Some x) = Some (None, cache') \<and> fld_cache_ok cache'
     \<and> (\<forall>s. fld_cache_location cache' s
          = (if lu_seq_range_within r s then Some (range_loc r)
             else fld_cache_location (fld_cache_shrink cache) s))"
proof -
  have "lu_seq_range_is_sane r" using assms(2) by (simp add: fld_admits_def Let_def fld_compat_def)
  with fldc.ins_loc [OF assms] fldc.evict_inv [OF assms(1)] show ?thesis
    by (auto simp: fld_cache_insert_def fld_cache_entry_create_def fld_insert_mem_def
        fld_cache_location_loc loc_override_def)
qed

definition sample_cache :: fld_cache where
  "sample_cache = \<lparr> fci_entries_head = [\<lparr> fce_id = 1, fce_range =
       \<lparr> lsr_start = 0x200000400, lsr_end = 0x240000400, lsr_index = 0, lsr_flags = 0 \<rparr> \<rparr>],
     fci_lru = [1], fci_cache_count = 1, fci_cache_size = 100, fci_threshold = 10,
     fst_count = 0, fst_cache = 0 \<rparr>"

lemma fld_cache_insert_correct_witness:
  "\<exists>cache'. fld_cache_insert sample_cache
       \<lparr> lsr_start = 0x210000400, lsr_end = 0x220000400, lsr_index = 1, lsr_flags = 0 \<rparr> (Some 2) (Some 3)
       = Some (None, cache') \<and> fld_cache_location cache' 0x215000000 = Some (1, 0)"
  using fld_cache_insert_correct [of sample_cache
      "\<lparr> lsr_start = 0x210000400, lsr_end = 0x220000400, lsr_index = 1, lsr_flags = 0 \<rparr>" 2 3]
  by (auto simp: sample_cache_def fld_cache_ok_def fld_book_def range_nonempty_def fld_admits_def Let_def
      fld_compat_def fld_suffix_clash_def fld_punches_def fld_cache_shrink_def lu_seq_range_within_def)

text \<open>
  C18. When a server takes over exactly the tail of a cached range that belongs to another
  server, the insertion stops the node: the range ends where the cached one ends, so it is
  neither the case of a hole nor that of a range reaching over the end, and the assertion of
  the case for a range reaching over the start fails. This happens on every well-formed cache.
\<close>

theorem fld_cache_insert_tail_asserts:
  assumes "fld_cache_ok cache" "fld_compat (fci_entries_head (fld_cache_shrink cache)) r"
    "fld_suffix_clash (fci_entries_head (fld_cache_shrink cache)) r"
  shows "fld_cache_insert cache r (Some a) mem = None"
  using insert_nolock_clash [OF assms(1), of "\<lparr> fce_id = a, fce_range = r \<rparr>" mem] assms(2,3)
  by (simp add: fld_cache_insert_def fld_cache_entry_create_def fld_compat_def)

lemma fld_cache_insert_tail_asserts_witness:
  "fld_cache_insert sample_cache
     \<lparr> lsr_start = 0x210000400, lsr_end = 0x240000400, lsr_index = 1, lsr_flags = 0 \<rparr> (Some 2) (Some 3) = None"
  by (rule fld_cache_insert_tail_asserts)
     (simp_all add: sample_cache_def fld_cache_ok_def fld_book_def range_nonempty_def
      fld_compat_def fld_suffix_clash_def fld_cache_shrink_def)

lemma fix_new_list_size:
  "fld_fix_new_list c = Some c' \<Longrightarrow>
     fci_cache_size c' = fci_cache_size c \<and> fci_threshold c' = fci_threshold c"
  by (auto simp: fld_fix_new_list_def split: bind_splits)

lemma overlap_handle_size:
  "fld_cache_overlap_handle c b g a f x = Some c' \<Longrightarrow>
     fci_cache_size c' = fci_cache_size c \<and> fci_threshold c' = fci_threshold c"
  by (auto simp: fld_cache_overlap_handle_def fld_cache_punch_hole_def fld_cache_entry_add_def Let_def
      split: if_splits bind_splits option.splits dest!: fix_new_list_size)

lemma insert_nolock_size:
  assumes "fld_cache_ok c" "fld_cache_insert_nolock c f x = Some c'"
  shows "fci_cache_size c' = fci_cache_size c \<and> fci_threshold c' = fci_threshold c"
proof -
  have "fci_cache_size (fld_cache_shrink c) = fci_cache_size c"
    "fci_threshold (fld_cache_shrink c) = fci_threshold c"
    using shrink_ok [OF assms(1)] by (auto simp: fld_part_def)
  with assms(2) show ?thesis
    by (auto simp: fld_cache_insert_nolock_def fld_cache_entry_add_def Let_def
        split: fld_insert_pos.splits dest!: fix_new_list_size overlap_handle_size)
qed

lemma shrink_zero:
  assumes "fld_cache_ok c" "fci_cache_size c = 0" "0 \<le> fci_threshold c"
  shows "fci_entries_head (fld_cache_shrink c) = []"
proof -
  have "\<not> fci_cache_count c < fci_cache_size c"
    using assms by (simp add: fld_cache_ok_def fld_book_def)
  moreover have "int (length (fci_entries_head (fld_cache_shrink_loop c))) \<le> 0"
    using shrink_loop_ok [OF assms(1)] assms(2,3)
    by (auto simp: fld_cache_ok_def fld_book_def simp del: of_nat_le_0_iff)
  ultimately show ?thesis by (simp add: fld_cache_shrink_def)
qed

lemma flush_ok: "fld_cache_ok c \<Longrightarrow> fld_cache_ok (fld_cache_flush c)"
  using shrink_ok [of "c\<lparr> fci_cache_size := 0 \<rparr>"]
  by (simp add: fld_cache_flush_def fld_cache_ok_def fld_book_def)

lemma flush_size:
  "fld_cache_ok c \<Longrightarrow>
     fci_cache_size (fld_cache_flush c) = 0 \<and> fci_threshold (fld_cache_flush c) = fci_threshold c"
  using shrink_ok [of "c\<lparr> fci_cache_size := 0 \<rparr>"]
  by (simp add: fld_cache_flush_def fld_cache_ok_def fld_book_def fld_part_def)

text \<open>
  C19. Flushing empties the cache but also sets its size to zero for good. From then on an
  insertion leaves the size alone and first evicts everything, so the cache never again
  reports a sequence outside the range inserted last.
\<close>

theorem fld_cache_flush_for_good:
  assumes "fld_cache_ok cache" "0 \<le> fci_threshold cache"
    and "fld_cache_ok c" "fci_cache_size c = fci_cache_size (fld_cache_flush cache)"
    and "fci_threshold c = fci_threshold (fld_cache_flush cache)" "fld_admits c r (a, x)"
  shows "(\<forall>s. fld_cache_location (fld_cache_flush cache) s = None)
     \<and> (\<exists>c'. fld_cache_insert c r (Some a) (Some x) = Some (None, c')
          \<and> fci_cache_size c' = fci_cache_size (fld_cache_flush cache)
          \<and> (\<forall>s. fld_cache_location c' s \<noteq> None \<longrightarrow> lu_seq_range_within r s))"
proof
  note fs = flush_size [OF assms(1)]
  have "fci_entries_head (fld_cache_flush cache) = []"
    using shrink_zero [of "cache\<lparr> fci_cache_size := 0 \<rparr>"] assms(1,2)
    by (simp add: fld_cache_flush_def fld_cache_ok_def fld_book_def)
  then show "\<forall>s. fld_cache_location (fld_cache_flush cache) s = None"
    by (simp add: fld_cache_location_loc flush_ok [OF assms(1)])
  have z: "fci_entries_head (fld_cache_shrink c) = []"
    using shrink_zero [OF assms(3)] fs assms(2,4,5) by simp
  from fldc.ins_loc [OF assms(3,6)] obtain c' where c': "fld_insert_mem c r (a, x) = Some c'"
    "fld_cache_ok c'" "fld_loc (fci_entries_head c') = loc_override r (fld_loc [])"
    unfolding z by blast
  have "lu_seq_range_is_sane r" using assms(6) by (simp add: fld_admits_def Let_def fld_compat_def)
  moreover have "fci_cache_size c' = fci_cache_size c"
    using insert_nolock_size [OF assms(3)] c'(1) by (auto simp: fld_insert_mem_def)
  ultimately show "\<exists>c'. fld_cache_insert c r (Some a) (Some x) = Some (None, c')
          \<and> fci_cache_size c' = fci_cache_size (fld_cache_flush cache)
          \<and> (\<forall>s. fld_cache_location c' s \<noteq> None \<longrightarrow> lu_seq_range_within r s)"
    using c' assms(4)
    by (auto simp: fld_cache_insert_def fld_cache_entry_create_def fld_insert_mem_def
        fld_cache_location_loc loc_override_def split: if_splits)
qed

lemma fld_cache_flush_for_good_witness:
  "\<exists>c'. fld_cache_insert (sample_cache\<lparr> fci_cache_size := 0 \<rparr>)
        \<lparr> lsr_start = 0x300000000, lsr_end = 0x310000000, lsr_index = 1, lsr_flags = 0 \<rparr> (Some 2) (Some 3)
        = Some (None, c') \<and> fld_cache_location c' 0x200000400 = None"
proof -
  let ?r = "\<lparr> lsr_start = 0x300000000, lsr_end = 0x310000000, lsr_index = 1, lsr_flags = 0 \<rparr>"
  let ?c = "sample_cache\<lparr> fci_cache_size := 0 \<rparr>"
  have ok: "fld_cache_ok sample_cache" "fld_cache_ok ?c"
    by (simp_all add: sample_cache_def fld_cache_ok_def fld_book_def range_nonempty_def)
  have z: "fci_entries_head (fld_cache_shrink ?c) = []"
    by (rule shrink_zero [OF ok(2)]) (simp_all add: sample_cache_def)
  have "fld_admits ?c ?r (2, 3)"
    unfolding fld_admits_def Let_def z
    by (simp add: fld_compat_def range_nonempty_def fld_suffix_clash_def fld_punches_def sample_cache_def)
  from fld_cache_flush_for_good [OF ok(1) _ ok(2) _ _ this] flush_size [OF ok(1)] show ?thesis
    by (fastforce simp: sample_cache_def lu_seq_range_within_def)
qed


end
