(* ===== verification/FLD_Server.thy ===== *)
theory FLD_Server
  imports FLD_Cache_Correct
begin

text \<open>
  The FID location database on the servers (\<open>fld_index.c\<close>, \<open>fld_handler.c\<close>) and its client
  (\<open>fld_request.c\<close>). The database is an index of records under their start, stored through
  the object storage layer, with the cache of \<open>FLD_Cache\<close> in front of it; lookups go to the
  cache only, and from there to the controller (MDT0).

  Inputs of the operations: the return codes of the storage layer (record \<open>fld_dt\<close>), the
  addresses of new cache nodes, and the outcome of a remote call. The parse of the target name
  (\<open>target_name2index\<close>) is a field of the server.
\<close>

section \<open>The index\<close>

record lu_server_fld =
  lsf_cache :: fld_cache
  lsf_obj :: "u64 \<Rightarrow> lu_seq_range option"
  lsf_new :: bool
  lsf_name :: "errno + (bool \<times> u32)"
  lsf_control_exp :: bool

text \<open>What the storage layer and the allocator answer during one transaction.\<close>

record fld_dt =
  dd_rdonly :: bool
  dt_trans_create :: rc
  dt_declare_delete :: rc
  dt_declare_insert :: rc
  dt_trans_start_local :: rc
  dt_delete :: rc
  dt_insert :: rc
  dt_flde :: "nat option"
  dt_fldt :: "nat option"

definition IGIF_FLD_RANGE :: lu_seq_range where
  "IGIF_FLD_RANGE = \<lparr> lsr_start = FID_SEQ_IGIF, lsr_end = FID_SEQ_IGIF_MAX + 1,
                      lsr_index = 0, lsr_flags = LU_SEQ_RANGE_MDT \<rparr>"

definition DOT_LUSTRE_FLD_RANGE :: lu_seq_range where
  "DOT_LUSTRE_FLD_RANGE = \<lparr> lsr_start = FID_SEQ_DOT_LUSTRE, lsr_end = FID_SEQ_DOT_LUSTRE + 1,
                            lsr_index = 0, lsr_flags = LU_SEQ_RANGE_MDT \<rparr>"

definition ROOT_FLD_RANGE :: lu_seq_range where
  "ROOT_FLD_RANGE = \<lparr> lsr_start = FID_SEQ_ROOT, lsr_end = FID_SEQ_ROOT + 1,
                      lsr_index = 0, lsr_flags = LU_SEQ_RANGE_MDT \<rparr>"

text \<open>
  \<open>fld_index_lookup fld seq range\<close> returns the code, the new content of the caller's \<open>range\<close>,
  and the server (the cache counts its lookups). The cache writes to a scratch record, which
  is copied to \<open>range\<close> when the cache reports success.
\<close>

definition fld_index_lookup ::
    "lu_server_fld \<Rightarrow> u64 \<Rightarrow> lu_seq_range \<Rightarrow> rc \<times> lu_seq_range \<times> lu_server_fld" where
  "fld_index_lookup fld seq r =
     (case fld_cache_lookup (lsf_cache fld) seq lu_seq_range_init of
        (rc, fld_rec, cache) \<Rightarrow>
          let fld = fld\<lparr> lsf_cache := cache \<rparr> in
          (case rc of
             None \<Rightarrow> ((if lu_seq_range_within fld_rec seq then None else Some ENOENT), fld_rec, fld)
           | Some e \<Rightarrow> (Some e, r, fld)))"

definition fld_declare_index_create ::
    "fld_dt \<Rightarrow> lu_server_fld \<Rightarrow> lu_seq_range \<Rightarrow> (rc \<times> lu_server_fld) option" where
  "fld_declare_index_create dt fld new_range =
     (case fld_index_lookup fld (lsr_start new_range) lu_seq_range_init of
        (None, r, fld) \<Rightarrow> do {
          LASSERT (\<not> lu_seq_range_compare_loc new_range r);
          Some (Some EEXIST, fld)
        }
      | (Some e, r, fld) \<Rightarrow>
          if e \<noteq> ENOENT then Some (Some e, fld)
          else if lsr_start new_range = lsr_end r \<and> lsr_end r \<noteq> 0
                  \<and> \<not> lu_seq_range_compare_loc new_range r
          then (case dt_declare_delete dt of
                  Some e \<Rightarrow> Some (Some e, fld)
                | None \<Rightarrow> Some (dt_declare_insert dt, fld))
          else Some (dt_declare_insert dt, fld))"

definition fld_index_create ::
    "fld_dt \<Rightarrow> lu_server_fld \<Rightarrow> lu_seq_range \<Rightarrow> (rc \<times> lu_server_fld) option" where
  "fld_index_create dt fld new_range =
     (case fld_index_lookup fld (lsr_start new_range) lu_seq_range_init of
        (None, r, fld) \<Rightarrow> Some (Some EEXIST, fld)
      | (Some e, r, fld) \<Rightarrow>
          if e \<noteq> ENOENT then Some (Some e, fld)
          else
            let merge = (lsr_start new_range = lsr_end r \<and> lsr_end r \<noteq> 0
                         \<and> \<not> lu_seq_range_compare_loc new_range r)
            in if merge \<and> dt_delete dt \<noteq> None then Some (dt_delete dt, fld)
            else
              let fld = (if merge then fld\<lparr> lsf_obj := (lsf_obj fld)(lsr_start r := None) \<rparr> else fld);
                  tmp = (if merge then new_range\<lparr> lsr_start := lsr_start r \<rparr> else new_range)
              in case dt_insert dt of
                   Some e \<Rightarrow> Some (Some e, fld)
                 | None \<Rightarrow> do {
                     let fld = fld\<lparr> lsf_obj := (lsf_obj fld)(lsr_start tmp := Some tmp) \<rparr>;
                     flde \<leftarrow> fld_cache_entry_create new_range (dt_flde dt);
                     case flde of
                       Inl e \<Rightarrow> Some (Some e, fld)
                     | Inr flde \<Rightarrow> do {
                         let cache = (if merge
                                      then fld_cache_delete_nolock (lsf_cache fld) new_range
                                      else lsf_cache fld);
                         cache \<leftarrow> fld_cache_insert_nolock cache flde (dt_fldt dt);
                         Some (None, fld\<lparr> lsf_cache := cache \<rparr>)
                       }
                   })"

definition fld_insert_entry ::
    "fld_dt \<Rightarrow> lu_server_fld \<Rightarrow> lu_seq_range \<Rightarrow> (rc \<times> lu_server_fld) option" where
  "fld_insert_entry dt fld r =
     (if dd_rdonly dt then Some (None, fld)
      else if dt_trans_create dt \<noteq> None then Some (dt_trans_create dt, fld)
      else do {
        (rc, fld) \<leftarrow> fld_declare_index_create dt fld r;
        if rc \<noteq> None then Some (if rc = Some EEXIST then None else rc, fld)
        else if dt_trans_start_local dt \<noteq> None then Some (dt_trans_start_local dt, fld)
        else do {
          (rc, fld) \<leftarrow> fld_index_create dt fld r;
          Some (if rc = Some EEXIST then None else rc, fld)
        }
      })"

text \<open>The three special entries, each in a transaction of its own.\<close>

definition fld_insert_special_entries ::
    "fld_dt \<Rightarrow> fld_dt \<Rightarrow> fld_dt \<Rightarrow> lu_server_fld \<Rightarrow> (rc \<times> lu_server_fld) option" where
  "fld_insert_special_entries dt1 dt2 dt3 fld = do {
     (rc, fld) \<leftarrow> fld_insert_entry dt1 fld IGIF_FLD_RANGE;
     if rc \<noteq> None then Some (rc, fld)
     else do {
       (rc, fld) \<leftarrow> fld_insert_entry dt2 fld DOT_LUSTRE_FLD_RANGE;
       if rc \<noteq> None then Some (rc, fld)
       else fld_insert_entry dt3 fld ROOT_FLD_RANGE
     }
   }"

text \<open>
  Loading the index into the cache at start-up (the loop of \<open>fld_index_init\<close>): the list is what
  the iterator delivers, a record or an error, with the nodes the allocator hands out. The
  result is the code, the cache, and the number of ranges loaded.
\<close>

fun fld_index_load ::
    "fld_cache \<Rightarrow> ((errno + lu_seq_range) \<times> nat option \<times> nat option) list
       \<Rightarrow> (rc \<times> fld_cache \<times> nat) option" where
  "fld_index_load cache [] = Some (None, cache, 0)"
| "fld_index_load cache ((Inl e, _, _) # it) = Some (Some e, cache, 0)"
| "fld_index_load cache ((Inr r, a, x) # it) =
     (if lsr_start r < lsr_end r then do {
        (rc, cache) \<leftarrow> fld_cache_insert cache r a x;
        if rc \<noteq> None then Some (rc, cache, 0)
        else do {
          (rc, cache, n) \<leftarrow> fld_index_load cache it;
          Some (rc, cache, n + 1)
        }
      } else fld_index_load cache it)"

text \<open>
  Reading the records of one server (the loop of \<open>fld_server_read\<close>): \<open>it\<close> is what the iterator
  delivers from the start position, \<open>n\<close> the number of records already in the reply and \<open>cap\<close>
  the size of the reply page. The result is the code and the records added.
\<close>

fun fld_server_read_loop ::
    "lu_seq_range \<Rightarrow> nat \<Rightarrow> nat \<Rightarrow> (errno + lu_seq_range) list \<Rightarrow> rc \<times> lu_seq_range list" where
  "fld_server_read_loop r data_len n [] = (None, [])"
| "fld_server_read_loop r data_len n (Inl e # it) = (Some e, [])"
| "fld_server_read_loop r data_len n (Inr entry # it) =
     (if 8 + 24 * (n + 1) > data_len then (Some EAGAIN, [])
      else if lsr_index entry = lsr_index r \<and> lsr_flags entry = lsr_flags r
              \<and> lsr_start entry > lsr_start r
      then (case fld_server_read_loop r data_len (n + 1) it of (rc, l) \<Rightarrow> (rc, entry # l))
      else fld_server_read_loop r data_len n it)"

section \<open>The server\<close>

definition fld_server_create ::
    "fld_dt \<Rightarrow> lu_server_fld \<Rightarrow> lu_seq_range \<Rightarrow> (rc \<times> lu_server_fld) option" where
  "fld_server_create dt fld r = fld_index_create dt fld r"

definition fld_declare_server_create ::
    "fld_dt \<Rightarrow> lu_server_fld \<Rightarrow> lu_seq_range \<Rightarrow> (rc \<times> lu_server_fld) option" where
  "fld_declare_server_create dt fld r = fld_declare_index_create dt fld r"

definition fld_local_lookup ::
    "lu_server_fld \<Rightarrow> u64 \<Rightarrow> lu_seq_range \<Rightarrow> rc \<times> lu_seq_range \<times> lu_server_fld" where
  "fld_local_lookup fld seq r =
     (case fld_cache_lookup (lsf_cache fld) seq lu_seq_range_init of
        (rc, erange, cache) \<Rightarrow>
          let fld = fld\<lparr> lsf_cache := cache \<rparr> in
          (case rc of
             None \<Rightarrow>
               if fld_range_type erange \<noteq> fld_range_type r \<and> \<not> fld_range_is_any r
               then (Some EIO, r, fld)
               else (None, erange, fld)
           | Some e \<Rightarrow> (Some e, r, fld)))"

text \<open>
  A remote call: the state of the import, and what comes back from \<open>ptlrpc_queue_wait\<close> for a
  request, with the fields of the reply that the callers read.
\<close>

record fld_import =
  imp_closed :: bool
  imp_deactive :: bool
  imp_mds_mds :: bool
  imp_lightweight :: bool

record fld_answer =
  fa_rc :: rc
  fa_range :: "lu_seq_range option"
  fa_lsra :: "lu_seq_range list option"

datatype fld_op = FLD_QUERY | FLD_READ | FLD_OTHER

text \<open>
  \<open>fld_client_rpc imp alloc answer range op\<close> returns the code, the caller's range, and the request
  handed back through \<open>reqp\<close> (the callers that pass no \<open>reqp\<close> drop it). \<open>alloc\<close> tells whether
  a request could be allocated. Fault injection is off.
\<close>

definition fld_client_rpc ::
    "fld_import \<Rightarrow> bool \<Rightarrow> (lu_seq_range \<Rightarrow> fld_answer) \<Rightarrow> lu_seq_range \<Rightarrow> fld_op
       \<Rightarrow> rc \<times> lu_seq_range \<times> fld_answer option" where
  "fld_client_rpc imp alloc answer r opc =
     (if opc = FLD_OTHER then (Some EINVAL, r, None)
      else if \<not> alloc then (Some ENOMEM, r, None)
      else
        let req = answer r; rc = fa_rc req in
        if rc = Some ENOENT then (rc, r, None)
        else if rc \<noteq> None then
          (if \<not> imp_closed imp \<and> \<not> imp_deactive imp \<and> imp_mds_mds imp \<and> imp_lightweight imp
              \<and> rc \<noteq> Some ENOTSUPP
           then (Some EAGAIN, r, None) else (rc, r, None))
        else if opc = FLD_QUERY then
          (case fa_range req of
             None \<Rightarrow> (Some EFAULT, r, None)
           | Some prange \<Rightarrow> (None, prange, Some req))
        else (None, r, Some req))"

text \<open>\<open>lsf_name\<close> holds the outcome of \<open>fld_name_to_index\<close>: whether the target is an MDT, and its index.\<close>

definition fld_server_lookup ::
    "fld_import \<Rightarrow> bool \<Rightarrow> (lu_seq_range \<Rightarrow> fld_answer) \<Rightarrow> nat option \<Rightarrow> nat option
       \<Rightarrow> lu_server_fld \<Rightarrow> u64 \<Rightarrow> lu_seq_range \<Rightarrow> (rc \<times> lu_seq_range \<times> lu_server_fld) option" where
  "fld_server_lookup imp alloc answer flde fldt fld seq r =
     (case fld_local_lookup fld seq r of
        (None, r, fld) \<Rightarrow> Some (None, r, fld)
      | (Some _, r, fld) \<Rightarrow>
          (case lsf_name fld of
             Inl e \<Rightarrow> Some (Some e, r, fld)
           | Inr (is_mdt, index) \<Rightarrow>
               if index = 0 \<and> is_mdt then Some (Some ENOENT, r, fld)
               else if \<not> lsf_control_exp fld then Some (Some EIO, r, fld)
               else
                 case fld_client_rpc imp alloc answer (r\<lparr> lsr_start := seq \<rparr>) FLD_QUERY of
                   (Some e, r, _) \<Rightarrow> Some (Some e, r, fld)
                 | (None, r, _) \<Rightarrow> do {
                     (_, cache) \<leftarrow> fld_cache_insert (lsf_cache fld) r flde fldt;
                     Some (None, r, fld\<lparr> lsf_cache := cache \<rparr>)
                   }))"

fun fld_update_entries ::
    "u32 \<Rightarrow> lu_server_fld \<Rightarrow> (lu_seq_range \<times> fld_dt) list \<Rightarrow> (rc \<times> lu_server_fld) option" where
  "fld_update_entries index fld [] = Some (None, fld)"
| "fld_update_entries index fld ((r, dt) # rs) =
     (if lsr_flags r \<noteq> LU_SEQ_RANGE_MDT then Some (Some EINVAL, fld)
      else if lsr_index r \<noteq> index then Some (Some EINVAL, fld)
      else do {
        (rc1, fld) \<leftarrow> fld_insert_entry dt fld r;
        if rc1 \<noteq> None then Some (rc1, fld) else fld_update_entries index fld rs
      })"

text \<open>
  The rounds of \<open>fld_update_from_controller\<close>, one per element of the list of what the controller
  answers, each with the answers of the storage layer for the records of that round. When the
  list is used up the code of the last round is returned.
\<close>

fun fld_update_rounds ::
    "fld_import \<Rightarrow> u32 \<Rightarrow> lu_seq_range \<Rightarrow> lu_server_fld
       \<Rightarrow> (bool \<times> (lu_seq_range \<Rightarrow> fld_answer) \<times> (nat \<Rightarrow> fld_dt)) list \<Rightarrow> (rc \<times> lu_server_fld) option" where
  "fld_update_rounds imp index r fld [] = Some (Some EAGAIN, fld)"
| "fld_update_rounds imp index r fld ((alloc, answer, dts) # rounds) =
     (case fld_client_rpc imp alloc answer r FLD_READ of
        (rc, r, req) \<Rightarrow>
          if rc \<noteq> None \<and> rc \<noteq> Some EAGAIN then Some (rc, fld)
          else do {
            LASSERT (req \<noteq> None);
            case fa_lsra (the req) of
              None \<Rightarrow> Some (Some EPROTO, fld)
            | Some lsra \<Rightarrow> do {
                (rc1, fld) \<leftarrow> fld_update_entries index fld (zip lsra (map dts [0..<length lsra]));
                if rc1 \<noteq> None then Some (rc1, fld)
                else if rc = Some EAGAIN then fld_update_rounds imp index (last lsra) fld rounds
                else Some (None, fld\<lparr> lsf_new := True \<rparr>)
              }
          })"

definition fld_update_from_controller ::
    "fld_import \<Rightarrow> (bool \<times> (lu_seq_range \<Rightarrow> fld_answer) \<times> (nat \<Rightarrow> fld_dt)) list
       \<Rightarrow> lu_server_fld \<Rightarrow> (rc \<times> lu_server_fld) option" where
  "fld_update_from_controller imp rounds fld =
     (if \<not> lsf_new fld then Some (None, fld)
      else case lsf_name fld of
        Inl e \<Rightarrow> Some (Some e, fld)
      | Inr (_, index) \<Rightarrow>
          if index = 0 then Some (None, fld)
          else fld_update_rounds imp index
                 (fld_range_set_mdt (lu_seq_range_init\<lparr> lsr_index := index \<rparr>)) fld rounds)"

section \<open>The client\<close>

record lu_fld_target =
  ft_idx :: u64
  ft_srv :: bool

record lu_client_fld =
  lcf_targets :: "lu_fld_target list"
  lcf_count :: int
  lcf_cache :: fld_cache

definition fld_rrb_hash :: "lu_client_fld \<Rightarrow> u64 \<Rightarrow> int option" where
  "fld_rrb_hash fld seq = do {
     LASSERT (lcf_count fld > 0);
     Some (uint seq mod lcf_count fld)
   }"

definition fld_rrb_scan :: "lu_client_fld \<Rightarrow> u64 \<Rightarrow> lu_fld_target option" where
  "fld_rrb_scan fld seq = do {
     hash \<leftarrow> (if fid_seq_is_norm seq then fld_rrb_hash fld seq else Some 0);
     case find (\<lambda>t. ft_idx t = word_of_int hash) (lcf_targets fld) of
       Some t \<Rightarrow> Some t
     | None \<Rightarrow>
         if hash \<noteq> 0 then find (\<lambda>t. ft_idx t = 0) (lcf_targets fld)
         else None
   }"

definition fld_client_add_target ::
    "bool \<Rightarrow> lu_client_fld \<Rightarrow> lu_fld_target \<Rightarrow> rc \<times> lu_client_fld" where
  "fld_client_add_target alloc fld tar =
     (if \<not> alloc then (Some ENOMEM, fld)
      else if \<exists>t\<in>set (lcf_targets fld). ft_idx t = ft_idx tar then (Some EEXIST, fld)
      else (None, fld\<lparr> lcf_targets := lcf_targets fld @ [tar], lcf_count := lcf_count fld + 1 \<rparr>))"

fun del_target :: "u64 \<Rightarrow> lu_fld_target list \<Rightarrow> lu_fld_target list option" where
  "del_target idx [] = None"
| "del_target idx (t # ts) = (if ft_idx t = idx then Some ts else map_option ((#) t) (del_target idx ts))"

definition fld_client_del_target :: "lu_client_fld \<Rightarrow> u64 \<Rightarrow> rc \<times> lu_client_fld" where
  "fld_client_del_target fld idx =
     (case del_target idx (lcf_targets fld) of
        Some ts \<Rightarrow> (None, fld\<lparr> lcf_count := lcf_count fld - 1, lcf_targets := ts \<rparr>)
      | None \<Rightarrow> (Some ENOENT, fld))"



section \<open>Lemmas\<close>

lemma shrink_loop_stat:
  "fld_cache_shrink_loop (c\<lparr> fst_count := n \<rparr>) = (fld_cache_shrink_loop c)\<lparr> fst_count := n \<rparr>"
proof (induction c rule: fld_cache_shrink_loop.induct)
  case (1 c)
  have d: "fld_cache_entry_delete (c\<lparr> fst_count := n \<rparr>) k = (fld_cache_entry_delete c k)\<lparr> fst_count := n \<rparr>" for k
    by (simp add: fld_cache_entry_delete_def)
  show ?case
  proof (cases "fci_cache_count c + fci_threshold c > fci_cache_size c \<and> fci_lru c \<noteq> []")
    case True
    with "1.IH" show ?thesis
      by (subst (1 2) fld_cache_shrink_loop.simps) (simp add: d)
  next
    case False
    then show ?thesis by (subst (1 2) fld_cache_shrink_loop.simps) auto
  qed
qed

lemma shrink_stat [simp]:
  "fci_entries_head (fld_cache_shrink (c\<lparr> fst_count := n \<rparr>)) = fci_entries_head (fld_cache_shrink c)"
  by (simp add: fld_cache_shrink_def shrink_loop_stat)

lemma admits_stat [simp]: "fld_admits (c\<lparr> fst_count := n \<rparr>) r m \<longleftrightarrow> fld_admits c r m"
  by (simp add: fld_admits_def Let_def)

lemma ok_stat [simp]: "fld_cache_ok (c\<lparr> fst_count := n \<rparr>) \<longleftrightarrow> fld_cache_ok c"
  by (simp add: fld_cache_ok_def fld_book_def)



lemma location_miss:
  "fld_cache_location c s = None \<Longrightarrow> \<exists>r. fld_cache_lookup c s r0 = (Some ENOENT, r, c\<lparr> fst_count := fst_count c + 1 \<rparr>)"
  by (auto simp: fld_cache_location_def fld_cache_lookup_def Let_def split: prod.splits option.splits if_splits)

lemma index_lookup_miss:
  "fld_cache_location (lsf_cache fld) s = None \<Longrightarrow>
     fld_index_lookup fld s r = (Some ENOENT, r, fld\<lparr> lsf_cache := (lsf_cache fld)\<lparr> fst_count := fst_count (lsf_cache fld) + 1 \<rparr> \<rparr>)"
  using location_miss [of "lsf_cache fld" s lu_seq_range_init] by (auto simp: fld_index_lookup_def)

lemma ok_stat2 [simp]: "fld_cache_ok (c\<lparr> fst_cache := n \<rparr>) \<longleftrightarrow> fld_cache_ok c"
  by (simp add: fld_cache_ok_def fld_book_def)

lemma location_stat [simp]:
  "fld_cache_location (c\<lparr> fst_count := n \<rparr>) s = fld_cache_location c s"
  "fld_cache_location (c\<lparr> fst_cache := n \<rparr>) s = fld_cache_location c s"
  by (auto simp: fld_cache_location_def fld_cache_lookup_def Let_def split: prod.splits)



lemma rrb_scan_cache [simp]: "fld_rrb_scan (fld\<lparr> lcf_cache := c \<rparr>) seq = fld_rrb_scan fld seq"
  by (simp add: fld_rrb_scan_def fld_rrb_hash_def cong: if_cong option.case_cong)

lemma read_loop_full:
  "n \<le> 170 \<Longrightarrow> n + length (filter (\<lambda>e. lsr_index e = lsr_index r \<and> lsr_flags e = lsr_flags r
       \<and> lsr_start e > lsr_start r) recs) > 170 \<Longrightarrow>
     fst (fld_server_read_loop r 4096 n (map Inr recs)) = Some EAGAIN"
proof (induction recs arbitrary: n)
  case (Cons e recs)
  show ?case
  proof (cases "n = 170")
    case False
    with Cons.prems have "n + 1 \<le> 170" by simp
    with Cons.IH [of "n + 1"] Cons.IH [of n] Cons.prems show ?thesis by (auto split: prod.splits)
  qed simp
qed simp

section \<open>Properties\<close>







text \<open>
  C15. A range that is new to the server is added to the database index under its own start, as
  it is, and overrides its sequences in the cache; the merge with the range on its left, which
  the comments announce, never happens, because a lookup that finds nothing leaves the
  caller's range empty instead of setting it to the left neighbour.
\<close>

theorem fld_index_create_new:
  assumes "fld_cache_ok (lsf_cache fld)" "fld_cache_location (lsf_cache fld) (lsr_start r) = None"
    and "dt_insert dt = None" "dt_flde dt = Some a" "dt_fldt dt = Some x" "fld_admits (lsf_cache fld) r (a, x)"
  shows "\<exists>fld'. fld_index_create dt fld r = Some (None, fld')
     \<and> lsf_obj fld' = (lsf_obj fld)(lsr_start r := Some r)
     \<and> fld_cache_ok (lsf_cache fld')
     \<and> (\<forall>s. fld_cache_location (lsf_cache fld') s =
          (if lu_seq_range_within r s then Some (range_loc r)
           else fld_cache_location (fld_cache_shrink (lsf_cache fld)) s))"
proof -
  let ?c = "(lsf_cache fld)\<lparr> fst_count := fst_count (lsf_cache fld) + 1 \<rparr>"
  have sane: "lu_seq_range_is_sane r" using assms(6) by (simp add: fld_admits_def Let_def fld_compat_def)
  from fldc.ins_loc [of ?c r "(a, x)"] assms(1,6) obtain c' where
    c': "fld_insert_mem ?c r (a, x) = Some c'" "fld_cache_ok c'"
      "fld_loc (fci_entries_head c') = loc_override r (fld_loc (fci_entries_head (fld_cache_shrink (lsf_cache fld))))"
    by auto
  then show ?thesis
    using index_lookup_miss [OF assms(2), of lu_seq_range_init] assms(1,3,4,5) sane fldc.evict_inv [OF assms(1)]
    by (auto simp: fld_index_create_def lu_seq_range_init_def fld_cache_entry_create_def fld_insert_mem_def Let_def
       fld_cache_location_loc loc_override_def)
qed

lemma fld_index_create_new_witness:
  "\<exists>fld'. fld_index_create \<lparr> dd_rdonly = False, dt_trans_create = None, dt_declare_delete = None,
        dt_declare_insert = None, dt_trans_start_local = None, dt_delete = None, dt_insert = None,
        dt_flde = Some 2, dt_fldt = Some 3 \<rparr>
      \<lparr> lsf_cache = sample_cache, lsf_obj = Map.empty, lsf_new = False, lsf_name = Inr (True, 0),
        lsf_control_exp = False \<rparr>
      \<lparr> lsr_start = 0x240000400, lsr_end = 0x280000400, lsr_index = 0, lsr_flags = 0 \<rparr> = Some (None, fld')
    \<and> lsf_obj fld' = [0x240000400 \<mapsto>
        \<lparr> lsr_start = 0x240000400, lsr_end = 0x280000400, lsr_index = 0, lsr_flags = 0 \<rparr>]"
proof -
  let ?f = "\<lparr> lsf_cache = sample_cache, lsf_obj = Map.empty, lsf_new = False, lsf_name = Inr (True, 0),
        lsf_control_exp = False \<rparr>"
  let ?r = "\<lparr> lsr_start = 0x240000400, lsr_end = 0x280000400, lsr_index = 0, lsr_flags = 0 \<rparr> :: lu_seq_range"
  have "fld_cache_ok (lsf_cache ?f)" "fld_cache_location (lsf_cache ?f) (lsr_start ?r) = None"
    "fld_admits (lsf_cache ?f) ?r (2, 3)"
    by (simp_all add: sample_cache_def fld_cache_ok_def fld_book_def range_nonempty_def fld_cache_location_def
        fld_cache_lookup_def lu_seq_range_within_def fld_admits_def fld_compat_def fld_suffix_clash_def
        fld_punches_def fld_cache_shrink_def)
  from fld_index_create_new [OF this(1,2) _ _ _ this(3), of "\<lparr> dd_rdonly = False, dt_trans_create = None,
      dt_declare_delete = None, dt_declare_insert = None, dt_trans_start_local = None, dt_delete = None,
      dt_insert = None, dt_flde = Some 2, dt_fldt = Some 3 \<rparr>"]
  show ?thesis by auto
qed

text \<open>
  C22. A new metadata server stops when it fetches its part of the database and the controller
  holds more ranges for it than fit into one reply page: the controller then answers
  \<open>EAGAIN\<close>, for which the call hands back no request, and the assertion on the request fails
  before the next page could be asked for.
\<close>

theorem fld_update_full_page_asserts:
  assumes "lsf_new fld" "lsf_name fld = Inr (True, index)" "index \<noteq> 0"
    and "length (filter (\<lambda>e. lsr_index e = index \<and> lsr_flags e = LU_SEQ_RANGE_MDT \<and> lsr_start e > 0) recs) > 170"
    and "\<And>r. fa_rc (answer r) = fst (fld_server_read_loop r 4096 0 (map Inr recs))"
  shows "fld_update_from_controller imp ((True, answer, dts) # rounds) fld = None"
proof -
  let ?r = "fld_range_set_mdt (lu_seq_range_init\<lparr> lsr_index := index \<rparr>)"
  have "lsr_index ?r = index" "lsr_flags ?r = 0" "lsr_start ?r = 0"
    by (simp_all add: fld_range_set_mdt_def fld_range_set_type_def lu_seq_range_init_def)
  with read_loop_full [of 0 ?r recs] assms(4,5) have "fa_rc (answer ?r) = Some EAGAIN" by simp
  then have "fld_client_rpc imp True answer ?r FLD_READ = (Some EAGAIN, ?r, None)"
    by (simp add: fld_client_rpc_def Let_def)
  with assms(1-3) show ?thesis by (simp add: fld_update_from_controller_def)
qed

lemma fld_update_full_page_asserts_witness:
  "fld_update_from_controller \<lparr> imp_closed = False, imp_deactive = False, imp_mds_mds = True, imp_lightweight = True \<rparr>
     [(True, \<lambda>r. \<lparr> fa_rc = fst (fld_server_read_loop r 4096 0 (map Inr (replicate 171
            \<lparr> lsr_start = 0x200000400, lsr_end = 0x240000400, lsr_index = 1, lsr_flags = 0 \<rparr>))),
          fa_range = None, fa_lsra = None \<rparr>, \<lambda>_. undefined)]
     \<lparr> lsf_cache = sample_cache, lsf_obj = Map.empty, lsf_new = True, lsf_name = Inr (True, 1),
       lsf_control_exp = True \<rparr> = None"
  by (rule fld_update_full_page_asserts [where index = 1 and
        recs = "replicate 171 \<lparr> lsr_start = 0x200000400, lsr_end = 0x240000400, lsr_index = 1, lsr_flags = 0 \<rparr>"])
     simp_all


end
