(* ===== verification/Seq_Alloc.thy ===== *)
theory Seq_Alloc
  imports FLD_Server
begin

text \<open>
  Allocation of sequences and identifiers: the sequence controller and the sequence servers
  (\<open>fid_handler.c\<close>), their backing store (\<open>fid_store.c\<close>), and the client (\<open>fid_request.c\<close>).
  The controller hands out super-sequences to the servers, a server hands out sequences to its
  clients, and a client numbers identifiers within a sequence. This theory holds the
  definitions; \<open>Seq_Unique\<close> proves that nothing is handed out twice.

  The file in which a server keeps its space is modelled with the journal of the storage layer:
  \<open>st_disk\<close> is what survives a crash, \<open>st_jrnl\<close> are the writes of transactions that are not
  committed yet, in order, each with a flag telling whether the commit callback
  \<open>seq_update_cb\<close> is registered with it. The return codes of the storage layer are inputs
  (record \<open>seq_dt\<close>), as are the answers of remote nodes.
\<close>

section \<open>State\<close>

datatype lu_cli_type = LUSTRE_SEQ_METADATA | LUSTRE_SEQ_DATA
datatype lu_mgr_type = LUSTRE_SEQ_SERVER | LUSTRE_SEQ_CONTROLLER

definition LUSTRE_METADATA_SEQ_MAX_WIDTH :: u64
  where [simp]: "LUSTRE_METADATA_SEQ_MAX_WIDTH = 0x20000"
definition LUSTRE_DATA_SEQ_MAX_WIDTH :: u64
  where [simp]: "LUSTRE_DATA_SEQ_MAX_WIDTH = 0xFFFFFFFF"
definition LUSTRE_SEQ_META_WIDTH :: u64 where [simp]: "LUSTRE_SEQ_META_WIDTH = 1"
definition LUSTRE_SEQ_BATCH_WIDTH :: u64
  where [simp]: "LUSTRE_SEQ_BATCH_WIDTH = LUSTRE_SEQ_META_WIDTH * 1000"
definition LUSTRE_SEQ_SUPER_WIDTH :: u64
  where [simp]: "LUSTRE_SEQ_SUPER_WIDTH = push_bit 30 1 * LUSTRE_SEQ_META_WIDTH"

record lu_client_seq =
  lcs_exp :: bool
  lcs_space :: lu_seq_range
  lcs_fid :: lu_fid
  lcs_type :: lu_cli_type
  lcs_width :: u64
  lcs_srv :: bool

record seq_store =
  st_disk :: "lu_seq_range option"
  st_jrnl :: "(lu_seq_range \<times> bool) list"

record lu_server_seq =
  lss_space :: lu_seq_range
  lss_lowater_set :: lu_seq_range
  lss_hiwater_set :: lu_seq_range
  lss_obj :: seq_store
  lss_type :: lu_mgr_type
  lss_cli :: "lu_client_seq option"
  lss_width :: u64
  lss_set_width :: u64
  lss_need_sync :: bool
  ss_node_id :: u32
  ss_server_fld :: lu_server_fld

text \<open>What the storage layer answers during one \<open>seq_store_update\<close>.\<close>

record seq_dt =
  sd_rdonly :: bool
  sd_trans_create :: rc
  sd_declare_write :: rc
  sd_trans_start :: rc
  sd_write :: rc
  sd_cb_alloc :: bool
  sd_cb_add :: rc
  sd_fld :: fld_dt

section \<open>The backing store\<close>

text \<open>
  The transaction at the head of the journal, \<open>n\<close> of them, reach the disk; their callbacks
  (\<open>seq_update_cb\<close>) clear \<open>lss_need_sync\<close>.
\<close>

definition seq_commit :: "nat \<Rightarrow> lu_server_seq \<Rightarrow> lu_server_seq" where
  "seq_commit n seq =
     (let ws = take n (st_jrnl (lss_obj seq)) in
      seq\<lparr> lss_obj := \<lparr> st_disk = (if ws = [] then st_disk (lss_obj seq) else Some (fst (last ws))),
                        st_jrnl = drop n (st_jrnl (lss_obj seq)) \<rparr>,
           lss_need_sync := (if \<exists>w\<in>set ws. snd w then False else lss_need_sync seq) \<rparr>)"

definition seq_journal :: "lu_server_seq \<Rightarrow> bool \<Rightarrow> lu_server_seq" where
  "seq_journal seq cb = seq\<lparr> lss_obj := (lss_obj seq)
     \<lparr> st_jrnl := st_jrnl (lss_obj seq) @ [(lss_space seq, cb)] \<rparr> \<rparr>"

text \<open>
  \<open>seq_update_cb_add\<close>: \<open>(failed, seq)\<close>. The flag \<open>lss_need_sync\<close> is set before the callback is
  handed to the storage layer.
\<close>

definition seq_update_cb_add :: "seq_dt \<Rightarrow> lu_server_seq \<Rightarrow> bool \<times> lu_server_seq" where
  "seq_update_cb_add dt seq =
     (if \<not> sd_cb_alloc dt then (True, seq)
      else (sd_cb_add dt \<noteq> None, seq\<lparr> lss_need_sync := True \<rparr>))"

text \<open>
  \<open>seq_store_update dt seq out sync\<close>. A transaction that is stopped after the write is in the
  journal even if it ends with an error; a synchronous one is committed with everything
  before it.
\<close>

definition seq_store_update ::
    "seq_dt \<Rightarrow> lu_server_seq \<Rightarrow> lu_seq_range option \<Rightarrow> bool \<Rightarrow> (rc \<times> lu_server_seq) option" where
  "seq_store_update dt seq out sync =
     (if sd_rdonly dt then Some (None, seq)
      else if sd_trans_create dt \<noteq> None then Some (sd_trans_create dt, seq)
      else if sd_declare_write dt \<noteq> None then Some (sd_declare_write dt, seq)
      else do {
        (rc, seq) \<leftarrow> (case out of
            None \<Rightarrow> Some (None, seq)
          | Some r \<Rightarrow> do {
              (rc, fld) \<leftarrow> fld_declare_server_create (sd_fld dt) (ss_server_fld seq) r;
              Some (rc, seq\<lparr> ss_server_fld := fld \<rparr>)
            });
        if rc \<noteq> None then Some (rc, seq)
        else if sd_trans_start dt \<noteq> None then Some (sd_trans_start dt, seq)
        else if sd_write dt \<noteq> None then Some (sd_write dt, seq)
        else do {
          (rc, seq) \<leftarrow> (case out of
              None \<Rightarrow> Some (None, seq)
            | Some r \<Rightarrow> do {
                (rc, fld) \<leftarrow> fld_server_create (sd_fld dt) (ss_server_fld seq) r;
                Some (rc, seq\<lparr> ss_server_fld := fld \<rparr>)
              });
          if rc \<noteq> None then Some (rc, seq_journal seq False)
          else
            let (sync, cb, seq) =
                  (if sync then (True, False, seq)
                   else case seq_update_cb_add dt seq of (failed, seq) \<Rightarrow> (failed, \<not> failed, seq));
                seq = seq_journal seq cb
            in Some (None, if sync then seq_commit (length (st_jrnl (lss_obj seq))) seq else seq)
        }
      })"

text \<open>\<open>seq_store_read\<close>: \<open>err\<close> is an error of \<open>dt_read\<close>, or a short read reported as \<open>EIO\<close>.\<close>

definition seq_store_read :: "rc \<Rightarrow> lu_server_seq \<Rightarrow> rc \<times> lu_server_seq" where
  "seq_store_read err seq =
     (case err of
        Some e \<Rightarrow> (Some e, seq)
      | None \<Rightarrow>
          (case st_disk (lss_obj seq) of
             None \<Rightarrow> (Some ENODATA, seq)
           | Some r \<Rightarrow> (None, seq\<lparr> lss_space := r \<rparr>)))"

section \<open>The controller\<close>

text \<open>
  The allocation functions return the code, the new content of \<open>*out\<close>, and the server.
\<close>

definition seq_server_alloc_super ::
    "seq_dt \<Rightarrow> lu_server_seq \<Rightarrow> lu_seq_range \<Rightarrow> (rc \<times> lu_seq_range \<times> lu_server_seq) option" where
  "seq_server_alloc_super dt seq out = do {
     LASSERT (lu_seq_range_is_sane (lss_space seq));
     if lu_seq_range_is_exhausted (lss_space seq) then Some (Some ENOSPC, out, seq)
     else do {
       let (out, space) = range_alloc out (lss_space seq) (lss_width seq);
       (rc, seq) \<leftarrow> seq_store_update dt (seq\<lparr> lss_space := space \<rparr>) (Some out) True;
       Some (rc, out, seq)
     }
   }"

definition seq_server_alloc_spec ::
    "seq_dt \<Rightarrow> lu_server_seq \<Rightarrow> lu_seq_range \<Rightarrow> (rc \<times> lu_server_seq) option" where
  "seq_server_alloc_spec dt seq spec =
     (if lsr_start spec \<ge> lsr_end spec then Some (Some EINVAL, seq)
      else if lsr_flags spec \<noteq> LU_SEQ_RANGE_MDT \<and> lsr_flags spec \<noteq> LU_SEQ_RANGE_OST
      then Some (Some EINVAL, seq)
      else if lsr_start spec \<ge> lsr_start (lss_space seq) then
        seq_store_update dt (seq\<lparr> lss_space := (lss_space seq)\<lparr> lsr_start := lsr_end spec \<rparr> \<rparr>)
          (Some spec) True
      else Some (Some ENOSPC, seq))"

section \<open>The sequence client of a server\<close>

datatype seq_op = SEQ_ALLOC_SUPER | SEQ_ALLOC_META

text \<open>
  \<open>seq_client_rpc alloc answer cli opc\<close>: \<open>answer opc in\<close> is what the remote node returns for the
  request \<open>in\<close>. The reply is copied to \<open>lcs_space\<close>, the output of every caller, before it is
  checked.
\<close>

definition seq_client_rpc ::
    "bool \<Rightarrow> (seq_op \<Rightarrow> lu_seq_range \<Rightarrow> rc \<times> lu_seq_range) \<Rightarrow> lu_client_seq \<Rightarrow> seq_op
       \<Rightarrow> (rc \<times> lu_client_seq) option" where
  "seq_client_rpc alloc answer cli opc = do {
     LASSERT (lcs_exp cli);
     if \<not> alloc then Some (Some ENOMEM, cli)
     else
       let req = lu_seq_range_init\<lparr> lsr_index := lsr_index (lcs_space cli) \<rparr>;
           req = (if lcs_type cli = LUSTRE_SEQ_METADATA then fld_range_set_mdt req
                  else fld_range_set_ost req)
       in case answer opc req of
            (Some e, _) \<Rightarrow> Some (Some e, cli)
          | (None, out) \<Rightarrow>
              let cli = cli\<lparr> lcs_space := out \<rparr> in
              if \<not> lu_seq_range_is_sane out then Some (Some EINVAL, cli)
              else if lu_seq_range_is_exhausted out then Some (Some EINVAL, cli)
              else Some (None, cli)
   }"

text \<open>
  The environment of an allocation on a server: the transactions it may run, the answers of
  remote nodes, the cluster's client count, and whether requests can be allocated.
\<close>

record seq_env =
  e_rpc_alloc :: bool
  e_answer :: "seq_op \<Rightarrow> lu_seq_range \<Rightarrow> rc \<times> lu_seq_range"
  e_ctl_dt :: seq_dt
  e_fld_dt :: fld_dt
  e_init1_dt :: seq_dt
  e_init2_dt :: seq_dt
  e_set_dt :: seq_dt
  e_num_exports :: u64

text \<open>\<open>ctl\<close> is the controller on the same node, used when \<open>lcs_srv\<close> is set.\<close>

definition seq_client_alloc_super ::
    "seq_env \<Rightarrow> lu_server_seq \<Rightarrow> lu_client_seq \<Rightarrow> (rc \<times> lu_client_seq \<times> lu_server_seq) option" where
  "seq_client_alloc_super env ctl cli =
     (if lcs_srv cli then do {
        (rc, out, ctl) \<leftarrow> seq_server_alloc_super (e_ctl_dt env) ctl (lcs_space cli);
        Some (rc, cli\<lparr> lcs_space := out \<rparr>, ctl)
      }
      else if \<not> lcs_exp cli then Some (Some EINPROGRESS, cli, ctl)
      else do {
        (rc, cli) \<leftarrow> seq_client_rpc (e_rpc_alloc env) (e_answer env) cli SEQ_ALLOC_SUPER;
        Some (rc, cli, ctl)
      })"

section \<open>The sequence server\<close>

definition seq_set_init :: "seq_dt \<Rightarrow> lu_server_seq \<Rightarrow> (rc \<times> lu_server_seq) option" where
  "seq_set_init dt seq =
     (let (lo, space) = range_alloc (lss_lowater_set seq) (lss_space seq) (lss_set_width seq);
          (hi, space) = range_alloc (lss_hiwater_set seq) space (lss_set_width seq)
      in seq_store_update dt
           (seq\<lparr> lss_lowater_set := lo, lss_hiwater_set := hi, lss_space := space \<rparr>) None True)"

text \<open>Fault injection (\<open>OBD_FAIL_SEQ_ALLOC\<close>) is off. The code of \<open>__seq_set_init\<close> is dropped.\<close>

definition range_alloc_set ::
    "seq_env \<Rightarrow> lu_seq_range \<Rightarrow> lu_server_seq \<Rightarrow> (rc \<times> lu_seq_range \<times> lu_server_seq) option" where
  "range_alloc_set env out seq = do {
     seq \<leftarrow> (if lu_seq_range_is_zero (lss_lowater_set seq)
            then map_option snd (seq_set_init (e_init2_dt env) seq) else Some seq);
     (rc, seq) \<leftarrow> (if lu_seq_range_is_exhausted (lss_lowater_set seq) then
         let set_sz = max (lss_set_width seq) (e_num_exports env * lss_width seq);
             set_sz = min (lu_seq_range_space (lss_space seq)) set_sz;
             seq = seq\<lparr> lss_lowater_set := lss_hiwater_set seq \<rparr>;
             (hi, space) = range_alloc (lss_hiwater_set seq) (lss_space seq) set_sz
         in seq_store_update (e_set_dt env)
              (seq\<lparr> lss_hiwater_set := hi, lss_space := space \<rparr>) None (lss_need_sync seq)
       else Some (None, seq));
     LASSERT (\<not> lu_seq_range_is_exhausted (lss_lowater_set seq)
              \<or> lu_seq_range_is_sane (lss_lowater_set seq));
     if rc = None then
       let (out, lo) = range_alloc out (lss_lowater_set seq) (lss_width seq)
       in Some (None, out, seq\<lparr> lss_lowater_set := lo \<rparr>)
     else Some (rc, out, seq)
   }"

text \<open>
  The first half of \<open>seq_server_check_and_alloc_super\<close>: a new super-sequence for a server whose
  space is exhausted. The second component tells whether the function returns there.
\<close>

definition seq_server_new_super ::
    "seq_env \<Rightarrow> lu_server_seq \<Rightarrow> lu_server_seq
       \<Rightarrow> (rc \<times> bool \<times> lu_server_seq \<times> lu_server_seq) option" where
  "seq_server_new_super env ctl seq =
     (case lss_cli seq of
        None \<Rightarrow> Some (Some ENODEV, True, seq, ctl)
      | Some cli \<Rightarrow> do {
          (rc, cli, ctl) \<leftarrow> seq_client_alloc_super env ctl cli;
          let seq = seq\<lparr> lss_cli := Some cli \<rparr>;
          if rc \<noteq> None then Some (rc, True, seq, ctl)
          else do {
            let seq = seq\<lparr> lss_space := lcs_space cli \<rparr>;
            LASSERT (lu_seq_range_is_sane (lss_space seq));
            if \<not> lcs_srv cli then do {
              (rc, fld) \<leftarrow> fld_insert_entry (e_fld_dt env) (ss_server_fld seq) (lss_space seq);
              Some (rc, False, seq\<lparr> ss_server_fld := fld \<rparr>, ctl)
            } else Some (None, False, seq, ctl)
          }
        })"

definition seq_server_check_and_alloc_super ::
    "seq_env \<Rightarrow> lu_server_seq \<Rightarrow> lu_server_seq \<Rightarrow> (rc \<times> lu_server_seq \<times> lu_server_seq) option" where
  "seq_server_check_and_alloc_super env ctl seq = do {
     (rc, stop, seq, ctl) \<leftarrow>
       (if lu_seq_range_is_exhausted (lss_space seq) then seq_server_new_super env ctl seq
        else Some (None, False, seq, ctl));
     if stop then Some (rc, seq, ctl)
     else if lu_seq_range_is_zero (lss_lowater_set seq) then do {
       (_, seq) \<leftarrow> seq_set_init (e_init1_dt env) seq;
       Some (rc, seq, ctl)
     } else Some (rc, seq, ctl)
   }"

definition seq_server_alloc_meta ::
    "seq_env \<Rightarrow> lu_server_seq \<Rightarrow> lu_server_seq \<Rightarrow> lu_seq_range
       \<Rightarrow> (rc \<times> lu_seq_range \<times> lu_server_seq \<times> lu_server_seq) option" where
  "seq_server_alloc_meta env ctl seq out = do {
     LASSERT (lu_seq_range_is_sane (lss_space seq));
     (rc, seq, ctl) \<leftarrow> seq_server_check_and_alloc_super env ctl seq;
     if rc \<noteq> None then Some (rc, out, seq, ctl)
     else do {
       (rc, out, seq) \<leftarrow> range_alloc_set env out seq;
       Some (rc, out, seq, ctl)
     }
   }"

definition seq_server_set_cli ::
    "lu_server_seq \<Rightarrow> lu_client_seq option \<Rightarrow> rc \<times> lu_server_seq" where
  "seq_server_set_cli seq cli =
     (case cli of
        None \<Rightarrow> (None, seq\<lparr> lss_cli := None \<rparr>)
      | Some c \<Rightarrow>
          if lss_cli seq \<noteq> None then (Some EEXIST, seq)
          else (None, seq\<lparr> lss_cli :=
                  Some (c\<lparr> lcs_space := (lcs_space c)\<lparr> lsr_index := ss_node_id seq \<rparr> \<rparr>) \<rparr>))"

text \<open>
  \<open>seq_server_init\<close> on the structure \<open>seq\<close> that was just allocated (cleared) for the backing store
  \<open>lss_obj seq\<close>. \<open>init\<close> is the code of \<open>seq_store_init\<close>, \<open>err\<close> the error of the read.
\<close>

definition seq_server_init ::
    "rc \<Rightarrow> rc \<Rightarrow> seq_dt \<Rightarrow> lu_mgr_type \<Rightarrow> lu_server_seq \<Rightarrow> (rc \<times> lu_server_seq) option" where
  "seq_server_init init err dt type seq = do {
     let is_srv = (type = LUSTRE_SEQ_SERVER);
     let seq = seq\<lparr> lss_cli := None, lss_type := type, lss_space := lu_seq_range_init,
                    lss_lowater_set := lu_seq_range_init, lss_hiwater_set := lu_seq_range_init,
                    lss_set_width := LUSTRE_SEQ_BATCH_WIDTH,
                    lss_width := (if is_srv then LUSTRE_SEQ_META_WIDTH else LUSTRE_SEQ_SUPER_WIDTH) \<rparr>;
     if init \<noteq> None then Some (init, seq)
     else do {
       let (rc, seq) = seq_store_read err seq;
       if rc \<noteq> None \<and> rc \<noteq> Some ENODATA then Some (rc, seq)
       else do {
         (rc, seq) \<leftarrow> (if rc = Some ENODATA then
             let space = (if is_srv then LUSTRE_SEQ_ZERO_RANGE else LUSTRE_SEQ_SPACE_RANGE);
                 seq = seq\<lparr> lss_space := space\<lparr> lsr_index := ss_node_id seq \<rparr> \<rparr>
             in seq_store_update dt seq None False
           else Some (None, seq));
         LASSERT (if is_srv then lu_seq_range_is_sane (lss_space seq)
                  else \<not> lu_seq_range_is_zero (lss_space seq) \<and> lu_seq_range_is_sane (lss_space seq));
         Some (rc, seq)
       }
     }
   }"

section \<open>Requests\<close>

text \<open>
  The site of a node: its sequence server and its controller, with the read-only state of the
  devices that hold their stores.
\<close>

record seq_server_site =
  ss_server_seq :: "lu_server_seq option"
  ss_control_seq :: "lu_server_seq option"

definition seq_server_handle ::
    "seq_env \<Rightarrow> bool \<Rightarrow> seq_server_site \<Rightarrow> seq_op option \<Rightarrow> lu_seq_range
       \<Rightarrow> (rc \<times> lu_seq_range \<times> seq_server_site) option" where
  "seq_server_handle env rdonly site opc out =
     (case opc of
        Some SEQ_ALLOC_META \<Rightarrow>
          (case ss_server_seq site of
             None \<Rightarrow> Some (Some EINVAL, out, site)
           | Some seq \<Rightarrow>
               if rdonly then Some (Some EROFS, out, site)
               else do {
                 (rc, out, seq, ctl) \<leftarrow>
                   seq_server_alloc_meta env (case ss_control_seq site of None \<Rightarrow> seq | Some c \<Rightarrow> c) seq out;
                 Some (rc, out, site\<lparr> ss_server_seq := Some seq,
                                      ss_control_seq := map_option (\<lambda>_. ctl) (ss_control_seq site) \<rparr>)
               })
      | Some SEQ_ALLOC_SUPER \<Rightarrow>
          (case ss_control_seq site of
             None \<Rightarrow> Some (Some EINVAL, out, site)
           | Some seq \<Rightarrow>
               if rdonly then Some (Some EROFS, out, site)
               else do {
                 (rc, out, seq) \<leftarrow> seq_server_alloc_super (e_ctl_dt env) seq out;
                 Some (rc, out, site\<lparr> ss_control_seq := Some seq \<rparr>)
               })
      | None \<Rightarrow> Some (Some EINVAL, out, site))"

text \<open>\<open>seq_handler\<close>: the index and the flags of the request are passed on in the reply.\<close>

definition seq_handler ::
    "seq_env \<Rightarrow> bool \<Rightarrow> seq_server_site \<Rightarrow> seq_op option \<Rightarrow> lu_seq_range \<Rightarrow> lu_seq_range
       \<Rightarrow> (rc \<times> lu_seq_range \<times> seq_server_site) option" where
  "seq_handler env rdonly site opc req reply =
     seq_server_handle env rdonly site opc
       (reply\<lparr> lsr_index := lsr_index req, lsr_flags := lsr_flags req \<rparr>)"

section \<open>The client\<close>

text \<open>
  The loop of \<open>seq_client_alloc_meta\<close> over the answers of the server, in order. The server that
  is still not ready at the end of the list leaves the client waiting; the code is then the
  last one.
\<close>

fun seq_client_meta_loop ::
    "(bool \<times> (seq_op \<Rightarrow> lu_seq_range \<Rightarrow> rc \<times> lu_seq_range)) list \<Rightarrow> lu_client_seq
       \<Rightarrow> (rc \<times> lu_client_seq) option" where
  "seq_client_meta_loop [] cli = Some (Some EINPROGRESS, cli)"
| "seq_client_meta_loop ((alloc, answer) # answers) cli = do {
     (rc, cli) \<leftarrow> seq_client_rpc alloc answer cli SEQ_ALLOC_META;
     if rc = Some EINPROGRESS \<or> rc = Some EAGAIN then seq_client_meta_loop answers cli
     else Some (rc, cli)
   }"

text \<open>
  \<open>seq_client_alloc_meta\<close> for a client of a remote server (\<open>lcs_srv\<close> unset), and for a client on
  the node of the server, where \<open>direct\<close> is the code and the range of \<open>seq_server_alloc_meta\<close>.
\<close>

definition seq_client_alloc_meta ::
    "(bool \<times> (seq_op \<Rightarrow> lu_seq_range \<Rightarrow> rc \<times> lu_seq_range)) list \<Rightarrow> (lu_seq_range \<Rightarrow> rc \<times> lu_seq_range)
       \<Rightarrow> lu_client_seq \<Rightarrow> (rc \<times> lu_client_seq) option" where
  "seq_client_alloc_meta answers direct cli =
     (if lcs_srv cli then
        case direct (lcs_space cli) of (rc, out) \<Rightarrow> Some (rc, cli\<lparr> lcs_space := out \<rparr>)
      else seq_client_meta_loop answers cli)"

definition seq_client_alloc_seq ::
    "(bool \<times> (seq_op \<Rightarrow> lu_seq_range \<Rightarrow> rc \<times> lu_seq_range)) list \<Rightarrow> (lu_seq_range \<Rightarrow> rc \<times> lu_seq_range)
       \<Rightarrow> lu_client_seq \<Rightarrow> ((errno + u64) \<times> lu_client_seq) option" where
  "seq_client_alloc_seq answers direct cli = do {
     LASSERT (lu_seq_range_is_sane (lcs_space cli));
     (rc, cli) \<leftarrow> (if lu_seq_range_is_exhausted (lcs_space cli)
                  then seq_client_alloc_meta answers direct cli else Some (None, cli));
     case rc of
       Some e \<Rightarrow> Some (Inl e, cli)
     | None \<Rightarrow> do {
         LASSERT (\<not> lu_seq_range_is_exhausted (lcs_space cli));
         let seqnr = lsr_start (lcs_space cli);
         Some (Inr seqnr,
               cli\<lparr> lcs_space := (lcs_space cli)\<lparr> lsr_start := lsr_start (lcs_space cli) + 1 \<rparr> \<rparr>)
       }
   }"

definition seq_client_get_seq ::
    "(bool \<times> (seq_op \<Rightarrow> lu_seq_range \<Rightarrow> rc \<times> lu_seq_range)) list \<Rightarrow> (lu_seq_range \<Rightarrow> rc \<times> lu_seq_range)
       \<Rightarrow> lu_client_seq \<Rightarrow> ((errno + u64) \<times> lu_client_seq) option" where
  "seq_client_get_seq answers direct cli = do {
     (r, cli) \<leftarrow> seq_client_alloc_seq answers direct cli;
     case r of
       Inl e \<Rightarrow> Some (Inl e, cli)
     | Inr seqnr \<Rightarrow>
         Some (Inr seqnr, cli\<lparr> lcs_fid :=
           \<lparr> f_seq = seqnr,
             f_oid = ucast (if lcs_type cli = LUSTRE_SEQ_METADATA
                            then LUSTRE_METADATA_SEQ_MAX_WIDTH else LUSTRE_DATA_SEQ_MAX_WIDTH),
             f_ver = 0 \<rparr> \<rparr>)
   }"

text \<open>
  \<open>seq_client_alloc_fid\<close>: the flag is the return value 1, a switch to a new sequence. Fault
  injection (\<open>OBD_FAIL_SEQ_EXHAUST\<close>) is off.
\<close>

definition seq_client_alloc_fid ::
    "(bool \<times> (seq_op \<Rightarrow> lu_seq_range \<Rightarrow> rc \<times> lu_seq_range)) list \<Rightarrow> (lu_seq_range \<Rightarrow> rc \<times> lu_seq_range)
       \<Rightarrow> lu_client_seq \<Rightarrow> ((errno + (bool \<times> lu_fid)) \<times> lu_client_seq) option" where
  "seq_client_alloc_fid answers direct cli =
     (if \<not> fid_is_zero (lcs_fid cli) \<and> ucast (f_oid (lcs_fid cli)) < lcs_width cli then
        let cli = cli\<lparr> lcs_fid := (lcs_fid cli)\<lparr> f_oid := f_oid (lcs_fid cli) + 1 \<rparr> \<rparr>
        in Some (Inr (False, lcs_fid cli), cli)
      else do {
        (r, cli) \<leftarrow> seq_client_alloc_seq answers direct cli;
        case r of
          Inl e \<Rightarrow> Some (Inl e, cli)
        | Inr seqnr \<Rightarrow>
            let cli = cli\<lparr> lcs_fid := \<lparr> f_seq = seqnr, f_oid = LUSTRE_FID_INIT_OID, f_ver = 0 \<rparr> \<rparr>
            in Some (Inr (True, lcs_fid cli), cli)
      })"

definition seq_client_flush :: "lu_client_seq \<Rightarrow> lu_client_seq" where
  "seq_client_flush cli = cli\<lparr> lcs_fid := fid_zero, lcs_space := lu_seq_range_init \<rparr>"

definition seq_client_init :: "bool \<Rightarrow> lu_cli_type \<Rightarrow> bool \<Rightarrow> lu_client_seq \<Rightarrow> lu_client_seq" where
  "seq_client_init exp type srv cli =
     (let cli = cli\<lparr> lcs_srv := srv, lcs_type := type,
                     lcs_width := (if type = LUSTRE_SEQ_METADATA
                                   then LUSTRE_METADATA_SEQ_MAX_WIDTH
                                   else LUSTRE_DATA_SEQ_MAX_WIDTH) \<rparr>;
          cli = seq_client_flush cli
      in if exp then cli\<lparr> lcs_exp := True \<rparr> else cli)"

end
