(* ===== verification/Seq_Unique.thy ===== *)
theory Seq_Unique
  imports Seq_Alloc
begin

text \<open>
  Sequences are never handed out twice, even if servers crash while their space updates are
  still in the journal. Three layers are treated the same way: an invariant relates the state
  of a node, the set of sequences it was granted and the set it has handed out, and every
  operation, commit and crash keeps it.
\<close>

section \<open>Successful transactions\<close>

definition dt_ok :: "seq_dt \<Rightarrow> bool" where
  "dt_ok dt \<longleftrightarrow> \<not> sd_rdonly dt \<and> sd_trans_create dt = None \<and> sd_declare_write dt = None
     \<and> sd_trans_start dt = None \<and> sd_write dt = None"

definition on_disk :: "lu_server_seq \<Rightarrow> u64 set" where
  "on_disk seq = (case st_disk (lss_obj seq) of None \<Rightarrow> {} | Some r \<Rightarrow> seqs r)"

text \<open>The parts of a server that a store update leaves alone.\<close>

definition same_mem :: "lu_server_seq \<Rightarrow> lu_server_seq \<Rightarrow> bool" where
  "same_mem s s' \<longleftrightarrow> lss_space s' = lss_space s \<and> lss_lowater_set s' = lss_lowater_set s
     \<and> lss_hiwater_set s' = lss_hiwater_set s \<and> lss_width s' = lss_width s
     \<and> lss_set_width s' = lss_set_width s \<and> lss_cli s' = lss_cli s \<and> lss_type s' = lss_type s
     \<and> ss_node_id s' = ss_node_id s"

lemma store_update_ok:
  assumes "dt_ok dt"
  obtains (committed) s' where "seq_store_update dt s None sync = Some (None, s')" "same_mem s s'"
      "st_disk (lss_obj s') = Some (lss_space s)" "st_jrnl (lss_obj s') = []"
  | (pending) s' where "seq_store_update dt s None sync = Some (None, s')" "same_mem s s'" "\<not> sync"
      "st_disk (lss_obj s') = st_disk (lss_obj s)"
      "st_jrnl (lss_obj s') = st_jrnl (lss_obj s) @ [(lss_space s, True)]" "lss_need_sync s'"
proof -
  have "(\<exists>s'. seq_store_update dt s None sync = Some (None, s') \<and> same_mem s s'
      \<and> st_disk (lss_obj s') = Some (lss_space s) \<and> st_jrnl (lss_obj s') = [])
    \<or> (\<exists>s'. seq_store_update dt s None sync = Some (None, s') \<and> same_mem s s' \<and> \<not> sync
      \<and> st_disk (lss_obj s') = st_disk (lss_obj s)
      \<and> st_jrnl (lss_obj s') = st_jrnl (lss_obj s) @ [(lss_space s, True)] \<and> lss_need_sync s')"
    using assms
    by (cases sync; cases "fst (seq_update_cb_add dt s)")
       (auto simp: dt_ok_def seq_store_update_def seq_journal_def seq_commit_def seq_update_cb_add_def
         same_mem_def Let_def split: if_splits)
  with committed pending show thesis by blast
qed

definition srv_mem :: "u64 set \<Rightarrow> u64 set \<Rightarrow> lu_server_seq \<Rightarrow> bool" where
  "srv_mem G H s \<longleftrightarrow>
     (let lo = seqs (lss_lowater_set s); hi = seqs (lss_hiwater_set s); sp = seqs (lss_space s) in
      lu_seq_range_is_sane (lss_space s) \<and> lu_seq_range_is_sane (lss_lowater_set s)
      \<and> lu_seq_range_is_sane (lss_hiwater_set s)
      \<and> H \<inter> lo = {} \<and> H \<inter> hi = {} \<and> H \<inter> sp = {} \<and> lo \<inter> hi = {} \<and> lo \<inter> sp = {} \<and> hi \<inter> sp = {}
      \<and> H \<union> lo \<union> hi \<union> sp \<subseteq> G)"

definition srv_inv :: "u64 set \<Rightarrow> u64 set \<Rightarrow> lu_server_seq \<Rightarrow> bool" where
  "srv_inv G H s \<longleftrightarrow> srv_mem G H s
     \<and> on_disk s \<subseteq> G \<and> on_disk s \<inter> (H \<union> seqs (lss_lowater_set s)) = {}
     \<and> (\<forall>r. st_disk (lss_obj s) = Some r \<longrightarrow> lu_seq_range_is_sane r)
     \<and> (\<forall>w\<in>set (st_jrnl (lss_obj s)). lu_seq_range_is_sane (fst w) \<and> seqs (fst w) \<subseteq> G
          \<and> seqs (fst w) \<inter> (H \<union> seqs (lss_lowater_set s) \<union> seqs (lss_hiwater_set s)) = {})
     \<and> length (st_jrnl (lss_obj s)) \<le> 1
     \<and> (\<not> lss_need_sync s \<longrightarrow> st_jrnl (lss_obj s) = [] \<and> on_disk s \<inter> seqs (lss_hiwater_set s) = {})"

lemma srv_invI:
  assumes "srv_mem G H s" "on_disk s \<subseteq> G" "on_disk s \<inter> (H \<union> seqs (lss_lowater_set s)) = {}"
    "\<And>r. st_disk (lss_obj s) = Some r \<Longrightarrow> lu_seq_range_is_sane r"
    "\<And>w. w \<in> set (st_jrnl (lss_obj s)) \<Longrightarrow> lu_seq_range_is_sane (fst w) \<and> seqs (fst w) \<subseteq> G
       \<and> seqs (fst w) \<inter> (H \<union> seqs (lss_lowater_set s) \<union> seqs (lss_hiwater_set s)) = {}"
    "length (st_jrnl (lss_obj s)) \<le> 1"
    "\<not> lss_need_sync s \<Longrightarrow> st_jrnl (lss_obj s) = [] \<and> on_disk s \<inter> seqs (lss_hiwater_set s) = {}"
  shows "srv_inv G H s"
  using assms by (simp add: srv_inv_def)

lemma srv_mem_same: "same_mem s s' \<Longrightarrow> srv_mem G H s' \<longleftrightarrow> srv_mem G H s"
  by (simp add: same_mem_def srv_mem_def)

lemma update_sync_inv:
  assumes "dt_ok dt" "srv_mem G H s"
  shows "\<exists>s'. seq_store_update dt s None True = Some (None, s') \<and> same_mem s s' \<and> srv_inv G H s'"
proof -
  from assms(1) show ?thesis
  proof (cases rule: store_update_ok [where s = s and sync = True])
    case (committed s')
    with assms(2) have "srv_inv G H s'"
      by (auto simp: srv_inv_def srv_mem_same on_disk_def same_mem_def srv_mem_def Let_def)
    with committed show ?thesis by blast
  qed simp
qed

lemma update_async_inv:
  assumes "dt_ok dt" "srv_mem G H s" "st_jrnl (lss_obj s) = []" "on_disk s \<subseteq> G"
    "on_disk s \<inter> (H \<union> seqs (lss_lowater_set s)) = {}"
    "\<forall>r. st_disk (lss_obj s) = Some r \<longrightarrow> lu_seq_range_is_sane r"
  shows "\<exists>s'. seq_store_update dt s None False = Some (None, s') \<and> same_mem s s' \<and> srv_inv G H s'"
proof -
  from assms(1) show ?thesis
  proof (cases rule: store_update_ok [where s = s and sync = False])
    case (committed s')
    with assms(2) have "srv_inv G H s'"
      by (auto simp: srv_inv_def srv_mem_same on_disk_def same_mem_def srv_mem_def Let_def)
    with committed show ?thesis by blast
  next
    case (pending s')
    with assms have "srv_inv G H s'"
      by (auto simp: srv_inv_def srv_mem_same on_disk_def same_mem_def srv_mem_def Let_def)
    with pending show ?thesis by blast
  qed
qed

section \<open>A sequence server\<close>

lemma set_init_inv:
  assumes "dt_ok dt" "srv_mem G H s"
  shows "\<exists>s'. seq_set_init dt s = Some (None, s') \<and> srv_inv G H s' \<and> lss_cli s' = lss_cli s
     \<and> lss_width s' = lss_width s"
proof -
  obtain lo sp where a: "range_alloc (lss_lowater_set s) (lss_space s) (lss_set_width s) = (lo, sp)" by fastforce
  obtain hi sp' where b: "range_alloc (lss_hiwater_set s) sp (lss_set_width s) = (hi, sp')" by fastforce
  have "lu_seq_range_is_sane (lss_space s)" using assms(2) by (simp add: srv_mem_def Let_def)
  note r1 = range_alloc_split [OF this a]
  note r2 = range_alloc_split [OF r1(2) b]
  let ?s = "s\<lparr> lss_lowater_set := lo, lss_hiwater_set := hi, lss_space := sp' \<rparr>"
  have "srv_mem G H ?s" using assms(2) r1 r2 by (auto simp: srv_mem_def Let_def)
  from update_sync_inv [OF assms(1) this] a b show ?thesis
    by (auto simp: seq_set_init_def same_mem_def)
qed

lemma srv_inv_hand_out:
  assumes "srv_inv G H s" "range_alloc out (lss_lowater_set s) w = (out', lo)"
  shows "srv_inv G (H \<union> seqs out') (s\<lparr> lss_lowater_set := lo \<rparr>)" "H \<inter> seqs out' = {}" "seqs out' \<subseteq> G"
proof -
  have "lu_seq_range_is_sane (lss_lowater_set s)"
    using assms(1) by (simp add: srv_inv_def srv_mem_def Let_def)
  note r = range_alloc_split [OF this assms(2)]
  show "srv_inv G (H \<union> seqs out') (s\<lparr> lss_lowater_set := lo \<rparr>)"
    using assms(1) r by (auto simp: srv_inv_def srv_mem_def Let_def on_disk_def)
  show "H \<inter> seqs out' = {}" "seqs out' \<subseteq> G"
    using assms(1) r(3) by (auto simp: srv_inv_def srv_mem_def Let_def)
qed

lemma switch_inv:
  assumes "dt_ok dt" "srv_inv G H s" "lu_seq_range_is_exhausted (lss_lowater_set s)"
    "range_alloc (lss_hiwater_set s) (lss_space s) w = (hi, sp)"
  shows "\<exists>s'. seq_store_update dt
       (s\<lparr> lss_lowater_set := lss_hiwater_set s, lss_hiwater_set := hi, lss_space := sp \<rparr>) None (lss_need_sync s)
       = Some (None, s') \<and> srv_inv G H s' \<and> lss_cli s' = lss_cli s"
proof -
  let ?s = "s\<lparr> lss_lowater_set := lss_hiwater_set s, lss_hiwater_set := hi, lss_space := sp \<rparr>"
  have "lu_seq_range_is_sane (lss_space s)" using assms(2) by (simp add: srv_inv_def srv_mem_def Let_def)
  note r = range_alloc_split [OF this assms(4)]
  have m: "srv_mem G H ?s" using assms(2) r by (auto simp: srv_inv_def srv_mem_def Let_def)
  show ?thesis
  proof (cases "lss_need_sync s")
    case True
    from update_sync_inv [OF assms(1) m] True show ?thesis by (auto simp: same_mem_def)
  next
    case False
    have "on_disk ?s \<subseteq> G" "on_disk ?s \<inter> (H \<union> seqs (lss_lowater_set ?s)) = {}" "st_jrnl (lss_obj ?s) = []"
      "\<forall>r. st_disk (lss_obj ?s) = Some r \<longrightarrow> lu_seq_range_is_sane r"
      using assms(2) False by (auto simp: srv_inv_def on_disk_def)
    from update_async_inv [OF assms(1) m this(3,1,2,4)] False show ?thesis by (auto simp: same_mem_def)
  qed
qed

lemma alloc_set_inv:
  assumes "srv_inv G H s" "dt_ok (e_init2_dt env)" "dt_ok (e_set_dt env)"
  shows "\<exists>out' s'. range_alloc_set env out s = Some (None, out', s')
     \<and> srv_inv G (H \<union> seqs out') s' \<and> H \<inter> seqs out' = {} \<and> seqs out' \<subseteq> G \<and> lss_cli s' = lss_cli s"
proof -
  have m: "srv_mem G H s" using assms(1) by (simp add: srv_inv_def)
  obtain s1 where s1: "(if lu_seq_range_is_zero (lss_lowater_set s)
      then map_option snd (seq_set_init (e_init2_dt env) s) else Some s) = Some s1" "srv_inv G H s1"
    "lss_cli s1 = lss_cli s"
    using set_init_inv [OF assms(2) m] assms(1) by (cases "lu_seq_range_is_zero (lss_lowater_set s)") auto
  let ?w = "min (lu_seq_range_space (lss_space s1)) (max (lss_set_width s1) (e_num_exports env * lss_width s1))"
  obtain hi sp where a: "range_alloc (lss_hiwater_set s1) (lss_space s1) ?w = (hi, sp)" by fastforce
  obtain s2 where s2: "(if lu_seq_range_is_exhausted (lss_lowater_set s1)
      then seq_store_update (e_set_dt env)
       (s1\<lparr> lss_lowater_set := lss_hiwater_set s1, lss_hiwater_set := hi, lss_space := sp \<rparr>) None (lss_need_sync s1)
      else Some (None, s1)) = Some (None, s2)" "srv_inv G H s2" "lss_cli s2 = lss_cli s1"
    using switch_inv [OF assms(3) s1(2) _ a] s1(2) by (cases "lu_seq_range_is_exhausted (lss_lowater_set s1)") auto
  have sane: "lu_seq_range_is_sane (lss_lowater_set s2)" using s2(2) by (simp add: srv_inv_def srv_mem_def Let_def)
  obtain out' lo where b: "range_alloc out (lss_lowater_set s2) (lss_width s2) = (out', lo)" by fastforce
  have "range_alloc_set env out s = Some (None, out', s2\<lparr> lss_lowater_set := lo \<rparr>)"
    using s1(1) s2(1) a b sane by (simp add: range_alloc_set_def Let_def cong: if_cong)
  with srv_inv_hand_out [OF s2(2) b] s1(3) s2(3) show ?thesis
    by (intro exI [of _ out'] exI [of _ "s2\<lparr> lss_lowater_set := lo \<rparr>"]) simp
qed

text \<open>The sequences a call of \<open>seq_server_check_and_alloc_super\<close> obtains from the controller.\<close>

definition new_grant :: "seq_env \<Rightarrow> lu_server_seq \<Rightarrow> lu_server_seq \<Rightarrow> u64 set" where
  "new_grant env ctl s =
     (if \<not> lu_seq_range_is_exhausted (lss_space s) then {}
      else case lss_cli s of None \<Rightarrow> {}
      | Some cli \<Rightarrow> (case seq_client_alloc_super env ctl cli of
            Some (None, cli', _) \<Rightarrow> seqs (lcs_space cli') | _ \<Rightarrow> {}))"

lemma srv_mem_grant: "srv_mem G H s \<Longrightarrow> G \<subseteq> G' \<Longrightarrow> srv_mem G' H s"
  by (simp add: srv_mem_def Let_def) (meson order_trans)

lemma srv_inv_grant: "srv_inv G H s \<Longrightarrow> G \<subseteq> G' \<Longrightarrow> srv_inv G' H s"
  by (rule srv_invI [OF srv_mem_grant [of G]]) (simp_all add: srv_inv_def, (meson order_trans)+)

lemma srv_inv_upd:
  "srv_inv G H (s\<lparr> lss_cli := c \<rparr>) \<longleftrightarrow> srv_inv G H s"
  "srv_inv G H (s\<lparr> ss_server_fld := f \<rparr>) \<longleftrightarrow> srv_inv G H s"
  by (simp_all add: srv_inv_def srv_mem_def on_disk_def)

lemma srv_inv_new_space:
  assumes "srv_inv G H s" "lu_seq_range_is_sane r" "seqs r \<inter> G = {}"
  shows "srv_inv (G \<union> seqs r) H (s\<lparr> lss_space := r \<rparr>)"
  using assms by (auto simp: srv_inv_def srv_mem_def Let_def on_disk_def)

lemma srv_inv_mem: "srv_inv G H s \<Longrightarrow> srv_mem G H s"
  by (simp add: srv_inv_def)

lemma new_super_inv:
  assumes "srv_inv G H s" "new_grant env ctl s \<inter> G = {}" "lu_seq_range_is_exhausted (lss_space s)"
    "seq_server_new_super env ctl s = Some (rc, stop, s', ctl')"
  shows "srv_inv (G \<union> new_grant env ctl s) H s'"
proof (cases "lss_cli s")
  case None
  with assms(4) srv_inv_grant [OF assms(1)] show ?thesis by (auto simp: seq_server_new_super_def)
next
  case (Some cli)
  with assms(4) obtain rc1 cli1 ctl1 where c: "seq_client_alloc_super env ctl cli = Some (rc1, cli1, ctl1)"
    by (auto simp: seq_server_new_super_def split: bind_splits)
  show ?thesis
  proof (cases rc1)
    case (Some e)
    with assms(4) c \<open>lss_cli s = Some cli\<close> srv_inv_grant [OF assms(1)]
    show ?thesis by (auto simp: seq_server_new_super_def srv_inv_upd)
  next
    case None
    have g: "new_grant env ctl s = seqs (lcs_space cli1)"
      using assms(3) \<open>lss_cli s = Some cli\<close> c None by (simp add: new_grant_def)
    from assms(4) c \<open>lss_cli s = Some cli\<close> None have sane: "lu_seq_range_is_sane (lcs_space cli1)"
      by (simp add: seq_server_new_super_def Let_def split: bind_splits)
    have "srv_inv (G \<union> new_grant env ctl s) H (s\<lparr> lss_cli := Some cli1, lss_space := lcs_space cli1 \<rparr>)"
      using srv_inv_new_space [of G H "s\<lparr> lss_cli := Some cli1 \<rparr>"] assms(1,2) sane
      by (simp add: g srv_inv_upd)
    moreover have "s' = s\<lparr> lss_cli := Some cli1, lss_space := lcs_space cli1,
        ss_server_fld := ss_server_fld s' \<rparr>"
    proof (cases "lcs_srv cli1")
      case True
      with assms(4) c \<open>lss_cli s = Some cli\<close> None sane show ?thesis
        by (simp add: seq_server_new_super_def Let_def)
    next
      case False
      with assms(4) c \<open>lss_cli s = Some cli\<close> None sane show ?thesis
        by (cases "fld_insert_entry (e_fld_dt env) (ss_server_fld s) (lcs_space cli1)")
          (auto simp: seq_server_new_super_def Let_def)
    qed
    ultimately show ?thesis using srv_inv_upd(2) [of _ H "ss_server_fld s'" "s\<lparr> lss_cli := Some cli1, lss_space := lcs_space cli1 \<rparr>"]
      by simp
  qed
qed

lemma check_inv:
  assumes "srv_inv G H s" "dt_ok (e_init1_dt env)" "new_grant env ctl s \<inter> G = {}"
    "seq_server_check_and_alloc_super env ctl s = Some (rc, s', ctl')"
  shows "srv_inv (G \<union> new_grant env ctl s) H s'"
proof -
  let ?G = "G \<union> new_grant env ctl s"
  obtain rc1 stop s1 ctl1 where n: "(if lu_seq_range_is_exhausted (lss_space s) then seq_server_new_super env ctl s
        else Some (None, False, s, ctl)) = Some (rc1, stop, s1, ctl1)"
    using assms(4) by (auto simp: seq_server_check_and_alloc_super_def split: bind_splits)
  then have i: "srv_inv ?G H s1"
    using new_super_inv [OF assms(1,3)] srv_inv_grant [OF assms(1), of ?G] by (auto split: if_splits)
  from set_init_inv [OF assms(2) srv_inv_mem [OF i]] obtain s2 where
    "seq_set_init (e_init1_dt env) s1 = Some (None, s2)" "srv_inv ?G H s2" by blast
  with assms(4) n i show ?thesis
    unfolding seq_server_check_and_alloc_super_def n by (auto split: if_splits)
qed

lemma alloc_meta_inv:
  assumes "srv_inv G H s" "new_grant env ctl s \<inter> G = {}"
    "dt_ok (e_init1_dt env)" "dt_ok (e_init2_dt env)" "dt_ok (e_set_dt env)"
    "seq_server_alloc_meta env ctl s out = Some (rc, out', s', ctl')"
  shows "if rc = None then srv_inv (G \<union> new_grant env ctl s) (H \<union> seqs out') s'
           \<and> H \<inter> seqs out' = {} \<and> seqs out' \<subseteq> G \<union> new_grant env ctl s
         else srv_inv (G \<union> new_grant env ctl s) H s' \<and> out' = out"
    "\<exists>rc1 s1. seq_server_check_and_alloc_super env ctl s = Some (rc1, s1, ctl') \<and> lss_cli s' = lss_cli s1"
proof -
  let ?G = "G \<union> new_grant env ctl s"
  obtain rc1 s1 ctl1 where c: "seq_server_check_and_alloc_super env ctl s = Some (rc1, s1, ctl1)"
    using assms(6) by (auto simp: seq_server_alloc_meta_def split: bind_splits)
  note i = check_inv [OF assms(1,3,2) c]
  have sane: "lu_seq_range_is_sane (lss_space s)" using assms(1) by (simp add: srv_inv_def srv_mem_def Let_def)
  let ?R = "if rc = None then srv_inv ?G (H \<union> seqs out') s' \<and> H \<inter> seqs out' = {} \<and> seqs out' \<subseteq> ?G
      else srv_inv ?G H s' \<and> out' = out"
  have "?R \<and> ctl' = ctl1 \<and> lss_cli s' = lss_cli s1"
  proof (cases rc1)
    case (Some e)
    with assms(6) c sane have "rc \<noteq> None \<and> out' = out \<and> s' = s1 \<and> ctl' = ctl1"
      by (auto simp: seq_server_alloc_meta_def)
    with i show ?thesis by auto
  next
    case None
    from alloc_set_inv [OF i assms(4,5)] obtain o2 s2 where
      "range_alloc_set env out s1 = Some (None, o2, s2)" "srv_inv ?G (H \<union> seqs o2) s2"
      "H \<inter> seqs o2 = {}" "seqs o2 \<subseteq> ?G" "lss_cli s2 = lss_cli s1" by blast
    moreover from this(1) assms(6) c None sane have "rc = None \<and> out' = o2 \<and> s' = s2 \<and> ctl' = ctl1"
      by (simp add: seq_server_alloc_meta_def)
    ultimately show ?thesis by simp
  qed
  with c show ?R "\<exists>rc1 s1. seq_server_check_and_alloc_super env ctl s = Some (rc1, s1, ctl') \<and> lss_cli s' = lss_cli s1"
    by auto
qed

lemma commit_inv:
  assumes "srv_inv G H s"
  shows "srv_inv G H (seq_commit n s)"
proof (cases "take n (st_jrnl (lss_obj s)) = []")
  case True
  then have "seq_commit n s = s \<or> st_jrnl (lss_obj s) \<noteq> [] \<and> n = 0 \<or> st_jrnl (lss_obj s) = []" by auto
  with True have "seq_commit n s = s" by (auto simp: seq_commit_def Let_def)
  with assms show ?thesis by simp
next
  case False
  then obtain w where w: "st_jrnl (lss_obj s) = [w]" "n > 0"
    using assms by (cases "st_jrnl (lss_obj s)"; cases n) (auto simp: srv_inv_def)
  then obtain m where "n = Suc m" by (cases n) auto
  with w assms show ?thesis
    by (cases w) (auto simp: seq_commit_def Let_def srv_inv_def srv_mem_def on_disk_def)
qed

lemma srv_inv_disjoint: "srv_inv G H s \<Longrightarrow> H \<subseteq> G"
  by (simp add: srv_inv_def srv_mem_def Let_def)

section \<open>Crash and restart\<close>

text \<open>
  A crash loses the memory of the server and the transactions that are not on disk;
  \<open>seq_remount\<close> is the cleared structure that \<open>seq_server_init\<close> then fills, with the location
  database \<open>fld\<close> of the restarted node.
\<close>

definition seq_remount :: "lu_server_fld \<Rightarrow> lu_server_seq \<Rightarrow> lu_server_seq" where
  "seq_remount fld s = s\<lparr> lss_obj := (lss_obj s)\<lparr> st_jrnl := [] \<rparr>, lss_need_sync := False,
                          ss_server_fld := fld \<rparr>"

lemma zero_seqs [simp]:
  "seqs lu_seq_range_init = {}" "lu_seq_range_is_sane lu_seq_range_init"
  "seqs (LUSTRE_SEQ_ZERO_RANGE\<lparr> lsr_index := i \<rparr>) = {}"
  "lu_seq_range_is_sane (LUSTRE_SEQ_ZERO_RANGE\<lparr> lsr_index := i \<rparr>)"
  "lu_seq_range_is_sane (LUSTRE_SEQ_SPACE_RANGE\<lparr> lsr_index := i \<rparr>)"
  "\<not> lu_seq_range_is_zero (LUSTRE_SEQ_SPACE_RANGE\<lparr> lsr_index := i \<rparr>)"
  by (auto simp: seqs_iff lu_seq_range_init_def LUSTRE_SEQ_ZERO_RANGE_def LUSTRE_SEQ_SPACE_RANGE_def
      lu_seq_range_is_sane_def lu_seq_range_is_zero_def)

lemma restart_inv:
  assumes "srv_inv G H s" "dt_ok dt"
  shows "\<exists>s'. seq_server_init None None dt LUSTRE_SEQ_SERVER (seq_remount fld s) = Some (None, s')
     \<and> srv_inv G H s' \<and> lss_cli s' = None"
proof -
  let ?z = "(seq_remount fld s)\<lparr> lss_cli := None, lss_type := LUSTRE_SEQ_SERVER, lss_space := lu_seq_range_init,
     lss_lowater_set := lu_seq_range_init, lss_hiwater_set := lu_seq_range_init,
     lss_set_width := LUSTRE_SEQ_BATCH_WIDTH, lss_width := LUSTRE_SEQ_META_WIDTH \<rparr>"
  have hg: "H \<subseteq> G" and d: "on_disk s \<subseteq> G" "on_disk s \<inter> H = {}"
    using assms(1) by (auto simp: srv_inv_def srv_mem_def Let_def)
  show ?thesis
  proof (cases "st_disk (lss_obj s)")
    case (Some r)
    then have r: "lu_seq_range_is_sane r" "seqs r \<subseteq> G" "seqs r \<inter> H = {}"
      using assms(1) d by (auto simp: srv_inv_def on_disk_def)
    have "seq_server_init None None dt LUSTRE_SEQ_SERVER (seq_remount fld s) = Some (None, ?z\<lparr> lss_space := r \<rparr>)"
      using Some r by (simp add: seq_server_init_def seq_store_read_def seq_remount_def Let_def)
    moreover have "srv_inv G H (?z\<lparr> lss_space := r \<rparr>)"
      using r hg Some by (intro srv_invI)
        (auto simp: srv_mem_def Let_def on_disk_def seq_remount_def)
    ultimately show ?thesis by (intro exI [of _ "?z\<lparr> lss_space := r \<rparr>"]) (simp add: seq_remount_def)
  next
    case None
    let ?y = "?z\<lparr> lss_space := LUSTRE_SEQ_ZERO_RANGE\<lparr> lsr_index := ss_node_id s \<rparr> \<rparr>"
    have "srv_mem G H ?y" using hg by (auto simp: srv_mem_def)
    from update_async_inv [OF assms(2) this] None obtain s' where
      s': "seq_store_update dt ?y None False = Some (None, s')" "same_mem ?y s'" "srv_inv G H s'"
      by (auto simp: seq_remount_def on_disk_def)
    then have "seq_server_init None None dt LUSTRE_SEQ_SERVER (seq_remount fld s) = Some (None, s')"
      using None by (simp add: seq_server_init_def seq_store_read_def seq_remount_def Let_def same_mem_def)
    with s' show ?thesis by (auto simp: same_mem_def)
  qed
qed

section \<open>The controller\<close>

text \<open>
  \<open>ctl_inv T c\<close>: the controller \<open>c\<close> has handed out the sequences \<open>T\<close>. Whatever may come back
  after a crash is disjoint from \<open>T\<close>, and a controller that has handed out anything has its
  space on disk. Store updates may fail at any point; they must not be skipped.
\<close>

definition ctl_inv :: "u64 set \<Rightarrow> lu_server_seq \<Rightarrow> bool" where
  "ctl_inv T c \<longleftrightarrow> lu_seq_range_is_sane (lss_space c) \<and> seqs (lss_space c) \<inter> T = {}
     \<and> (st_disk (lss_obj c) = None \<longrightarrow> T = {})
     \<and> (\<forall>r \<in> set_option (st_disk (lss_obj c)) \<union> fst ` set (st_jrnl (lss_obj c)).
          lu_seq_range_is_sane r \<and> \<not> lu_seq_range_is_zero r \<and> seqs r \<inter> T = {})
     \<and> \<not> lu_seq_range_is_zero (lss_space c)"

lemma store_update_any:
  assumes "\<not> sd_rdonly dt" "seq_store_update dt s out sync = Some (rc, s')"
  shows "lss_space s' = lss_space s"
    "st_disk (lss_obj s') = st_disk (lss_obj s) \<or> st_disk (lss_obj s') = Some (lss_space s)"
    "set (st_jrnl (lss_obj s')) \<subseteq> insert (lss_space s, False) (insert (lss_space s, True) (set (st_jrnl (lss_obj s))))"
    "rc = None \<Longrightarrow> sync \<Longrightarrow> st_disk (lss_obj s') = Some (lss_space s) \<and> st_jrnl (lss_obj s') = []"
  using assms
  by (auto simp: seq_store_update_def seq_journal_def seq_commit_def seq_update_cb_add_def Let_def
      split: if_splits option.splits prod.splits bind_splits)

lemma ctl_inv_mono: "ctl_inv T c \<Longrightarrow> T' \<subseteq> T \<Longrightarrow> ctl_inv T' c"
  unfolding ctl_inv_def by blast

lemma ctl_alloc_inv:
  assumes "ctl_inv T c" "\<not> sd_rdonly dt" "seq_server_alloc_super dt c out = Some (rc, out', c')"
  shows "if rc = None then ctl_inv (T \<union> seqs out') c' \<and> T \<inter> seqs out' = {} else ctl_inv T c'"
proof (cases "lu_seq_range_is_exhausted (lss_space c)")
  case True
  with assms show ?thesis by (auto simp: seq_server_alloc_super_def ctl_inv_def)
next
  case False
  obtain o1 sp where a: "range_alloc out (lss_space c) (lss_width c) = (o1, sp)" by fastforce
  have sane: "lu_seq_range_is_sane (lss_space c)" using assms(1) by (simp add: ctl_inv_def)
  note r = range_alloc_split [OF sane a]
  have nz: "\<not> lu_seq_range_is_zero sp"
    using a sane assms(1) by (auto simp: range_alloc_def Let_def ctl_inv_def lu_seq_range_is_zero_def
        lu_seq_range_is_sane_def)
  from assms(3) False a sane have u: "seq_store_update dt (c\<lparr> lss_space := sp \<rparr>) (Some o1) True = Some (rc, c')"
    and o: "out' = o1" by (auto simp: seq_server_alloc_super_def split: bind_splits)
  note s = store_update_any [OF assms(2) u, simplified]
  show ?thesis
  proof (cases "rc = None")
    case True
    with s r nz assms(1) show ?thesis unfolding o ctl_inv_def by auto
  next
    case False
    have d: "set_option (st_disk (lss_obj c')) \<subseteq> insert sp (set_option (st_disk (lss_obj c)))"
      "fst ` set (st_jrnl (lss_obj c')) \<subseteq> insert sp (fst ` set (st_jrnl (lss_obj c)))"
      "st_disk (lss_obj c') = None \<Longrightarrow> st_disk (lss_obj c) = None" using s(2,3) by auto
    have "seqs sp \<inter> T = {}" using assms(1) r(3) by (auto simp: ctl_inv_def)
    then have "\<forall>r \<in> set_option (st_disk (lss_obj c')) \<union> fst ` set (st_jrnl (lss_obj c')).
        lu_seq_range_is_sane r \<and> \<not> lu_seq_range_is_zero r \<and> seqs r \<inter> T = {}"
      using d(1,2) r(2) nz assms(1) unfolding ctl_inv_def by blast
    with d(3) s(1) r(2) nz assms(1) \<open>seqs sp \<inter> T = {}\<close> have "ctl_inv T c'"
      unfolding ctl_inv_def by simp
    with False show ?thesis by auto
  qed
qed

lemma ctl_commit_inv: "ctl_inv T c \<Longrightarrow> ctl_inv T (seq_commit n c)"
proof -
  assume i: "ctl_inv T c"
  let ?ws = "take n (st_jrnl (lss_obj c))"
  have "?ws \<noteq> [] \<Longrightarrow> last ?ws \<in> set (st_jrnl (lss_obj c))" by (metis in_set_takeD last_in_set)
  with i show ?thesis
    by (auto simp: ctl_inv_def seq_commit_def Let_def dest: in_set_dropD)
qed

lemma ctl_restart_inv:
  assumes "ctl_inv T c" "\<not> sd_rdonly dt"
    "seq_server_init None None dt LUSTRE_SEQ_CONTROLLER (seq_remount fld c) = Some (rc, c')"
  shows "ctl_inv T c'"
proof (cases "st_disk (lss_obj c)")
  case (Some r)
  with assms(1) have "lu_seq_range_is_sane r \<and> \<not> lu_seq_range_is_zero r \<and> seqs r \<inter> T = {}"
    by (simp add: ctl_inv_def)
  with assms(3) Some show ?thesis
    by (auto simp: seq_server_init_def seq_store_read_def seq_remount_def Let_def ctl_inv_def)
next
  case None
  let ?c = "(seq_remount fld c)\<lparr> lss_cli := None, lss_type := LUSTRE_SEQ_CONTROLLER,
     lss_lowater_set := lu_seq_range_init, lss_hiwater_set := lu_seq_range_init,
     lss_set_width := LUSTRE_SEQ_BATCH_WIDTH, lss_width := LUSTRE_SEQ_SUPER_WIDTH,
     lss_space := LUSTRE_SEQ_SPACE_RANGE\<lparr> lsr_index := ss_node_id c \<rparr> \<rparr>"
  have "T = {}" using assms(1) None by (simp add: ctl_inv_def)
  moreover have u: "seq_store_update dt ?c None False = Some (rc, c')"
    using assms(3) None by (auto simp: seq_server_init_def seq_store_read_def seq_remount_def Let_def
        split: bind_splits)
  moreover note n = store_update_any [OF assms(2) u]
  then have "lu_seq_range_is_sane (lss_space c')" "\<not> lu_seq_range_is_zero (lss_space c')" by simp_all
  moreover have "set_option (st_disk (lss_obj c')) \<union> fst ` set (st_jrnl (lss_obj c')) \<subseteq> {lss_space c'}"
    using n(1-3) None by (auto simp: seq_remount_def)
  ultimately show ?thesis unfolding ctl_inv_def by (auto dest!: subsetD)
qed

end
