(* ===== verification/Seq_Client.thy ===== *)
theory Seq_Client
  imports Seq_Unique
begin

text \<open>
  A client numbers identifiers within the sequences it was granted: no identifier is produced
  twice, as long as no sequence is granted twice.
\<close>

section \<open>The state of a client\<close>

text \<open>
  \<open>cli_inv K F cli\<close>: the client was granted the sequences \<open>K\<close> and has produced the identifiers
  \<open>F\<close>. The sequences still in its range are unused, and in the current sequence no identifier
  beyond the current object number was produced.
\<close>

definition cli_inv :: "u64 set \<Rightarrow> lu_fid set \<Rightarrow> lu_client_seq \<Rightarrow> bool" where
  "cli_inv K F cli \<longleftrightarrow> seqs (lcs_space cli) \<subseteq> K \<and> f_seq ` F \<subseteq> K
     \<and> lcs_width cli \<le> LUSTRE_DATA_SEQ_MAX_WIDTH
     \<and> seqs (lcs_space cli) \<inter> f_seq ` F = {}
     \<and> (\<not> fid_is_zero (lcs_fid cli) \<longrightarrow> f_seq (lcs_fid cli) \<in> K - seqs (lcs_space cli) \<and> f_ver (lcs_fid cli) = 0
        \<and> (\<forall>f\<in>F. f_seq f = f_seq (lcs_fid cli) \<longrightarrow> f_oid f \<le> f_oid (lcs_fid cli)))"

lemma cli_invD:
  assumes "cli_inv K F cli"
  shows "seqs (lcs_space cli) \<subseteq> K" "f_seq ` F \<subseteq> K" "lcs_width cli \<le> LUSTRE_DATA_SEQ_MAX_WIDTH"
    "seqs (lcs_space cli) \<inter> f_seq ` F = {}"
    "\<not> fid_is_zero (lcs_fid cli) \<Longrightarrow> f_seq (lcs_fid cli) \<in> K - seqs (lcs_space cli)"
    "\<not> fid_is_zero (lcs_fid cli) \<Longrightarrow> f_ver (lcs_fid cli) = 0"
    "\<not> fid_is_zero (lcs_fid cli) \<Longrightarrow> f \<in> F \<Longrightarrow> f_seq f = f_seq (lcs_fid cli) \<Longrightarrow> f_oid f \<le> f_oid (lcs_fid cli)"
  using assms by (simp_all add: cli_inv_def)

lemma cli_inv_mono: "cli_inv K F cli \<Longrightarrow> K \<subseteq> K' \<Longrightarrow> cli_inv K' F cli"
  by (simp add: cli_inv_def) (meson order_trans subsetD)

text \<open>A client that asks for sequences is granted those of the range it receives.\<close>

definition cli_grant ::
    "(bool \<times> (seq_op \<Rightarrow> lu_seq_range \<Rightarrow> rc \<times> lu_seq_range)) list \<Rightarrow> (lu_seq_range \<Rightarrow> rc \<times> lu_seq_range)
       \<Rightarrow> lu_client_seq \<Rightarrow> u64 set" where
  "cli_grant answers direct cli =
     (if \<not> lu_seq_range_is_exhausted (lcs_space cli) then {}
      else case seq_client_alloc_meta answers direct cli of
        Some (None, cli') \<Rightarrow> seqs (lcs_space cli') | _ \<Rightarrow> {})"

lemma seqs_bad: "\<not> lu_seq_range_is_sane r \<or> lu_seq_range_is_exhausted r \<Longrightarrow> seqs r = {}"
  by (auto simp: seqs_iff lu_seq_range_is_sane_def exhausted_iff)

lemma client_rpc_cases:
  assumes "seq_client_rpc alloc answer cli opc = Some (rc, cli')"
  obtains (err) e where "rc = Some e" "cli' = cli"
  | (bad) r where "rc = Some EINVAL" "cli' = cli\<lparr> lcs_space := r \<rparr>" "seqs r = {}"
  | (ok) r req where "rc = None" "cli' = cli\<lparr> lcs_space := r \<rparr>" "answer opc req = (None, r)"
      "lu_seq_range_is_sane r" "\<not> lu_seq_range_is_exhausted r"
  using assms
  by (auto simp: seq_client_rpc_def Let_def seqs_bad split: if_splits prod.splits option.splits bind_splits)

lemma meta_loop_keeps:
  "seq_client_meta_loop answers cli = Some (rc, cli') \<Longrightarrow>
     (\<exists>r. cli' = cli\<lparr> lcs_space := r \<rparr> \<and> (rc \<noteq> None \<longrightarrow> r = lcs_space cli \<or> seqs r = {})
        \<and> (rc = None \<longrightarrow> lu_seq_range_is_sane r
              \<and> (\<exists>(a, answer) \<in> set answers. \<exists>req. answer SEQ_ALLOC_META req = (None, r))))"
proof (induction answers arbitrary: cli)
  case Nil
  then show ?case by (intro exI [of _ "lcs_space cli"]) auto
next
  case (Cons p answers)
  obtain alloc answer where p: "p = (alloc, answer)" by fastforce
  with Cons.prems obtain rc1 cli1 where c: "seq_client_rpc alloc answer cli SEQ_ALLOC_META = Some (rc1, cli1)"
    by (auto split: bind_splits)
  from c show ?case
  proof (cases rule: client_rpc_cases)
    case (err e)
    show ?thesis
    proof (cases "e = EINPROGRESS \<or> e = EAGAIN")
      case True
      with Cons.prems p c err have "seq_client_meta_loop answers cli = Some (rc, cli')" by auto
      from Cons.IH [OF this] obtain r where "cli' = cli\<lparr> lcs_space := r \<rparr>"
        "rc \<noteq> None \<longrightarrow> r = lcs_space cli \<or> seqs r = {}" "rc = None \<longrightarrow> lu_seq_range_is_sane r
           \<and> (\<exists>(a, answer) \<in> set answers. \<exists>req. answer SEQ_ALLOC_META req = (None, r))" by blast
      then show ?thesis by (intro exI [of _ r]) simp
    next
      case False
      with Cons.prems p c err show ?thesis by (intro exI [of _ "lcs_space cli"]) auto
    qed
  next
    case (bad r)
    with Cons.prems p c show ?thesis by (intro exI [of _ r]) auto
  next
    case (ok r req)
    with Cons.prems p c show ?thesis by (intro exI [of _ r]) auto
  qed
qed

text \<open>
  The server on the node of the client leaves the client's range alone when it fails, and
  returns a proper range otherwise.
\<close>

definition direct_ok :: "(lu_seq_range \<Rightarrow> rc \<times> lu_seq_range) \<Rightarrow> bool" where
  "direct_ok direct \<longleftrightarrow> 
     (\<forall>r. case direct r of (Some e, r') \<Rightarrow> r' = r | (None, r') \<Rightarrow> lu_seq_range_is_sane r')"

lemma alloc_meta_keeps:
  assumes "direct_ok direct" "seq_client_alloc_meta answers direct cli = Some (rc, cli')"
  shows "\<exists>r. cli' = cli\<lparr> lcs_space := r \<rparr> \<and> (rc \<noteq> None \<longrightarrow> r = lcs_space cli \<or> seqs r = {})
     \<and> (rc = None \<longrightarrow> lu_seq_range_is_sane r)"
proof (cases "lcs_srv cli")
  case True
  obtain rc1 r where d: "direct (lcs_space cli) = (rc1, r)" by fastforce
  with assms(1) have "case rc1 of Some e \<Rightarrow> r = lcs_space cli | None \<Rightarrow> lu_seq_range_is_sane r"
    unfolding direct_ok_def by (metis case_prod_conv)
  with d True assms(2) show ?thesis
    by (intro exI [of _ r]) (cases rc1; auto simp: seq_client_alloc_meta_def)
next
  case False
  with assms(2) meta_loop_keeps [of answers cli rc cli'] show ?thesis
    by (auto simp: seq_client_alloc_meta_def)
qed

lemma word_less_inc: "q < e \<Longrightarrow> q < q + 1" for q e :: "'a::len word"
proof -
  assume "q < e"
  then have "unat q + 1 < 2 ^ LENGTH('a)"
    using unat_less_pow [of e] unfolding word_less_nat_alt by linarith
  then show ?thesis by (simp add: word_less_nat_alt unat_add_small)
qed

text \<open>Taking the first sequence of a range.\<close>

lemma seqs_take_first:
  assumes "lu_seq_range_is_sane r" "\<not> lu_seq_range_is_exhausted r"
  shows "lsr_start r \<in> seqs r" "lsr_start r \<notin> seqs (r\<lparr> lsr_start := lsr_start r + 1 \<rparr>)"
    "seqs (r\<lparr> lsr_start := lsr_start r + 1 \<rparr>) \<subseteq> seqs r"
proof -
  have l: "lsr_start r < lsr_end r"
    using assms by (simp add: lu_seq_range_is_sane_def exhausted_iff order_less_le)
  note i = word_less_inc [OF l]
  show "lsr_start r \<in> seqs r" using l by (simp add: seqs_iff)
  show "lsr_start r \<notin> seqs (r\<lparr> lsr_start := lsr_start r + 1 \<rparr>)" using i by (auto simp: seqs_iff)
  show "seqs (r\<lparr> lsr_start := lsr_start r + 1 \<rparr>) \<subseteq> seqs r" using i by (auto simp: seqs_iff)
qed

lemma alloc_seq_sane: "seq_client_alloc_seq answers direct cli = Some x \<Longrightarrow> lu_seq_range_is_sane (lcs_space cli)"
  by (rule ccontr) (simp add: seq_client_alloc_seq_def)

lemma alloc_seq_inv:
  assumes "direct_ok direct" "seq_client_alloc_seq answers direct cli = Some (res, cli')"
  shows "\<exists>r. cli' = cli\<lparr> lcs_space := r \<rparr> \<and> seqs r \<subseteq> seqs (lcs_space cli) \<union> cli_grant answers direct cli
     \<and> (\<forall>q. res = Inr q \<longrightarrow>
          q \<in> seqs (lcs_space cli) \<union> cli_grant answers direct cli \<and> q \<notin> seqs r)"
proof (cases "lu_seq_range_is_exhausted (lcs_space cli)")
  case False
  note sane = alloc_seq_sane [OF assms(2)]
  let ?r = "(lcs_space cli)\<lparr> lsr_start := lsr_start (lcs_space cli) + 1 \<rparr>"
  from assms(2) False sane have "cli' = cli\<lparr> lcs_space := ?r \<rparr>" "res = Inr (lsr_start (lcs_space cli))"
    by (simp_all add: seq_client_alloc_seq_def)
  with seqs_take_first [OF sane False] show ?thesis by (intro exI [of _ ?r]) auto
next
  case True
  note sane = alloc_seq_sane [OF assms(2)]
  with True obtain rc cli1 where c: "seq_client_alloc_meta answers direct cli = Some (rc, cli1)"
    using assms(2) by (cases "seq_client_alloc_meta answers direct cli") (auto simp: seq_client_alloc_seq_def)
  from alloc_meta_keeps [OF assms(1) c] obtain r where r: "cli1 = cli\<lparr> lcs_space := r \<rparr>"
    "rc \<noteq> None \<longrightarrow> r = lcs_space cli \<or> seqs r = {}" "rc = None \<longrightarrow> lu_seq_range_is_sane r" by blast
  show ?thesis
  proof (cases rc)
    case (Some e)
    with assms(2) c True r(1) sane have "cli' = cli\<lparr> lcs_space := r \<rparr>" "res = Inl e"
      by (simp_all add: seq_client_alloc_seq_def)
    with r(2) Some show ?thesis by (intro exI [of _ r]) auto
  next
    case None
    let ?r = "r\<lparr> lsr_start := lsr_start r + 1 \<rparr>"
    have g: "cli_grant answers direct cli = seqs r" using True c None r by (simp add: cli_grant_def)
    have e: "\<not> lu_seq_range_is_exhausted r"
      using assms(2) c True r(1) sane None by (intro notI) (simp add: seq_client_alloc_seq_def)
    with assms(2) c True r(1) sane None have "cli' = cli\<lparr> lcs_space := ?r \<rparr>" "res = Inr (lsr_start r)"
      by (simp_all add: seq_client_alloc_seq_def)
    with seqs_take_first [of r] e r(3) None g show ?thesis by (intro exI [of _ ?r]) auto
  qed
qed

section \<open>Identifiers\<close>

lemma cli_inv_space:
  assumes "cli_inv K F cli" "seqs r \<subseteq> seqs (lcs_space cli) \<union> g" "g \<inter> K = {}"
  shows "cli_inv (K \<union> g) F (cli\<lparr> lcs_space := r \<rparr>)"
proof -
  note i = cli_invD [OF assms(1)]
  have "seqs r \<subseteq> K \<union> g" "f_seq ` F \<subseteq> K \<union> g" using i(1,2) assms(2) by blast+
  moreover have "seqs r \<inter> f_seq ` F = {}" using i(2,4) assms(2,3) by blast
  moreover have "f_seq (lcs_fid cli) \<in> K \<union> g - seqs r" if "\<not> fid_is_zero (lcs_fid cli)"
    using i(5) [OF that] assms(2,3) by blast
  ultimately show ?thesis using i(3,6,7) by (simp add: cli_inv_def)
qed

text \<open>A fresh sequence \<open>q\<close> with the object numbers up to \<open>n\<close> handed out.\<close>

lemma cli_inv_new_seq:
  assumes "cli_inv K F cli" "q \<in> K" "q \<notin> f_seq ` F" "q \<notin> seqs (lcs_space cli)"
    "\<forall>f\<in>N. f_seq f = q \<and> f_oid f \<le> n"
  shows "cli_inv K (N \<union> F) (cli\<lparr> lcs_fid := \<lparr> f_seq = q, f_oid = n, f_ver = 0 \<rparr> \<rparr>)"
proof -
  note i = cli_invD [OF assms(1)]
  have n: "f_seq ` N \<subseteq> {q}" using assms(5) by auto
  have "f_seq ` (N \<union> F) \<subseteq> K" using n i(2) assms(2) unfolding image_Un by blast
  moreover have "seqs (lcs_space cli) \<inter> f_seq ` (N \<union> F) = {}"
    using n i(4) assms(4) unfolding image_Un by blast
  moreover have "\<forall>f\<in>N \<union> F. f_seq f = q \<longrightarrow> f_oid f \<le> n" using assms(3,5) by blast
  ultimately show ?thesis using i(1,3) assms(2,4) by (simp add: cli_inv_def)
qed

text \<open>The next object number of the current sequence; it does not wrap.\<close>

lemma cli_inv_bump:
  assumes "cli_inv K F cli" "\<not> fid_is_zero (lcs_fid cli)" "ucast (f_oid (lcs_fid cli)) < lcs_width cli"
  defines "fid \<equiv> (lcs_fid cli)\<lparr> f_oid := f_oid (lcs_fid cli) + 1 \<rparr>"
  shows "fid \<notin> F" "cli_inv K (insert fid F) (cli\<lparr> lcs_fid := fid \<rparr>)"
proof -
  note i = cli_invD [OF assms(1)]
  have "ucast (f_oid (lcs_fid cli)) < (0xFFFFFFFF :: u64)"
    using order.strict_trans2 [OF assms(3) i(3)] by simp
  then have "f_oid (lcs_fid cli) < 0xFFFFFFFF" by (simp add: word_less_nat_alt unat_ucast_u32)
  note b = word_less_inc [OF this]
  have le: "f_oid f \<le> f_oid (lcs_fid cli)" if "f \<in> F" "f_seq f = f_seq (lcs_fid cli)" for f
    using i(7) assms(2) that by blast
  show "fid \<notin> F" using le [of fid] b by (auto simp: fid_def)
  have "f_oid f \<le> f_oid (lcs_fid cli) + 1" if "f \<in> F" "f_seq f = f_seq (lcs_fid cli)" for f
    using le [OF that] b by (meson order.strict_implies_order order.trans)
  moreover have "f_seq (lcs_fid cli) \<in> K" "f_seq (lcs_fid cli) \<notin> seqs (lcs_space cli)" "f_ver (lcs_fid cli) = 0"
    using i(5,6) assms(2) by auto
  ultimately show "cli_inv K (insert fid F) (cli\<lparr> lcs_fid := fid \<rparr>)"
    using i(1-4) by (simp add: cli_inv_def fid_def)
qed

lemma alloc_seq_fresh:
  assumes "cli_inv K F cli" "direct_ok direct" "cli_grant answers direct cli \<inter> K = {}"
    "seq_client_alloc_seq answers direct cli = Some (res, cli')"
  shows "cli_inv (K \<union> cli_grant answers direct cli) F cli'"
    "lcs_fid cli' = lcs_fid cli \<and> lcs_type cli' = lcs_type cli"
    "res = Inr q \<Longrightarrow> q \<in> K \<union> cli_grant answers direct cli \<and> q \<notin> f_seq ` F \<and> q \<notin> seqs (lcs_space cli')"
proof -
  from alloc_seq_inv [OF assms(2,4)] obtain r where r: "cli' = cli\<lparr> lcs_space := r \<rparr>"
    "seqs r \<subseteq> seqs (lcs_space cli) \<union> cli_grant answers direct cli"
    "\<forall>q. res = Inr q \<longrightarrow> q \<in> seqs (lcs_space cli) \<union> cli_grant answers direct cli \<and> q \<notin> seqs r" by blast
  from cli_inv_space [OF assms(1) r(2) assms(3)] r(1)
  show "cli_inv (K \<union> cli_grant answers direct cli) F cli'" by simp
  show "lcs_fid cli' = lcs_fid cli \<and> lcs_type cli' = lcs_type cli" using r(1) by simp
  note i = cli_invD [OF assms(1)]
  assume "res = Inr q"
  with r(3) have q: "q \<in> seqs (lcs_space cli) \<union> cli_grant answers direct cli" "q \<notin> seqs r" by blast+
  have "q \<notin> f_seq ` F" using q(1) i(2,4) assms(3) by blast
  with q i(1) r(1) show "q \<in> K \<union> cli_grant answers direct cli \<and> q \<notin> f_seq ` F \<and> q \<notin> seqs (lcs_space cli')"
    by auto
qed

lemma alloc_fid_inv:
  assumes "cli_inv K F cli" "direct_ok direct" "cli_grant answers direct cli \<inter> K = {}"
    "seq_client_alloc_fid answers direct cli = Some (res, cli')"
  shows "case res of Inl e \<Rightarrow> cli_inv (K \<union> cli_grant answers direct cli) F cli'
     | Inr (switched, fid) \<Rightarrow> fid \<notin> F \<and> cli_inv (K \<union> cli_grant answers direct cli) (insert fid F) cli'"
proof (cases "\<not> fid_is_zero (lcs_fid cli) \<and> ucast (f_oid (lcs_fid cli)) < lcs_width cli")
  case True
  let ?fid = "(lcs_fid cli)\<lparr> f_oid := f_oid (lcs_fid cli) + 1 \<rparr>"
  have "res = Inr (False, ?fid)" "cli' = cli\<lparr> lcs_fid := ?fid \<rparr>"
    using assms(4) True by (auto simp: seq_client_alloc_fid_def Let_def)
  with cli_inv_bump [OF assms(1)] True show ?thesis by (simp add: cli_inv_mono)
next
  case False
  then obtain r1 cli1 where c: "seq_client_alloc_seq answers direct cli = Some (r1, cli1)"
    using assms(4) by (cases "seq_client_alloc_seq answers direct cli") (auto simp: seq_client_alloc_fid_def)
  note f = alloc_seq_fresh [OF assms(1-3) c]
  show ?thesis
  proof (cases r1)
    case (Inl e)
    with assms(4) False c have "res = Inl e" "cli' = cli1" by (auto simp: seq_client_alloc_fid_def)
    with f(1) show ?thesis by simp
  next
    case (Inr q)
    let ?fid = "\<lparr> f_seq = q, f_oid = LUSTRE_FID_INIT_OID, f_ver = 0 \<rparr>"
    from Inr assms(4) False c have "res = Inr (True, ?fid)" "cli' = cli1\<lparr> lcs_fid := ?fid \<rparr>"
      by (auto simp: seq_client_alloc_fid_def Let_def)
    moreover note q = f(3) [OF Inr]
    moreover have "?fid \<notin> F" using q by force
    ultimately show ?thesis using cli_inv_new_seq [OF f(1), of q "{?fid}"] by simp
  qed
qed

text \<open>\<open>seq_client_get_seq\<close> hands the whole sequence to its caller.\<close>

lemma get_seq_inv:
  assumes "cli_inv K F cli" "direct_ok direct" "cli_grant answers direct cli \<inter> K = {}"
    "seq_client_get_seq answers direct cli = Some (res, cli')"
  shows "case res of Inl e \<Rightarrow> cli_inv (K \<union> cli_grant answers direct cli) F cli'
     | Inr q \<Rightarrow> q \<notin> f_seq ` F
         \<and> cli_inv (K \<union> cli_grant answers direct cli) ({f. f_seq f = q \<and> f_oid f \<le> f_oid (lcs_fid cli')} \<union> F) cli'"
proof -
  obtain r1 cli1 where c: "seq_client_alloc_seq answers direct cli = Some (r1, cli1)"
    using assms(4) by (cases "seq_client_alloc_seq answers direct cli") (auto simp: seq_client_get_seq_def)
  note f = alloc_seq_fresh [OF assms(1-3) c]
  show ?thesis
  proof (cases r1)
    case (Inl e)
    with assms(4) c have "res = Inl e" "cli' = cli1" by (auto simp: seq_client_get_seq_def)
    with f(1) show ?thesis by simp
  next
    case (Inr q)
    with assms(4) c obtain n where "res = Inr q" "cli' = cli1\<lparr> lcs_fid := \<lparr> f_seq = q, f_oid = n, f_ver = 0 \<rparr> \<rparr>"
      by (auto simp: seq_client_get_seq_def)
    with f(3) [OF Inr] cli_inv_new_seq [OF f(1), of q _ n] show ?thesis by simp
  qed
qed

lemma flush_inv: "cli_inv K F cli \<Longrightarrow> cli_inv K F (seq_client_flush cli)"
  by (simp add: cli_inv_def seq_client_flush_def fid_is_zero_def fid_zero_def)

lemma client_init_inv: "f_seq ` F \<subseteq> K \<Longrightarrow> cli_inv K F (seq_client_init exp type srv cli)"
  by (simp add: cli_inv_def seq_client_init_def seq_client_flush_def fid_is_zero_def fid_zero_def Let_def)

section \<open>A bad reply\<close>

text \<open>
  C25. \<open>seq_client_rpc\<close> rejects a reply that is not a proper range, but only after it has copied the
  reply over the range of the client. The call fails with \<open>EINVAL\<close>; the next request for a sequence
  then stops the client in the first assertion of \<open>seq_client_alloc_seq\<close>.
\<close>

theorem bad_reply_stops_client:
  assumes "lu_seq_range_is_sane (lcs_space cli)" "lu_seq_range_is_exhausted (lcs_space cli)"
    "lcs_exp cli" "\<not> lcs_srv cli" "\<And>req. answer SEQ_ALLOC_META req = (None, r)" "\<not> lu_seq_range_is_sane r"
  shows "\<exists>cli'. seq_client_alloc_seq ((True, answer) # answers) direct cli = Some (Inl EINVAL, cli')
     \<and> seq_client_alloc_seq answers' direct' cli' = None"
  using assms by (simp add: seq_client_alloc_seq_def seq_client_alloc_meta_def seq_client_rpc_def Let_def)

theorem bad_reply_stops_client_witness:
  "let cli = seq_client_init True LUSTRE_SEQ_METADATA False
       \<lparr> lcs_exp = False, lcs_space = lu_seq_range_init, lcs_fid = fid_zero, lcs_type = LUSTRE_SEQ_METADATA,
         lcs_width = 0, lcs_srv = False \<rparr>;
       answer = (\<lambda>opc req. (None, req\<lparr> lsr_start := 5, lsr_end := 4, lsr_index := 0, lsr_flags := 0 \<rparr>))
   in \<exists>cli'. seq_client_alloc_seq [(True, answer)] (\<lambda>r. (Some EIO, r)) cli = Some (Inl EINVAL, cli')
     \<and> seq_client_alloc_seq [] (\<lambda>r. (Some EIO, r)) cli' = None"
  unfolding Let_def
  by (rule bad_reply_stops_client [where r = "\<lparr> lsr_start = 5, lsr_end = 4, lsr_index = 0, lsr_flags = 0 \<rparr>"])
    (simp_all add: seq_client_init_def seq_client_flush_def Let_def exhausted_iff lu_seq_range_init_def lu_seq_range_is_sane_def)

end
