(* ===== verification/Seq_Cluster.thy ===== *)
theory Seq_Cluster
  imports Seq_Client
begin

text \<open>
  The controller, the sequence servers and the clients together: requests and replies, replies
  that get lost, commits of transactions, and crashes of servers and of the controller at any
  moment. Every identifier produced by any client is different from all others.

  A reply is delivered at most once (the request layer below \<open>seq_client_rpc\<close> matches replies
  to requests); it may be lost. Transactions of the controller may fail at any point, those of
  the servers succeed.
\<close>

section \<open>The actions of the nodes\<close>

text \<open>
  \<open>cl_super\<close> and \<open>cl_meta\<close> are the ranges in the replies of the controller and of the servers
  that were not delivered yet; \<open>cl_fids\<close> lists all identifiers the clients have produced.
  Server 0 is on the node of the controller.
\<close>

record cluster =
  cl_ctl :: lu_server_seq
  cl_srv :: "nat \<Rightarrow> lu_server_seq"
  cl_super :: "lu_seq_range list"
  cl_cli :: "nat \<Rightarrow> lu_client_seq"
  cl_meta :: "lu_seq_range list"
  cl_fids :: "lu_fid list"

definition sent :: "rc \<Rightarrow> lu_seq_range \<Rightarrow> lu_seq_range list \<Rightarrow> lu_seq_range list" where
  "sent rc r ms = (if rc = None then r # ms else ms)"

definition delivered :: "lu_seq_range option \<Rightarrow> lu_seq_range list \<Rightarrow> lu_seq_range list" where
  "delivered m ms = (case m of None \<Rightarrow> ms | Some r \<Rightarrow> remove1 r ms)"

definition node_site :: "cluster \<Rightarrow> nat \<Rightarrow> seq_server_site" where
  "node_site w i = \<lparr> ss_server_seq = Some (cl_srv w i),
                     ss_control_seq = (if i = 0 then Some (cl_ctl w) else None) \<rparr>"

text \<open>The controller handles a request for a super-sequence.\<close>

definition super_request :: "seq_env \<Rightarrow> bool \<Rightarrow> lu_seq_range \<Rightarrow> lu_seq_range \<Rightarrow> cluster \<Rightarrow> cluster option" where
  "super_request env rdonly req reply w = do {
     (rc, r, site) \<leftarrow> seq_handler env rdonly (node_site w 0) (Some SEQ_ALLOC_SUPER) req reply;
     ctl \<leftarrow> ss_control_seq site;
     Some (w\<lparr> cl_ctl := ctl, cl_super := sent rc r (cl_super w) \<rparr>)
   }"

text \<open>Server \<open>i\<close> handles a request for a sequence; the reply \<open>m\<close> of the controller arrives meanwhile.\<close>

definition meta_request ::
    "seq_env \<Rightarrow> bool \<Rightarrow> lu_seq_range \<Rightarrow> lu_seq_range \<Rightarrow> nat \<Rightarrow> lu_seq_range option \<Rightarrow> cluster \<Rightarrow> cluster option" where
  "meta_request env rdonly req reply i m w = do {
     (rc, r, site) \<leftarrow> seq_handler env rdonly (node_site w i) (Some SEQ_ALLOC_META) req reply;
     srv \<leftarrow> ss_server_seq site;
     Some (w\<lparr> cl_srv := (cl_srv w)(i := srv),
              cl_ctl := (case ss_control_seq site of None \<Rightarrow> cl_ctl w | Some c \<Rightarrow> c),
              cl_super := delivered m (cl_super w), cl_meta := sent rc r (cl_meta w) \<rparr>)
   }"

text \<open>Client \<open>j\<close> produces an identifier; the reply \<open>m\<close> of a server arrives meanwhile.\<close>

definition fid_request ::
    "(bool \<times> (seq_op \<Rightarrow> lu_seq_range \<Rightarrow> rc \<times> lu_seq_range)) list \<Rightarrow> (lu_seq_range \<Rightarrow> rc \<times> lu_seq_range)
       \<Rightarrow> nat \<Rightarrow> lu_seq_range option \<Rightarrow> cluster \<Rightarrow> cluster option" where
  "fid_request answers direct j m w = do {
     (res, cli) \<leftarrow> seq_client_alloc_fid answers direct (cl_cli w j);
     Some (w\<lparr> cl_cli := (cl_cli w)(j := cli), cl_meta := delivered m (cl_meta w),
              cl_fids := (case res of Inl e \<Rightarrow> cl_fids w | Inr (sw, fid) \<Rightarrow> fid # cl_fids w) \<rparr>)
   }"

definition restart_server :: "seq_dt \<Rightarrow> lu_server_fld \<Rightarrow> nat \<Rightarrow> cluster \<Rightarrow> cluster option" where
  "restart_server dt fld i w = do {
     (rc, srv) \<leftarrow> seq_server_init None None dt LUSTRE_SEQ_SERVER (seq_remount fld (cl_srv w i));
     Some (w\<lparr> cl_srv := (cl_srv w)(i := srv) \<rparr>)
   }"

definition restart_controller :: "seq_dt \<Rightarrow> lu_server_fld \<Rightarrow> cluster \<Rightarrow> cluster option" where
  "restart_controller dt fld w = do {
     (rc, ctl) \<leftarrow> seq_server_init None None dt LUSTRE_SEQ_CONTROLLER (seq_remount fld (cl_ctl w));
     Some (w\<lparr> cl_ctl := ctl \<rparr>)
   }"

definition connect_server :: "lu_client_seq option \<Rightarrow> nat \<Rightarrow> cluster \<Rightarrow> cluster" where
  "connect_server cli i w = w\<lparr> cl_srv := (cl_srv w)(i := snd (seq_server_set_cli (cl_srv w i) cli)) \<rparr>"

text \<open>A successful answer carries the delivered range.\<close>

definition answers_with :: "seq_op \<Rightarrow> lu_seq_range option \<Rightarrow> (seq_op \<Rightarrow> lu_seq_range \<Rightarrow> rc \<times> lu_seq_range) \<Rightarrow> bool" where
  "answers_with opc m answer \<longleftrightarrow> (\<forall>req r. answer opc req = (None, r) \<longrightarrow> m = Some r)"

definition in_flight :: "lu_seq_range option \<Rightarrow> lu_seq_range list \<Rightarrow> bool" where
  "in_flight m ms \<longleftrightarrow> (case m of None \<Rightarrow> True | Some r \<Rightarrow> r \<in> set ms)"

inductive cluster_step :: "cluster \<Rightarrow> cluster \<Rightarrow> bool" where
  super: "super_request env (sd_rdonly (e_ctl_dt env)) req reply w = Some w' \<Longrightarrow> cluster_step w w'"
| meta: "meta_request env (sd_rdonly (e_ctl_dt env)) req reply i m w = Some w' \<Longrightarrow>
    answers_with SEQ_ALLOC_SUPER m (e_answer env) \<Longrightarrow> in_flight m (cl_super w) \<Longrightarrow>
    dt_ok (e_init1_dt env) \<Longrightarrow> dt_ok (e_init2_dt env) \<Longrightarrow> dt_ok (e_set_dt env) \<Longrightarrow> cluster_step w w'"
| fid: "fid_request answers direct j m w = Some w' \<Longrightarrow> in_flight m (cl_meta w) \<Longrightarrow> direct_ok direct \<Longrightarrow>
    (\<forall>(alloc, answer) \<in> set answers. answers_with SEQ_ALLOC_META m answer) \<Longrightarrow>
    answers_with SEQ_ALLOC_META m (\<lambda>_. direct) \<Longrightarrow> cluster_step w w'"
| flush: "cluster_step w (w\<lparr> cl_cli := (cl_cli w)(j := seq_client_flush (cl_cli w j)) \<rparr>)"
| remount: "cluster_step w (w\<lparr> cl_cli := (cl_cli w)(j := seq_client_init exp type srv (cl_cli w j)) \<rparr>)"
| connect: "(case cli of Some c \<Rightarrow> lcs_srv c \<longrightarrow> i = 0 | None \<Rightarrow> True) \<Longrightarrow> cluster_step w (connect_server cli i w)"
| commit_server: "cluster_step w (w\<lparr> cl_srv := (cl_srv w)(i := seq_commit n (cl_srv w i)) \<rparr>)"
| commit_controller: "cluster_step w (w\<lparr> cl_ctl := seq_commit n (cl_ctl w) \<rparr>)"
| crash_server: "restart_server dt fld i w = Some w' \<Longrightarrow> dt_ok dt \<Longrightarrow> cluster_step w w'"
| crash_controller: "restart_controller dt fld w = Some w' \<Longrightarrow> \<not> sd_rdonly dt \<Longrightarrow> cluster_step w w'"

text \<open>Nodes whose stores were never written, before their first start.\<close>

definition blank :: "lu_server_seq \<Rightarrow> bool" where
  "blank s \<longleftrightarrow> lss_obj s = \<lparr> st_disk = None, st_jrnl = [] \<rparr>"

inductive cluster_reach :: "cluster \<Rightarrow> bool" where
  start: "blank c \<Longrightarrow> \<not> sd_rdonly dt \<Longrightarrow> seq_server_init None None dt LUSTRE_SEQ_CONTROLLER c = Some (None, cl_ctl w) \<Longrightarrow>
    (\<forall>i. \<exists>s dt. blank s \<and> dt_ok dt \<and> seq_server_init None None dt LUSTRE_SEQ_SERVER s = Some (None, cl_srv w i)) \<Longrightarrow>
    (\<forall>j. \<exists>exp type srv cli. cl_cli w j = seq_client_init exp type srv cli) \<Longrightarrow>
    cl_super w = [] \<Longrightarrow> cl_meta w = [] \<Longrightarrow> cl_fids w = [] \<Longrightarrow> cluster_reach w"
| step: "cluster_reach w \<Longrightarrow> cluster_step w w' \<Longrightarrow> cluster_reach w'"

section \<open>Shares of a set of sequences\<close>

text \<open>
  The sequences \<open>T\<close> are shared by holders, and by messages under way to a holder; no two of them
  have a sequence in common.
\<close>

definition shares :: "u64 set \<Rightarrow> (nat \<Rightarrow> u64 set) \<Rightarrow> lu_seq_range list \<Rightarrow> bool" where
  "shares T G ms \<longleftrightarrow> (\<forall>i. G i \<subseteq> T) \<and> (\<forall>i j. i \<noteq> j \<longrightarrow> G i \<inter> G j = {})
     \<and> (\<forall>r\<in>set ms. seqs r \<subseteq> T \<and> (\<forall>i. seqs r \<inter> G i = {})) \<and> sorted_wrt (\<lambda>a b. seqs a \<inter> seqs b = {}) ms"

lemma shares_mono: "shares T G ms \<Longrightarrow> T \<subseteq> T' \<Longrightarrow> shares T' G ms"
  unfolding shares_def by (meson order_trans)

lemma shares_send:
  assumes "shares T G ms" "seqs r \<inter> T = {}"
  shows "shares (T \<union> seqs r) G (r # ms)"
proof -
  have "\<forall>i. seqs r \<inter> G i = {}" "\<forall>x\<in>set ms. seqs r \<inter> seqs x = {}"
    using assms unfolding shares_def by blast+
  with assms(1) show ?thesis unfolding shares_def by (auto simp: le_supI1)
qed

lemma shares_sent:
  assumes "shares T G ms" "rc = None \<Longrightarrow> seqs r \<inter> T = {}"
  shows "shares (if rc = None then T \<union> seqs r else T) G (sent rc r ms)"
  using assms shares_send by (simp add: sent_def)

lemma shares_give:
  assumes "shares T G ms" "X \<inter> T = {}"
  shows "shares (T \<union> X) (G(i := G i \<union> X)) ms"
proof -
  have G: "\<forall>j. G j \<inter> X = {}" "\<forall>x\<in>set ms. seqs x \<inter> X = {}" using assms unfolding shares_def by blast+
  have "\<forall>j. (G(i := G i \<union> X)) j \<subseteq> T \<union> X" using assms(1) by (auto simp: shares_def)
  moreover have "\<forall>j k. j \<noteq> k \<longrightarrow> (G(i := G i \<union> X)) j \<inter> (G(i := G i \<union> X)) k = {}"
    using assms(1) G(1) unfolding shares_def by (simp add: Int_Un_distrib Int_Un_distrib2 Int_commute)
  moreover have "\<forall>r\<in>set ms. seqs r \<subseteq> T \<union> X \<and> (\<forall>j. seqs r \<inter> (G(i := G i \<union> X)) j = {})"
    using assms(1) G(2) unfolding shares_def by (simp add: Int_Un_distrib le_supI1)
  ultimately show ?thesis using assms(1) by (simp add: shares_def)
qed

lemma sorted_wrt_remove1: "sorted_wrt P ms \<Longrightarrow> sorted_wrt P (remove1 r ms)"
  by (induction ms) (auto dest: notin_set_remove1)

lemma remove1_disjoint:
  "sorted_wrt (\<lambda>a b. seqs a \<inter> seqs b = {}) ms \<Longrightarrow> r \<in> set ms \<Longrightarrow> x \<in> set (remove1 r ms) \<Longrightarrow> seqs x \<inter> seqs r = {}"
  by (induction ms) (auto split: if_splits)

lemma shares_drop: "shares T G ms \<Longrightarrow> shares T G (delivered m ms)"
  unfolding shares_def delivered_def
  by (cases m) (simp_all add: sorted_wrt_remove1, meson notin_set_remove1)

lemma shares_receive:
  assumes "shares T G ms" "r \<in> set ms"
  shows "shares T (G(i := G i \<union> seqs r)) (remove1 r ms)" "seqs r \<inter> G i = {}"
proof -
  have r: "seqs r \<subseteq> T" "\<forall>j. seqs r \<inter> G j = {}" using assms unfolding shares_def by blast+
  have d: "\<forall>x\<in>set (remove1 r ms). seqs x \<inter> seqs r = {}"
    using assms remove1_disjoint [of ms r] unfolding shares_def by blast
  have "\<forall>j k. j \<noteq> k \<longrightarrow> (G(i := G i \<union> seqs r)) j \<inter> (G(i := G i \<union> seqs r)) k = {}"
    using assms(1) r(2) unfolding shares_def by (simp add: Int_Un_distrib Int_Un_distrib2 Int_commute)
  moreover have "\<forall>x\<in>set (remove1 r ms). seqs x \<subseteq> T \<and> (\<forall>j. seqs x \<inter> (G(i := G i \<union> seqs r)) j = {})"
    using assms(1) d unfolding shares_def by (simp add: Int_Un_distrib) (meson notin_set_remove1)
  ultimately show "shares T (G(i := G i \<union> seqs r)) (remove1 r ms)"
    using assms(1) r(1) sorted_wrt_remove1 [of _ ms r] by (simp add: shares_def)
  show "seqs r \<inter> G i = {}" using r(2) by simp
qed

section \<open>Layers of holders\<close>

text \<open>
  A layer: a node in state \<open>s\<close> that was granted \<open>G\<close> uses only sequences of \<open>G\<close> in what it has
  handed out (\<open>h\<close>). Holders of disjoint shares then never use the same sequence.
\<close>

locale seq_layer =
  fixes inv :: "u64 set \<Rightarrow> 'h \<Rightarrow> 's \<Rightarrow> bool"
    and used :: "'h \<Rightarrow> u64 set"
  assumes used_granted: "inv G h s \<Longrightarrow> used h \<subseteq> G"
    and grant_mono: "inv G h s \<Longrightarrow> G \<subseteq> G' \<Longrightarrow> inv G' h s"
begin

lemma fresh_elsewhere:
  assumes "shares T G ms" "\<forall>i. inv (G i) (h i) (s i)" "X \<subseteq> G k" "X \<inter> used (h k) = {}"
  shows "X \<inter> used (h j) = {}"
proof (cases "j = k")
  case False
  then have "G k \<inter> G j = {}" using assms(1) unfolding shares_def by blast
  moreover have "used (h j) \<subseteq> G j" using used_granted assms(2) by blast
  ultimately show ?thesis using assms(3) by blast
qed (use assms(4) in simp)

lemma all_used:
  assumes "shares T G ms" "\<forall>i. inv (G i) (h i) (s i)"
  shows "(\<Union>i. used (h i)) \<subseteq> T"
  using assms used_granted unfolding shares_def by blast

lemma update:
  assumes "\<forall>i. inv (G i) (h i) (s i)" "inv Gk hk sk"
  shows "\<forall>i. inv ((G(k := Gk)) i) ((h(k := hk)) i) ((s(k := sk)) i)"
  using assms by simp

end

interpretation srv: seq_layer srv_inv "\<lambda>H. H"
  by unfold_locales (use srv_inv_disjoint srv_inv_grant in blast)+

interpretation cli: seq_layer cli_inv "\<lambda>F. f_seq ` F"
  by unfold_locales (use cli_invD(2) cli_inv_mono in blast)+

section \<open>The invariant of the cluster\<close>

definition cluster_inv ::
    "u64 set \<Rightarrow> (nat \<Rightarrow> u64 set) \<Rightarrow> (nat \<Rightarrow> u64 set) \<Rightarrow> (nat \<Rightarrow> u64 set) \<Rightarrow> (nat \<Rightarrow> lu_fid set) \<Rightarrow> cluster \<Rightarrow> bool" where
  "cluster_inv T G H K F w \<longleftrightarrow> ctl_inv T (cl_ctl w)
     \<and> shares T G (cl_super w) \<and> (\<forall>i. srv_inv (G i) (H i) (cl_srv w i))
     \<and> shares (\<Union>i. H i) K (cl_meta w) \<and> (\<forall>j. cli_inv (K j) (F j) (cl_cli w j))
     \<and> (\<forall>i c. lss_cli (cl_srv w i) = Some c \<longrightarrow> lcs_srv c \<longrightarrow> i = 0)
     \<and> distinct (cl_fids w) \<and> set (cl_fids w) \<subseteq> (\<Union>j. F j)"

lemma super_request_inv:
  assumes "cluster_inv T G H K F w" "super_request env (sd_rdonly (e_ctl_dt env)) req reply w = Some w'"
  shows "\<exists>T'. cluster_inv T' G H K F w'"
proof (cases "sd_rdonly (e_ctl_dt env)")
  case True
  with assms show ?thesis
    by (auto simp: super_request_def seq_handler_def seq_server_handle_def node_site_def cluster_inv_def sent_def)
next
  case False
  define out where "out = reply\<lparr> lsr_index := lsr_index req, lsr_flags := lsr_flags req \<rparr>"
  from assms(2) False obtain rc r ctl where
    a: "seq_server_alloc_super (e_ctl_dt env) (cl_ctl w) out = Some (rc, r, ctl)"
    and w': "w' = w\<lparr> cl_ctl := ctl, cl_super := sent rc r (cl_super w) \<rparr>"
    by (cases "seq_server_alloc_super (e_ctl_dt env) (cl_ctl w) out")
      (auto simp: super_request_def seq_handler_def seq_server_handle_def node_site_def out_def)
  have i: "ctl_inv T (cl_ctl w)" "shares T G (cl_super w)" using assms(1) by (simp_all add: cluster_inv_def)
  note c = ctl_alloc_inv [OF i(1) False a]
  have "shares (if rc = None then T \<union> seqs r else T) G (sent rc r (cl_super w))"
    using shares_sent [OF i(2), of rc r] c by (auto simp: Int_commute)
  with c assms(1) w' have "cluster_inv (if rc = None then T \<union> seqs r else T) G H K F w'"
    by (simp add: cluster_inv_def)
  then show ?thesis by blast
qed

text \<open>Where a server gets a new super-sequence from.\<close>

lemma client_super_cases:
  assumes "seq_client_alloc_super env ctl c = Some (rc, c', ctl')"
  obtains (here) r where "lcs_srv c" "seq_server_alloc_super (e_ctl_dt env) ctl (lcs_space c) = Some (rc, r, ctl')"
      "c' = c\<lparr> lcs_space := r \<rparr>"
  | (failed) e r where "\<not> lcs_srv c" "rc = Some e" "ctl' = ctl" "c' = c\<lparr> lcs_space := r \<rparr>"
  | (remote) r req where "\<not> lcs_srv c" "rc = None" "ctl' = ctl" "c' = c\<lparr> lcs_space := r \<rparr>"
      "e_answer env SEQ_ALLOC_SUPER req = (None, r)"
proof (cases "lcs_srv c")
  case True
  with assms obtain r where "seq_server_alloc_super (e_ctl_dt env) ctl (lcs_space c) = Some (rc, r, ctl')"
    "c' = c\<lparr> lcs_space := r \<rparr>"
    by (cases "seq_server_alloc_super (e_ctl_dt env) ctl (lcs_space c)") (auto simp: seq_client_alloc_super_def)
  with here [OF True] show thesis by simp
next
  case srv: False
  show thesis
  proof (cases "lcs_exp c")
    case False
    with assms srv have "rc = Some EINPROGRESS" "ctl' = ctl" "c' = c"
      by (simp_all add: seq_client_alloc_super_def)
    with failed [OF srv, of EINPROGRESS "lcs_space c"] show thesis by simp
  next
    case True
    with assms srv have "seq_client_rpc (e_rpc_alloc env) (e_answer env) c SEQ_ALLOC_SUPER = Some (rc, c') \<and> ctl' = ctl"
      by (cases "seq_client_rpc (e_rpc_alloc env) (e_answer env) c SEQ_ALLOC_SUPER")
        (auto simp: seq_client_alloc_super_def)
    then have r: "seq_client_rpc (e_rpc_alloc env) (e_answer env) c SEQ_ALLOC_SUPER = Some (rc, c')"
      and k: "ctl' = ctl" by simp_all
    from r show thesis
    proof (cases rule: client_rpc_cases)
      case (err e)
      then show thesis using failed [OF srv _ k, of e "lcs_space c"] by simp
    next
      case (bad r)
      then show thesis using failed [OF srv _ k, of EINVAL r] by simp
    next
      case (ok r req)
      then show thesis using remote [OF srv _ k, of r req] by simp
    qed
  qed
qed

lemma check_super_cases:
  assumes "seq_server_check_and_alloc_super env ctl s = Some (rc, s', ctl')"
  obtains (kept) "ctl' = ctl" "new_grant env ctl s = {}"
  | (here) c rc1 r where "lss_cli s = Some c" "lcs_srv c"
      "seq_server_alloc_super (e_ctl_dt env) ctl (lcs_space c) = Some (rc1, r, ctl')"
      "new_grant env ctl s = (if rc1 = None then seqs r else {})"
  | (remote) r req where "ctl' = ctl" "e_answer env SEQ_ALLOC_SUPER req = (None, r)" "new_grant env ctl s = seqs r"
proof (cases "lu_seq_range_is_exhausted (lss_space s)")
  case False
  with assms have "ctl' = ctl"
    by (cases "lu_seq_range_is_zero (lss_lowater_set s)"; cases "seq_set_init (e_init1_dt env) s")
      (auto simp: seq_server_check_and_alloc_super_def)
  with False kept show thesis by (simp add: new_grant_def)
next
  case True
  with assms obtain rc1 stop s1 ctl1 where n: "seq_server_new_super env ctl s = Some (rc1, stop, s1, ctl1)"
    by (cases "seq_server_new_super env ctl s") (auto simp: seq_server_check_and_alloc_super_def)
  have k: "ctl' = ctl1" using assms n True
    by (cases "seq_set_init (e_init1_dt env) s1")
      (auto simp: seq_server_check_and_alloc_super_def split: if_splits)
  show thesis
  proof (cases "lss_cli s")
    case None
    with n k kept show thesis by (simp add: seq_server_new_super_def new_grant_def)
  next
    case (Some c)
    with n obtain rc2 c2 ctl2 where a: "seq_client_alloc_super env ctl c = Some (rc2, c2, ctl2)"
      by (cases "seq_client_alloc_super env ctl c") (auto simp: seq_server_new_super_def)
    have e: "ctl1 = ctl2" using n Some a
      by (cases "fld_insert_entry (e_fld_dt env) (ss_server_fld s) (lcs_space c2)")
        (auto simp: seq_server_new_super_def Let_def LASSERT_def split: if_splits)
    have g: "new_grant env ctl s = (if rc2 = None then seqs (lcs_space c2) else {})"
      using True Some a by (simp add: new_grant_def split: option.splits)
    from a show thesis
    proof (cases rule: client_super_cases)
      case (here r)
      with g k e Some show thesis using that(2) [of c rc2 r] by simp
    next
      case (failed err r)
      with g k e show thesis using kept by simp
    next
      case (remote r req)
      with g k e show thesis using that(3) [of req r] by simp
    qed
  qed
qed

text \<open>What the grant of a super-sequence does to the shares of the servers.\<close>

lemma grant_shares:
  assumes "ctl_inv T ctl" "shares T G ms" "\<not> sd_rdonly (e_ctl_dt env)"
    "answers_with SEQ_ALLOC_SUPER m (e_answer env)" "in_flight m ms"
    "seq_server_check_and_alloc_super env c0 s = Some (rc, s', c0')"
    "here \<Longrightarrow> c0 = ctl" "\<And>c. lss_cli s = Some c \<Longrightarrow> lcs_srv c \<Longrightarrow> here"
  shows "\<exists>T'. ctl_inv T' (if here then c0' else ctl)
     \<and> shares T' (G(i := G i \<union> new_grant env c0 s)) (delivered m ms) \<and> new_grant env c0 s \<inter> G i = {}"
  using assms(6)
proof (cases rule: check_super_cases)
  case kept
  with assms(1,7) shares_drop [OF assms(2), of m] show ?thesis by (intro exI [of _ T]) simp
next
  case (here c rc1 r)
  with assms(8) have h: here by blast
  let ?X = "if rc1 = None then seqs r else {}"
  from ctl_alloc_inv [OF assms(1,3) here(3) [unfolded assms(7) [OF h]]]
  have "?X \<inter> T = {}" "ctl_inv (T \<union> ?X) c0'" by (auto split: if_splits)
  moreover from this(1) assms(2) have "?X \<inter> G i = {}" unfolding shares_def by blast
  ultimately show ?thesis using shares_give [OF shares_drop [OF assms(2), of m], of ?X i] here(4) h
    by (intro exI [of _ "T \<union> ?X"]) simp
next
  case (remote r req)
  then have "m = Some r" using assms(4) unfolding answers_with_def by blast
  with assms(5) have "r \<in> set ms" by (simp add: in_flight_def)
  from shares_receive [OF assms(2) this, of i] remote assms(1,7) \<open>m = Some r\<close> show ?thesis
    by (intro exI [of _ T]) (simp add: delivered_def)
qed

text \<open>An allocation keeps the connection of the server.\<close>

lemma store_update_cli: "seq_store_update dt s out sync = Some (rc, s') \<Longrightarrow> lss_cli s' = lss_cli s"
  by (auto simp: seq_store_update_def seq_journal_def seq_commit_def seq_update_cb_add_def Let_def
      split: if_splits option.splits prod.splits bind_splits)

lemma set_init_cli: "seq_set_init dt s = Some (rc, s') \<Longrightarrow> lss_cli s' = lss_cli s"
  unfolding seq_set_init_def by (auto simp: Let_def split: prod.splits dest: store_update_cli)

lemma client_super_srv:
  assumes "seq_client_alloc_super env ctl c = Some (rc, c', ctl')"
  shows "lcs_srv c' = lcs_srv c"
  using assms by (cases rule: client_super_cases) simp_all

lemma new_super_cli:
  assumes "seq_server_new_super env ctl s = Some (rc, stop, s', ctl')"
  shows "map_option lcs_srv (lss_cli s') = map_option lcs_srv (lss_cli s)"
proof (cases "lss_cli s")
  case None
  with assms show ?thesis by (simp add: seq_server_new_super_def)
next
  case (Some c)
  with assms obtain rc2 c2 ctl2 where a: "seq_client_alloc_super env ctl c = Some (rc2, c2, ctl2)"
    by (cases "seq_client_alloc_super env ctl c") (auto simp: seq_server_new_super_def)
  have "lss_cli s' = Some c2" using assms Some a
    by (cases "fld_insert_entry (e_fld_dt env) (ss_server_fld s) (lcs_space c2)")
      (auto simp: seq_server_new_super_def Let_def LASSERT_def split: if_splits)
  with client_super_srv [OF a] Some show ?thesis by simp
qed

lemma check_super_cli:
  assumes "seq_server_check_and_alloc_super env ctl s = Some (rc, s', ctl')"
  shows "map_option lcs_srv (lss_cli s') = map_option lcs_srv (lss_cli s)"
proof -
  obtain rc1 stop s1 ctl1 where n: "(if lu_seq_range_is_exhausted (lss_space s) then seq_server_new_super env ctl s
        else Some (None, False, s, ctl)) = Some (rc1, stop, s1, ctl1)"
    using assms by (cases "if lu_seq_range_is_exhausted (lss_space s) then seq_server_new_super env ctl s
        else Some (None, False, s, ctl)") (auto simp: seq_server_check_and_alloc_super_def)
  then have "map_option lcs_srv (lss_cli s1) = map_option lcs_srv (lss_cli s)"
    by (auto split: if_splits dest: new_super_cli)
  moreover have "lss_cli s' = lss_cli s1"
    using assms n set_init_cli [of "e_init1_dt env" s1] unfolding seq_server_check_and_alloc_super_def n
    by (cases "seq_set_init (e_init1_dt env) s1") (auto split: if_splits)
  ultimately show ?thesis by simp
qed

lemma meta_sent:
  assumes "shares (\<Union>j. H j) K ms" "shares T G qs" "\<forall>j. srv_inv (G j) (H j) (sv j)"
    "rc = None \<Longrightarrow> H i \<inter> seqs r = {} \<and> seqs r \<subseteq> G i"
  shows "shares (\<Union>j. (if rc = None then H(i := H i \<union> seqs r) else H) j) K (sent rc r ms)"
proof (cases "rc = None")
  case True
  with assms(4) have r: "seqs r \<inter> H i = {}" "seqs r \<subseteq> G i" by (simp_all add: Int_commute)
  have "seqs r \<inter> (\<Union>j. H j) = {}"
    using srv.fresh_elsewhere [OF assms(2,3) r(2,1)] by blast
  moreover have "(\<Union>j. (H(i := H i \<union> seqs r)) j) = (\<Union>j. H j) \<union> seqs r" by (auto split: if_splits)
  ultimately show ?thesis using shares_sent [OF assms(1), of rc r] True by simp
next
  case False
  with assms(1) show ?thesis by (auto simp: sent_def)
qed

lemma cluster_inv_servers:
  assumes "cluster_inv T G H K F w" "ctl_inv T' c" "shares T' G' qs" "\<forall>j. srv_inv (G' j) (H' j) (sv j)"
    "shares (\<Union>j. H' j) K ms" "\<forall>j c. lss_cli (sv j) = Some c \<longrightarrow> lcs_srv c \<longrightarrow> j = 0"
  shows "cluster_inv T' G' H' K F (w\<lparr> cl_srv := sv, cl_ctl := c, cl_super := qs, cl_meta := ms \<rparr>)"
  using assms by (simp add: cluster_inv_def)

lemma meta_request_inv:
  assumes "cluster_inv T G H K F w" "answers_with SEQ_ALLOC_SUPER m (e_answer env)" "in_flight m (cl_super w)"
    "dt_ok (e_init1_dt env)" "dt_ok (e_init2_dt env)" "dt_ok (e_set_dt env)"
    "meta_request env (sd_rdonly (e_ctl_dt env)) req reply i m w = Some w'"
  shows "\<exists>T' G' H'. cluster_inv T' G' H' K F w'"
proof (cases "sd_rdonly (e_ctl_dt env)")
  case True
  with assms(7) have "w' = w\<lparr> cl_super := delivered m (cl_super w) \<rparr>"
    by (auto simp: meta_request_def seq_handler_def seq_server_handle_def node_site_def sent_def)
  with assms(1) have "cluster_inv T G H K F w'" by (simp add: cluster_inv_def shares_drop)
  then show ?thesis by blast
next
  case False
  define out where "out = reply\<lparr> lsr_index := lsr_index req, lsr_flags := lsr_flags req \<rparr>"
  define ctl where "ctl = (if i = 0 then cl_ctl w else cl_srv w i)"
  let ?s = "cl_srv w i"
  let ?g = "new_grant env ctl ?s"
  from assms(7) False obtain rc r s ctl' where
    a: "seq_server_alloc_meta env ctl ?s out = Some (rc, r, s, ctl')"
    and w': "w' = w\<lparr> cl_srv := (cl_srv w)(i := s), cl_ctl := (if i = 0 then ctl' else cl_ctl w),
       cl_super := delivered m (cl_super w), cl_meta := sent rc r (cl_meta w) \<rparr>"
    by (cases "seq_server_alloc_meta env ctl ?s out")
      (auto simp: meta_request_def seq_handler_def seq_server_handle_def node_site_def out_def ctl_def split: if_splits)
  note i = assms(1) [unfolded cluster_inv_def]
  have si: "srv_inv (G i) (H i) ?s" using i by blast
  obtain rc1 s1 ctl1 where c: "seq_server_check_and_alloc_super env ctl ?s = Some (rc1, s1, ctl1)"
    using a by (cases "seq_server_check_and_alloc_super env ctl ?s"; cases "lu_seq_range_is_sane (lss_space ?s)")
      (auto simp: seq_server_alloc_meta_def)
  have "\<exists>T'. ctl_inv T' (if i = 0 then ctl1 else cl_ctl w)
      \<and> shares T' (G(i := G i \<union> ?g)) (delivered m (cl_super w)) \<and> ?g \<inter> G i = {}"
    by (rule grant_shares [OF _ _ False assms(2,3) c]) (use i in \<open>auto simp: ctl_def\<close>)
  then obtain T' where T': "ctl_inv T' (if i = 0 then ctl1 else cl_ctl w)"
    "shares T' (G(i := G i \<union> ?g)) (delivered m (cl_super w))" "?g \<inter> G i = {}" by blast
  note k = alloc_meta_inv [OF si T'(3) assms(4-6) a]
  from k(2) c have l: "ctl' = ctl1" "lss_cli s = lss_cli s1" by auto
  let ?H = "if rc = None then H(i := H i \<union> seqs r) else H"
  have srv: "\<forall>j. srv_inv ((G(i := G i \<union> ?g)) j) (?H j) (((cl_srv w)(i := s)) j)"
    using i k(1) by (auto split: if_splits)
  have "\<forall>j. srv_inv ((G(i := G i \<union> ?g)) j) (H j) (cl_srv w j)"
    using i srv_inv_grant [OF si, of "G i \<union> ?g"] by simp
  from meta_sent [OF _ T'(2) this, of K "cl_meta w" rc i r] have mt: "shares (\<Union>j. ?H j) K (sent rc r (cl_meta w))"
    using i k(1) by simp
  have "map_option lcs_srv (lss_cli s) = map_option lcs_srv (lss_cli ?s)"
    using check_super_cli [OF c] l(2) by simp
  moreover have z: "\<forall>i c. lss_cli (cl_srv w i) = Some c \<longrightarrow> lcs_srv c \<longrightarrow> i = 0" using i by blast
  ultimately have "i = 0" if "lss_cli s = Some c" "lcs_srv c" for c using that by (cases "lss_cli ?s") auto
  with z have "\<forall>j c. lss_cli (((cl_srv w)(i := s)) j) = Some c \<longrightarrow> lcs_srv c \<longrightarrow> j = 0" by simp
  from cluster_inv_servers [OF assms(1) T'(1,2) srv mt this] w' l(1) show ?thesis by blast
qed

lemma shares_fids_fresh:
  assumes "shares T K ms" "\<forall>j. cli_inv (K j) (F j) (cl j)" "fid \<notin> F k" "f_seq fid \<in> K k"
  shows "fid \<notin> (\<Union>j. F j)"
proof
  assume "fid \<in> (\<Union>j. F j)"
  then obtain j where j: "fid \<in> F j" by blast
  then have "f_seq fid \<in> K j" using cli.used_granted assms(2) by blast
  moreover have "j \<noteq> k" using j assms(3) by blast
  ultimately show False using assms(1,4) unfolding shares_def by blast
qed

text \<open>The sequences a client is granted are those of the delivered range.\<close>

lemma client_grant_cases:
  assumes "\<forall>(alloc, answer) \<in> set answers. answers_with SEQ_ALLOC_META m answer"
    "answers_with SEQ_ALLOC_META m (\<lambda>_. direct)"
  obtains "cli_grant answers direct cli = {}" | r where "m = Some r" "cli_grant answers direct cli = seqs r"
proof (cases "cli_grant answers direct cli = {}")
  case False
  then obtain cli' where a: "seq_client_alloc_meta answers direct cli = Some (None, cli')"
    and g: "cli_grant answers direct cli = seqs (lcs_space cli')"
    unfolding cli_grant_def by (auto split: if_splits option.splits)
  have "m = Some (lcs_space cli')"
  proof (cases "lcs_srv cli")
    case True
    with a obtain r where "direct (lcs_space cli) = (None, r)" "cli' = cli\<lparr> lcs_space := r \<rparr>"
      by (auto simp: seq_client_alloc_meta_def split: prod.splits)
    with assms(2) show ?thesis unfolding answers_with_def by auto
  next
    case False
    with a have "seq_client_meta_loop answers cli = Some (None, cli')" by (simp add: seq_client_alloc_meta_def)
    from meta_loop_keeps [OF this] obtain r alloc answer q where "cli' = cli\<lparr> lcs_space := r \<rparr>"
      "(alloc, answer) \<in> set answers" "answer SEQ_ALLOC_META q = (None, r)" by auto
    with assms(1) show ?thesis unfolding answers_with_def by fastforce
  qed
  with g that(2) show thesis by blast
qed (rule that(1))

lemma client_shares:
  assumes "shares S K ms" "in_flight m ms" "\<forall>(alloc, answer) \<in> set answers. answers_with SEQ_ALLOC_META m answer"
    "answers_with SEQ_ALLOC_META m (\<lambda>_. direct)"
  shows "shares S (K(j := K j \<union> cli_grant answers direct cli)) (delivered m ms)"
    "cli_grant answers direct cli \<inter> K j = {}"
proof -
  have "shares S (K(j := K j \<union> cli_grant answers direct cli)) (delivered m ms)
      \<and> cli_grant answers direct cli \<inter> K j = {}"
    using assms(3,4)
  proof (cases rule: client_grant_cases [where cli = cli])
    case 1
    with shares_drop [OF assms(1)] show ?thesis by simp
  next
    case (2 r)
    with assms(2) have "r \<in> set ms" by (simp add: in_flight_def)
    from shares_receive [OF assms(1) this, of j] 2 show ?thesis by (simp add: delivered_def)
  qed
  then show "shares S (K(j := K j \<union> cli_grant answers direct cli)) (delivered m ms)"
    "cli_grant answers direct cli \<inter> K j = {}" by simp_all
qed

lemma fid_request_inv:
  assumes "cluster_inv T G H K F w" "in_flight m (cl_meta w)" "direct_ok direct"
    "\<forall>(alloc, answer) \<in> set answers. answers_with SEQ_ALLOC_META m answer"
    "answers_with SEQ_ALLOC_META m (\<lambda>_. direct)"
    "fid_request answers direct j m w = Some w'"
  shows "\<exists>K' F'. cluster_inv T G H K' F' w'"
proof -
  let ?g = "cli_grant answers direct (cl_cli w j)"
  let ?K = "K(j := K j \<union> ?g)"
  note i = assms(1) [unfolded cluster_inv_def]
  from i have sh: "shares (\<Union>i. H i) K (cl_meta w)" and ci: "cli_inv (K j) (F j) (cl_cli w j)" by blast+
  note s = client_shares [OF sh assms(2,4,5), where j = j and cli = "cl_cli w j"]
  obtain res cli where a: "seq_client_alloc_fid answers direct (cl_cli w j) = Some (res, cli)"
    and w': "w' = w\<lparr> cl_cli := (cl_cli w)(j := cli), cl_meta := delivered m (cl_meta w),
       cl_fids := (case res of Inl e \<Rightarrow> cl_fids w | Inr (sw, fid) \<Rightarrow> fid # cl_fids w) \<rparr>"
    using assms(6) by (cases "seq_client_alloc_fid answers direct (cl_cli w j)") (auto simp: fid_request_def)
  note f = alloc_fid_inv [OF ci assms(3) s(2) a]
  show ?thesis
  proof (cases res)
    case (Inl e)
    with f i s(1) have "cluster_inv T G H ?K F w'" unfolding w' cluster_inv_def by simp
    then show ?thesis by blast
  next
    case (Inr p)
    then obtain sw fid where r: "res = Inr (sw, fid)" by (cases p) auto
    with f have n: "fid \<notin> F j" "cli_inv (K j \<union> ?g) (insert fid (F j)) cli" by simp_all
    have ci': "\<forall>l. cli_inv (?K l) (F l) (cl_cli w l)" using i cli_inv_mono [OF ci, of "K j \<union> ?g"] by simp
    have "f_seq fid \<in> ?K j" using cli_invD(2) [OF n(2)] by simp
    from shares_fids_fresh [OF s(1) ci' n(1) this] i have "distinct (fid # cl_fids w)" by auto
    moreover have "set (fid # cl_fids w) \<subseteq> (\<Union>l. (F(j := insert fid (F j))) l)"
      using i by (auto split: if_splits)
    ultimately have "cluster_inv T G H ?K (F(j := insert fid (F j))) w'"
      using n(2) i s(1) unfolding w' r cluster_inv_def by simp
    then show ?thesis by blast
  qed
qed

lemma cluster_inv_srv:
  assumes "cluster_inv T G H K F w" "srv_inv (G i) (H i) s" "\<And>c. lss_cli s = Some c \<Longrightarrow> lcs_srv c \<Longrightarrow> i = 0"
  shows "cluster_inv T G H K F (w\<lparr> cl_srv := (cl_srv w)(i := s) \<rparr>)"
  using assms by (simp add: cluster_inv_def)

lemma cluster_inv_cli:
  assumes "cluster_inv T G H K F w" "cli_inv (K j) (F j) c"
  shows "cluster_inv T G H K F (w\<lparr> cl_cli := (cl_cli w)(j := c) \<rparr>)"
  using assms by (simp add: cluster_inv_def)

lemma cluster_inv_ctl:
  "cluster_inv T G H K F w \<Longrightarrow> ctl_inv T c \<Longrightarrow> cluster_inv T G H K F (w\<lparr> cl_ctl := c \<rparr>)"
  by (simp add: cluster_inv_def)

lemma connect_inv:
  assumes "cluster_inv T G H K F w" "case cli of Some c \<Rightarrow> lcs_srv c \<longrightarrow> i = 0 | None \<Rightarrow> True"
  shows "cluster_inv T G H K F (connect_server cli i w)"
proof -
  let ?s = "snd (seq_server_set_cli (cl_srv w i) cli)"
  have "srv_inv (G i) (H i) ?s"
    using assms(1) by (auto simp: cluster_inv_def seq_server_set_cli_def srv_inv_upd split: option.splits)
  moreover have "i = 0" if "lss_cli ?s = Some c" "lcs_srv c" for c
    using that assms by (auto simp: cluster_inv_def seq_server_set_cli_def split: option.splits if_splits)
  ultimately show ?thesis unfolding connect_server_def by (rule cluster_inv_srv [OF assms(1)])
qed

lemma commit_cli: "lss_cli (seq_commit n s) = lss_cli s"
  by (simp add: seq_commit_def Let_def)

theorem cluster_step_inv:
  assumes "cluster_step w w'" "cluster_inv T G H K F w"
  shows "\<exists>T G H K F. cluster_inv T G H K F w'"
  using assms(1)
proof cases
  case (super env req reply)
  with super_request_inv [OF assms(2) super] show ?thesis by (elim exE) (intro exI)
next
  case (meta env req reply i m)
  with meta_request_inv [OF assms(2) meta(2-6,1)] show ?thesis by (elim exE) (intro exI)
next
  case (fid answers direct j m)
  with fid_request_inv [OF assms(2) fid(2-5,1)] show ?thesis by (elim exE) (intro exI)
next
  case (flush j)
  have "cli_inv (K j) (F j) (cl_cli w j)" using assms(2) by (simp add: cluster_inv_def)
  from cluster_inv_cli [OF assms(2) flush_inv [OF this]] flush show ?thesis by blast
next
  case (remount j exp type srv)
  have "f_seq ` F j \<subseteq> K j" using assms(2) cli.used_granted unfolding cluster_inv_def by blast
  from cluster_inv_cli [OF assms(2) client_init_inv [OF this]] remount show ?thesis by blast
next
  case (connect cli i)
  with connect_inv [OF assms(2) connect(2)] show ?thesis by (intro exI) simp
next
  case (commit_server i n)
  have "srv_inv (G i) (H i) (seq_commit n (cl_srv w i))"
    using assms(2) by (simp add: cluster_inv_def commit_inv)
  moreover have "i = 0" if "lss_cli (seq_commit n (cl_srv w i)) = Some c" "lcs_srv c" for c
    using assms(2) that by (simp add: commit_cli cluster_inv_def)
  ultimately have "cluster_inv T G H K F w'" unfolding commit_server by (rule cluster_inv_srv [OF assms(2)])
  then show ?thesis by blast
next
  case (commit_controller n)
  have "ctl_inv T (cl_ctl w)" using assms(2) by (simp add: cluster_inv_def)
  from cluster_inv_ctl [OF assms(2) ctl_commit_inv [OF this]] commit_controller show ?thesis by blast
next
  case (crash_server dt fld i)
  have "srv_inv (G i) (H i) (cl_srv w i)" using assms(2) by (simp add: cluster_inv_def)
  from restart_inv [OF this crash_server(2), of fld] obtain s where
    s: "seq_server_init None None dt LUSTRE_SEQ_SERVER (seq_remount fld (cl_srv w i)) = Some (None, s)"
      "srv_inv (G i) (H i) s" "lss_cli s = None" by blast
  then have "w' = w\<lparr> cl_srv := (cl_srv w)(i := s) \<rparr>" using crash_server(1) by (simp add: restart_server_def)
  moreover have "cluster_inv T G H K F (w\<lparr> cl_srv := (cl_srv w)(i := s) \<rparr>)"
    by (rule cluster_inv_srv [OF assms(2) s(2)]) (simp add: s(3))
  ultimately show ?thesis by blast
next
  case (crash_controller dt fld)
  then obtain rc c where
    c: "seq_server_init None None dt LUSTRE_SEQ_CONTROLLER (seq_remount fld (cl_ctl w)) = Some (rc, c)"
      "w' = w\<lparr> cl_ctl := c \<rparr>"
    by (cases "seq_server_init None None dt LUSTRE_SEQ_CONTROLLER (seq_remount fld (cl_ctl w))")
      (auto simp: restart_controller_def)
  have "ctl_inv T (cl_ctl w)" using assms(2) by (simp add: cluster_inv_def)
  from cluster_inv_ctl [OF assms(2) ctl_restart_inv [OF this crash_controller(2) c(1)]] c(2)
  show ?thesis by blast
qed

lemma blank_server:
  assumes "blank s" "dt_ok dt" "seq_server_init None None dt LUSTRE_SEQ_SERVER s = Some (None, s')"
  shows "srv_inv {} {} s'" "lss_cli s' = None"
proof -
  let ?z = "s\<lparr> lss_cli := None, lss_type := LUSTRE_SEQ_SERVER,
     lss_lowater_set := lu_seq_range_init, lss_hiwater_set := lu_seq_range_init,
     lss_set_width := LUSTRE_SEQ_BATCH_WIDTH, lss_width := LUSTRE_SEQ_META_WIDTH,
     lss_space := LUSTRE_SEQ_ZERO_RANGE\<lparr> lsr_index := ss_node_id s \<rparr> \<rparr>"
  have "srv_mem {} {} ?z" by (simp add: srv_mem_def)
  from update_async_inv [OF assms(2) this] assms(1) obtain s1 where
    u: "seq_store_update dt ?z None False = Some (None, s1)" "same_mem ?z s1" "srv_inv {} {} s1"
    by (auto simp: blank_def on_disk_def)
  moreover have "s' = s1"
    using assms(1,3) u(1,2) by (simp add: blank_def seq_server_init_def seq_store_read_def Let_def same_mem_def)
  ultimately show "srv_inv {} {} s'" "lss_cli s' = None" by (simp_all add: same_mem_def)
qed

lemma blank_controller:
  assumes "blank c" "\<not> sd_rdonly dt" "seq_server_init None None dt LUSTRE_SEQ_CONTROLLER c = Some (None, c')"
  shows "ctl_inv {} c'"
proof -
  let ?z = "c\<lparr> lss_cli := None, lss_type := LUSTRE_SEQ_CONTROLLER,
     lss_lowater_set := lu_seq_range_init, lss_hiwater_set := lu_seq_range_init,
     lss_set_width := LUSTRE_SEQ_BATCH_WIDTH, lss_width := LUSTRE_SEQ_SUPER_WIDTH,
     lss_space := LUSTRE_SEQ_SPACE_RANGE\<lparr> lsr_index := ss_node_id c \<rparr> \<rparr>"
  have u: "seq_store_update dt ?z None False = Some (None, c')"
    using assms(1,3) by (cases "seq_store_update dt ?z None False")
      (auto simp: blank_def seq_server_init_def seq_store_read_def Let_def LASSERT_def split: if_splits)
  note n = store_update_any [OF assms(2) u]
  then have "lu_seq_range_is_sane (lss_space c')" "\<not> lu_seq_range_is_zero (lss_space c')" by simp_all
  moreover have "set_option (st_disk (lss_obj c')) \<union> fst ` set (st_jrnl (lss_obj c')) \<subseteq> {lss_space c'}"
    using n(1-3) assms(1) by (auto simp: blank_def)
  ultimately show ?thesis unfolding ctl_inv_def by (auto dest!: subsetD)
qed

theorem cluster_reach_inv: "cluster_reach w \<Longrightarrow> \<exists>T G H K F. cluster_inv T G H K F w"
proof (induction rule: cluster_reach.induct)
  case (start c dt w)
  have "\<forall>i. srv_inv {} {} (cl_srv w i) \<and> lss_cli (cl_srv w i) = None"
    using start(4) blank_server by blast
  moreover have "\<forall>j. cli_inv {} {} (cl_cli w j)"
  proof
    fix j
    from start(5) obtain exp type srv cli where "cl_cli w j = seq_client_init exp type srv cli" by blast
    then show "cli_inv {} {} (cl_cli w j)" using client_init_inv [of "{}" "{}"] by simp
  qed
  ultimately have "cluster_inv {} (\<lambda>_. {}) (\<lambda>_. {}) (\<lambda>_. {}) (\<lambda>_. {}) w"
    using blank_controller [OF start(1-3)] start(6-8) by (simp add: cluster_inv_def shares_def)
  then show ?case by blast
next
  case (step w w')
  then show ?case using cluster_step_inv by blast
qed

section \<open>A run with a crash\<close>

text \<open>
  A cluster whose first server hands out a sequence, crashes before its last store update is
  committed, starts again and hands out another sequence; two clients produce identifiers.
\<close>

definition run_fld_dt :: fld_dt where
  "run_fld_dt = \<lparr> dd_rdonly = False, dt_trans_create = None, dt_declare_delete = None, dt_declare_insert = None,
     dt_trans_start_local = None, dt_delete = None, dt_insert = None, dt_flde = Some 1, dt_fldt = Some 2 \<rparr>"

definition run_dt :: seq_dt where
  "run_dt = \<lparr> sd_rdonly = False, sd_trans_create = None, sd_declare_write = None, sd_trans_start = None,
     sd_write = None, sd_cb_alloc = True, sd_cb_add = None, sd_fld = run_fld_dt \<rparr>"

definition run_fld :: lu_server_fld where
  "run_fld = \<lparr> lsf_cache = sample_cache\<lparr> fci_entries_head := [], fci_lru := [], fci_cache_count := 0 \<rparr>, lsf_obj = (\<lambda>_. None), lsf_new = False, lsf_name = Inr (True, 0),
     lsf_control_exp = False \<rparr>"

definition run_node :: lu_server_seq where
  "run_node = \<lparr> lss_space = lu_seq_range_init, lss_lowater_set = lu_seq_range_init, lss_hiwater_set = lu_seq_range_init,
     lss_obj = \<lparr> st_disk = None, st_jrnl = [] \<rparr>, lss_type = LUSTRE_SEQ_SERVER, lss_cli = None, lss_width = 0,
     lss_set_width = 0, lss_need_sync = False, ss_node_id = 0, ss_server_fld = run_fld \<rparr>"

definition run_client :: "bool \<Rightarrow> lu_client_seq" where
  "run_client srv = seq_client_init True LUSTRE_SEQ_METADATA srv
     \<lparr> lcs_exp = False, lcs_space = lu_seq_range_init, lcs_fid = fid_zero, lcs_type = LUSTRE_SEQ_METADATA,
       lcs_width = 0, lcs_srv = False \<rparr>"

definition run_env :: seq_env where
  "run_env = \<lparr> e_rpc_alloc = True, e_answer = (\<lambda>_ r. (Some EIO, r)), e_ctl_dt = run_dt, e_fld_dt = run_fld_dt,
     e_init1_dt = run_dt, e_init2_dt = run_dt, e_set_dt = run_dt, e_num_exports = 2 \<rparr>"

definition run0 :: cluster where
  "run0 = \<lparr> cl_ctl = snd (the (seq_server_init None None run_dt LUSTRE_SEQ_CONTROLLER run_node)),
     cl_srv = (\<lambda>_. snd (the (seq_server_init None None run_dt LUSTRE_SEQ_SERVER run_node))),
     cl_super = [], cl_cli = (\<lambda>_. run_client False), cl_meta = [], cl_fids = [] \<rparr>"

definition run_meta :: "cluster \<Rightarrow> cluster option" where
  "run_meta w = meta_request run_env (sd_rdonly (e_ctl_dt run_env)) lu_seq_range_init lu_seq_range_init 0 None
     (connect_server (Some (run_client True)) 0 w)"

definition run_fid :: "nat \<Rightarrow> cluster \<Rightarrow> cluster option" where
  "run_fid j w = fid_request [(True, \<lambda>_ _. (None, hd (cl_meta w)))] (\<lambda>r. (Some EIO, r)) j (Some (hd (cl_meta w))) w"

definition run1 :: cluster where "run1 = the (run_meta run0)"
definition run2 :: cluster where "run2 = the (run_fid 0 run1)"
definition run3 :: cluster where "run3 = the (restart_server run_dt run_fld 0 run2)"
definition run4 :: cluster where "run4 = the (run_meta run3)"
definition run5 :: cluster where "run5 = the (run_fid 1 run4)"

lemma run_checks:
  "seq_server_init None None run_dt LUSTRE_SEQ_CONTROLLER run_node \<noteq> None"
  "fst (the (seq_server_init None None run_dt LUSTRE_SEQ_CONTROLLER run_node)) = None"
  "seq_server_init None None run_dt LUSTRE_SEQ_SERVER run_node \<noteq> None"
  "fst (the (seq_server_init None None run_dt LUSTRE_SEQ_SERVER run_node)) = None"
  "run_meta run0 \<noteq> None"
  "run_fid 0 run1 \<noteq> None"
  "restart_server run_dt run_fld 0 run2 \<noteq> None"
  "run_meta run3 \<noteq> None"
  "run_fid 1 run4 \<noteq> None"
  "cl_meta run1 \<noteq> []" "cl_meta run4 \<noteq> []"
  "cl_fids run5 = [\<lparr> f_seq = 0x200000BD0, f_oid = 1, f_ver = 0 \<rparr>, \<lparr> f_seq = 0x200000400, f_oid = 1, f_ver = 0 \<rparr>]"
  by code_simp+

lemma run_dt_ok: "dt_ok run_dt" "\<not> sd_rdonly run_dt"
  by (simp_all add: dt_ok_def run_dt_def)

lemma run0_reach: "cluster_reach run0"
proof (rule cluster_reach.start [of run_node run_dt])
  have "seq_server_init None None run_dt LUSTRE_SEQ_SERVER run_node = Some (None, cl_srv run0 i)" for i
    using run_checks(3,4) by (auto simp: run0_def)
  moreover show "blank run_node" by (simp add: blank_def run_node_def)
  ultimately show "\<forall>i. \<exists>s dt. blank s \<and> dt_ok dt \<and> seq_server_init None None dt LUSTRE_SEQ_SERVER s = Some (None, cl_srv run0 i)"
    using run_dt_ok(1) by blast
  show "seq_server_init None None run_dt LUSTRE_SEQ_CONTROLLER run_node = Some (None, cl_ctl run0)"
    using run_checks(1,2) by (auto simp: run0_def)
  show "\<forall>j. \<exists>exp type srv cli. cl_cli run0 j = seq_client_init exp type srv cli"
    by (auto simp: run0_def run_client_def)
qed (simp_all add: run_dt_ok run0_def)

lemma run_meta_reach:
  assumes "cluster_reach w" "run_meta w \<noteq> None"
  shows "cluster_reach (the (run_meta w))"
proof -
  let ?w = "connect_server (Some (run_client True)) 0 w"
  have "cluster_step w ?w" by (rule cluster_step.connect) simp
  moreover have "cluster_step ?w (the (run_meta w))"
    by (rule cluster_step.meta [of run_env lu_seq_range_init lu_seq_range_init 0 None])
      (use assms(2) run_dt_ok in \<open>auto simp: run_meta_def run_env_def answers_with_def in_flight_def\<close>)
  ultimately show ?thesis using assms(1) cluster_reach.step by blast
qed

lemma run_fid_reach:
  assumes "cluster_reach w" "run_fid j w \<noteq> None" "cl_meta w \<noteq> []"
  shows "cluster_reach (the (run_fid j w))"
proof -
  have "cluster_step w (the (run_fid j w))"
    by (rule cluster_step.fid [of "[(True, \<lambda>_ _. (None, hd (cl_meta w)))]" "\<lambda>r. (Some EIO, r)" j "Some (hd (cl_meta w))"])
      (use assms(2,3) in \<open>auto simp: run_fid_def answers_with_def in_flight_def direct_ok_def\<close>)
  with assms(1) show ?thesis using cluster_reach.step by blast
qed

lemma run5_reach: "cluster_reach run5"
proof -
  note a = run_meta_reach [OF run0_reach run_checks(5), folded run1_def]
  note b = run_fid_reach [OF a run_checks(6,10), folded run2_def]
  have "cluster_step run2 run3"
    by (rule cluster_step.crash_server [of run_dt run_fld 0])
      (use run_checks(7) run_dt_ok in \<open>auto simp: run3_def\<close>)
  then have c: "cluster_reach run3" using b cluster_reach.step by blast
  note d = run_meta_reach [OF c run_checks(8), folded run4_def]
  show ?thesis by (rule run_fid_reach [OF d run_checks(9,11), folded run5_def])
qed

section \<open>Properties\<close>

text \<open>
  C1. In every reachable state of the cluster, all identifiers that any client has ever produced
  are pairwise different: whatever requests were made, replies lost, transactions committed or
  lost, and nodes restarted.
\<close>

theorem cluster_fids_distinct: "cluster_reach w \<Longrightarrow> distinct (cl_fids w)"
  using cluster_reach_inv unfolding cluster_inv_def by blast

theorem cluster_fids_distinct_witness:
  "cluster_reach run5 \<and> length (cl_fids run5) = 2 \<and> distinct (cl_fids run5)"
  using cluster_fids_distinct [OF run5_reach] run5_reach run_checks(12) by simp

text \<open>
  C9. In every reachable state a server that crashes starts again: no assertion fails, the
  return code is 0, and it continues with its last committed space.
\<close>

theorem cluster_restart_works:
  assumes "cluster_reach w" "dt_ok dt"
  shows "\<exists>s. seq_server_init None None dt LUSTRE_SEQ_SERVER (seq_remount fld (cl_srv w i)) = Some (None, s)
     \<and> (\<forall>r. st_disk (lss_obj (cl_srv w i)) = Some r \<longrightarrow> lss_space s = r)"
proof -
  from cluster_reach_inv [OF assms(1)] obtain G H where "srv_inv (G i) (H i) (cl_srv w i)"
    unfolding cluster_inv_def by blast
  from restart_inv [OF this assms(2), of fld] obtain s where
    s: "seq_server_init None None dt LUSTRE_SEQ_SERVER (seq_remount fld (cl_srv w i)) = Some (None, s)" by blast
  moreover have "lss_space s = r" if "st_disk (lss_obj (cl_srv w i)) = Some r" for r
    using s that by (auto simp: seq_server_init_def seq_store_read_def seq_remount_def Let_def LASSERT_def split: if_splits)
  ultimately show ?thesis by blast
qed

theorem cluster_restart_works_witness:
  "st_disk (lss_obj (cl_srv run5 0)) \<noteq> None
   \<and> (\<exists>s. seq_server_init None None run_dt LUSTRE_SEQ_SERVER (seq_remount run_fld (cl_srv run5 0)) = Some (None, s)
        \<and> Some (lss_space s) = st_disk (lss_obj (cl_srv run5 0)))"
proof -
  have "st_disk (lss_obj (cl_srv run5 0)) \<noteq> None" by code_simp
  with cluster_restart_works [OF run5_reach run_dt_ok(1), of run_fld 0] show ?thesis by auto
qed





end
