(* ===== verification/WBC_Defs.thy ===== *)
theory WBC_Defs
  imports FID
begin

text \<open>
  The metadata writeback cache (WBC) of the client: the state of a cached file, of the
  configuration and of the mounted file system (\<open>wbc.h\<close>, \<open>lustre_user.h\<close>), with the tests on
  state flags and the names of modes and policies.

  A file is a natural number. Everything the operations read of the kernel's \<open>struct inode\<close> and
  \<open>struct dentry\<close> is kept beside the fields of \<open>struct wbc_inode\<close>: the type of the file, the bits
  \<open>I_SYNC\<close> and \<open>I_DIRTY\<close>, the operation tables, the size, the number of cached pages, the open
  files, the parent and the children. The percentage \<open>wbcc_hiwm_ratio\<close> (a C \<open>int\<close> the parser keeps
  below 100) and the per-CPU counters are integers. Linked lists are lists of files; a file
  whose list node is initialised but not linked occurs in none of them.
\<close>

section \<open>Modes, policies and flags\<close>

datatype lu_wbc_cache_mode = WBC_MODE_NONE | WBC_MODE_MEMFS | WBC_MODE_DATA_PCC | WBC_MODE_PCC_ALL

datatype lu_wbc_flush_mode = WBC_FLUSH_NONE | WBC_FLUSH_LAZY_DROP | WBC_FLUSH_LAZY_KEEP
  | WBC_FLUSH_AGING_DROP | WBC_FLUSH_AGING_KEEP

datatype wbc_remove_policy = WBC_RMPOL_NONE | WBC_RMPOL_SYNC | WBC_RMPOL_DELAY | WBC_RMPOL_SUBTREE

datatype wbc_readdir_policy = WBC_READDIR_DCACHE_COMPAT | WBC_READDIR_DCACHE_DECOMPLETE
  | WBC_READDIR_HTREE_RUNTIME | WBC_READDIR_HTREE_RESIDENT

datatype wbc_flush_policy = WBC_FLUSH_POL_RQSET | WBC_FLUSH_POL_BATCH | WBC_FLUSH_POL_PTLRPCD

definition WBC_MODE_DEFAULT :: lu_wbc_cache_mode where [simp]: "WBC_MODE_DEFAULT = WBC_MODE_MEMFS"
definition WBC_FLUSH_LAZY_DEFAULT :: lu_wbc_flush_mode where [simp]: "WBC_FLUSH_LAZY_DEFAULT = WBC_FLUSH_LAZY_DROP"
definition WBC_FLUSH_DEFAULT_MODE :: lu_wbc_flush_mode where [simp]: "WBC_FLUSH_DEFAULT_MODE = WBC_FLUSH_LAZY_DEFAULT"
definition WBC_RMPOL_DEFAULT :: wbc_remove_policy where [simp]: "WBC_RMPOL_DEFAULT = WBC_RMPOL_SYNC"
definition WBC_READDIR_POL_DEFAULT :: wbc_readdir_policy where [simp]: "WBC_READDIR_POL_DEFAULT = WBC_READDIR_DCACHE_COMPAT"
definition WBC_FLUSH_POL_DEFAULT :: wbc_flush_policy where [simp]: "WBC_FLUSH_POL_DEFAULT = WBC_FLUSH_POL_PTLRPCD"

definition WBC_STATE_FL_NONE :: u32 where [simp]: "WBC_STATE_FL_NONE = 0x0"
definition WBC_STATE_FL_PROTECTED :: u32 where [simp]: "WBC_STATE_FL_PROTECTED = 0x1"
definition WBC_STATE_FL_SYNC :: u32 where [simp]: "WBC_STATE_FL_SYNC = 0x2"
definition WBC_STATE_FL_COMPLETE :: u32 where [simp]: "WBC_STATE_FL_COMPLETE = 0x4"
definition WBC_STATE_FL_ROOT :: u32 where [simp]: "WBC_STATE_FL_ROOT = 0x8"
definition WBC_STATE_FL_INODE_RESERVED :: u32 where [simp]: "WBC_STATE_FL_INODE_RESERVED = 0x10"
definition WBC_STATE_FL_DATA_COMMITTED :: u32 where [simp]: "WBC_STATE_FL_DATA_COMMITTED = 0x20"
definition WBC_STATE_FL_WRITEBACK :: u32 where [simp]: "WBC_STATE_FL_WRITEBACK = 0x40"
definition WBC_STATE_FL_FREEING :: u32 where [simp]: "WBC_STATE_FL_FREEING = 0x80"

definition WBC_DIRTY_FL_NONE :: u32 where [simp]: "WBC_DIRTY_FL_NONE = 0x0"
definition WBC_DIRTY_FL_FLUSHING :: u32 where [simp]: "WBC_DIRTY_FL_FLUSHING = 0x01"
definition WBC_DIRTY_FL_CREAT :: u32 where [simp]: "WBC_DIRTY_FL_CREAT = 0x02"
definition WBC_DIRTY_FL_ATTR :: u32 where [simp]: "WBC_DIRTY_FL_ATTR = 0x04"
definition WBC_DIRTY_FL_REMOVE :: u32 where [simp]: "WBC_DIRTY_FL_REMOVE = 0x20"

datatype md_opcode = MD_OP_NONE | MD_OP_GETATTR | MD_OP_CREATE_LOCKLESS | MD_OP_CREATE_EXLOCK
  | MD_OP_SETATTR_LOCKLESS | MD_OP_SETATTR_EXLOCK | MD_OP_EXLOCK_ONLY | MD_OP_REMOVE_LOCKLESS

definition WBC_FL_DECOMPLETE :: u32 where [simp]: "WBC_FL_DECOMPLETE = 0x01"
definition WBC_FL_UNRSV_CHILDREN :: u32 where [simp]: "WBC_FL_UNRSV_CHILDREN = 0x02"
definition WBC_FL_SYNC_NONE :: u32 where [simp]: "WBC_FL_SYNC_NONE = 0x04"
definition WBC_FL_FLOW_CONTROL :: u32 where [simp]: "WBC_FL_FLOW_CONTROL = 0x08"

datatype file_type = S_IFDIR | S_IFREG | S_IFLNK | S_IFOTHER

text \<open>The operation tables of a file: those of the memory file system or those of the client.\<close>

datatype file_ops = MEMFS_OPS | LL_OPS

section \<open>State\<close>

record wbc_conf =
  wbcc_cache_mode :: lu_wbc_cache_mode
  wbcc_flush_mode :: lu_wbc_flush_mode
  wbcc_rmpol :: wbc_remove_policy
  wbcc_readdir_pol :: wbc_readdir_policy
  wbcc_flush_pol :: wbc_flush_policy
  wbcc_max_batch_count :: u32
  wbcc_max_rpcs :: u32
  wbcc_max_qlen :: u32
  wbcc_max_nrpages_per_file :: u64
  wbcc_max_rmfid_count :: u32
  wbcc_background_async_rpc :: bool
  wbcc_max_inodes :: u64
  wbcc_free_inodes :: u64
  wbcc_max_pages :: u64
  wbcc_used_pages :: int
  wbcc_hiwm_ratio :: int
  wbcc_hiwm_inodes_count :: u32
  wbcc_hiwm_pages_count :: u32
  wbcc_dirty_flush_thresh :: u64
  wbcc_active_data_writeback :: bool

text \<open>
  The fields of \<open>struct memfs_writeback\<close> that the code reads: the bit \<open>WB_FLUSHER_RUNNING\<close>, the
  counter \<open>WB_INODE_DIRTY\<close>, the threshold, the pending work items (each a parent directory), and
  whether the delayed work is armed. \<open>wbcs_reclaim_woken\<close> tells whether the reclaimer was woken.
\<close>

record memfs_writeback =
  wb_running :: bool
  wb_inode_dirty :: int
  wb_dirty_flush_thresh :: u64
  wb_work_list :: "nat list"
  wb_armed :: bool

record wbc_sync_io =
  wsi_sync_nr :: int
  wsi_sync_rc :: rc

text \<open>
  A request: \<open>mop_cbdata\<close> tells whether its completion is counted by the context. The requests a
  context has sent and not seen completed are kept with it in \<open>ioc_pending\<close>; \<open>ioc_rqset\<close> tells
  whether its pointer to a request set is null, valid or left pointing to a destroyed set.
\<close>

record md_op_item =
  mop_opc :: md_opcode
  mop_dentry :: nat
  mop_flags :: u32
  mop_cbdata :: bool

datatype rqset = Set_none | Set_live | Set_freed

record wbc_context =
  ioc_inited :: bool
  ioc_anchor_used :: bool
  ioc_pol :: wbc_flush_policy
  ioc_anchor :: wbc_sync_io
  ioc_rqset :: rqset
  ioc_pending :: "md_op_item list"

record wbc_super =
  wbcs_generation :: u64
  wbcs_conf :: wbc_conf
  wbcs_roots :: "nat list"
  wbcs_lazy_roots :: "nat list"
  wbcs_rsvd_inode_lru :: "nat list"
  wbcs_data_inode_lru :: "nat list"
  wbcs_reclaim_woken :: bool
  wbcs_mwb :: memfs_writeback
  wbcs_context :: wbc_context

record wbc_inode =
  wbci_flags :: u32
  wbci_cache_mode :: lu_wbc_cache_mode
  wbci_flush_mode :: lu_wbc_flush_mode
  wbci_dirty_flags :: u32
  wbci_dirty_attr :: u32
  wbci_lock_handle :: bool
  wbci_removed_list :: "lu_fid list"
  wbci_removed_count :: u32
  wbci_rmpol :: wbc_remove_policy
  i_type :: file_type
  i_fid :: lu_fid
  i_sync :: bool
  i_dirty :: bool
  i_ops :: file_ops
  i_size :: int
  i_nrpages :: nat
  d_fsdata :: bool
  wbcd_dirent_num :: u32
  wbcd_open_files :: "nat list"

record writeback_control_ext =
  sync_all :: bool
  for_fsync :: bool
  for_callback :: bool
  for_decomplete :: bool
  unrsv_children_decomp :: bool
  for_pflush :: bool
  has_ioctx :: bool

record wbc_fs =
  fs_super :: wbc_super
  fs_inode :: "nat \<Rightarrow> wbc_inode"
  fs_parent :: "nat \<Rightarrow> nat"
  fs_subdirs :: "nat \<Rightarrow> nat list"
  fs_mountpoint :: "nat \<Rightarrow> bool"

text \<open>
  Memory filled with zeros read as a configuration: each mode is its value 0 (the readdir policies
  start at 1; in a zeroed command that field is only read when the command sets it).
\<close>

definition conf_zero :: wbc_conf where
  "conf_zero = \<lparr> wbcc_cache_mode = WBC_MODE_NONE, wbcc_flush_mode = WBC_FLUSH_NONE,
     wbcc_rmpol = WBC_RMPOL_NONE, wbcc_readdir_pol = WBC_READDIR_DCACHE_COMPAT,
     wbcc_flush_pol = WBC_FLUSH_POL_RQSET, wbcc_max_batch_count = 0, wbcc_max_rpcs = 0,
     wbcc_max_qlen = 0, wbcc_max_nrpages_per_file = 0, wbcc_max_rmfid_count = 0,
     wbcc_background_async_rpc = False, wbcc_max_inodes = 0, wbcc_free_inodes = 0,
     wbcc_max_pages = 0, wbcc_used_pages = 0, wbcc_hiwm_ratio = 0, wbcc_hiwm_inodes_count = 0,
     wbcc_hiwm_pages_count = 0, wbcc_dirty_flush_thresh = 0, wbcc_active_data_writeback = False \<rparr>"

definition upd_inode :: "nat \<Rightarrow> (wbc_inode \<Rightarrow> wbc_inode) \<Rightarrow> wbc_fs \<Rightarrow> wbc_fs" where
  "upd_inode i f fs = fs\<lparr> fs_inode := (fs_inode fs)(i := f (fs_inode fs i)) \<rparr>"

definition upd_super :: "(wbc_super \<Rightarrow> wbc_super) \<Rightarrow> wbc_fs \<Rightarrow> wbc_fs" where
  "upd_super f fs = fs\<lparr> fs_super := f (fs_super fs) \<rparr>"

definition upd_conf :: "(wbc_conf \<Rightarrow> wbc_conf) \<Rightarrow> wbc_super \<Rightarrow> wbc_super" where
  "upd_conf f s = s\<lparr> wbcs_conf := f (wbcs_conf s) \<rparr>"

definition upd_mwb :: "(memfs_writeback \<Rightarrow> memfs_writeback) \<Rightarrow> wbc_super \<Rightarrow> wbc_super" where
  "upd_mwb f s = s\<lparr> wbcs_mwb := f (wbcs_mwb s) \<rparr>"

definition flag_set :: "u32 \<Rightarrow> wbc_inode \<Rightarrow> wbc_inode" where
  "flag_set f wbci = wbci\<lparr> wbci_flags := wbci_flags wbci OR f \<rparr>"

definition flag_clear :: "u32 \<Rightarrow> wbc_inode \<Rightarrow> wbc_inode" where
  "flag_clear f wbci = wbci\<lparr> wbci_flags := wbci_flags wbci AND NOT f \<rparr>"

section \<open>Tests\<close>

definition md_opcode_need_exlock :: "md_opcode \<Rightarrow> bool" where
  "md_opcode_need_exlock opc \<longleftrightarrow>
     opc = MD_OP_CREATE_EXLOCK \<or> opc = MD_OP_SETATTR_EXLOCK \<or> opc = MD_OP_EXLOCK_ONLY"

definition wbc_cache_mode_mem :: "wbc_inode \<Rightarrow> bool" where
  "wbc_cache_mode_mem wbci \<longleftrightarrow> wbci_cache_mode wbci = WBC_MODE_MEMFS"

definition wbc_cache_mode_dop :: "wbc_inode \<Rightarrow> bool" where
  "wbc_cache_mode_dop wbci \<longleftrightarrow> wbci_cache_mode wbci = WBC_MODE_DATA_PCC"

definition wbc_mode_lock_drop :: "wbc_inode \<Rightarrow> bool" where
  "wbc_mode_lock_drop wbci \<longleftrightarrow>
     wbci_flush_mode wbci = WBC_FLUSH_AGING_DROP \<or> wbci_flush_mode wbci = WBC_FLUSH_LAZY_DROP"

definition wbc_mode_lock_keep :: "wbc_inode \<Rightarrow> bool" where
  "wbc_mode_lock_keep wbci \<longleftrightarrow>
     wbci_flush_mode wbci = WBC_FLUSH_AGING_KEEP \<or> wbci_flush_mode wbci = WBC_FLUSH_LAZY_KEEP"

definition wbc_flush_mode_lazy :: "wbc_inode \<Rightarrow> bool" where
  "wbc_flush_mode_lazy wbci \<longleftrightarrow>
     wbci_flush_mode wbci = WBC_FLUSH_LAZY_DROP \<or> wbci_flush_mode wbci = WBC_FLUSH_LAZY_KEEP"

definition wbc_flush_mode_aging :: "wbc_inode \<Rightarrow> bool" where
  "wbc_flush_mode_aging wbci \<longleftrightarrow>
     wbci_flush_mode wbci = WBC_FLUSH_AGING_DROP \<or> wbci_flush_mode wbci = WBC_FLUSH_AGING_KEEP"

definition wbc_inode_has_protected :: "wbc_inode \<Rightarrow> bool" where
  "wbc_inode_has_protected wbci \<longleftrightarrow> wbci_flags wbci AND WBC_STATE_FL_PROTECTED \<noteq> 0"

definition wbc_inode_complete :: "wbc_inode \<Rightarrow> bool" where
  "wbc_inode_complete wbci \<longleftrightarrow> wbci_flags wbci AND WBC_STATE_FL_COMPLETE \<noteq> 0"

definition wbc_inode_none :: "wbc_inode \<Rightarrow> bool" where
  "wbc_inode_none wbci \<longleftrightarrow> wbci_flags wbci = WBC_STATE_FL_NONE"

definition wbc_inode_reserved :: "wbc_inode \<Rightarrow> bool" where
  "wbc_inode_reserved wbci \<longleftrightarrow> wbci_flags wbci AND WBC_STATE_FL_INODE_RESERVED \<noteq> 0"

definition wbc_inode_data_committed :: "wbc_inode \<Rightarrow> bool" where
  "wbc_inode_data_committed wbci \<longleftrightarrow> wbci_flags wbci AND WBC_STATE_FL_DATA_COMMITTED \<noteq> 0"

definition wbc_inode_assimilated :: "wbc_inode \<Rightarrow> bool" where
  "wbc_inode_assimilated wbci \<longleftrightarrow> wbci_flags wbci AND WBC_STATE_FL_DATA_COMMITTED \<noteq> 0"

definition wbc_inode_data_caching :: "wbc_inode \<Rightarrow> bool" where
  "wbc_inode_data_caching wbci \<longleftrightarrow> wbc_inode_has_protected wbci \<and> \<not> wbc_inode_data_committed wbci"

definition wbc_inode_root :: "wbc_inode \<Rightarrow> bool" where
  "wbc_inode_root wbci \<longleftrightarrow> wbci_flags wbci AND WBC_STATE_FL_ROOT \<noteq> 0"

definition wbc_inode_was_flushed :: "wbc_inode \<Rightarrow> bool" where
  "wbc_inode_was_flushed wbci \<longleftrightarrow> wbci_flags wbci AND WBC_STATE_FL_SYNC \<noteq> 0"

definition wbc_inode_written_out :: "wbc_inode \<Rightarrow> bool" where
  "wbc_inode_written_out wbci \<longleftrightarrow>
     wbci_flags wbci AND WBC_STATE_FL_SYNC \<noteq> 0 \<or> wbci_flags wbci = WBC_STATE_FL_NONE"

definition wbc_inode_attr_dirty :: "wbc_inode \<Rightarrow> bool" where
  "wbc_inode_attr_dirty wbci \<longleftrightarrow> wbci_dirty_flags wbci AND WBC_DIRTY_FL_ATTR \<noteq> 0"

definition wbc_inode_remove_dirty :: "wbc_inode \<Rightarrow> bool" where
  "wbc_inode_remove_dirty wbci \<longleftrightarrow> wbci_dirty_flags wbci AND WBC_DIRTY_FL_REMOVE \<noteq> 0"

definition wbc_inode_writeback :: "wbc_inode \<Rightarrow> bool" where
  "wbc_inode_writeback wbci \<longleftrightarrow> wbci_flags wbci AND WBC_STATE_FL_WRITEBACK \<noteq> 0"

definition wbc_inode_freeing :: "wbc_inode \<Rightarrow> bool" where
  "wbc_inode_freeing wbci \<longleftrightarrow> wbci_flags wbci AND WBC_STATE_FL_FREEING \<noteq> 0"

definition wbc_cap_account_dirty :: "memfs_writeback \<Rightarrow> bool" where
  "wbc_cap_account_dirty mwb \<longleftrightarrow> wb_dirty_flush_thresh mwb > 0"

definition wbc_cap_flush_parallel :: "memfs_writeback \<Rightarrow> bool" where
  "wbc_cap_flush_parallel mwb \<longleftrightarrow> wb_dirty_flush_thresh mwb > 0"

definition wbc_decomplete_lock_keep :: "wbc_inode \<Rightarrow> md_op_item \<Rightarrow> bool" where
  "wbc_decomplete_lock_keep wbci item \<longleftrightarrow>
     wbc_mode_lock_keep wbci \<and> mop_flags item AND WBC_FL_DECOMPLETE \<noteq> 0"

definition wbc_unacct_inode_dirtied :: "memfs_writeback \<Rightarrow> memfs_writeback" where
  "wbc_unacct_inode_dirtied mwb =
     (if wbc_cap_account_dirty mwb then mwb\<lparr> wb_inode_dirty := wb_inode_dirty mwb - 1 \<rparr> else mwb)"

definition wbc_cache_too_much_inodes :: "wbc_conf \<Rightarrow> bool" where
  "wbc_cache_too_much_inodes conf =
     (if wbcc_hiwm_ratio conf \<noteq> 0
      then wbcc_max_inodes conf - wbcc_free_inodes conf > ucast (wbcc_hiwm_inodes_count conf)
      else False)"

definition wbc_cache_too_much_pages :: "wbc_conf \<Rightarrow> bool" where
  "wbc_cache_too_much_pages conf =
     (if wbcc_hiwm_ratio conf \<noteq> 0
      then wbcc_used_pages conf > uint (wbcc_hiwm_pages_count conf) else False)"

section \<open>Names\<close>

definition wbc_cachemode2string :: "lu_wbc_cache_mode \<Rightarrow> string" where
  "wbc_cachemode2string mode =
     (case mode of WBC_MODE_NONE \<Rightarrow> ''none'' | WBC_MODE_MEMFS \<Rightarrow> ''memfs'' | WBC_MODE_DATA_PCC \<Rightarrow> ''dop''
      | _ \<Rightarrow> ''fault'')"

definition wbc_flushmode2string :: "lu_wbc_flush_mode \<Rightarrow> string" where
  "wbc_flushmode2string mode =
     (case mode of WBC_FLUSH_NONE \<Rightarrow> ''none'' | WBC_FLUSH_LAZY_DROP \<Rightarrow> ''lazy_drop''
      | WBC_FLUSH_LAZY_KEEP \<Rightarrow> ''lazy_keep'' | WBC_FLUSH_AGING_DROP \<Rightarrow> ''aging_drop''
      | WBC_FLUSH_AGING_KEEP \<Rightarrow> ''aging_keep'')"

definition wbc_rmpol2string :: "wbc_remove_policy \<Rightarrow> string" where
  "wbc_rmpol2string pol =
     (case pol of WBC_RMPOL_SYNC \<Rightarrow> ''sync'' | WBC_RMPOL_DELAY \<Rightarrow> ''delay'' | WBC_RMPOL_SUBTREE \<Rightarrow> ''subtree''
      | _ \<Rightarrow> ''unknow'')"

definition wbc_readdir_pol2string :: "wbc_readdir_policy \<Rightarrow> string" where
  "wbc_readdir_pol2string pol =
     (case pol of WBC_READDIR_DCACHE_COMPAT \<Rightarrow> ''dcache_compat''
      | WBC_READDIR_DCACHE_DECOMPLETE \<Rightarrow> ''dcache_decomp'' | _ \<Rightarrow> ''unknow'')"

definition wbc_flushpol2string :: "wbc_flush_policy \<Rightarrow> string" where
  "wbc_flushpol2string pol =
     (case pol of WBC_FLUSH_POL_RQSET \<Rightarrow> ''rqset'' | WBC_FLUSH_POL_BATCH \<Rightarrow> ''batch''
      | WBC_FLUSH_POL_PTLRPCD \<Rightarrow> ''ptlrpcd'')"

end
