(* ===== verification/WBC_Inode.thy ===== *)
theory WBC_Inode
  imports WBC_Defs
begin

text \<open>
  One cached file of the metadata writeback cache (\<open>wbc.c\<close>, \<open>llite_wbc.c\<close>): the lists of roots, the
  reservation of inodes, the counter of dirty inodes that starts the flusher, the anchor that
  counts outstanding requests, the choice of the request that flushes a file, and the handlers
  of the replies.

  What the kernel, the network and the servers answer is the argument \<open>env\<close>:
  \<^item> \<open>e_wait_sync\<close>, \<open>e_wait_wb\<close>: what other threads did to the file system while this one slept
    until the bit \<open>I_SYNC\<close> or \<open>WBC_STATE_FL_WRITEBACK\<close> of a file was clear;
  \<^item> \<open>e_prep\<close>, \<open>e_submit\<close>: the code of building and of sending the request for a file;
  \<^item> \<open>e_reply\<close>, \<open>e_lock_ex\<close>, \<open>e_bits\<close>, \<open>e_prep_inode\<close>: the code of the reply, whether it grants an
    EX lock with the update or lookup bit, and the code of \<open>ll_prep_inode\<close>;
  \<^item> \<open>e_create\<close>, \<open>e_setattr\<close>, \<open>e_rmfid\<close>: the codes of the synchronous requests (of the n-th batch for
    removals); \<open>e_commit\<close>: the outcome of handing the pages over; \<open>e_open\<close>: of opening a file again;
  \<^item> \<open>e_clob\<close>, \<open>e_alias\<close>, \<open>e_hashed\<close>: whether the file has a client object, has a directory entry, and one that is hashed;
  \<^item> \<open>e_set\<close>, \<open>e_set_wait\<close>, \<open>e_batch\<close>, \<open>e_batch_flush\<close>, \<open>e_batch_stop\<close>: codes of the request sets and
    batches; \<open>e_alloc\<close>: whether memory for a work item or a list item is there;
  \<^item> \<open>e_has_dirty_io\<close>, \<open>e_stat_error\<close>, \<open>e_stat_read\<close>: the state of the kernel's dirty lists, the error
    bound of the per-CPU counter and its approximate value;
  \<^item> \<open>e_new_inode\<close>, \<open>e_fid_alloc\<close>, \<open>e_d_alloc\<close>, \<open>e_symlink_alloc\<close>: whether an inode, an identifier, the
    private data of a directory entry and the target of a link can be allocated; \<open>e_mkdir\<close>,
    \<open>e_remove\<close>, \<open>e_fsync\<close>: codes of the client's own operations, \<open>e_simple_remove\<close>: of the kernel's;
  \<^item> \<open>e_timedout\<close>: whether a wait with a time limit runs into it; \<open>e_uninit\<close>, \<open>e_garbage\<close>: what a
    variable holds that is read before it is set.
\<close>

record wbc_env =
  e_wait_sync :: "nat \<Rightarrow> wbc_fs \<Rightarrow> wbc_fs"
  e_wait_wb :: "nat \<Rightarrow> wbc_fs \<Rightarrow> wbc_fs"
  e_prep :: "nat \<Rightarrow> rc"
  e_submit :: "nat \<Rightarrow> rc"
  e_reply :: "nat \<Rightarrow> rc"
  e_lock_ex :: "nat \<Rightarrow> bool"
  e_bits :: "nat \<Rightarrow> bool"
  e_prep_inode :: "nat \<Rightarrow> rc"
  e_create :: "nat \<Rightarrow> rc"
  e_setattr :: "nat \<Rightarrow> rc"
  e_rmfid :: "nat \<Rightarrow> nat \<Rightarrow> rc"
  e_commit :: "nat \<Rightarrow> errno + nat"
  e_clob :: "nat \<Rightarrow> bool"
  e_open :: "nat \<Rightarrow> rc"
  e_alias :: "nat \<Rightarrow> bool"
  e_hashed :: "nat \<Rightarrow> bool"
  e_set :: bool
  e_set_wait :: rc
  e_batch :: rc
  e_batch_flush :: rc
  e_batch_stop :: rc
  e_alloc :: bool
  e_has_dirty_io :: bool
  e_stat_error :: u64
  e_stat_read :: int
  e_new_inode :: bool
  e_fid_alloc :: "errno + lu_fid"
  e_d_alloc :: bool
  e_symlink_alloc :: bool
  e_mkdir :: rc
  e_remove :: "nat \<Rightarrow> rc"
  e_simple_remove :: "nat \<Rightarrow> rc"
  e_fsync :: rc
  e_timedout :: bool
  e_uninit :: rc
  e_garbage :: bool

section \<open>Roots\<close>

definition wbc_super_root_add :: "nat \<Rightarrow> wbc_fs \<Rightarrow> wbc_fs option" where
  "wbc_super_root_add i fs = do {
     LASSERT (wbc_inode_root (fs_inode fs i));
     Some (if wbc_flush_mode_lazy (fs_inode fs i)
           then upd_super (\<lambda>s. s\<lparr> wbcs_lazy_roots := i # wbcs_lazy_roots s \<rparr>) fs
           else upd_super (\<lambda>s. s\<lparr> wbcs_roots := i # wbcs_roots s \<rparr>) fs)
   }"

definition wbc_super_root_del :: "nat \<Rightarrow> wbc_fs \<Rightarrow> wbc_fs option" where
  "wbc_super_root_del i fs = do {
     LASSERT (wbc_inode_root (fs_inode fs i));
     Some (upd_super (\<lambda>s. s\<lparr> wbcs_roots := removeAll i (wbcs_roots s),
                             wbcs_lazy_roots := removeAll i (wbcs_lazy_roots s) \<rparr>) fs)
   }"

section \<open>Waiting for writeback\<close>

text \<open>
  The loops leave only when the bit is clear; what else changed in the meantime is up to the
  other threads.
\<close>

definition inode_wait_for_writeback :: "wbc_env \<Rightarrow> nat \<Rightarrow> wbc_fs \<Rightarrow> wbc_fs" where
  "inode_wait_for_writeback env i fs =
     (if i_sync (fs_inode fs i)
      then upd_inode i (\<lambda>w. w\<lparr> i_sync := False \<rparr>) (e_wait_sync env i fs) else fs)"

definition wbc_inode_wait_for_writeback :: "wbc_env \<Rightarrow> nat \<Rightarrow> wbc_fs \<Rightarrow> wbc_fs" where
  "wbc_inode_wait_for_writeback env i fs =
     (if wbc_inode_writeback (fs_inode fs i)
      then upd_inode i (flag_clear WBC_STATE_FL_WRITEBACK) (e_wait_wb env i fs) else fs)"

definition wbc_inode_writeback_complete :: "nat \<Rightarrow> wbc_fs \<Rightarrow> wbc_fs" where
  "wbc_inode_writeback_complete i = upd_inode i (flag_clear WBC_STATE_FL_WRITEBACK)"

section \<open>Reservation of inodes\<close>

definition wbc_reserve_inode :: "wbc_super \<Rightarrow> rc \<times> wbc_super" where
  "wbc_reserve_inode super =
     (let conf = wbcs_conf super in
      if wbcc_max_inodes conf = 0 then (None, super)
      else
        let (rc, conf) = (if wbcc_free_inodes conf = 0 then (Some ENOSPC, conf)
                          else (None, conf\<lparr> wbcc_free_inodes := wbcc_free_inodes conf - 1 \<rparr>));
            super = super\<lparr> wbcs_conf := conf \<rparr>
        in (rc, if wbc_cache_too_much_inodes conf then super\<lparr> wbcs_reclaim_woken := True \<rparr> else super))"

definition wbc_unreserve_inode :: "nat \<Rightarrow> wbc_fs \<Rightarrow> wbc_fs" where
  "wbc_unreserve_inode i fs =
     (let fs = upd_inode i (flag_clear WBC_STATE_FL_INODE_RESERVED) fs in
      if wbcc_max_inodes (wbcs_conf (fs_super fs)) = 0 then fs
      else upd_super (\<lambda>s. upd_conf (\<lambda>c. c\<lparr> wbcc_free_inodes := wbcc_free_inodes c + 1 \<rparr>)
             (s\<lparr> wbcs_rsvd_inode_lru := removeAll i (wbcs_rsvd_inode_lru s) \<rparr>)) fs)"

definition wbc_reserved_inode_lru_add :: "nat \<Rightarrow> wbc_fs \<Rightarrow> wbc_fs" where
  "wbc_reserved_inode_lru_add i fs =
     (if wbcc_max_inodes (wbcs_conf (fs_super fs)) = 0 then fs
      else upd_super (\<lambda>s. s\<lparr> wbcs_rsvd_inode_lru := wbcs_rsvd_inode_lru s @ [i] \<rparr>) fs)"

definition wbc_reserved_inode_lru_del :: "nat \<Rightarrow> wbc_fs \<Rightarrow> wbc_fs" where
  "wbc_reserved_inode_lru_del i fs =
     (if wbcc_max_inodes (wbcs_conf (fs_super fs)) = 0 then fs
      else upd_super (\<lambda>s. upd_conf (\<lambda>c. c\<lparr> wbcc_free_inodes := wbcc_free_inodes c + 1 \<rparr>)
             (s\<lparr> wbcs_rsvd_inode_lru := removeAll i (wbcs_rsvd_inode_lru s) \<rparr>)) fs)"

definition wbc_free_inode :: "nat \<Rightarrow> wbc_fs \<Rightarrow> wbc_fs option" where
  "wbc_free_inode i fs = do {
     fs \<leftarrow> (if wbc_inode_root (fs_inode fs i) then wbc_super_root_del i fs else Some fs);
     Some (if wbc_inode_reserved (fs_inode fs i) then wbc_unreserve_inode i fs else fs)
   }"

definition wbc_inode_unreserve_dput :: "nat \<Rightarrow> wbc_fs \<Rightarrow> wbc_fs" where
  "wbc_inode_unreserve_dput i fs =
     (if wbc_inode_reserved (fs_inode fs i)
      then wbc_unreserve_inode i (upd_inode i (flag_clear WBC_STATE_FL_INODE_RESERVED) fs) else fs)"

definition wbc_inode_data_lru_add :: "nat \<Rightarrow> bool \<Rightarrow> wbc_fs \<Rightarrow> wbc_fs" where
  "wbc_inode_data_lru_add i fmode_write fs =
     (if wbcc_max_pages (wbcs_conf (fs_super fs)) \<noteq> 0 \<and> fmode_write then
        (if i \<notin> set (wbcs_data_inode_lru (fs_super fs))
         then upd_super (\<lambda>s. s\<lparr> wbcs_data_inode_lru := wbcs_data_inode_lru s @ [i] \<rparr>) fs else fs)
      else fs)"

definition wbc_inode_data_lru_del :: "nat \<Rightarrow> wbc_fs \<Rightarrow> wbc_fs" where
  "wbc_inode_data_lru_del i fs =
     (if wbcc_max_pages (wbcs_conf (fs_super fs)) = 0 then fs
      else upd_super (\<lambda>s. s\<lparr> wbcs_data_inode_lru := removeAll i (wbcs_data_inode_lru s) \<rparr>) fs)"

section \<open>Counting dirty inodes\<close>

definition wbc_over_dirty_threshold :: "wbc_env \<Rightarrow> memfs_writeback \<Rightarrow> bool" where
  "wbc_over_dirty_threshold env mwb =
     (if wb_dirty_flush_thresh mwb < 2 * e_stat_error env
      then max 0 (wb_inode_dirty mwb) > uint (wb_dirty_flush_thresh mwb)
      else max 0 (e_stat_read env) > uint (wb_dirty_flush_thresh mwb))"

definition wbc_flush_in_progress :: "memfs_writeback \<Rightarrow> bool" where
  "wbc_flush_in_progress mwb = wb_running mwb"

definition wbc_wakeup :: "memfs_writeback \<Rightarrow> memfs_writeback" where
  "wbc_wakeup mwb = mwb\<lparr> wb_armed := True \<rparr>"

definition wbc_start_background_writeback :: "wbc_env \<Rightarrow> memfs_writeback \<Rightarrow> memfs_writeback" where
  "wbc_start_background_writeback env mwb =
     (if \<not> e_has_dirty_io env then mwb
      else if wb_running mwb then mwb
      else wbc_wakeup (mwb\<lparr> wb_running := True \<rparr>))"

definition wbc_check_dirty_flush :: "wbc_env \<Rightarrow> memfs_writeback \<Rightarrow> memfs_writeback" where
  "wbc_check_dirty_flush env mwb =
     (if \<not> wbc_cap_flush_parallel mwb then mwb
      else if wbc_flush_in_progress mwb then mwb
      else if wbc_over_dirty_threshold env mwb then wbc_start_background_writeback env mwb
      else mwb)"

definition wbc_account_inode_dirtied :: "wbc_env \<Rightarrow> memfs_writeback \<Rightarrow> memfs_writeback" where
  "wbc_account_inode_dirtied env mwb =
     (if wbc_cap_account_dirty mwb
      then wbc_check_dirty_flush env (mwb\<lparr> wb_inode_dirty := wb_inode_dirty mwb + 1 \<rparr>) else mwb)"

definition wb_queue_work :: "nat \<Rightarrow> memfs_writeback \<Rightarrow> memfs_writeback" where
  "wb_queue_work parent mwb = mwb\<lparr> wb_work_list := wb_work_list mwb @ [parent], wb_armed := True \<rparr>"

definition wbc_queue_writeback_work :: "wbc_env \<Rightarrow> nat \<Rightarrow> memfs_writeback \<Rightarrow> rc \<times> memfs_writeback" where
  "wbc_queue_writeback_work env parent mwb =
     (if \<not> wbc_cap_flush_parallel mwb then (None, mwb)
      else if \<not> e_alloc env then (Some ENOMEM, mwb)
      else (None, wb_queue_work parent mwb))"

section \<open>The anchor of outstanding requests\<close>

definition wbc_sync_io_init :: "int \<Rightarrow> wbc_sync_io" where
  "wbc_sync_io_init nr = \<lparr> wsi_sync_nr = nr, wsi_sync_rc = None \<rparr>"

definition wbc_sync_io_note :: "rc \<Rightarrow> wbc_sync_io \<Rightarrow> wbc_sync_io option" where
  "wbc_sync_io_note ioret anchor = do {
     let anchor = (if wsi_sync_rc anchor = None then anchor\<lparr> wsi_sync_rc := ioret \<rparr> else anchor);
     LASSERT (wsi_sync_nr anchor > 0);
     Some (anchor\<lparr> wsi_sync_nr := wsi_sync_nr anchor - 1 \<rparr>)
   }"

definition wbc_context_note :: "rc \<Rightarrow> wbc_context \<Rightarrow> wbc_context option" where
  "wbc_context_note ioret ctx =
     (if ioc_anchor_used ctx
      then map_option (\<lambda>a. ctx\<lparr> ioc_anchor := a \<rparr>) (wbc_sync_io_note ioret (ioc_anchor ctx))
      else Some ctx)"

section \<open>The request that flushes a file\<close>

definition wbc_clear_dirty_for_flush :: "wbc_inode \<Rightarrow> wbc_inode" where
  "wbc_clear_dirty_for_flush wbci =
     wbci\<lparr> wbci_dirty_attr := 0, wbci_dirty_flags := WBC_DIRTY_FL_FLUSHING \<rparr>"

definition wbc_flush_need_exlock :: "wbc_inode \<Rightarrow> writeback_control_ext \<Rightarrow> bool" where
  "wbc_flush_need_exlock wbci wbcx \<longleftrightarrow> wbc_mode_lock_drop wbci \<or> for_callback wbcx"

text \<open>
  The first part of \<open>wbc_flush_opcode_get\<close>, before the state of the file is looked at: \<open>None\<close> in
  the second place of the result is the early return with \<open>MD_OP_NONE\<close>.
\<close>

definition wbc_flush_opcode_wait ::
    "wbc_env \<Rightarrow> nat \<Rightarrow> writeback_control_ext \<Rightarrow> wbc_fs \<Rightarrow> (bool \<times> wbc_fs) option" where
  "wbc_flush_opcode_wait env i wbcx fs =
     (if wbc_mode_lock_keep (fs_inode fs i) then
        if wbc_inode_freeing (fs_inode fs i) then Some (True, fs)
        else
          let fs = (if for_callback wbcx then inode_wait_for_writeback env i fs else fs)
          in if for_pflush wbcx \<and> wbc_inode_writeback (fs_inode fs i) then Some (True, fs)
             else Some (False, if \<not> for_fsync wbcx then wbc_inode_wait_for_writeback env i fs else fs)
      else if wbc_mode_lock_drop (fs_inode fs i) then do {
        LASSERT (\<not> i_sync (fs_inode fs i));
        Some (False, fs)
      } else Some (False, fs))"

text \<open>The choice by the state of the file: the request, the attributes to send, the dirty bits cleared.\<close>

definition flush_opcode_choose ::
    "nat \<Rightarrow> bool \<Rightarrow> bool \<Rightarrow> writeback_control_ext \<Rightarrow> wbc_fs \<Rightarrow> (md_opcode \<times> u32 \<times> wbc_fs) option" where
  "flush_opcode_choose i dchild decomp_keep wbcx fs =
     (let wbci = fs_inode fs i;
          need_ex = wbc_flush_need_exlock wbci wbcx;
          cleared = upd_inode i wbc_clear_dirty_for_flush fs
      in if wbc_inode_none wbci then Some (MD_OP_NONE, 0, fs)
         else if wbc_inode_was_flushed wbci then
           if decomp_keep then do {
             LASSERT dchild;
             Some (MD_OP_NONE, 0,
                   if unrsv_children_decomp wbcx then wbc_inode_unreserve_dput i fs else fs)
           }
           else if wbc_inode_remove_dirty wbci \<and> \<not> need_ex then do {
             LASSERT (i_type wbci = S_IFDIR);
             LASSERT (wbc_mode_lock_keep wbci);
             Some (MD_OP_REMOVE_LOCKLESS, wbci_dirty_attr wbci, cleared)
           }
           else if wbc_inode_attr_dirty wbci then
             Some (if need_ex then MD_OP_SETATTR_EXLOCK else MD_OP_SETATTR_LOCKLESS,
                   wbci_dirty_attr wbci, cleared)
           else if need_ex then Some (MD_OP_EXLOCK_ONLY, 0, fs)
           else Some (MD_OP_NONE, 0, fs)
         else
           Some (if need_ex then MD_OP_CREATE_EXLOCK else MD_OP_CREATE_LOCKLESS,
                 wbci_dirty_attr wbci, cleared))"

definition wbc_flush_opcode_get ::
    "wbc_env \<Rightarrow> nat \<Rightarrow> bool \<Rightarrow> writeback_control_ext \<Rightarrow> wbc_fs \<Rightarrow> (md_opcode \<times> u32 \<times> wbc_fs) option" where
  "wbc_flush_opcode_get env i dchild wbcx fs = do {
     let decomp_keep = (for_decomplete wbcx \<and> wbc_mode_lock_keep (fs_inode fs i));
     (stop, fs) \<leftarrow> wbc_flush_opcode_wait env i wbcx fs;
     if stop then Some (MD_OP_NONE, 0, fs)
     else do {
       (opc, valid, fs) \<leftarrow> flush_opcode_choose i dchild decomp_keep wbcx fs;
       let opc = (if wbc_inode_freeing (fs_inode fs i) then MD_OP_NONE else opc);
       Some (opc, valid,
             if opc \<noteq> MD_OP_NONE
             then upd_super (upd_mwb wbc_unacct_inode_dirtied)
                    (upd_inode i (flag_set WBC_STATE_FL_WRITEBACK) fs)
             else fs)
     }
   }"

section \<open>Replies\<close>

definition wbc_fini_op_item :: "md_op_item \<Rightarrow> rc \<Rightarrow> wbc_context \<Rightarrow> wbc_context option" where
  "wbc_fini_op_item item ioret ctx = (if mop_cbdata item then wbc_context_note ioret ctx else Some ctx)"

text \<open>The common end of the handlers that wait for an EX lock: label \<open>out_dput\<close>.\<close>

definition exlock_cb_out ::
    "md_op_item \<Rightarrow> rc \<Rightarrow> wbc_context \<Rightarrow> wbc_fs \<Rightarrow> (rc \<times> wbc_context \<times> wbc_fs) option" where
  "exlock_cb_out item rc ctx fs = do {
     let fs = wbc_inode_writeback_complete (mop_dentry item)
                (wbc_inode_unreserve_dput (mop_dentry item) fs);
     ctx \<leftarrow> wbc_fini_op_item item rc ctx;
     Some (rc, ctx, fs)
   }"

definition wbc_create_exlock_cb ::
    "wbc_env \<Rightarrow> md_op_item \<Rightarrow> rc \<Rightarrow> wbc_context \<Rightarrow> wbc_fs \<Rightarrow> (rc \<times> wbc_context \<times> wbc_fs) option" where
  "wbc_create_exlock_cb env item rc ctx fs =
     (let i = mop_dentry item in
      if rc \<noteq> None then exlock_cb_out item rc ctx fs
      else if \<not> e_lock_ex env i then exlock_cb_out item (Some EPROTO) ctx fs
      else if e_prep_inode env i \<noteq> None then exlock_cb_out item (e_prep_inode env i) ctx fs
      else do {
        LASSERT (\<not> wbc_decomplete_lock_keep (fs_inode fs i) item
                 \<and> wbc_inode_has_protected (fs_inode fs i) \<and> wbc_inode_complete (fs_inode fs i));
        let fs = upd_inode i (flag_set (WBC_STATE_FL_ROOT OR WBC_STATE_FL_SYNC)) fs;
        fs \<leftarrow> wbc_super_root_add i fs;
        let fs = upd_inode i (\<lambda>w. w\<lparr> wbci_dirty_flags := wbci_dirty_flags w AND NOT WBC_DIRTY_FL_FLUSHING,
                                     wbci_lock_handle := True \<rparr>) fs;
        exlock_cb_out item None ctx fs
      })"

definition wbc_setattr_exlock_cb ::
    "wbc_env \<Rightarrow> md_op_item \<Rightarrow> rc \<Rightarrow> wbc_context \<Rightarrow> wbc_fs \<Rightarrow> (rc \<times> wbc_context \<times> wbc_fs) option" where
  "wbc_setattr_exlock_cb env item rc ctx fs =
     (let i = mop_dentry item in
      if rc \<noteq> None then exlock_cb_out item rc ctx fs
      else if \<not> e_lock_ex env i then exlock_cb_out item (Some EPROTO) ctx fs
      else do {
        LASSERT (e_bits env i);
        LASSERT (wbc_inode_has_protected (fs_inode fs i) \<and> wbc_inode_was_flushed (fs_inode fs i));
        LASSERT (\<not> wbc_decomplete_lock_keep (fs_inode fs i) item);
        let fs = upd_inode i (\<lambda>w. (flag_set WBC_STATE_FL_ROOT w)
                   \<lparr> wbci_dirty_flags := wbci_dirty_flags w AND NOT WBC_DIRTY_FL_FLUSHING \<rparr>) fs;
        fs \<leftarrow> wbc_super_root_add i fs;
        let fs = upd_inode i (\<lambda>w. w\<lparr> wbci_lock_handle := True \<rparr>) fs;
        exlock_cb_out item None ctx fs
      })"

definition wbc_exlock_only_cb ::
    "wbc_env \<Rightarrow> md_op_item \<Rightarrow> rc \<Rightarrow> wbc_context \<Rightarrow> wbc_fs \<Rightarrow> (rc \<times> wbc_context \<times> wbc_fs) option" where
  "wbc_exlock_only_cb env item rc ctx fs =
     (let i = mop_dentry item in
      if rc \<noteq> None then exlock_cb_out item rc ctx fs
      else if \<not> e_lock_ex env i then exlock_cb_out item (Some EPROTO) ctx fs
      else do {
        LASSERT (\<not> wbc_decomplete_lock_keep (fs_inode fs i) item);
        LASSERT (e_bits env i);
        LASSERT (wbc_inode_has_protected (fs_inode fs i) \<and> wbc_inode_was_flushed (fs_inode fs i));
        let fs = upd_inode i (flag_set WBC_STATE_FL_ROOT) fs;
        fs \<leftarrow> wbc_super_root_add i fs;
        let fs = upd_inode i (\<lambda>w. w\<lparr> wbci_lock_handle := True \<rparr>) fs;
        exlock_cb_out item None ctx fs
      })"

text \<open>Label \<open>out_fini\<close> of the handlers without a lock.\<close>

definition lockless_cb_out ::
    "md_op_item \<Rightarrow> rc \<Rightarrow> wbc_context \<Rightarrow> wbc_fs \<Rightarrow> (rc \<times> wbc_context \<times> wbc_fs) option" where
  "lockless_cb_out item rc ctx fs = do {
     let fs = wbc_inode_writeback_complete (mop_dentry item) fs;
     ctx \<leftarrow> wbc_fini_op_item item rc ctx;
     Some (rc, ctx, fs)
   }"

definition wbc_create_lockless_cb ::
    "wbc_env \<Rightarrow> md_op_item \<Rightarrow> rc \<Rightarrow> wbc_context \<Rightarrow> wbc_fs \<Rightarrow> (rc \<times> wbc_context \<times> wbc_fs) option" where
  "wbc_create_lockless_cb env item rc ctx fs = do {
     let i = mop_dentry item;
     LASSERT (wbc_inode_has_protected (fs_inode fs i) \<and> wbc_inode_reserved (fs_inode fs i)
              \<and> wbc_inode_complete (fs_inode fs (fs_parent fs i)));
     if rc \<noteq> None then lockless_cb_out item rc ctx fs
     else if e_prep_inode env i \<noteq> None then lockless_cb_out item (e_prep_inode env i) ctx fs
     else do {
       let fs = upd_inode i (\<lambda>w. (flag_set WBC_STATE_FL_SYNC w)
                  \<lparr> wbci_dirty_flags := wbci_dirty_flags w AND NOT WBC_DIRTY_FL_FLUSHING \<rparr>) fs;
       fs \<leftarrow> (if mop_flags item AND WBC_FL_UNRSV_CHILDREN \<noteq> 0 then do {
               LASSERT (mop_flags item AND WBC_FL_DECOMPLETE \<noteq> 0);
               Some (wbc_inode_unreserve_dput i fs)
             } else Some fs);
       LASSERT (wbc_mode_lock_keep (fs_inode fs i));
       let (rc, fs) =
         (if i_type (fs_inode fs i) = S_IFREG \<and> mop_flags item AND WBC_FL_SYNC_NONE \<noteq> 0
             \<and> wbcc_active_data_writeback (wbcs_conf (fs_super fs))
          then (None, upd_inode i (\<lambda>w. w\<lparr> i_dirty := True \<rparr>) fs)
          else if i_type (fs_inode fs i) = S_IFDIR \<and> wbcd_dirent_num (fs_inode fs i) > 2 then
            let (rc, mwb) = wbc_queue_writeback_work env i (wbcs_mwb (fs_super fs))
            in (rc, upd_super (\<lambda>s. s\<lparr> wbcs_mwb := mwb \<rparr>) fs)
          else (None, fs));
       lockless_cb_out item rc ctx fs
     }
   }"

definition wbc_setattr_lockless_cb ::
    "wbc_env \<Rightarrow> md_op_item \<Rightarrow> rc \<Rightarrow> wbc_context \<Rightarrow> wbc_fs \<Rightarrow> (rc \<times> wbc_context \<times> wbc_fs) option" where
  "wbc_setattr_lockless_cb env item rc ctx fs =
     (let i = mop_dentry item in
      if rc \<noteq> None then lockless_cb_out item rc ctx fs
      else do {
        LASSERT (wbc_inode_has_protected (fs_inode fs i) \<and> wbc_inode_was_flushed (fs_inode fs i));
        LASSERT (\<not> wbc_decomplete_lock_keep (fs_inode fs i) item);
        lockless_cb_out item None ctx
          (upd_inode i (\<lambda>w. w\<lparr> wbci_dirty_flags := wbci_dirty_flags w AND NOT WBC_DIRTY_FL_FLUSHING \<rparr>) fs)
      })"

text \<open>The tables \<open>wbc_op_item_preps\<close> and \<open>wbc_op_item_cbs\<close> have entries for the same requests.\<close>

definition wbc_op_item_preps :: "md_opcode \<Rightarrow> bool" where
  "wbc_op_item_preps opc \<longleftrightarrow> opc \<in> {MD_OP_CREATE_LOCKLESS, MD_OP_CREATE_EXLOCK, MD_OP_SETATTR_LOCKLESS,
     MD_OP_SETATTR_EXLOCK, MD_OP_EXLOCK_ONLY}"

definition wbc_op_item_cbs ::
    "md_opcode \<Rightarrow> (wbc_env \<Rightarrow> md_op_item \<Rightarrow> rc \<Rightarrow> wbc_context \<Rightarrow> wbc_fs \<Rightarrow> (rc \<times> wbc_context \<times> wbc_fs) option)
       option" where
  "wbc_op_item_cbs opc = (case opc of
       MD_OP_CREATE_LOCKLESS \<Rightarrow> Some wbc_create_lockless_cb
     | MD_OP_CREATE_EXLOCK \<Rightarrow> Some wbc_create_exlock_cb
     | MD_OP_SETATTR_LOCKLESS \<Rightarrow> Some wbc_setattr_lockless_cb
     | MD_OP_SETATTR_EXLOCK \<Rightarrow> Some wbc_setattr_exlock_cb
     | MD_OP_EXLOCK_ONLY \<Rightarrow> Some wbc_exlock_only_cb
     | _ \<Rightarrow> None)"

definition wbc_prep_op_item ::
    "wbc_env \<Rightarrow> md_opcode \<Rightarrow> nat \<Rightarrow> writeback_control_ext \<Rightarrow> errno + md_op_item" where
  "wbc_prep_op_item env opc i wbcx =
     (if \<not> wbc_op_item_preps opc \<or> wbc_op_item_cbs opc = None then Inl EINVAL
      else case e_prep env i of Some e \<Rightarrow> Inl e | None \<Rightarrow>
        Inr \<lparr> mop_opc = opc, mop_dentry = i,
              mop_flags = (if sync_all wbcx then 0 else WBC_FL_SYNC_NONE)
                OR (if for_decomplete wbcx then WBC_FL_DECOMPLETE else 0)
                OR (if unrsv_children_decomp wbcx then WBC_FL_UNRSV_CHILDREN else 0),
              mop_cbdata = False \<rparr>)"

text \<open>The reply to one request arrives and its handler runs.\<close>

definition md_reply ::
    "wbc_env \<Rightarrow> md_op_item \<Rightarrow> wbc_context \<Rightarrow> wbc_fs \<Rightarrow> (wbc_context \<times> wbc_fs) option" where
  "md_reply env item ctx fs = (case wbc_op_item_cbs (mop_opc item) of
       None \<Rightarrow> None
     | Some cb \<Rightarrow> map_option snd (cb env item (e_reply env (mop_dentry item)) ctx fs))"

end
