(* ===== verification/WBC_Flush.thy ===== *)
theory WBC_Flush
  imports WBC_Inode
begin

text \<open>
  Flushing the metadata writeback cache (\<open>wbc.c\<close>, \<open>llite_wbc.c\<close>): contexts that collect requests,
  the flush of one directory level when a lock is lost, the synchronous and asynchronous flush of
  one file, the flush of the ancestors of a file from the top down, and the operations built on
  them: giving up a root, decompleting a directory, committing data, reclaim, and the shrinking of
  all roots.

  The replies to the requests of a context arrive, in the order of the requests, when the code
  waits for them. \<open>None\<close> is a failed assertion, the use of a destroyed request set, a write outside
  an array, or a wait that never ends.
\<close>

section \<open>Contexts\<close>

definition ioc_zero :: wbc_context where
  "ioc_zero = \<lparr> ioc_inited = False, ioc_anchor_used = False, ioc_pol = WBC_FLUSH_POL_RQSET,
     ioc_anchor = \<lparr> wsi_sync_nr = 0, wsi_sync_rc = None \<rparr>, ioc_rqset = Set_none, ioc_pending = [] \<rparr>"

fun run_pending :: "wbc_env \<Rightarrow> md_op_item list \<Rightarrow> wbc_context \<Rightarrow> wbc_fs \<Rightarrow> (wbc_context \<times> wbc_fs) option" where
  "run_pending env [] ctx fs = Some (ctx, fs)"
| "run_pending env (item # items) ctx fs = do {
     (ctx, fs) \<leftarrow> md_reply env item ctx fs;
     run_pending env items ctx fs
   }"

definition wait_pending :: "wbc_env \<Rightarrow> wbc_context \<Rightarrow> wbc_fs \<Rightarrow> (wbc_context \<times> wbc_fs) option" where
  "wait_pending env ctx fs = run_pending env (ioc_pending ctx) (ctx\<lparr> ioc_pending := [] \<rparr>) fs"

definition wbc_sync_io_wait ::
    "wbc_env \<Rightarrow> int \<Rightarrow> wbc_context \<Rightarrow> wbc_fs \<Rightarrow> (rc \<times> wbc_context \<times> wbc_fs) option" where
  "wbc_sync_io_wait env timeout ctx fs = do {
     LASSERT (timeout \<ge> 0);
     (ctx, fs) \<leftarrow> wait_pending env ctx fs;
     if wsi_sync_nr (ioc_anchor ctx) \<noteq> 0 then None
     else Some (if timeout > 0 \<and> e_timedout env then Some ETIMEDOUT else wsi_sync_rc (ioc_anchor ctx),
                ctx, fs)
   }"

definition wbcfs_context_init ::
    "wbc_env \<Rightarrow> wbc_conf \<Rightarrow> bool \<Rightarrow> bool \<Rightarrow> wbc_context \<Rightarrow> rc \<times> wbc_context" where
  "wbcfs_context_init env conf lazy_init anchor_used ctx =
     (if lazy_init then (None, ioc_zero\<lparr> ioc_anchor_used := anchor_used \<rparr>)
      else
        let ctx = ctx\<lparr> ioc_pol := wbcc_flush_pol conf, ioc_anchor_used := anchor_used \<rparr>;
            anchored = (if anchor_used then ctx\<lparr> ioc_anchor := wbc_sync_io_init 1 \<rparr> else ctx)
        in case ioc_pol ctx of
             WBC_FLUSH_POL_RQSET \<Rightarrow>
               if e_set env then (None, ctx\<lparr> ioc_rqset := Set_live, ioc_inited := True \<rparr>)
               else (Some ENOMEM, ctx\<lparr> ioc_rqset := Set_none \<rparr>)
           | WBC_FLUSH_POL_BATCH \<Rightarrow>
               if e_batch env \<noteq> None then (e_batch env, ctx)
               else (None, anchored\<lparr> ioc_inited := True \<rparr>)
           | WBC_FLUSH_POL_PTLRPCD \<Rightarrow> (None, anchored\<lparr> ioc_inited := True \<rparr>))"

text \<open>The common end of \<open>wbcfs_context_fini\<close> for batches and single requests.\<close>

definition context_fini_anchor ::
    "wbc_env \<Rightarrow> rc \<Rightarrow> wbc_context \<Rightarrow> wbc_fs \<Rightarrow> (rc \<times> wbc_context \<times> wbc_fs) option" where
  "context_fini_anchor env rc ctx fs =
     (if ioc_anchor_used ctx then do {
        a \<leftarrow> wbc_sync_io_note rc (ioc_anchor ctx);
        (rc2, ctx, fs) \<leftarrow> wbc_sync_io_wait env 0 (ctx\<lparr> ioc_anchor := a \<rparr>) fs;
        Some (if rc2 \<noteq> None \<and> rc = None then rc2 else rc, ctx, fs)
      } else Some (rc, ctx, fs))"

definition wbcfs_context_fini ::
    "wbc_env \<Rightarrow> wbc_context \<Rightarrow> wbc_fs \<Rightarrow> (rc \<times> wbc_context \<times> wbc_fs) option" where
  "wbcfs_context_fini env ctx fs =
     (if \<not> ioc_inited ctx then Some (None, ctx, fs)
      else case ioc_pol ctx of
        WBC_FLUSH_POL_RQSET \<Rightarrow>
          if ioc_rqset ctx \<noteq> Set_live then None
          else do {
            (ctx, fs) \<leftarrow> wait_pending env ctx fs;
            Some (e_set_wait env, ctx\<lparr> ioc_rqset := Set_freed \<rparr>, fs)
          }
      | WBC_FLUSH_POL_BATCH \<Rightarrow> context_fini_anchor env (e_batch_stop env) ctx fs
      | WBC_FLUSH_POL_PTLRPCD \<Rightarrow> context_fini_anchor env None ctx fs)"

definition wbcfs_context_prepare :: "wbc_env \<Rightarrow> wbc_conf \<Rightarrow> wbc_context \<Rightarrow> rc \<times> wbc_context" where
  "wbcfs_context_prepare env conf ctx =
     (if ioc_inited ctx then (None, ctx)
      else wbcfs_context_init env conf False (ioc_anchor_used ctx) ctx)"

definition context_commit_anchor ::
    "wbc_env \<Rightarrow> wbc_context \<Rightarrow> wbc_fs \<Rightarrow> (rc \<times> wbc_context \<times> wbc_fs) option" where
  "context_commit_anchor env ctx fs =
     (if ioc_anchor_used ctx then do {
        a \<leftarrow> wbc_sync_io_note None (ioc_anchor ctx);
        (rc2, ctx, fs) \<leftarrow> wbc_sync_io_wait env 0 (ctx\<lparr> ioc_anchor := a \<rparr>) fs;
        Some (rc2, ctx\<lparr> ioc_anchor := (ioc_anchor ctx)
                          \<lparr> wsi_sync_nr := wsi_sync_nr (ioc_anchor ctx) + 1 \<rparr> \<rparr>, fs)
      } else Some (None, ctx, fs))"

definition wbcfs_context_commit ::
    "wbc_env \<Rightarrow> wbc_context \<Rightarrow> wbc_fs \<Rightarrow> (rc \<times> wbc_context \<times> wbc_fs) option" where
  "wbcfs_context_commit env ctx fs =
     (case ioc_pol ctx of
        WBC_FLUSH_POL_RQSET \<Rightarrow>
          if ioc_rqset ctx \<noteq> Set_live then None
          else do {
            (ctx, fs) \<leftarrow> wait_pending env ctx fs;
            if e_set_wait env \<noteq> None then Some (e_set_wait env, ctx\<lparr> ioc_rqset := Set_freed \<rparr>, fs)
            else if e_set env then Some (None, ctx\<lparr> ioc_rqset := Set_live \<rparr>, fs)
            else Some (Some ENOMEM, ctx\<lparr> ioc_rqset := Set_none \<rparr>, fs)
          }
      | WBC_FLUSH_POL_BATCH \<Rightarrow>
          if e_batch_flush env \<noteq> None then Some (e_batch_flush env, ctx, fs)
          else context_commit_anchor env ctx fs
      | WBC_FLUSH_POL_PTLRPCD \<Rightarrow> context_commit_anchor env ctx fs)"

section \<open>One level of a directory\<close>

definition wbc_flush_dir_child ::
    "wbc_env \<Rightarrow> wbc_context \<Rightarrow> wbc_inode \<Rightarrow> md_op_item \<Rightarrow> rc option" where
  "wbc_flush_dir_child env ctx dir item = do {
     LASSERT (ioc_pol ctx = WBC_FLUSH_POL_PTLRPCD \<longrightarrow> ioc_rqset ctx = Set_none);
     if ioc_pol ctx = WBC_FLUSH_POL_BATCH then Some (e_submit env (mop_dentry item))
     else do {
       LASSERT (if wbc_decomplete_lock_keep dir item then mop_opc item = MD_OP_CREATE_LOCKLESS
                else md_opcode_need_exlock (mop_opc item));
       Some (e_submit env (mop_dentry item))
     }
   }"

definition wbcfs_flush_dir_child ::
    "wbc_env \<Rightarrow> wbc_context \<Rightarrow> nat \<Rightarrow> nat \<Rightarrow> writeback_control_ext \<Rightarrow> wbc_fs
       \<Rightarrow> (rc \<times> wbc_context \<times> wbc_fs) option" where
  "wbcfs_flush_dir_child env ctx dir dchild wbcx fs = do {
     (opc, _, fs) \<leftarrow> wbc_flush_opcode_get env dchild True wbcx fs;
     if opc = MD_OP_NONE then Some (None, ctx, fs)
     else case wbc_prep_op_item env opc dchild wbcx of
       Inl e \<Rightarrow> Some (Some e, ctx, fs)
     | Inr item \<Rightarrow> do {
         let (item, ctx) =
           (if ioc_anchor_used ctx
            then (item\<lparr> mop_cbdata := True \<rparr>,
                  ctx\<lparr> ioc_anchor := (ioc_anchor ctx)\<lparr> wsi_sync_nr := wsi_sync_nr (ioc_anchor ctx) + 1 \<rparr> \<rparr>)
            else (item, ctx));
         rc \<leftarrow> wbc_flush_dir_child env ctx (fs_inode fs dir) item;
         if rc \<noteq> None then do {
           ctx \<leftarrow> wbc_fini_op_item item rc ctx;
           Some (rc, ctx, fs)
         }
         else Some (None, ctx\<lparr> ioc_pending := ioc_pending ctx @ [item] \<rparr>, fs)
       }
   }"

text \<open>The loop of \<open>wbc_flush_dir_children\<close>; the last component is what is left of the list.\<close>

fun flush_children_loop ::
    "wbc_env \<Rightarrow> nat \<Rightarrow> writeback_control_ext \<Rightarrow> nat list \<Rightarrow> wbc_context \<Rightarrow> wbc_fs
       \<Rightarrow> (rc \<times> wbc_context \<times> wbc_fs \<times> nat list) option" where
  "flush_children_loop env dir wbcx [] ctx fs = Some (None, ctx, fs, [])"
| "flush_children_loop env dir wbcx (c # cs) ctx fs = do {
     (rc, ctx, fs) \<leftarrow> wbcfs_flush_dir_child env ctx dir c wbcx fs;
     if rc \<noteq> None then Some (rc, ctx, fs, cs)
     else flush_children_loop env dir wbcx cs ctx fs
   }"

definition wbc_flush_dir_children ::
    "wbc_env \<Rightarrow> wbc_context \<Rightarrow> nat \<Rightarrow> nat list \<Rightarrow> writeback_control_ext \<Rightarrow> wbc_fs
       \<Rightarrow> (rc \<times> wbc_context \<times> wbc_fs \<times> nat list) option" where
  "wbc_flush_dir_children env ctx dir childlist wbcx fs =
     (let (rc, ctx) = wbcfs_context_prepare env (wbcs_conf (fs_super fs)) ctx in
      if rc \<noteq> None then Some (rc, ctx, fs, childlist)
      else do {
        (rc, ctx, fs, left) \<leftarrow> flush_children_loop env dir wbcx childlist ctx fs;
        if rc \<noteq> None then Some (rc, ctx, fs, left)
        else do {
          (rc, ctx, fs) \<leftarrow> wbcfs_context_commit env ctx fs;
          Some (rc, ctx, fs, [])
        }
      })"

definition wbc_dirty_queue_need_unplug :: "wbc_conf \<Rightarrow> u32 \<Rightarrow> bool" where
  "wbc_dirty_queue_need_unplug conf count \<longleftrightarrow> wbcc_max_qlen conf > 0 \<and> count > wbcc_max_qlen conf"

text \<open>The scan over the children in \<open>wbc_flush_dir\<close>, with the queue and its length.\<close>

fun flush_dir_scan ::
    "wbc_env \<Rightarrow> nat \<Rightarrow> writeback_control_ext \<Rightarrow> nat list \<Rightarrow> nat list \<Rightarrow> u32 \<Rightarrow> wbc_context \<Rightarrow> wbc_fs
       \<Rightarrow> (nat list \<times> wbc_context \<times> wbc_fs) option" where
  "flush_dir_scan env dir wbcx [] q count ctx fs = Some (q, ctx, fs)"
| "flush_dir_scan env dir wbcx (c # cs) q count ctx fs =
     (if \<not> e_hashed env c then flush_dir_scan env dir wbcx cs q count ctx fs
      else do {
        LASSERT (wbc_inode_has_protected (fs_inode fs c) \<and> d_fsdata (fs_inode fs c));
        let q = q @ [c];
        let count = count + 1;
        if wbc_dirty_queue_need_unplug (wbcs_conf (fs_super fs)) count then do {
          (_, ctx, fs, left) \<leftarrow> wbc_flush_dir_children env ctx dir q wbcx fs;
          LASSERT (left = []);
          flush_dir_scan env dir wbcx cs [] 0 ctx fs
        }
        else flush_dir_scan env dir wbcx cs q count ctx fs
      })"

text \<open>
  \<open>wbc_do_rmfid\<close>: the loop fills an array of \<open>nr\<close> identifiers and sends it when it holds \<open>max\<close>
  of them. Besides the code it returns the batches that were sent.
\<close>

fun rmfid_loop ::
    "(nat \<Rightarrow> rc) \<Rightarrow> nat \<Rightarrow> nat \<Rightarrow> u32 \<Rightarrow> lu_fid list \<Rightarrow> lu_fid list \<Rightarrow> u32 \<Rightarrow> rc \<Rightarrow> lu_fid list list
       \<Rightarrow> (rc \<times> lu_fid list list) option" where
  "rmfid_loop send maxc nr count [] fa tot rc sent = do {
     LASSERT (tot = count);
     Some (if fa \<noteq> [] then (send (length sent), sent @ [fa]) else (rc, sent))
   }"
| "rmfid_loop send maxc nr count (item # items) fa tot rc sent =
     (if nr \<le> length fa then None
      else let fa = fa @ [item]; tot = tot + 1 in
        if length fa = maxc then
          let rc = send (length sent) in
          if rc \<noteq> None then Some (rc, sent @ [fa])
          else rmfid_loop send maxc nr count items [] tot rc (sent @ [fa])
        else rmfid_loop send maxc nr count items fa tot rc sent)"

definition wbc_do_rmfid ::
    "wbc_env \<Rightarrow> nat \<Rightarrow> wbc_fs \<Rightarrow> (rc \<times> lu_fid list list \<times> wbc_fs) option" where
  "wbc_do_rmfid env dir fs = do {
     let maxc = wbcc_max_rmfid_count (wbcs_conf (fs_super fs));
     let count = wbci_removed_count (fs_inode fs dir);
     let head = wbci_removed_list (fs_inode fs dir);
     let fs = upd_inode dir (\<lambda>w. w\<lparr> wbci_removed_count := 0, wbci_removed_list := [] \<rparr>) fs;
     if \<not> e_alloc env then Some (Some ENOMEM, [], fs)
     else do {
       (rc, sent) \<leftarrow> rmfid_loop (e_rmfid env dir) (unat maxc) (unat (min maxc count)) count head [] 0
                       (e_uninit env) [];
       Some (rc, sent, fs)
     }
   }"

definition wbcfs_inode_sync_metadata :: "wbc_env \<Rightarrow> md_opcode \<Rightarrow> nat \<Rightarrow> wbc_fs \<Rightarrow> (rc \<times> wbc_fs) option" where
  "wbcfs_inode_sync_metadata env opc i fs =
     (if opc = MD_OP_SETATTR_LOCKLESS then Some (e_setattr env i, fs)
      else if opc = MD_OP_REMOVE_LOCKLESS then map_option (\<lambda>(rc, _, fs). (rc, fs)) (wbc_do_rmfid env i fs)
      else if opc = MD_OP_NONE then Some (None, fs)
      else Some (Some EOPNOTSUPP, fs))"

definition wbc_inode_update_metadata :: "wbc_env \<Rightarrow> nat \<Rightarrow> wbc_fs \<Rightarrow> (rc \<times> wbc_fs) option" where
  "wbc_inode_update_metadata env i fs = do {
     let wbci = fs_inode fs i;
     LASSERT (wbc_inode_was_flushed wbci);
     if wbc_inode_remove_dirty wbci then do {
       LASSERT (i_type wbci = S_IFDIR);
       LASSERT (wbc_mode_lock_keep wbci);
       wbcfs_inode_sync_metadata env MD_OP_REMOVE_LOCKLESS i (upd_inode i wbc_clear_dirty_for_flush fs)
     }
     else if wbc_inode_attr_dirty wbci then
       wbcfs_inode_sync_metadata env MD_OP_SETATTR_LOCKLESS i (upd_inode i wbc_clear_dirty_for_flush fs)
     else wbcfs_inode_sync_metadata env MD_OP_NONE i fs
   }"

text \<open>Reopening the open files of the cache: a file is taken off the list before it is opened.\<close>

fun reopen_files :: "wbc_env \<Rightarrow> nat list \<Rightarrow> rc \<times> nat list" where
  "reopen_files env [] = (None, [])"
| "reopen_files env (f # fl) =
     (if e_open env f \<noteq> None then (e_open env f, fl) else reopen_files env fl)"

definition wbc_reopen_file_handler :: "wbc_env \<Rightarrow> nat \<Rightarrow> wbc_fs \<Rightarrow> rc \<times> wbc_fs" where
  "wbc_reopen_file_handler env i fs =
     (if \<not> e_alias env i then (None, fs)
      else let (rc, left) = reopen_files env (wbcd_open_files (fs_inode fs i))
           in (rc, upd_inode i (\<lambda>w. w\<lparr> wbcd_open_files := left \<rparr>) fs))"

text \<open>The end of \<open>wbc_flush_dir\<close>, after the scan: the rest of the queue, the open files, the context.\<close>

definition flush_dir_end ::
    "wbc_env \<Rightarrow> nat \<Rightarrow> writeback_control_ext \<Rightarrow> nat list \<Rightarrow> wbc_context \<Rightarrow> wbc_fs \<Rightarrow> (rc \<times> wbc_fs) option" where
  "flush_dir_end env dir wbcx q ctx fs = do {
     (rc, ctx, fs, left) \<leftarrow> wbc_flush_dir_children env ctx dir q wbcx fs;
     LASSERT (left = []);
     let (rc, fs) =
       (if rc = None \<and> \<not> (for_decomplete wbcx \<and> wbc_mode_lock_keep (fs_inode fs dir))
        then wbc_reopen_file_handler env dir fs else (rc, fs));
     (rc2, ctx, fs) \<leftarrow> wbcfs_context_fini env ctx fs;
     Some (if rc2 \<noteq> None \<and> rc = None then rc2 else rc, fs)
   }"

definition wbc_flush_dir ::
    "wbc_env \<Rightarrow> nat \<Rightarrow> writeback_control_ext \<Rightarrow> wbc_fs \<Rightarrow> (rc \<times> wbc_fs) option" where
  "wbc_flush_dir env dir wbcx fs = do {
     (rc, fs) \<leftarrow> wbc_inode_update_metadata env dir fs;
     if rc \<noteq> None then Some (rc, fs)
     else do {
       LASSERT (i_type (fs_inode fs dir) = S_IFDIR);
       if \<not> e_alias env dir then Some (None, fs)
       else do {
         let (_, ctx) = wbcfs_context_init env (wbcs_conf (fs_super fs)) True True ioc_zero;
         (q, ctx, fs) \<leftarrow> flush_dir_scan env dir wbcx (fs_subdirs fs dir) [] 0 ctx fs;
         flush_dir_end env dir wbcx q ctx fs
       }
     }
   }"

section \<open>Data\<close>

definition wbc_inode_unacct_pages :: "nat \<Rightarrow> wbc_conf \<Rightarrow> wbc_conf" where
  "wbc_inode_unacct_pages nr_pages conf =
     (if wbcc_max_pages conf \<noteq> 0 then conf\<lparr> wbcc_used_pages := wbcc_used_pages conf - int nr_pages \<rparr>
      else conf)"

text \<open>What both ways of handing over the pages do at the end.\<close>

definition data_committed :: "nat \<Rightarrow> wbc_fs \<Rightarrow> wbc_fs" where
  "data_committed i fs =
     (let fs = upd_inode i (flag_set WBC_STATE_FL_DATA_COMMITTED) (wbc_inode_data_lru_del i fs)
      in upd_super (upd_conf (wbc_inode_unacct_pages (i_nrpages (fs_inode fs i)))) fs)"

definition wbc_commit_data_lustre :: "wbc_env \<Rightarrow> nat \<Rightarrow> wbc_fs \<Rightarrow> ((errno + nat) \<times> wbc_fs) option" where
  "wbc_commit_data_lustre env i fs =
     (if wbc_inode_data_committed (fs_inode fs i) \<or> wbc_inode_none (fs_inode fs i) then Some (Inr 0, fs)
      else do {
        LASSERT (e_clob env i);
        Some (case e_commit env i of Inl e \<Rightarrow> Inl e
              | Inr n \<Rightarrow> Inr (if n = 0 then i_nrpages (fs_inode fs i) else n),
              data_committed i fs)
      })"

fun reopen_pcc_files :: "wbc_env \<Rightarrow> nat list \<Rightarrow> rc" where
  "reopen_pcc_files env [] = None"
| "reopen_pcc_files env (f # fl) = (if e_open env f \<noteq> None then e_open env f else reopen_pcc_files env fl)"

definition wbc_reopen_pcc_file :: "wbc_env \<Rightarrow> nat \<Rightarrow> wbc_fs \<Rightarrow> rc" where
  "wbc_reopen_pcc_file env i fs =
     (if \<not> e_alias env i then None else reopen_pcc_files env (wbcd_open_files (fs_inode fs i)))"

definition wbc_commit_data_pcc :: "wbc_env \<Rightarrow> nat \<Rightarrow> wbc_fs \<Rightarrow> (errno + nat) \<times> wbc_fs" where
  "wbc_commit_data_pcc env i fs =
     (if wbc_inode_data_committed (fs_inode fs i) \<or> wbc_inode_none (fs_inode fs i) then (Inr 0, fs)
      else case e_commit env i of Inl e \<Rightarrow> (Inl e, fs)
      | Inr _ \<Rightarrow>
          (case wbc_reopen_pcc_file env i fs of Some e \<Rightarrow> Inl e
           | None \<Rightarrow> Inr (i_nrpages (fs_inode fs i)), data_committed i fs))"

definition wbcfs_commit_cache_pages :: "wbc_env \<Rightarrow> nat \<Rightarrow> wbc_fs \<Rightarrow> ((errno + nat) \<times> wbc_fs) option" where
  "wbcfs_commit_cache_pages env i fs = (case wbci_cache_mode (fs_inode fs i) of
       WBC_MODE_MEMFS \<Rightarrow> wbc_commit_data_lustre env i fs
     | WBC_MODE_DATA_PCC \<Rightarrow> Some (wbc_commit_data_pcc env i fs)
     | _ \<Rightarrow> Some (Inl EOPNOTSUPP, fs))"

fun rc_of :: "errno + nat \<Rightarrow> rc" where
  "rc_of (Inl e) = Some e"
| "rc_of (Inr n) = None"

definition wbc_make_inode_assimilated :: "wbc_env \<Rightarrow> nat \<Rightarrow> wbc_fs \<Rightarrow> (rc \<times> wbc_fs) option" where
  "wbc_make_inode_assimilated env i fs =
     (let wbci = fs_inode fs i in
      if i_type wbci \<noteq> S_IFREG then Some (None, fs)
      else if wbc_inode_assimilated wbci \<or> wbc_inode_none wbci \<or> wbc_inode_freeing wbci then Some (None, fs)
      else do {
        (r, fs) \<leftarrow> wbcfs_commit_cache_pages env i fs;
        Some (rc_of r, fs)
      })"

definition wbc_flush_regular_file :: "wbc_env \<Rightarrow> nat \<Rightarrow> wbc_fs \<Rightarrow> (rc \<times> wbc_fs) option" where
  "wbc_flush_regular_file env i fs = do {
     (rc, fs) \<leftarrow> wbc_inode_update_metadata env i fs;
     if rc \<noteq> None then Some (rc, fs)
     else do {
       (r, fs) \<leftarrow> wbcfs_commit_cache_pages env i fs;
       if rc_of r \<noteq> None then Some (rc_of r, fs)
       else Some (wbc_reopen_file_handler env i fs)
     }
   }"

section \<open>Giving up a root\<close>

definition wbc_inode_flush ::
    "wbc_env \<Rightarrow> nat \<Rightarrow> writeback_control_ext \<Rightarrow> wbc_fs \<Rightarrow> (rc \<times> wbc_fs) option" where
  "wbc_inode_flush env i wbcx fs =
     (if i_type (fs_inode fs i) = S_IFDIR then wbc_flush_dir env i wbcx fs
      else if i_type (fs_inode fs i) = S_IFREG then wbc_flush_regular_file env i fs
      else Some (Some ENOTSUPP, fs))"

definition wbc_mark_inode_deroot :: "nat \<Rightarrow> wbc_fs \<Rightarrow> wbc_fs option" where
  "wbc_mark_inode_deroot i fs = do {
     fs \<leftarrow> wbc_super_root_del i fs;
     let fs = (if wbc_inode_reserved (fs_inode fs i) then wbc_unreserve_inode i fs else fs);
     Some (upd_inode i (\<lambda>w. w\<lparr> wbci_flags := WBC_STATE_FL_NONE, i_ops := LL_OPS \<rparr>) fs)
   }"

definition wbc_make_inode_deroot ::
    "wbc_env \<Rightarrow> nat \<Rightarrow> writeback_control_ext \<Rightarrow> wbc_fs \<Rightarrow> (rc \<times> wbc_fs) option" where
  "wbc_make_inode_deroot env i wbcx fs = do {
     LASSERT (wbc_inode_root (fs_inode fs i));
     (rc, fs) \<leftarrow> wbc_inode_flush env i wbcx fs;
     fs \<leftarrow> wbc_mark_inode_deroot i fs;
     Some (rc, fs)
   }"

definition wbcx_zero :: writeback_control_ext where
  "wbcx_zero = \<lparr> sync_all = False, for_fsync = False, for_callback = False, for_decomplete = False,
     unrsv_children_decomp = False, for_pflush = False, has_ioctx = False \<rparr>"

definition wbc_make_inode_decomplete :: "wbc_env \<Rightarrow> nat \<Rightarrow> bool \<Rightarrow> wbc_fs \<Rightarrow> (rc \<times> wbc_fs) option" where
  "wbc_make_inode_decomplete env i unrsv_children fs = do {
     let wbcx = wbcx_zero\<lparr> sync_all := True, for_decomplete := True,
                           unrsv_children_decomp := unrsv_children \<rparr>;
     let wbci = fs_inode fs i;
     LASSERT (i_type wbci = S_IFDIR);
     if wbc_mode_lock_drop wbci \<and> \<not> wbci_lock_handle wbci then do {
       LASSERT (\<not> wbc_inode_has_protected wbci);
       Some (None, fs)
     }
     else if wbc_inode_none wbci \<or> \<not> wbc_inode_complete wbci then Some (None, fs)
     else do {
       (rc, fs) \<leftarrow> wbc_inode_flush env i wbcx fs;
       if wbc_mode_lock_drop (fs_inode fs i) then do {
         fs \<leftarrow> wbc_mark_inode_deroot i fs;
         Some (rc, fs)
       }
       else if wbc_mode_lock_keep (fs_inode fs i)
       then Some (rc, upd_inode i (flag_clear WBC_STATE_FL_COMPLETE) fs)
       else Some (rc, fs)
     }
   }"

definition wbc_inode_lock_callback :: "wbc_env \<Rightarrow> nat \<Rightarrow> wbc_fs \<Rightarrow> (bool \<times> wbc_fs) option" where
  "wbc_inode_lock_callback env i fs =
     (if \<not> wbc_inode_has_protected (fs_inode fs i) then Some (False, fs)
      else do {
        (_, fs) \<leftarrow> wbc_make_inode_deroot env i (wbcx_zero\<lparr> sync_all := True, for_callback := True \<rparr>) fs;
        Some (True, fs)
      })"

section \<open>Flushing one file\<close>

definition wbc_do_create :: "wbc_env \<Rightarrow> nat \<Rightarrow> wbc_fs \<Rightarrow> (rc \<times> wbc_fs) option" where
  "wbc_do_create env i fs =
     (if \<not> e_alias env i then Some (None, fs)
      else if e_create env i \<noteq> None then Some (e_create env i, fs)
      else wbc_make_inode_assimilated env i fs)"

text \<open>What follows each synchronous request: the assertion, and \<open>FLUSHING\<close> is cleared.\<close>

definition flushing_done :: "nat \<Rightarrow> wbc_fs \<Rightarrow> wbc_fs option" where
  "flushing_done i fs = do {
     LASSERT (wbc_inode_writeback (fs_inode fs i)
              \<and> wbci_dirty_flags (fs_inode fs i) AND WBC_DIRTY_FL_FLUSHING \<noteq> 0);
     Some (upd_inode i (\<lambda>w. w\<lparr> wbci_dirty_flags := wbci_dirty_flags w AND NOT WBC_DIRTY_FL_FLUSHING \<rparr>) fs)
   }"

definition wbc_inode_flush_lockless_sync ::
    "wbc_env \<Rightarrow> nat \<Rightarrow> writeback_control_ext \<Rightarrow> wbc_fs \<Rightarrow> (rc \<times> wbc_fs) option" where
  "wbc_inode_flush_lockless_sync env i wbcx fs = do {
     (opc, _, fs) \<leftarrow> wbc_flush_opcode_get env i False wbcx fs;
     case opc of
       MD_OP_NONE \<Rightarrow> wbc_make_inode_assimilated env i fs
     | MD_OP_CREATE_LOCKLESS \<Rightarrow> do {
         (rc, fs) \<leftarrow> wbc_do_create env i fs;
         fs \<leftarrow> flushing_done i fs;
         let fs = (if rc = None then upd_inode i (flag_set WBC_STATE_FL_SYNC) fs else fs);
         Some (rc, if \<not> for_fsync wbcx then wbc_inode_writeback_complete i fs else fs)
       }
     | MD_OP_SETATTR_LOCKLESS \<Rightarrow> do {
         fs \<leftarrow> flushing_done i fs;
         Some (e_setattr env i, wbc_inode_writeback_complete i fs)
       }
     | MD_OP_REMOVE_LOCKLESS \<Rightarrow> do {
         (rc, _, fs) \<leftarrow> wbc_do_rmfid env i fs;
         fs \<leftarrow> flushing_done i fs;
         Some (rc, wbc_inode_writeback_complete i fs)
       }
     | _ \<Rightarrow> None
   }"

text \<open>\<open>wctx\<close> is the context inside the control structure, used when \<open>has_ioctx\<close> is set.\<close>

definition wbcfs_writeback_dir_child ::
    "wbc_env \<Rightarrow> nat \<Rightarrow> writeback_control_ext \<Rightarrow> wbc_context \<Rightarrow> wbc_fs \<Rightarrow> (rc \<times> wbc_fs) option" where
  "wbcfs_writeback_dir_child env i wbcx wctx fs = do {
     (opc, _, fs) \<leftarrow> wbc_flush_opcode_get env i False wbcx fs;
     if opc = MD_OP_NONE then
       if for_pflush wbcx then Some (None, fs)
       else if wbcc_active_data_writeback (wbcs_conf (fs_super fs)) then wbc_make_inode_assimilated env i fs
       else Some (None, fs)
     else if opc = MD_OP_REMOVE_LOCKLESS then do {
       (rc, _, fs) \<leftarrow> wbc_do_rmfid env i fs;
       fs \<leftarrow> flushing_done i fs;
       Some (rc, wbc_inode_writeback_complete i fs)
     }
     else if opc = MD_OP_SETATTR_LOCKLESS then do {
       fs \<leftarrow> flushing_done i fs;
       Some (e_setattr env i, wbc_inode_writeback_complete i fs)
     }
     else do {
       LASSERT (opc = MD_OP_CREATE_LOCKLESS);
       case wbc_prep_op_item env opc i wbcx of
         Inl e \<Rightarrow> Some (Some e, fs)
       | Inr item \<Rightarrow> do {
           let ctx = wbcs_context (fs_super fs);
           let ctx = ctx\<lparr> ioc_anchor := (ioc_anchor ctx)\<lparr> wsi_sync_nr := wsi_sync_nr (ioc_anchor ctx) + 1 \<rparr> \<rparr>;
           let item = item\<lparr> mop_cbdata := True \<rparr>;
           let item = (if has_ioctx wbcx then item
                       else item\<lparr> mop_flags := mop_flags item OR WBC_FL_FLOW_CONTROL \<rparr>);
           LASSERT (has_ioctx wbcx \<and> ioc_pol wctx = WBC_FLUSH_POL_PTLRPCD \<longrightarrow> ioc_rqset wctx = Set_none);
           let rc = (if has_ioctx wbcx \<and> ioc_pol wctx = WBC_FLUSH_POL_RQSET then Some EOPNOTSUPP
                     else e_submit env i);
           ctx \<leftarrow> (if rc \<noteq> None then wbc_fini_op_item item rc ctx
                  else Some (ctx\<lparr> ioc_pending := ioc_pending ctx @ [item] \<rparr>));
           Some (rc, upd_super (\<lambda>s. s\<lparr> wbcs_context := ctx \<rparr>) fs)
         }
     }
   }"

definition wbc_inode_flush_lockless_async ::
    "wbc_env \<Rightarrow> nat \<Rightarrow> writeback_control_ext \<Rightarrow> wbc_context \<Rightarrow> wbc_fs \<Rightarrow> (rc \<times> wbc_fs) option" where
  "wbc_inode_flush_lockless_async env i wbcx wctx fs =
     (if \<not> e_alias env i then Some (None, fs) else wbcfs_writeback_dir_child env i wbcx wctx fs)"

definition wbcfs_inode_flush_lockless ::
    "wbc_env \<Rightarrow> nat \<Rightarrow> writeback_control_ext \<Rightarrow> wbc_context \<Rightarrow> wbc_fs \<Rightarrow> (rc \<times> wbc_fs) option" where
  "wbcfs_inode_flush_lockless env i wbcx wctx fs =
     (if sync_all wbcx then wbc_inode_flush_lockless_sync env i wbcx fs
      else wbc_inode_flush_lockless_async env i wbcx wctx fs)"

definition wbc_inode_flush_lockdrop ::
    "wbc_env \<Rightarrow> nat \<Rightarrow> writeback_control_ext \<Rightarrow> wbc_fs \<Rightarrow> (rc \<times> wbc_fs) option" where
  "wbc_inode_flush_lockdrop env i wbcx fs =
     (if \<not> wbci_lock_handle (fs_inode fs i) then do {
        LASSERT (\<not> wbc_inode_has_protected (fs_inode fs i));
        Some (None, fs)
      }
      else if wbc_inode_has_protected (fs_inode fs i) then wbc_make_inode_deroot env i wbcx fs
      else Some (None, fs))"

text \<open>The first component tells whether there is nothing left to do for this file.\<close>

definition wbc_flush_dependency_check ::
    "wbc_env \<Rightarrow> nat \<Rightarrow> writeback_control_ext \<Rightarrow> wbc_context \<Rightarrow> wbc_fs
       \<Rightarrow> (bool \<times> wbc_context \<times> wbc_fs) option" where
  "wbc_flush_dependency_check env i wbcx wctx fs =
     (if sync_all wbcx then Some (False, wctx, fs)
      else if \<not> e_alias env i then Some (True, wctx, fs)
      else do {
        let parent = fs_parent fs i;
        let fs = inode_wait_for_writeback env parent fs;
        (wctx, fs) \<leftarrow> (if wbci_flush_mode (fs_inode fs i) = WBC_FLUSH_AGING_KEEP then do {
            (wctx, fs) \<leftarrow> (if wbc_inode_writeback (fs_inode fs parent) \<and> has_ioctx wbcx
                         then map_option snd (wbcfs_context_commit env wctx fs) else Some (wctx, fs));
            Some (wctx, wbc_inode_wait_for_writeback env parent fs)
          } else Some (wctx, fs));
        if wbc_inode_freeing (fs_inode fs i)
        then Some (True, wctx, upd_inode i (\<lambda>w. w\<lparr> i_sync := False \<rparr>) fs)
        else Some (False, wctx, fs)
      })"

definition wbc_write_inode ::
    "wbc_env \<Rightarrow> nat \<Rightarrow> writeback_control_ext \<Rightarrow> wbc_context \<Rightarrow> wbc_fs
       \<Rightarrow> (rc \<times> wbc_context \<times> wbc_fs) option" where
  "wbc_write_inode env i wbcx wctx fs =
     (if \<not> wbc_inode_has_protected (fs_inode fs i) then Some (None, wctx, fs)
      else do {
        (stop, wctx, fs) \<leftarrow> (if wbc_flush_mode_aging (fs_inode fs i) \<or> for_fsync wbcx
                            then wbc_flush_dependency_check env i wbcx wctx fs
                            else Some (False, wctx, fs));
        if stop then Some (None, wctx, fs)
        else case wbci_flush_mode (fs_inode fs i) of
          WBC_FLUSH_AGING_DROP \<Rightarrow>
            map_option (\<lambda>(rc, fs). (rc, wctx, fs)) (wbc_inode_flush_lockdrop env i wbcx fs)
        | WBC_FLUSH_AGING_KEEP \<Rightarrow>
            map_option (\<lambda>(rc, fs). (rc, wctx, fs)) (wbcfs_inode_flush_lockless env i wbcx wctx fs)
        | WBC_FLUSH_LAZY_DROP \<Rightarrow>
            if for_fsync wbcx
            then map_option (\<lambda>(rc, fs). (rc, wctx, fs)) (wbc_inode_flush_lockdrop env i wbcx fs)
            else Some (None, wctx, fs)
        | WBC_FLUSH_LAZY_KEEP \<Rightarrow>
            if for_fsync wbcx
            then map_option (\<lambda>(rc, fs). (rc, wctx, fs)) (wbcfs_inode_flush_lockless env i wbcx wctx fs)
            else Some (None, wctx, fs)
        | WBC_FLUSH_NONE \<Rightarrow> Some (None, wctx, fs)
      })"

section \<open>Flushing the ancestors of a file\<close>

text \<open>
  Linux's \<open>sync_inode\<close> in mode \<open>WB_SYNC_ALL\<close>: a dirty inode is marked clean and \<open>I_SYNC\<close> while it
  is written with \<open>write_inode\<close>; a clean one is left alone.
\<close>

definition sync_inode :: "wbc_env \<Rightarrow> nat \<Rightarrow> writeback_control_ext \<Rightarrow> wbc_fs \<Rightarrow> (rc \<times> wbc_fs) option" where
  "sync_inode env i wbcx fs =
     (if \<not> i_dirty (fs_inode fs i) then Some (None, fs)
      else do {
        let fs = upd_inode i (\<lambda>w. w\<lparr> i_dirty := False, i_sync := True \<rparr>) fs;
        (rc, _, fs) \<leftarrow> wbc_write_inode env i wbcx ioc_zero fs;
        Some (rc, upd_inode i (\<lambda>w. w\<lparr> i_sync := False \<rparr>) fs)
      })"

fun flush_ancestors_loop ::
    "wbc_env \<Rightarrow> writeback_control_ext \<Rightarrow> nat list \<Rightarrow> rc \<Rightarrow> wbc_fs \<Rightarrow> (rc \<times> wbc_fs) option" where
  "flush_ancestors_loop env wbcx [] rc fs = Some (rc, fs)"
| "flush_ancestors_loop env wbcx (i # is) rc fs = do {
     let fs = (if wbc_flush_mode_lazy (fs_inode fs i)
               then upd_inode i (\<lambda>w. w\<lparr> i_dirty := True \<rparr>) fs else fs);
     (rc, fs) \<leftarrow> (if rc = None then sync_inode env i wbcx fs else Some (rc, fs));
     let fs = upd_inode i (flag_clear WBC_STATE_FL_WRITEBACK) fs;
     flush_ancestors_loop env wbcx is rc (wbc_inode_writeback_complete i fs)
   }"

definition wbc_flush_ancestors_topdown :: "wbc_env \<Rightarrow> nat list \<Rightarrow> wbc_fs \<Rightarrow> (rc \<times> wbc_fs) option" where
  "wbc_flush_ancestors_topdown env fsync_list fs =
     flush_ancestors_loop env (wbcx_zero\<lparr> sync_all := True, for_fsync := True \<rparr>) fsync_list None fs"

definition wbc_sync_addroot_lockdrop :: "nat \<Rightarrow> nat list \<Rightarrow> wbc_fs \<Rightarrow> (nat list \<times> wbc_fs) option" where
  "wbc_sync_addroot_lockdrop i fsync_list fs =
     (if wbc_mode_lock_drop (fs_inode fs i) \<and> wbc_inode_root (fs_inode fs i) then do {
        LASSERT (wbc_inode_has_protected (fs_inode fs i));
        Some (i # fsync_list, upd_inode i (flag_set WBC_STATE_FL_WRITEBACK) fs)
      } else Some (fsync_list, fs))"

text \<open>
  The loop of \<open>wbc_make_inode_sync\<close>: one step for the file \<open>i\<close>, which either leaves the loop
  (\<open>False\<close>) or goes on with the parent, and the climb. A climb that never leaves is \<open>None\<close>.
\<close>

definition sync_climb_step :: "wbc_env \<Rightarrow> nat \<Rightarrow> nat list \<Rightarrow> wbc_fs \<Rightarrow> (bool \<times> nat list \<times> wbc_fs) option" where
  "sync_climb_step env i fl fs =
     (if wbc_inode_written_out (fs_inode fs i)
      then map_option (Pair False) (wbc_sync_addroot_lockdrop i fl fs)
      else do {
        fs \<leftarrow> (if wbc_inode_writeback (fs_inode fs i) then do {
                let fs = wbc_inode_wait_for_writeback env i fs;
                LASSERT (wbc_inode_was_flushed (fs_inode fs i));
                Some fs
              } else Some fs);
        if wbc_inode_written_out (fs_inode fs i)
        then map_option (Pair False) (wbc_sync_addroot_lockdrop i fl fs)
        else do {
          let fs = inode_wait_for_writeback env i fs;
          LASSERT (\<not> i_sync (fs_inode fs i));
          if wbc_inode_written_out (fs_inode fs i)
          then map_option (Pair False) (wbc_sync_addroot_lockdrop i fl fs)
          else Some (True, i # fl, upd_inode i (flag_set WBC_STATE_FL_WRITEBACK) fs)
        }
      })"

partial_function (option) sync_climb :: "wbc_env \<Rightarrow> nat \<Rightarrow> nat list \<Rightarrow> wbc_fs \<Rightarrow> (nat list \<times> wbc_fs) option" where
  "sync_climb env i fl fs = do {
     (up, fl, fs) \<leftarrow> sync_climb_step env i fl fs;
     if up then sync_climb env (fs_parent fs i) fl fs else Some (fl, fs)
   }"

definition wbc_make_inode_sync :: "wbc_env \<Rightarrow> nat \<Rightarrow> wbc_fs \<Rightarrow> (rc \<times> wbc_fs) option" where
  "wbc_make_inode_sync env i fs = do {
     (fl, fs) \<leftarrow> sync_climb env i [] fs;
     wbc_flush_ancestors_topdown env fl fs
   }"

section \<open>Decompleting, committing, reclaiming\<close>

definition wbc_make_dir_decomplete :: "wbc_env \<Rightarrow> nat \<Rightarrow> bool \<Rightarrow> wbc_fs \<Rightarrow> (rc \<times> wbc_fs) option" where
  "wbc_make_dir_decomplete env dir unrsv_children fs = do {
     (rc, fs) \<leftarrow> (if \<not> fs_mountpoint fs dir
                 then wbc_make_inode_sync env
                        (if wbc_mode_lock_drop (fs_inode fs dir) then fs_parent fs dir else dir) fs
                 else Some (None, fs));
     if rc \<noteq> None then Some (rc, fs)
     else wbc_make_inode_decomplete env dir unrsv_children fs
   }"

definition wbc_make_data_commit :: "wbc_env \<Rightarrow> nat \<Rightarrow> wbc_fs \<Rightarrow> ((errno + nat) \<times> wbc_fs) option" where
  "wbc_make_data_commit env i fs = do {
     let wbci = fs_inode fs i;
     (rc, fs) \<leftarrow> (if \<not> fs_mountpoint fs (fs_parent fs i) \<and> wbci_cache_mode wbci = WBC_MODE_MEMFS
                 then wbc_make_inode_sync env (if wbc_mode_lock_drop wbci then fs_parent fs i else i) fs
                 else Some (None, fs));
     case rc of Some e \<Rightarrow> Some (Inl e, fs) | None \<Rightarrow> wbcfs_commit_cache_pages env i fs
   }"

partial_function (option) wbc_reclaim_inodes_below ::
    "wbc_env \<Rightarrow> u32 \<Rightarrow> wbc_fs \<Rightarrow> (rc \<times> wbc_fs) option" where
  "wbc_reclaim_inodes_below env low fs =
     (if wbcc_free_inodes (wbcs_conf (fs_super fs)) < ucast low then
        case wbcs_rsvd_inode_lru (fs_super fs) of
          [] \<Rightarrow> Some (None, fs)
        | i # _ \<Rightarrow> do {
            let fs = upd_super (\<lambda>s. s\<lparr> wbcs_rsvd_inode_lru := removeAll i (wbcs_rsvd_inode_lru s) \<rparr>) fs;
            if \<not> e_alias env i then wbc_reclaim_inodes_below env low fs
            else do {
              (rc, fs) \<leftarrow> wbc_make_dir_decomplete env (fs_parent fs i) True fs;
              if rc \<noteq> None then Some (rc, fs) else wbc_reclaim_inodes_below env low fs
            }
          }
      else Some (None, fs))"

definition wbc_reclaim_inodes :: "wbc_env \<Rightarrow> wbc_fs \<Rightarrow> (rc \<times> wbc_fs) option" where
  "wbc_reclaim_inodes env fs =
     wbc_reclaim_inodes_below env (ucast (drop_bit 1 (wbcc_max_inodes (wbcs_conf (fs_super fs))))) fs"

partial_function (option) wbc_reclaim_pages_count ::
    "wbc_env \<Rightarrow> u32 \<Rightarrow> u32 \<Rightarrow> (errno + nat) \<Rightarrow> wbc_fs \<Rightarrow> ((errno + nat) \<times> wbc_fs) option" where
  "wbc_reclaim_pages_count env shrank_count count rc fs =
     (if shrank_count < count then
        case wbcs_data_inode_lru (fs_super fs) of
          [] \<Rightarrow> Some (rc, fs)
        | i # _ \<Rightarrow> do {
            let fs = upd_super (\<lambda>s. s\<lparr> wbcs_data_inode_lru := removeAll i (wbcs_data_inode_lru s) \<rparr>) fs;
            if \<not> e_alias env i then wbc_reclaim_pages_count env shrank_count count rc fs
            else do {
              (r, fs) \<leftarrow> wbc_make_data_commit env i fs;
              case r of Inl e \<Rightarrow> Some (Inl e, fs)
              | Inr n \<Rightarrow> wbc_reclaim_pages_count env (shrank_count + of_nat n) count r fs
            }
          }
      else Some (rc, fs))"

definition wbc_reclaim_pages :: "wbc_env \<Rightarrow> wbc_fs \<Rightarrow> ((errno + nat) \<times> wbc_fs) option" where
  "wbc_reclaim_pages env fs =
     wbc_reclaim_pages_count env 0 (ucast (drop_bit 1 (wbcc_max_pages (wbcs_conf (fs_super fs))))) (Inr 0) fs"

section \<open>All roots\<close>

definition take_root :: "bool \<Rightarrow> wbc_fs \<Rightarrow> (nat \<times> wbc_fs) option" where
  "take_root lazy fs =
     (let l = (if lazy then wbcs_lazy_roots (fs_super fs) else wbcs_roots (fs_super fs)) in
      if l = [] then None
      else Some (last l,
        if lazy then upd_super (\<lambda>s. s\<lparr> wbcs_lazy_roots := removeAll (last l) (wbcs_lazy_roots s) \<rparr>) fs
        else upd_super (\<lambda>s. s\<lparr> wbcs_roots := removeAll (last l) (wbcs_roots s) \<rparr>) fs))"

partial_function (option) shrink_roots_loop :: "wbc_env \<Rightarrow> bool \<Rightarrow> wbc_fs \<Rightarrow> (rc \<times> wbc_fs) option" where
  "shrink_roots_loop env lazy fs = (case take_root lazy fs of
       None \<Rightarrow> Some (None, fs)
     | Some (i, fs') \<Rightarrow> do {
         LASSERT (wbc_inode_root (fs_inode fs' i));
         (rc, fs') \<leftarrow> wbc_inode_flush_lockdrop env i (wbcx_zero\<lparr> sync_all := True, for_callback := True \<rparr>) fs';
         if rc \<noteq> None then Some (rc, fs') else shrink_roots_loop env lazy fs'
       })"

text \<open>\<open>wbc_kill_super\<close> lets the delayed work run once more; \<open>kill\<close> is what it does.\<close>

definition wbc_super_shrink_roots ::
    "(wbc_fs \<Rightarrow> wbc_fs option) \<Rightarrow> wbc_env \<Rightarrow> wbc_fs \<Rightarrow> (rc \<times> wbc_fs) option" where
  "wbc_super_shrink_roots kill env fs = do {
     let fs = upd_super (upd_conf (\<lambda>c. c\<lparr> wbcc_cache_mode := WBC_MODE_NONE \<rparr>)) fs;
     (rc, fs) \<leftarrow> shrink_roots_loop env True fs;
     (rc2, fs) \<leftarrow> shrink_roots_loop env False fs;
     let rc = (if rc \<noteq> None then rc2 else rc);
     if rc = None then do { fs \<leftarrow> kill fs; Some (rc, fs) } else Some (rc, fs)
   }"

definition wbc_super_sync_fs :: "wbc_env \<Rightarrow> bool \<Rightarrow> wbc_fs \<Rightarrow> (rc \<times> wbc_fs) option" where
  "wbc_super_sync_fs env wait fs =
     (if \<not> wait then Some (None, fs)
      else do {
        (rc, fs) \<leftarrow> shrink_roots_loop env True fs;
        if rc \<noteq> None then Some (rc, fs)
        else do {
          (rc, ctx, fs) \<leftarrow> wbc_sync_io_wait env 0 (wbcs_context (fs_super fs)) fs;
          Some (rc, upd_super (\<lambda>s. s\<lparr> wbcs_context := ctx \<rparr>) fs)
        }
      })"

section \<open>A client for the examples\<close>

text \<open>An environment in which everything succeeds, a directory outside the cache, and an empty cache.\<close>

definition env_ok :: wbc_env where
  "env_ok = \<lparr> e_wait_sync = (\<lambda>_ fs. fs), e_wait_wb = (\<lambda>_ fs. fs), e_prep = (\<lambda>_. None), e_submit = (\<lambda>_. None),
     e_reply = (\<lambda>_. None), e_lock_ex = (\<lambda>_. True), e_bits = (\<lambda>_. True), e_prep_inode = (\<lambda>_. None),
     e_create = (\<lambda>_. None), e_setattr = (\<lambda>_. None), e_rmfid = (\<lambda>_ _. None), e_commit = (\<lambda>_. Inr 0),
     e_clob = (\<lambda>_. True), e_open = (\<lambda>_. None), e_alias = (\<lambda>_. True), e_hashed = (\<lambda>_. True),
     e_set = True, e_set_wait = None, e_batch = None, e_batch_flush = None, e_batch_stop = None,
     e_alloc = True, e_has_dirty_io = True, e_stat_error = 64, e_stat_read = 0, e_new_inode = True,
     e_fid_alloc = Inr fid_zero, e_d_alloc = True, e_symlink_alloc = True, e_mkdir = None,
     e_remove = (\<lambda>_. None), e_simple_remove = (\<lambda>_. None), e_fsync = None, e_timedout = False,
     e_uninit = None, e_garbage = False \<rparr>"

definition inode_none :: wbc_inode where
  "inode_none = \<lparr> wbci_flags = 0, wbci_cache_mode = WBC_MODE_MEMFS, wbci_flush_mode = WBC_FLUSH_LAZY_DROP,
     wbci_dirty_flags = 0, wbci_dirty_attr = 0, wbci_lock_handle = False, wbci_removed_list = [],
     wbci_removed_count = 0, wbci_rmpol = WBC_RMPOL_SYNC, i_type = S_IFDIR, i_fid = fid_zero,
     i_sync = False, i_dirty = False, i_ops = LL_OPS, i_size = 48, i_nrpages = 0, d_fsdata = True,
     wbcd_dirent_num = 0, wbcd_open_files = [] \<rparr>"

definition super_on :: "wbc_conf \<Rightarrow> wbc_super" where
  "super_on conf = \<lparr> wbcs_generation = 1, wbcs_conf = conf, wbcs_roots = [], wbcs_lazy_roots = [],
     wbcs_rsvd_inode_lru = [], wbcs_data_inode_lru = [], wbcs_reclaim_woken = False,
     wbcs_mwb = \<lparr> wb_running = False, wb_inode_dirty = 0, wb_dirty_flush_thresh = 0, wb_work_list = [], wb_armed = False \<rparr>,
     wbcs_context = ioc_zero\<lparr> ioc_anchor_used := True \<rparr> \<rparr>"

definition fs_empty :: "wbc_conf \<Rightarrow> wbc_fs" where
  "fs_empty conf = \<lparr> fs_super = super_on conf, fs_inode = (\<lambda>_. inode_none), fs_parent = (\<lambda>_. 0),
     fs_subdirs = (\<lambda>_. []), fs_mountpoint = (\<lambda>i. i = 0) \<rparr>"

declare shrink_roots_loop.simps [code] sync_climb.simps [code]
  wbc_reclaim_inodes_below.simps [code] wbc_reclaim_pages_count.simps [code]

end
