(* ===== verification/WBC_Inv.thy ===== *)
theory WBC_Inv
  imports WBC_Flush
begin

text \<open>
  What flushing keeps. The locale \<open>flush_inv\<close> is the interface between the flush code and an invariant
  of the file system: an invariant that survives the few ways in which the code changes the bits
  \<open>RESERVED\<close> and \<open>ROOT\<close>, the lists of roots and the limits, and that other threads keep while this one
  waits, is kept by every operation of the flush code, on every path and for every outcome of the
  requests. It is interpreted for two invariants: the reservations are counted exactly
  (\<open>rsv_inv\<close>), and every listed root has its bit (\<open>roots_inv\<close>).
\<close>

section \<open>Updates that keep the bits and the limits\<close>

lemma LASSERT_bind: "LASSERT c \<bind> f = Some y \<longleftrightarrow> c \<and> f () = Some y"
  by (simp add: LASSERT_def)

named_theorems keep_bits "updates that keep the bits RESERVED and ROOT of a file"

lemma flag_clear_bits [keep_bits]:
  "wbc_inode_reserved (flag_clear 0x40 w) = wbc_inode_reserved w" "wbc_inode_root (flag_clear 0x40 w) = wbc_inode_root w"
  "wbc_inode_reserved (flag_clear 4 w) = wbc_inode_reserved w" "wbc_inode_root (flag_clear 4 w) = wbc_inode_root w"
  by (simp_all add: flag_clear_def wbc_inode_reserved_def wbc_inode_root_def and.assoc)

lemma flag_set_bits [keep_bits]:
  "wbc_inode_reserved (flag_set 0x40 w) = wbc_inode_reserved w" "wbc_inode_root (flag_set 0x40 w) = wbc_inode_root w"
  "wbc_inode_reserved (flag_set 0x20 w) = wbc_inode_reserved w" "wbc_inode_root (flag_set 0x20 w) = wbc_inode_root w"
  "wbc_inode_reserved (flag_set 2 w) = wbc_inode_reserved w" "wbc_inode_root (flag_set 2 w) = wbc_inode_root w"
  "wbc_inode_reserved (flag_set 8 w) = wbc_inode_reserved w" "wbc_inode_reserved (flag_set 0xa w) = wbc_inode_reserved w"
  by (simp_all add: flag_set_def wbc_inode_reserved_def wbc_inode_root_def bit.conj_disj_distrib2)

lemma record_bits [keep_bits]:
  "wbc_inode_reserved (wbc_clear_dirty_for_flush w) = wbc_inode_reserved w"
  "wbc_inode_root (wbc_clear_dirty_for_flush w) = wbc_inode_root w"
  "wbc_inode_reserved (w\<lparr> wbci_dirty_flags := a \<rparr>) = wbc_inode_reserved w"
  "wbc_inode_root (w\<lparr> wbci_dirty_flags := a \<rparr>) = wbc_inode_root w"
  "wbc_inode_reserved (w\<lparr> wbci_lock_handle := b \<rparr>) = wbc_inode_reserved w"
  "wbc_inode_root (w\<lparr> wbci_lock_handle := b \<rparr>) = wbc_inode_root w"
  "wbc_inode_reserved (w\<lparr> i_sync := b \<rparr>) = wbc_inode_reserved w"
  "wbc_inode_root (w\<lparr> i_sync := b \<rparr>) = wbc_inode_root w"
  "wbc_inode_reserved (w\<lparr> i_dirty := b \<rparr>) = wbc_inode_reserved w"
  "wbc_inode_root (w\<lparr> i_dirty := b \<rparr>) = wbc_inode_root w"
  "wbc_inode_reserved (w\<lparr> wbcd_open_files := l \<rparr>) = wbc_inode_reserved w"
  "wbc_inode_root (w\<lparr> wbcd_open_files := l \<rparr>) = wbc_inode_root w"
  "wbc_inode_reserved (w\<lparr> wbci_removed_list := r \<rparr>) = wbc_inode_reserved w"
  "wbc_inode_root (w\<lparr> wbci_removed_list := r \<rparr>) = wbc_inode_root w"
  "wbc_inode_reserved (w\<lparr> wbci_removed_count := c \<rparr>) = wbc_inode_reserved w"
  "wbc_inode_root (w\<lparr> wbci_removed_count := c \<rparr>) = wbc_inode_root w"
  by (simp_all add: wbc_inode_reserved_def wbc_inode_root_def wbc_clear_dirty_for_flush_def)

definition keeps_limits :: "(wbc_super \<Rightarrow> wbc_super) \<Rightarrow> bool" where
  "keeps_limits g \<longleftrightarrow> (\<forall>s. wbcs_roots (g s) = wbcs_roots s \<and> wbcs_lazy_roots (g s) = wbcs_lazy_roots s
     \<and> wbcc_max_inodes (wbcs_conf (g s)) = wbcc_max_inodes (wbcs_conf s)
     \<and> wbcc_free_inodes (wbcs_conf (g s)) = wbcc_free_inodes (wbcs_conf s))"

definition keeps_bits :: "(wbc_inode \<Rightarrow> wbc_inode) \<Rightarrow> bool" where
  "keeps_bits f \<longleftrightarrow> (\<forall>w. wbc_inode_reserved (f w) = wbc_inode_reserved w \<and> wbc_inode_root (f w) = wbc_inode_root w)"

lemma keeps_bits_intros [intro!, simp]:
  "keeps_bits (flag_clear WBC_STATE_FL_WRITEBACK)" "keeps_bits (flag_clear WBC_STATE_FL_COMPLETE)"
  "keeps_bits (flag_set WBC_STATE_FL_WRITEBACK)" "keeps_bits (flag_set WBC_STATE_FL_SYNC)"
  "keeps_bits (flag_set WBC_STATE_FL_DATA_COMMITTED)" "keeps_bits wbc_clear_dirty_for_flush"
  by (simp_all add: keeps_bits_def keep_bits)

section \<open>Invariants of the flush code\<close>

locale flush_inv =
  fixes I :: "wbc_fs \<Rightarrow> bool" and env :: wbc_env
  assumes inode: "I fs \<Longrightarrow> keeps_bits f \<Longrightarrow> I (upd_inode i f fs)"
    and super: "I fs \<Longrightarrow> keeps_limits g \<Longrightarrow> I (upd_super g fs)"
    and unreserve: "I fs \<Longrightarrow> wbc_inode_reserved (fs_inode fs i) \<Longrightarrow> I (wbc_unreserve_inode i fs)"
    and root: "I fs \<Longrightarrow> wbc_super_root_add i (upd_inode i f fs) = Some fs' \<Longrightarrow>
      (\<And>w. wbc_inode_reserved (f w) = wbc_inode_reserved w) \<Longrightarrow> I fs'"
    and deroot: "I fs \<Longrightarrow> wbc_mark_inode_deroot i fs = Some fs' \<Longrightarrow> I fs'"
    and taken: "I fs \<Longrightarrow> take_root lazy fs = Some (i, fs') \<Longrightarrow> I fs'"
    and wait_sync: "I fs \<Longrightarrow> I (e_wait_sync env i fs)"
    and wait_wb: "I fs \<Longrightarrow> I (e_wait_wb env i fs)"
begin

lemma wait_sync_inv: "I fs \<Longrightarrow> I (inode_wait_for_writeback env i fs)"
  by (auto simp: inode_wait_for_writeback_def keeps_bits_def keep_bits intro!: inode wait_sync)

lemma wait_wb_inv: "I fs \<Longrightarrow> I (wbc_inode_wait_for_writeback env i fs)"
  by (auto simp: wbc_inode_wait_for_writeback_def intro!: inode wait_wb simp del: WBC_STATE_FL_WRITEBACK_def)

lemma complete_inv: "I fs \<Longrightarrow> I (wbc_inode_writeback_complete i fs)"
  by (simp add: wbc_inode_writeback_complete_def inode del: WBC_STATE_FL_WRITEBACK_def)

lemma unreserve_clear: "wbc_unreserve_inode i (upd_inode i (flag_clear WBC_STATE_FL_INODE_RESERVED) fs) = wbc_unreserve_inode i fs"
  by (simp add: wbc_unreserve_inode_def upd_inode_def flag_clear_def Let_def)

lemma dput_inv: "I fs \<Longrightarrow> I (wbc_inode_unreserve_dput i fs)"
  unfolding wbc_inode_unreserve_dput_def unreserve_clear by (simp add: unreserve)

lemma unacct_inv: "I fs \<Longrightarrow> I (upd_super (upd_mwb f) fs)"
  by (auto simp: keeps_limits_def upd_mwb_def intro: super)

lemma opcode_wait_inv: "I fs \<Longrightarrow> wbc_flush_opcode_wait env i wbcx fs = Some (stop, fs') \<Longrightarrow> I fs'"
  by (auto simp: wbc_flush_opcode_wait_def Let_def bind_eq_Some_conv wait_sync_inv wait_wb_inv split: if_splits)

lemma choose_inv: "I fs \<Longrightarrow> flush_opcode_choose i d dk wbcx fs = Some (opc, valid, fs') \<Longrightarrow> I fs'"
  by (auto simp: flush_opcode_choose_def Let_def LASSERT_bind split: if_splits intro: inode dput_inv)

lemma opcode_get_inv:
  assumes "I fs" and "wbc_flush_opcode_get env i d wbcx fs = Some (opc, valid, fs')"
  shows "I fs'"
proof -
  from assms(2) obtain stop fs1 where w: "wbc_flush_opcode_wait env i wbcx fs = Some (stop, fs1)"
    unfolding wbc_flush_opcode_get_def Let_def bind_eq_Some_conv by auto
  have 1: "I fs1" by (rule opcode_wait_inv [OF assms(1) w])
  show ?thesis
  proof (cases stop)
    case True
    then show ?thesis using assms(2) w 1 by (simp add: wbc_flush_opcode_get_def)
  next
    case False
    then obtain opc2 v2 fs2 where c: "flush_opcode_choose i d (for_decomplete wbcx \<and> wbc_mode_lock_keep (fs_inode fs i)) wbcx fs1 = Some (opc2, v2, fs2)"
      and "fs' = fs2 \<or> fs' = upd_super (upd_mwb wbc_unacct_inode_dirtied) (upd_inode i (flag_set WBC_STATE_FL_WRITEBACK) fs2)"
      using assms(2) w unfolding wbc_flush_opcode_get_def Let_def by (auto simp: bind_eq_Some_conv)
    then show ?thesis using choose_inv [OF 1 c] by (auto intro!: unacct_inv inode simp del: WBC_STATE_FL_WRITEBACK_def)
  qed
qed

lemma exlock_out_inv: "exlock_cb_out item rc ctx fs = Some (rc', ctx', fs') \<Longrightarrow> I fs \<Longrightarrow> I fs'"
  by (auto simp: exlock_cb_out_def Let_def bind_eq_Some_conv intro: complete_inv dput_inv)

lemma lockless_out_inv: "lockless_cb_out item rc ctx fs = Some (rc', ctx', fs') \<Longrightarrow> I fs \<Longrightarrow> I fs'"
  by (auto simp: lockless_cb_out_def Let_def bind_eq_Some_conv intro: complete_inv)

lemma granted_inv:
  assumes "wbc_super_root_add i (upd_inode i f fs) \<bind> (\<lambda>fs. exlock_cb_out item rc ctx (upd_inode i h fs)) = Some (rc', ctx', fs')"
    and "I fs" and "\<And>w. wbc_inode_reserved (f w) = wbc_inode_reserved w" and "keeps_bits h"
  shows "I fs'"
proof -
  from assms(1) obtain fs1 where 1: "wbc_super_root_add i (upd_inode i f fs) = Some fs1"
    and 2: "exlock_cb_out item rc ctx (upd_inode i h fs1) = Some (rc', ctx', fs')" by (auto simp: bind_eq_Some_conv)
  show ?thesis by (rule exlock_out_inv [OF 2]) (rule inode [OF root [OF assms(2) 1 assms(3)] assms(4)])
qed

lemma create_exlock_inv: "wbc_create_exlock_cb env item rc ctx fs = Some (rc', ctx', fs') \<Longrightarrow> I fs \<Longrightarrow> I fs'"
  unfolding wbc_create_exlock_cb_def Let_def
  by (auto simp: LASSERT_bind keeps_bits_def keep_bits split: if_splits elim: exlock_out_inv granted_inv)

lemma setattr_exlock_inv: "wbc_setattr_exlock_cb env item rc ctx fs = Some (rc', ctx', fs') \<Longrightarrow> I fs \<Longrightarrow> I fs'"
  unfolding wbc_setattr_exlock_cb_def Let_def
  by (auto simp: LASSERT_bind keeps_bits_def keep_bits split: if_splits elim: exlock_out_inv granted_inv)

lemma exlock_only_inv: "wbc_exlock_only_cb env item rc ctx fs = Some (rc', ctx', fs') \<Longrightarrow> I fs \<Longrightarrow> I fs'"
  unfolding wbc_exlock_only_cb_def Let_def
  by (auto simp: LASSERT_bind keeps_bits_def keep_bits split: if_splits elim: exlock_out_inv granted_inv)

lemma setattr_lockless_inv: "wbc_setattr_lockless_cb env item rc ctx fs = Some (rc', ctx', fs') \<Longrightarrow> I fs \<Longrightarrow> I fs'"
  unfolding wbc_setattr_lockless_cb_def Let_def
  by (auto simp: LASSERT_bind keeps_bits_def keep_bits split: if_splits elim!: lockless_out_inv intro!: inode)
lemma queue_work_inv: "I fs \<Longrightarrow> I (upd_super (\<lambda>s. s\<lparr> wbcs_mwb := m \<rparr>) fs)"
  by (auto simp: keeps_limits_def intro: super)

lemma context_inv: "I fs \<Longrightarrow> I (upd_super (\<lambda>s. s\<lparr> wbcs_context := c \<rparr>) fs)"
  by (auto simp: keeps_limits_def intro: super)

lemma create_lockless_inv:
  assumes "wbc_create_lockless_cb env item rc ctx fs = Some (rc', ctx', fs')" and "I fs"
  shows "I fs'"
proof (cases "rc \<noteq> None \<or> e_prep_inode env (mop_dentry item) \<noteq> None")
  case True
  then show ?thesis using assms
    by (auto simp: wbc_create_lockless_cb_def Let_def LASSERT_bind split: if_splits elim: lockless_out_inv)
next
  case False
  define i where "i = mop_dentry item"
  define fs1 where "fs1 = upd_inode i (\<lambda>w. (flag_set WBC_STATE_FL_SYNC w)
    \<lparr> wbci_dirty_flags := wbci_dirty_flags w AND NOT WBC_DIRTY_FL_FLUSHING \<rparr>) fs"
  have 1: "I fs1" unfolding fs1_def using assms(2) by (intro inode) (simp_all add: keeps_bits_def keep_bits)
  from False assms(1) obtain fs2 fs3 rc3 where 2: "fs2 = fs1 \<or> fs2 = wbc_inode_unreserve_dput i fs1"
    and 3: "fs3 = fs2 \<or> fs3 = upd_inode i (\<lambda>w. w\<lparr> i_dirty := True \<rparr>) fs2 \<or> (\<exists>m. fs3 = upd_super (\<lambda>s. s\<lparr> wbcs_mwb := m \<rparr>) fs2)"
    and 4: "lockless_cb_out item rc3 ctx fs3 = Some (rc', ctx', fs')"
    unfolding wbc_create_lockless_cb_def Let_def i_def [symmetric] fs1_def [symmetric]
    by (auto simp: LASSERT_bind bind_eq_Some_conv split: if_splits prod.splits)
  have "I fs2" using 1 2 by (auto intro: dput_inv)
  then have "I fs3" using 3 by (auto intro!: queue_work_inv inode simp: keeps_bits_def keep_bits)
  then show ?thesis by (rule lockless_out_inv [OF 4])
qed

lemma md_reply_inv: "md_reply env item ctx fs = Some (ctx', fs') \<Longrightarrow> I fs \<Longrightarrow> I fs'"
  unfolding md_reply_def wbc_op_item_cbs_def
  by (cases "mop_opc item") (auto elim: create_exlock_inv setattr_exlock_inv exlock_only_inv create_lockless_inv
      setattr_lockless_inv)

lemma run_pending_inv: "run_pending env items ctx fs = Some (ctx', fs') \<Longrightarrow> I fs \<Longrightarrow> I fs'"
  by (induction items arbitrary: ctx fs) (auto simp: bind_eq_Some_conv dest: md_reply_inv)

lemma wait_pending_inv: "wait_pending env ctx fs = Some (ctx', fs') \<Longrightarrow> I fs \<Longrightarrow> I fs'"
  unfolding wait_pending_def by (rule run_pending_inv)

lemma io_wait_inv: "wbc_sync_io_wait env t ctx fs = Some (rc, ctx', fs') \<Longrightarrow> I fs \<Longrightarrow> I fs'"
  by (auto simp: wbc_sync_io_wait_def LASSERT_bind bind_eq_Some_conv split: if_splits dest: wait_pending_inv)

lemma fini_inv: "wbcfs_context_fini env ctx fs = Some (rc, ctx', fs') \<Longrightarrow> I fs \<Longrightarrow> I fs'"
  by (auto simp: wbcfs_context_fini_def context_fini_anchor_def bind_eq_Some_conv
      split: if_splits wbc_flush_policy.splits dest: wait_pending_inv io_wait_inv)

lemma ctx_commit_inv: "wbcfs_context_commit env ctx fs = Some (rc, ctx', fs') \<Longrightarrow> I fs \<Longrightarrow> I fs'"
  by (auto simp: wbcfs_context_commit_def context_commit_anchor_def bind_eq_Some_conv
      split: if_splits wbc_flush_policy.splits dest: wait_pending_inv io_wait_inv)

lemma flush_child_inv:
  assumes "wbcfs_flush_dir_child env ctx dir c wbcx fs = Some (rc, ctx', fs')" and "I fs"
  shows "I fs'"
proof -
  from assms(1) obtain opc v where "wbc_flush_opcode_get env c True wbcx fs = Some (opc, v, fs')"
    unfolding wbcfs_flush_dir_child_def Let_def
    by (auto simp: bind_eq_Some_conv split: if_splits sum.splits)
  then show ?thesis by (rule opcode_get_inv [OF assms(2)])
qed

lemma children_loop_inv:
  "flush_children_loop env dir wbcx cs ctx fs = Some (rc, ctx', fs', left) \<Longrightarrow> I fs \<Longrightarrow> I fs'"
proof (induction cs arbitrary: ctx fs)
  case (Cons c cs)
  from Cons.prems(1) obtain rc1 ctx1 fs1 where 1: "wbcfs_flush_dir_child env ctx dir c wbcx fs = Some (rc1, ctx1, fs1)"
    and 2: "(if rc1 \<noteq> None then Some (rc1, ctx1, fs1, cs) else flush_children_loop env dir wbcx cs ctx1 fs1)
      = Some (rc, ctx', fs', left)"
    unfolding flush_children_loop.simps bind_eq_Some_conv by auto
  from flush_child_inv [OF 1 Cons.prems(2)] 2 Cons.IH show ?case by (cases "rc1 = None") auto
qed simp

lemma dir_children_inv:
  assumes "wbc_flush_dir_children env ctx dir cs wbcx fs = Some (rc, ctx', fs', left)" and "I fs"
  shows "I fs'"
proof -
  obtain rc0 ctx0 where p: "wbcfs_context_prepare env (wbcs_conf (fs_super fs)) ctx = (rc0, ctx0)" by fastforce
  show ?thesis
  proof (cases "rc0 = None")
    case False
    then show ?thesis using assms p by (auto simp: wbc_flush_dir_children_def)
  next
    case True
    with assms(1) p obtain rc1 ctx1 fs1 left1 where
      1: "flush_children_loop env dir wbcx cs ctx0 fs = Some (rc1, ctx1, fs1, left1)"
      and 2: "(if rc1 \<noteq> None then Some (rc1, ctx1, fs1, left1)
        else wbcfs_context_commit env ctx1 fs1 \<bind> (\<lambda>(rc, ctx, fs). Some (rc, ctx, fs, []))) = Some (rc, ctx', fs', left)"
      unfolding wbc_flush_dir_children_def by (auto simp: bind_eq_Some_conv)
    have "I fs1" by (rule children_loop_inv [OF 1 assms(2)])
    then show ?thesis using 2 by (auto simp: bind_eq_Some_conv split: if_splits dest: ctx_commit_inv)
  qed
qed

lemma scan_inv: "flush_dir_scan env dir wbcx cs q n ctx fs = Some (q', ctx', fs') \<Longrightarrow> I fs \<Longrightarrow> I fs'"
proof (induction cs arbitrary: q n ctx fs)
  case (Cons c cs)
  from Cons.prems(1) consider q1 n1 where "flush_dir_scan env dir wbcx cs q1 n1 ctx fs = Some (q', ctx', fs')"
    | rc1 ctx1 fs1 left where "wbc_flush_dir_children env ctx dir (q @ [c]) wbcx fs = Some (rc1, ctx1, fs1, left)"
        "flush_dir_scan env dir wbcx cs [] 0 ctx1 fs1 = Some (q', ctx', fs')"
    by (auto simp: LASSERT_bind bind_eq_Some_conv Let_def split: if_splits)
  then show ?case using Cons.prems(2) by cases (auto dest: Cons.IH dir_children_inv)
qed simp

lemma rmfid_inv: "wbc_do_rmfid env dir fs = Some (rc, sent, fs') \<Longrightarrow> I fs \<Longrightarrow> I fs'"
  by (auto simp: wbc_do_rmfid_def Let_def bind_eq_Some_conv keeps_bits_def keep_bits split: if_splits intro!: inode)

lemma sync_metadata_inv: "wbcfs_inode_sync_metadata env opc i fs = Some (rc, fs') \<Longrightarrow> I fs \<Longrightarrow> I fs'"
  by (auto simp: wbcfs_inode_sync_metadata_def split: if_splits dest: rmfid_inv)

lemma update_metadata_inv: "wbc_inode_update_metadata env i fs = Some (rc, fs') \<Longrightarrow> I fs \<Longrightarrow> I fs'"
  by (auto simp: wbc_inode_update_metadata_def Let_def LASSERT_bind split: if_splits
      dest!: sync_metadata_inv intro!: inode)

lemma reopen_inv: "wbc_reopen_file_handler env i fs = (rc, fs') \<Longrightarrow> I fs \<Longrightarrow> I fs'"
  by (auto simp: wbc_reopen_file_handler_def keeps_bits_def keep_bits split: if_splits prod.splits intro!: inode)

lemma flush_dir_end_inv:
  assumes "flush_dir_end env dir wbcx q ctx fs = Some (rc, fs')" and "I fs"
  shows "I fs'"
proof -
  from assms(1) obtain rc3 ctx3 fs3 left where
    3: "wbc_flush_dir_children env ctx dir q wbcx fs = Some (rc3, ctx3, fs3, left)"
    unfolding flush_dir_end_def bind_eq_Some_conv by auto
  define r where "r = (if rc3 = None \<and> \<not> (for_decomplete wbcx \<and> wbc_mode_lock_keep (fs_inode fs3 dir))
    then wbc_reopen_file_handler env dir fs3 else (rc3, fs3))"
  from assms(1) 3 obtain rc5 ctx5 where 5: "wbcfs_context_fini env ctx3 (snd r) = Some (rc5, ctx5, fs')"
    unfolding flush_dir_end_def by (auto simp: r_def LASSERT_bind bind_eq_Some_conv Let_def split: prod.splits)
  have "I fs3" by (rule dir_children_inv [OF 3 assms(2)])
  then have "I (snd r)" unfolding r_def by (auto intro: reopen_inv [OF prod.collapse [symmetric]])
  then show ?thesis by (rule fini_inv [OF 5])
qed

lemma flush_dir_inv:
  assumes "wbc_flush_dir env dir wbcx fs = Some (rc, fs')" and "I fs"
  shows "I fs'"
proof -
  from assms(1) obtain rc1 fs1 where m: "wbc_inode_update_metadata env dir fs = Some (rc1, fs1)"
    unfolding wbc_flush_dir_def bind_eq_Some_conv by auto
  have 1: "I fs1" by (rule update_metadata_inv [OF m assms(2)])
  show ?thesis
  proof (cases "rc1 \<noteq> None \<or> \<not> e_alias env dir")
    case True
    then show ?thesis using assms(1) m 1 by (auto simp: wbc_flush_dir_def LASSERT_bind split: if_splits)
  next
    case False
    with assms(1) m obtain ctx0 q ctx2 fs2 where
      2: "flush_dir_scan env dir wbcx (fs_subdirs fs1 dir) [] 0 ctx0 fs1 = Some (q, ctx2, fs2)"
      and 3: "flush_dir_end env dir wbcx q ctx2 fs2 = Some (rc, fs')"
      unfolding wbc_flush_dir_def by (auto simp: LASSERT_bind bind_eq_Some_conv split: prod.splits)
    show ?thesis by (rule flush_dir_end_inv [OF 3 scan_inv [OF 2 1]])
  qed
qed
lemma data_committed_inv: "I fs \<Longrightarrow> I (data_committed i fs)"
  unfolding data_committed_def wbc_inode_data_lru_del_def Let_def
  by (auto simp: keeps_limits_def upd_conf_def wbc_inode_unacct_pages_def simp del: WBC_STATE_FL_DATA_COMMITTED_def
      intro!: super inode)

lemma commit_pages_inv: "wbcfs_commit_cache_pages env i fs = Some (r, fs') \<Longrightarrow> I fs \<Longrightarrow> I fs'"
  by (auto simp: wbcfs_commit_cache_pages_def wbc_commit_data_lustre_def wbc_commit_data_pcc_def LASSERT_bind
      split: lu_wbc_cache_mode.splits if_splits sum.splits intro: data_committed_inv)

lemma assimilated_inv: "wbc_make_inode_assimilated env i fs = Some (rc, fs') \<Longrightarrow> I fs \<Longrightarrow> I fs'"
  by (auto simp: wbc_make_inode_assimilated_def Let_def bind_eq_Some_conv split: if_splits dest: commit_pages_inv)

lemma regular_inv:
  assumes "wbc_flush_regular_file env i fs = Some (rc, fs')" and "I fs"
  shows "I fs'"
proof -
  from assms(1) obtain rc1 fs1 where 1: "wbc_inode_update_metadata env i fs = Some (rc1, fs1)"
    and 2: "(if rc1 \<noteq> None then Some (rc1, fs1) else wbcfs_commit_cache_pages env i fs1 \<bind> (\<lambda>(r, fs).
      if rc_of r \<noteq> None then Some (rc_of r, fs) else Some (wbc_reopen_file_handler env i fs))) = Some (rc, fs')"
    unfolding wbc_flush_regular_file_def bind_eq_Some_conv by auto
  have "I fs1" by (rule update_metadata_inv [OF 1 assms(2)])
  then show ?thesis using 2
    by (auto simp: bind_eq_Some_conv split: if_splits dest: commit_pages_inv intro: reopen_inv)
qed

lemma inode_flush_inv: "wbc_inode_flush env i wbcx fs = Some (rc, fs') \<Longrightarrow> I fs \<Longrightarrow> I fs'"
  by (auto simp: wbc_inode_flush_def split: if_splits dest: flush_dir_inv regular_inv)

lemma make_deroot_inv: "wbc_make_inode_deroot env i wbcx fs = Some (rc, fs') \<Longrightarrow> I fs \<Longrightarrow> I fs'"
  by (auto simp: wbc_make_inode_deroot_def LASSERT_bind bind_eq_Some_conv dest!: inode_flush_inv intro: deroot)

lemma decomplete_inv:
  assumes "wbc_make_inode_decomplete env i u fs = Some (rc, fs')" and "I fs"
  shows "I fs'"
proof -
  from assms(1) consider "fs' = fs"
    | wbcx rc1 fs1 where "wbc_inode_flush env i wbcx fs = Some (rc1, fs1)"
      "wbc_mark_inode_deroot i fs1 = Some fs' \<or> fs' = upd_inode i (flag_clear WBC_STATE_FL_COMPLETE) fs1 \<or> fs' = fs1"
    unfolding wbc_make_inode_decomplete_def Let_def LASSERT_bind
    by (auto simp: LASSERT_bind bind_eq_Some_conv split: if_splits)
  then show ?thesis
  proof cases
    case 2
    have "I fs1" by (rule inode_flush_inv [OF 2(1) assms(2)])
    then show ?thesis using 2(2) by (auto intro: deroot inode simp del: WBC_STATE_FL_COMPLETE_def)
  qed (simp add: assms(2))
qed

lemma lock_callback_inv: "wbc_inode_lock_callback env i fs = Some (b, fs') \<Longrightarrow> I fs \<Longrightarrow> I fs'"
  by (auto simp: wbc_inode_lock_callback_def bind_eq_Some_conv split: if_splits dest: make_deroot_inv)

lemma flushing_done_inv: "flushing_done i fs = Some fs' \<Longrightarrow> I fs \<Longrightarrow> I fs'"
  by (auto simp: flushing_done_def LASSERT_bind keeps_bits_def keep_bits intro!: inode)

lemma do_create_inv: "wbc_do_create env i fs = Some (rc, fs') \<Longrightarrow> I fs \<Longrightarrow> I fs'"
  by (auto simp: wbc_do_create_def split: if_splits dest: assimilated_inv)

lemma lockless_sync_inv:
  assumes "wbc_inode_flush_lockless_sync env i wbcx fs = Some (rc, fs')" and "I fs"
  shows "I fs'"
proof -
  from assms(1) obtain opc v fs1 where o: "wbc_flush_opcode_get env i False wbcx fs = Some (opc, v, fs1)"
    unfolding wbc_inode_flush_lockless_sync_def bind_eq_Some_conv by auto
  have "I fs1" by (rule opcode_get_inv [OF assms(2) o])
  then show ?thesis using assms(1) o unfolding wbc_inode_flush_lockless_sync_def
    by (cases opc) (auto simp: bind_eq_Some_conv Let_def simp del: WBC_STATE_FL_SYNC_def
        dest!: assimilated_inv do_create_inv rmfid_inv flushing_done_inv intro!: complete_inv inode)
qed

lemma dir_child_inv:
  assumes "wbcfs_writeback_dir_child env i wbcx wctx fs = Some (rc, fs')" and "I fs"
  shows "I fs'"
proof -
  from assms(1) obtain opc v fs1 where o: "wbc_flush_opcode_get env i False wbcx fs = Some (opc, v, fs1)"
    unfolding wbcfs_writeback_dir_child_def bind_eq_Some_conv by auto
  have 1: "I fs1" by (rule opcode_get_inv [OF assms(2) o])
  from assms(1) o consider "fs' = fs1" | "wbc_make_inode_assimilated env i fs1 = Some (rc, fs')"
    | rc2 s fs2 fs3 where "wbc_do_rmfid env i fs1 = Some (rc2, s, fs2)" "flushing_done i fs2 = Some fs3"
        "fs' = wbc_inode_writeback_complete i fs3"
    | fs3 where "flushing_done i fs1 = Some fs3" "fs' = wbc_inode_writeback_complete i fs3"
    | c where "fs' = upd_super (\<lambda>s. s\<lparr> wbcs_context := c \<rparr>) fs1"
    unfolding wbcfs_writeback_dir_child_def
    by (auto simp: bind_eq_Some_conv LASSERT_bind Let_def split: if_splits sum.splits)
  then show ?thesis using 1
    by cases (auto dest: assimilated_inv rmfid_inv flushing_done_inv intro!: complete_inv context_inv)
qed

lemma lockless_inv: "wbcfs_inode_flush_lockless env i wbcx wctx fs = Some (rc, fs') \<Longrightarrow> I fs \<Longrightarrow> I fs'"
  by (auto simp: wbcfs_inode_flush_lockless_def wbc_inode_flush_lockless_async_def split: if_splits
      dest: lockless_sync_inv dir_child_inv)

lemma lockdrop_inv: "wbc_inode_flush_lockdrop env i wbcx fs = Some (rc, fs') \<Longrightarrow> I fs \<Longrightarrow> I fs'"
  by (auto simp: wbc_inode_flush_lockdrop_def LASSERT_bind split: if_splits dest: make_deroot_inv)

lemma dependency_inv:
  assumes "wbc_flush_dependency_check env i wbcx wctx fs = Some (b, wctx', fs')" and "I fs"
  shows "I fs'"
proof -
  define p fs1 where "p = fs_parent fs i" and "fs1 = inode_wait_for_writeback env p fs"
  have 1: "I fs1" unfolding fs1_def using assms(2) by (rule wait_sync_inv)
  from assms(1) consider "fs' = fs"
    | fs2 where "fs2 = fs1 \<or> (\<exists>rc c fs3. (wbcfs_context_commit env wctx fs1 = Some (rc, c, fs3) \<or> fs3 = fs1)
          \<and> fs2 = wbc_inode_wait_for_writeback env p fs3)"
        "fs' = fs2 \<or> fs' = upd_inode i (\<lambda>w. w\<lparr> i_sync := False \<rparr>) fs2"
    unfolding wbc_flush_dependency_check_def p_def [symmetric] Let_def fs1_def [symmetric]
    by (auto simp: bind_eq_Some_conv split: if_splits)
  then show ?thesis
  proof cases
    case 2
    then have "I fs2" using 1 by (auto intro!: wait_wb_inv dest: ctx_commit_inv)
    then show ?thesis using 2(2) by (auto intro!: inode simp: keeps_bits_def keep_bits)
  qed (simp add: assms(2))
qed

lemma write_inode_inv:
  assumes "wbc_write_inode env i wbcx wctx fs = Some (rc, wctx', fs')" and "I fs"
  shows "I fs'"
proof (cases "wbc_inode_has_protected (fs_inode fs i)")
  case False
  then show ?thesis using assms by (simp add: wbc_write_inode_def)
next
  case True
  with assms(1) obtain stop wctx1 fs1 where
    1: "wbc_flush_dependency_check env i wbcx wctx fs = Some (stop, wctx1, fs1) \<or> fs1 = fs"
    and 2: "fs' = fs1 \<or> wbc_inode_flush_lockdrop env i wbcx fs1 = Some (rc, fs')
      \<or> wbcfs_inode_flush_lockless env i wbcx wctx1 fs1 = Some (rc, fs')"
    unfolding wbc_write_inode_def
    by (auto simp: bind_eq_Some_conv split: if_splits lu_wbc_flush_mode.splits)
  have "I fs1" using 1 assms(2) by (auto dest: dependency_inv)
  then show ?thesis using 2 by (auto dest: lockdrop_inv lockless_inv)
qed

lemma sync_inode_inv:
  assumes "sync_inode env i wbcx fs = Some (rc, fs')" and "I fs"
  shows "I fs'"
proof (cases "i_dirty (fs_inode fs i)")
  case True
  with assms(1) obtain rc1 c fs1 where
    1: "wbc_write_inode env i wbcx ioc_zero (upd_inode i (\<lambda>w. w\<lparr> i_dirty := False, i_sync := True \<rparr>) fs) = Some (rc1, c, fs1)"
    and 2: "fs' = upd_inode i (\<lambda>w. w\<lparr> i_sync := False \<rparr>) fs1"
    unfolding sync_inode_def Let_def by (auto simp: bind_eq_Some_conv)
  have "I fs1" by (rule write_inode_inv [OF 1 inode [OF assms(2)]]) (simp add: keeps_bits_def keep_bits)
  then show ?thesis unfolding 2 by (intro inode) (simp_all add: keeps_bits_def keep_bits)
qed (use assms in \<open>simp add: sync_inode_def\<close>)

lemma ancestors_inv: "flush_ancestors_loop env wbcx is rc fs = Some (rc', fs') \<Longrightarrow> I fs \<Longrightarrow> I fs'"
proof (induction "is" arbitrary: rc fs)
  case (Cons i "is")
  define fs1 where "fs1 = (if wbc_flush_mode_lazy (fs_inode fs i) then upd_inode i (\<lambda>w. w\<lparr> i_dirty := True \<rparr>) fs else fs)"
  have 1: "I fs1" unfolding fs1_def using Cons.prems(2) by (auto intro!: inode simp: keeps_bits_def keep_bits)
  from Cons.prems(1) obtain rc2 fs2 where 2: "sync_inode env i wbcx fs1 = Some (rc2, fs2) \<or> fs2 = fs1"
    and 3: "flush_ancestors_loop env wbcx is rc2 (wbc_inode_writeback_complete i
      (upd_inode i (flag_clear WBC_STATE_FL_WRITEBACK) fs2)) = Some (rc', fs')"
    unfolding flush_ancestors_loop.simps Let_def fs1_def [symmetric] by (auto simp: bind_eq_Some_conv split: if_splits)
  have "I fs2" using 1 2 by (auto dest: sync_inode_inv)
  then show ?case
    by (intro Cons.IH [OF 3] complete_inv inode) (simp_all del: WBC_STATE_FL_WRITEBACK_def)
qed simp

lemma addroot_inv: "wbc_sync_addroot_lockdrop i fl fs = Some (fl', fs') \<Longrightarrow> I fs \<Longrightarrow> I fs'"
  by (auto simp: wbc_sync_addroot_lockdrop_def LASSERT_bind simp del: WBC_STATE_FL_WRITEBACK_def split: if_splits intro: inode)

lemma climb_step_inv:
  assumes "sync_climb_step env i fl fs = Some (up, fl', fs')" and "I fs"
  shows "I fs'"
proof -
  from assms(1) obtain fs1 fs2 where 1: "fs1 = fs \<or> fs1 = wbc_inode_wait_for_writeback env i fs"
    and 2: "fs2 = fs1 \<or> fs2 = inode_wait_for_writeback env i fs1"
    and 3: "wbc_sync_addroot_lockdrop i fl fs2 = Some (fl', fs') \<or> fs' = upd_inode i (flag_set WBC_STATE_FL_WRITEBACK) fs2"
    unfolding sync_climb_step_def Let_def
    by (auto simp: LASSERT_bind bind_eq_Some_conv simp del: WBC_STATE_FL_WRITEBACK_def split: if_splits)
  have "I fs2" using 1 2 assms(2) by (auto intro: wait_wb_inv wait_sync_inv)
  then show ?thesis using 3 by (auto intro: inode dest: addroot_inv simp del: WBC_STATE_FL_WRITEBACK_def)
qed
lemma climb_inv:
  assumes "sync_climb env i fl fs = Some r" and "I fs"
  shows "I (snd r)"
proof -
  have "env' = env \<longrightarrow> I fs' \<longrightarrow> I (snd r')" if "sync_climb env' i' fl' fs' = Some r'" for env' i' fl' fs' r'
  proof (rule sync_climb.raw_induct [OF _ that, where P = "\<lambda>env' _ _ fs' r'. env' = env \<longrightarrow> I fs' \<longrightarrow> I (snd r')"], goal_cases)
    case (1 f env' i fl fs r)
    show ?case
    proof (intro impI)
      assume e: "env' = env" and "I fs"
      from 1(2) obtain up fl1 fs1 where s: "sync_climb_step env i fl fs = Some (up, fl1, fs1)"
        and n: "(if up then f env (fs_parent fs1 i) fl1 fs1 else Some (fl1, fs1)) = Some r"
        unfolding e bind_eq_Some_conv by auto
      from climb_step_inv [OF s \<open>I fs\<close>] n 1(1) [of env "fs_parent fs1 i" fl1 fs1 r] show "I (snd r)"
        by (cases up) auto
    qed
  qed
  with assms show ?thesis by blast
qed

lemma make_sync_inv:
  assumes "wbc_make_inode_sync env i fs = Some (rc, fs')" and "I fs"
  shows "I fs'"
proof -
  from assms(1) obtain fl fs1 where 1: "sync_climb env i [] fs = Some (fl, fs1)"
    and 2: "wbc_flush_ancestors_topdown env fl fs1 = Some (rc, fs')"
    unfolding wbc_make_inode_sync_def bind_eq_Some_conv by auto
  from climb_inv [OF 1 assms(2)] have "I fs1" by simp
  then show ?thesis using 2 unfolding wbc_flush_ancestors_topdown_def by (auto dest: ancestors_inv)
qed

lemma dir_decomplete_inv:
  assumes "wbc_make_dir_decomplete env dir u fs = Some (rc, fs')" and "I fs"
  shows "I fs'"
proof -
  from assms(1) obtain j rc1 fs1 where 1: "wbc_make_inode_sync env j fs = Some (rc1, fs1) \<or> fs1 = fs"
    and 2: "fs' = fs1 \<or> wbc_make_inode_decomplete env dir u fs1 = Some (rc, fs')"
    unfolding wbc_make_dir_decomplete_def by (auto simp: bind_eq_Some_conv split: if_splits)
  have "I fs1" using 1 assms(2) by (auto dest: make_sync_inv)
  then show ?thesis using 2 by (auto dest: decomplete_inv)
qed

lemma data_commit_inv:
  assumes "wbc_make_data_commit env i fs = Some (r, fs')" and "I fs"
  shows "I fs'"
proof -
  from assms(1) obtain j rc1 fs1 where 1: "wbc_make_inode_sync env j fs = Some (rc1, fs1) \<or> fs1 = fs"
    and 2: "fs' = fs1 \<or> wbcfs_commit_cache_pages env i fs1 = Some (r, fs')"
    unfolding wbc_make_data_commit_def Let_def by (auto simp: bind_eq_Some_conv split: if_splits option.splits)
  have "I fs1" using 1 assms(2) by (auto dest: make_sync_inv)
  then show ?thesis using 2 by (auto dest: commit_pages_inv)
qed

lemma rsvd_lru_inv: "I fs \<Longrightarrow> I (upd_super (\<lambda>s. s\<lparr> wbcs_rsvd_inode_lru := f s \<rparr>) fs)"
  by (auto simp: keeps_limits_def intro: super)

lemma reclaim_inodes_inv:
  assumes "wbc_reclaim_inodes_below env low fs = Some r" and "I fs"
  shows "I (snd r)"
proof -
  have "env' = env \<longrightarrow> I fs' \<longrightarrow> I (snd r')" if "wbc_reclaim_inodes_below env' low' fs' = Some r'" for env' low' fs' r'
  proof (rule wbc_reclaim_inodes_below.raw_induct [OF _ that, where P = "\<lambda>env' _ fs' r'. env' = env \<longrightarrow> I fs' \<longrightarrow> I (snd r')"], goal_cases)
    case (1 f env' low fs r)
    show ?case
    proof (intro impI)
      assume e: "env' = env" and i: "I fs"
      show "I (snd r)"
      proof (cases "wbcc_free_inodes (wbcs_conf (fs_super fs)) < ucast low \<and> wbcs_rsvd_inode_lru (fs_super fs) \<noteq> []")
        case False
        then show ?thesis using 1(2) i by (auto split: if_splits list.splits)
      next
        case True
        then obtain j js where l: "wbcs_rsvd_inode_lru (fs_super fs) = j # js" by (cases "wbcs_rsvd_inode_lru (fs_super fs)") auto
        define fs0 where "fs0 = upd_super (\<lambda>s. s\<lparr> wbcs_rsvd_inode_lru := removeAll j (wbcs_rsvd_inode_lru s) \<rparr>) fs"
        have 0: "I fs0" unfolding fs0_def by (rule rsvd_lru_inv [OF i])
        have n: "(if \<not> e_alias env j then f env low fs0 else wbc_make_dir_decomplete env (fs_parent fs0 j) True fs0 \<bind>
          (\<lambda>(rc, fs). if rc \<noteq> None then Some (rc, fs) else f env low fs)) = Some r"
          using 1(2) True unfolding e l Let_def fs0_def by (simp split del: if_split)
        show ?thesis
        proof (cases "e_alias env j")
          case False
          then show ?thesis using n 0 1(1) [of env low fs0 r] by simp
        next
          case True
          with n obtain rc fs1 where d: "wbc_make_dir_decomplete env (fs_parent fs0 j) True fs0 = Some (rc, fs1)"
            and m: "(if rc \<noteq> None then Some (rc, fs1) else f env low fs1) = Some r"
            by (auto simp: bind_eq_Some_conv)
          from dir_decomplete_inv [OF d 0] m 1(1) [of env low fs1 r] show ?thesis by (cases rc) auto
        qed
      qed
    qed
  qed
  with assms show ?thesis by blast
qed

lemma shrink_loop_inv:
  assumes "shrink_roots_loop env lazy fs = Some r" and "I fs"
  shows "I (snd r)"
proof -
  have "env' = env \<longrightarrow> I fs' \<longrightarrow> I (snd r')" if "shrink_roots_loop env' lazy' fs' = Some r'" for env' lazy' fs' r'
  proof (rule shrink_roots_loop.raw_induct [OF _ that, where P = "\<lambda>env' _ fs' r'. env' = env \<longrightarrow> I fs' \<longrightarrow> I (snd r')"], goal_cases)
    case (1 f env' lazy fs r)
    show ?case
    proof (intro impI)
      assume e: "env' = env" and i: "I fs"
      show "I (snd r)"
      proof (cases "take_root lazy fs")
        case None
        then show ?thesis using 1(2) i by auto
      next
        case (Some p)
        obtain j fs1 where p: "p = (j, fs1)" by fastforce
        have i1: "I fs1" using taken [OF i] Some p by auto
        from 1(2) Some p obtain rc fs2 where
          2: "wbc_inode_flush_lockdrop env j (wbcx_zero\<lparr> sync_all := True, for_callback := True \<rparr>) fs1 = Some (rc, fs2)"
          and 3: "r = (rc, fs2) \<or> f env lazy fs2 = Some r"
          unfolding e by (auto simp: LASSERT_bind bind_eq_Some_conv split: if_splits)
        have "I fs2" by (rule lockdrop_inv [OF 2 i1])
        then show ?thesis using 3 1(1) [of env lazy fs2 r] by auto
      qed
    qed
  qed
  with assms show ?thesis by blast
qed
end

section \<open>Two invariants\<close>

definition reserved_files :: "wbc_fs \<Rightarrow> nat set" where
  "reserved_files fs = {i. wbc_inode_reserved (fs_inode fs i)}"

definition rsv_inv :: "wbc_fs \<Rightarrow> bool" where
  "rsv_inv fs \<longleftrightarrow> finite (reserved_files fs) \<and> (wbcc_max_inodes (wbcs_conf (fs_super fs)) \<noteq> 0 \<longrightarrow>
     unat (wbcc_free_inodes (wbcs_conf (fs_super fs))) + card (reserved_files fs)
     = unat (wbcc_max_inodes (wbcs_conf (fs_super fs))))"

definition roots_inv :: "wbc_fs \<Rightarrow> bool" where
  "roots_inv fs \<longleftrightarrow> (\<forall>i \<in> set (wbcs_roots (fs_super fs)) \<union> set (wbcs_lazy_roots (fs_super fs)).
     wbc_inode_root (fs_inode fs i))"

lemma upd_inode_sel [simp]:
  "fs_inode (upd_inode i f fs) = (fs_inode fs)(i := f (fs_inode fs i))" "fs_super (upd_inode i f fs) = fs_super fs"
  "fs_inode (upd_super g fs) = fs_inode fs" "fs_super (upd_super g fs) = g (fs_super fs)"
  by (simp_all add: upd_inode_def upd_super_def)

lemma flag_clear_reserved [simp]:
  "\<not> wbc_inode_reserved (flag_clear 0x10 w)" "wbc_inode_root (flag_clear 0x10 w) = wbc_inode_root w"
  by (simp_all add: flag_clear_def wbc_inode_reserved_def wbc_inode_root_def and.assoc)

lemma reserved_upd:
  assumes "\<And>w. wbc_inode_reserved (f w) = wbc_inode_reserved w"
  shows "reserved_files (upd_inode i f fs) = reserved_files fs"
  using assms by (auto simp: reserved_files_def)

lemma rsv_upd: "rsv_inv fs \<Longrightarrow> (\<And>w. wbc_inode_reserved (f w) = wbc_inode_reserved w) \<Longrightarrow> rsv_inv (upd_inode i f fs)"
  unfolding rsv_inv_def by (simp add: reserved_upd)

lemma rsv_super:
  "rsv_inv fs \<Longrightarrow> wbcc_max_inodes (wbcs_conf (g (fs_super fs))) = wbcc_max_inodes (wbcs_conf (fs_super fs)) \<Longrightarrow>
   wbcc_free_inodes (wbcs_conf (g (fs_super fs))) = wbcc_free_inodes (wbcs_conf (fs_super fs)) \<Longrightarrow> rsv_inv (upd_super g fs)"
  by (simp add: rsv_inv_def reserved_files_def)

lemma unat_plus_1: "unat x < unat y \<Longrightarrow> unat (x + 1) = unat x + 1" for x y :: u64
proof -
  assume "unat x < unat y"
  then have "unat x + unat (1 :: u64) < 2 ^ LENGTH(64)" using unat_less_pow [of y] unfolding unat_1 by linarith
  then show ?thesis by (subst unat_add_small) simp_all
qed

lemma unreserve_reserved: "reserved_files (wbc_unreserve_inode i fs) = reserved_files fs - {i}"
  by (auto simp: wbc_unreserve_inode_def reserved_files_def Let_def)

lemma unreserve_conf:
  "wbcc_max_inodes (wbcs_conf (fs_super (wbc_unreserve_inode i fs))) = wbcc_max_inodes (wbcs_conf (fs_super fs))"
  "wbcc_max_inodes (wbcs_conf (fs_super fs)) \<noteq> 0 \<Longrightarrow>
   wbcc_free_inodes (wbcs_conf (fs_super (wbc_unreserve_inode i fs))) = wbcc_free_inodes (wbcs_conf (fs_super fs)) + 1"
  by (simp_all add: wbc_unreserve_inode_def Let_def upd_conf_def)

lemma rsv_unreserve:
  assumes "rsv_inv fs" and "wbc_inode_reserved (fs_inode fs i)"
  shows "rsv_inv (wbc_unreserve_inode i fs)"
proof -
  have i: "i \<in> reserved_files fs" using assms(2) by (simp add: reserved_files_def)
  have fin: "finite (reserved_files fs)" using assms(1) by (simp add: rsv_inv_def)
  have card: "card (reserved_files fs) = Suc (card (reserved_files fs - {i}))" by (rule card.remove [OF fin i])
  show ?thesis
    using assms(1) fin card unat_plus_1 [of "wbcc_free_inodes (wbcs_conf (fs_super fs))" "wbcc_max_inodes (wbcs_conf (fs_super fs))"]
    by (auto simp: rsv_inv_def unreserve_reserved unreserve_conf)
qed

lemma rsv_root_del: "rsv_inv fs \<Longrightarrow> wbc_super_root_del i fs = Some fs' \<Longrightarrow> rsv_inv fs'"
  by (auto simp: wbc_super_root_del_def LASSERT_bind intro!: rsv_super)

lemma rsv_deroot:
  assumes "rsv_inv fs" and "wbc_mark_inode_deroot i fs = Some fs'"
  shows "rsv_inv fs'"
proof -
  from assms(2) obtain fs1 fs2 where 1: "wbc_super_root_del i fs = Some fs1"
    and 2: "fs2 = (if wbc_inode_reserved (fs_inode fs1 i) then wbc_unreserve_inode i fs1 else fs1)"
    and 3: "fs' = upd_inode i (\<lambda>w. w\<lparr> wbci_flags := WBC_STATE_FL_NONE, i_ops := LL_OPS \<rparr>) fs2"
    by (auto simp: wbc_mark_inode_deroot_def bind_eq_Some_conv Let_def)
  have "rsv_inv fs2" using rsv_root_del [OF assms(1) 1] unfolding 2 by (simp add: rsv_unreserve)
  moreover have "\<not> wbc_inode_reserved (fs_inode fs2 i)"
    unfolding 2 using unreserve_reserved [of i fs1] by (auto simp: reserved_files_def)
  then have "reserved_files fs' = reserved_files fs2"
    unfolding 3 by (auto simp: reserved_files_def wbc_inode_reserved_def)
  ultimately show ?thesis unfolding rsv_inv_def by (simp add: 3)
qed

lemma rsv_flush_inv:
  assumes "\<And>i fs. rsv_inv fs \<Longrightarrow> rsv_inv (e_wait_sync env i fs)" and "\<And>i fs. rsv_inv fs \<Longrightarrow> rsv_inv (e_wait_wb env i fs)"
  shows "flush_inv rsv_inv env"
proof
  fix fs i f fs' assume "rsv_inv fs" "wbc_super_root_add i (upd_inode i f fs) = Some fs'"
    "\<And>w. wbc_inode_reserved (f w) = wbc_inode_reserved w"
  then show "rsv_inv fs'" using rsv_upd
    by (auto simp: wbc_super_root_add_def LASSERT_bind split: if_splits intro!: rsv_super)
next
  fix fs lazy i fs' assume "rsv_inv fs" "take_root lazy fs = Some (i, fs')"
  then show "rsv_inv fs'" by (auto simp: take_root_def Let_def split: if_splits intro!: rsv_super)
qed (use assms in \<open>auto simp: keeps_bits_def keeps_limits_def intro: rsv_upd rsv_super rsv_unreserve rsv_deroot\<close>)

interpretation rsv: flush_inv rsv_inv env_ok
  by (rule rsv_flush_inv) (simp_all add: env_ok_def)

lemma roots_unreserve: "roots_inv fs \<Longrightarrow> roots_inv (wbc_unreserve_inode i fs)"
  by (auto simp: roots_inv_def wbc_unreserve_inode_def Let_def upd_conf_def)

lemma roots_deroot: "roots_inv fs \<Longrightarrow> wbc_mark_inode_deroot i fs = Some fs' \<Longrightarrow> roots_inv fs'"
  by (auto simp: roots_inv_def wbc_mark_inode_deroot_def wbc_super_root_del_def wbc_unreserve_inode_def LASSERT_bind Let_def
      upd_conf_def split: if_splits)

lemma roots_upd: "roots_inv fs \<Longrightarrow> keeps_bits f \<Longrightarrow> roots_inv (upd_inode i f fs)"
  by (auto simp: roots_inv_def keeps_bits_def)

lemma roots_super: "roots_inv fs \<Longrightarrow> keeps_limits g \<Longrightarrow> roots_inv (upd_super g fs)"
  by (auto simp: roots_inv_def keeps_limits_def)

lemma roots_flush_inv:
  assumes "\<And>i fs. roots_inv fs \<Longrightarrow> roots_inv (e_wait_sync env i fs)" and "\<And>i fs. roots_inv fs \<Longrightarrow> roots_inv (e_wait_wb env i fs)"
  shows "flush_inv roots_inv env"
proof
  fix fs i f fs' assume "roots_inv fs" "wbc_super_root_add i (upd_inode i f fs) = Some fs'"
  then show "roots_inv fs'"
    by (auto simp: roots_inv_def wbc_super_root_add_def LASSERT_bind split: if_splits)
next
  fix fs lazy i fs' assume "roots_inv fs" "take_root lazy fs = Some (i, fs')"
  then show "roots_inv fs'" by (auto simp: roots_inv_def take_root_def Let_def split: if_splits)
qed (use assms in \<open>auto intro: roots_upd roots_super roots_unreserve roots_deroot\<close>)

interpretation roots: flush_inv roots_inv env_ok
  by (rule roots_flush_inv) (simp_all add: env_ok_def)
end
