(* ===== verification/WBC_Memfs.thy ===== *)
theory WBC_Memfs
  imports WBC_Flush
begin

text \<open>
  The memory file system of the writeback cache (\<open>memfs.c\<close>): creating and removing files in a
  cached directory, with the reservation of inodes, the size of directories, the list of removed
  files and the counter of dirty inodes; the accounting of pages; and \<open>fsync\<close>.
\<close>

section \<open>Directories\<close>

definition DIRENT64_SIZE :: "nat \<Rightarrow> int" where
  "DIRENT64_SIZE len = int ((19 + len + 1 + 7) div 8 * 8)"

text \<open>
  \<open>wbc_cache_enter\<close>: \<open>Inr True\<close> is the result 1 (an inode is reserved), \<open>Inr False\<close> the result 0
  (the operation goes to the server).
\<close>

definition wbc_cache_enter :: "wbc_env \<Rightarrow> nat \<Rightarrow> wbc_fs \<Rightarrow> ((errno + bool) \<times> wbc_fs) option" where
  "wbc_cache_enter env dir fs =
     (if \<not> wbc_inode_has_protected (fs_inode fs dir) \<or> \<not> wbc_inode_complete (fs_inode fs dir)
      then Some (Inr False, fs)
      else
        let (rc, super) = wbc_reserve_inode (fs_super fs); fs = fs\<lparr> fs_super := super \<rparr> in
        case rc of
          None \<Rightarrow> Some (Inr True, fs)
        | Some e \<Rightarrow>
            if e \<noteq> ENOSPC then Some (Inl e, fs)
            else do {
              (rc, fs) \<leftarrow> wbc_make_dir_decomplete env dir False fs;
              Some (case rc of None \<Rightarrow> Inr False | Some e \<Rightarrow> Inl e, fs)
            })"

definition wbc_dirent_account_inc :: "nat \<Rightarrow> nat \<Rightarrow> wbc_fs \<Rightarrow> wbc_fs" where
  "wbc_dirent_account_inc dir len = upd_inode dir (\<lambda>w. w\<lparr> i_size := i_size w + DIRENT64_SIZE len,
     wbcd_dirent_num := wbcd_dirent_num w + 1 \<rparr>)"

definition wbc_dirent_account_dec :: "nat \<Rightarrow> nat \<Rightarrow> wbc_fs \<Rightarrow> wbc_fs option" where
  "wbc_dirent_account_dec dir len fs = do {
     LASSERT (i_size (fs_inode fs dir) - DIRENT64_SIZE len \<ge> 0);
     Some (upd_inode dir (\<lambda>w. w\<lparr> i_size := i_size w - DIRENT64_SIZE len,
             wbcd_dirent_num := wbcd_dirent_num w - 1 \<rparr>) fs)
   }"

text \<open>The new inode \<open>i\<close> of \<open>wbc_get_inode\<close>: \<open>Inl None\<close> is the null pointer.\<close>

definition wbc_get_inode ::
    "wbc_env \<Rightarrow> nat \<Rightarrow> nat \<Rightarrow> file_type \<Rightarrow> wbc_fs \<Rightarrow> (errno option + wbc_fs)" where
  "wbc_get_inode env dir i mode fs =
     (if \<not> e_new_inode env then Inl None
      else case e_fid_alloc env of
        Inl e \<Rightarrow> Inl (Some e)
      | Inr fid \<Rightarrow> Inr (fs\<lparr> fs_inode := (fs_inode fs)(i := \<lparr>
          wbci_flags = WBC_STATE_FL_PROTECTED OR WBC_STATE_FL_COMPLETE OR WBC_STATE_FL_INODE_RESERVED,
          wbci_cache_mode = wbci_cache_mode (fs_inode fs dir),
          wbci_flush_mode = wbci_flush_mode (fs_inode fs dir),
          wbci_dirty_flags = WBC_DIRTY_FL_CREAT, wbci_dirty_attr = 0, wbci_lock_handle = False,
          wbci_removed_list = [], wbci_removed_count = 0,
          wbci_rmpol = wbcc_rmpol (wbcs_conf (fs_super fs)),
          i_type = mode, i_fid = fid, i_sync = False, i_dirty = False, i_ops = MEMFS_OPS,
          i_size = (if mode = S_IFDIR then DIRENT64_SIZE 1 + DIRENT64_SIZE 2 else 0),
          i_nrpages = 0, d_fsdata = False, wbcd_dirent_num = 0, wbcd_open_files = [] \<rparr>) \<rparr>))"

definition wbcfs_d_init :: "wbc_env \<Rightarrow> nat \<Rightarrow> wbc_fs \<Rightarrow> rc \<times> wbc_fs" where
  "wbcfs_d_init env i fs =
     (if d_fsdata (fs_inode fs i) then (None, fs)
      else if e_d_alloc env then (None, upd_inode i (\<lambda>w. w\<lparr> d_fsdata := True \<rparr>) fs)
      else (Some ENOMEM, fs))"

text \<open>
  Label \<open>out_iput\<close> with an error: \<open>iput\<close> drops the only reference, so the inode is evicted and
  \<open>ll_delete_inode\<close> calls \<open>wbc_free_inode\<close>.
\<close>

definition new_node_out_iput :: "nat \<Rightarrow> nat \<Rightarrow> nat \<Rightarrow> rc \<Rightarrow> wbc_fs \<Rightarrow> (rc \<times> wbc_fs) option" where
  "new_node_out_iput dir i len rc fs = do {
     fs \<leftarrow> wbc_dirent_account_dec dir len fs;
     let fs = wbc_reserved_inode_lru_del i fs;
     fs \<leftarrow> wbc_free_inode i fs;
     Some (rc, fs)
   }"

definition mark_inode_dirty :: "nat \<Rightarrow> wbc_fs \<Rightarrow> wbc_fs" where
  "mark_inode_dirty i = upd_inode i (\<lambda>w. w\<lparr> i_dirty := True \<rparr>)"

definition wbc_new_node ::
    "wbc_env \<Rightarrow> nat \<Rightarrow> nat \<Rightarrow> nat \<Rightarrow> file_type \<Rightarrow> wbc_fs \<Rightarrow> (rc \<times> wbc_fs) option" where
  "wbc_new_node env dir i len mode fs = do {
     LASSERT (wbc_inode_has_protected (fs_inode fs dir));
     if e_prep env dir \<noteq> None then Some (e_prep env dir, fs)
     else case wbc_get_inode env dir i mode fs of
       Inl (Some e) \<Rightarrow> Some (Some e, fs)
     | Inl None \<Rightarrow> None
     | Inr fs \<Rightarrow> do {
         let (rc, fs) = wbcfs_d_init env i fs;
         if rc \<noteq> None then new_node_out_iput dir i len rc fs
         else do {
           let fs = wbc_reserved_inode_lru_add i (wbc_dirent_account_inc dir len fs);
           let fs = fs\<lparr> fs_parent := (fs_parent fs)(i := dir),
                        fs_subdirs := (fs_subdirs fs)(dir := i # fs_subdirs fs dir, i := []),
                        fs_mountpoint := (fs_mountpoint fs)(i := False) \<rparr>;
           if mode = S_IFLNK \<and> \<not> e_symlink_alloc env
           then new_node_out_iput dir i len (Some ENOMEM) fs
           else do {
             let fs = (case wbci_flush_mode (fs_inode fs i) of
                 WBC_FLUSH_AGING_DROP \<Rightarrow> mark_inode_dirty i (mark_inode_dirty dir fs)
               | WBC_FLUSH_AGING_KEEP \<Rightarrow> mark_inode_dirty i fs
               | _ \<Rightarrow> fs);
             Some (None, upd_super (upd_mwb (wbc_account_inode_dirtied env)) fs)
           }
         }
       }
   }"

definition memfs_mkdir :: "wbc_env \<Rightarrow> nat \<Rightarrow> nat \<Rightarrow> nat \<Rightarrow> wbc_fs \<Rightarrow> (rc \<times> wbc_fs) option" where
  "memfs_mkdir env dir i len fs = do {
     (r, fs) \<leftarrow> wbc_cache_enter env dir fs;
     case r of
       Inl e \<Rightarrow> Some (Some e, fs)
     | Inr True \<Rightarrow> wbc_new_node env dir i len S_IFDIR fs
     | Inr False \<Rightarrow> Some (e_mkdir env, fs)
   }"

section \<open>Removing\<close>

definition wbc_add_removed_item ::
    "wbc_env \<Rightarrow> nat \<Rightarrow> nat \<Rightarrow> wbc_remove_policy \<Rightarrow> wbc_fs \<Rightarrow> (errno + nat) \<times> wbc_fs" where
  "wbc_add_removed_item env dir i pol fs =
     (if \<not> e_alloc env then (Inl ENOMEM, fs)
      else
        let wbci = fs_inode fs i;
            fs = (if i_type wbci = S_IFDIR \<and> pol = WBC_RMPOL_DELAY then
                    upd_inode i (\<lambda>w. w\<lparr> wbci_removed_list := [] \<rparr>)
                      (upd_inode dir (\<lambda>d. d\<lparr> wbci_removed_list := wbci_removed_list d @ wbci_removed_list wbci,
                          wbci_removed_count := wbci_removed_count d + wbci_removed_count wbci \<rparr>) fs)
                  else if i_type wbci = S_IFDIR \<and> pol = WBC_RMPOL_SUBTREE
                  then upd_inode i (\<lambda>w. w\<lparr> wbci_removed_list := [] \<rparr>) fs
                  else fs)
        in (Inr 1, upd_inode dir (\<lambda>d. d\<lparr> wbci_removed_list := wbci_removed_list d @ [i_fid wbci],
                     wbci_removed_count := wbci_removed_count d + 1 \<rparr>) fs))"

definition memfs_remove_policy :: "wbc_env \<Rightarrow> nat \<Rightarrow> nat \<Rightarrow> wbc_fs \<Rightarrow> (errno + nat) \<times> wbc_fs" where
  "memfs_remove_policy env dir i fs =
     (if \<not> wbc_mode_lock_keep (fs_inode fs i) then (Inr 0, fs)
      else
        let fs = upd_inode i (flag_set WBC_STATE_FL_FREEING) fs;
            fs = inode_wait_for_writeback env i fs;
            fs = wbc_inode_wait_for_writeback env i fs
        in if \<not> wbc_inode_was_flushed (fs_inode fs i) then (Inr 0, fs)
           else case wbcc_rmpol (wbcs_conf (fs_super fs)) of
             WBC_RMPOL_SYNC \<Rightarrow> (case e_remove env i of Some e \<Rightarrow> Inl e | None \<Rightarrow> Inr 0, fs)
           | WBC_RMPOL_DELAY \<Rightarrow> wbc_add_removed_item env dir i WBC_RMPOL_DELAY fs
           | WBC_RMPOL_SUBTREE \<Rightarrow> wbc_add_removed_item env dir i WBC_RMPOL_SUBTREE fs
           | WBC_RMPOL_NONE \<Rightarrow> (Inr 0, fs))"

definition memfs_remove_from_dcache :: "nat \<Rightarrow> nat \<Rightarrow> nat \<Rightarrow> wbc_fs \<Rightarrow> wbc_fs option" where
  "memfs_remove_from_dcache dir i len fs = do {
     LASSERT (wbc_inode_reserved (fs_inode fs i));
     let fs = wbc_inode_unreserve_dput i fs;
     fs \<leftarrow> wbc_dirent_account_dec dir len fs;
     Some (upd_super (upd_mwb wbc_unacct_inode_dirtied) fs)
   }"

text \<open>After a delayed removal the directory has removals to send.\<close>

definition remove_delayed :: "nat \<Rightarrow> nat \<Rightarrow> wbc_fs \<Rightarrow> wbc_fs" where
  "remove_delayed r dir fs =
     (if r = 1 then mark_inode_dirty dir
          (upd_inode dir (\<lambda>d. d\<lparr> wbci_dirty_flags := wbci_dirty_flags d OR WBC_DIRTY_FL_REMOVE \<rparr>) fs)
      else fs)"

definition memfs_rmdir :: "wbc_env \<Rightarrow> nat \<Rightarrow> nat \<Rightarrow> nat \<Rightarrow> wbc_fs \<Rightarrow> (rc \<times> wbc_fs) option" where
  "memfs_rmdir env dir i len fs =
     (if wbc_inode_complete (fs_inode fs dir) then
        case memfs_remove_policy env dir i fs of
          (Inl e, fs) \<Rightarrow> Some (Some e, fs)
        | (Inr r, fs) \<Rightarrow> do {
            fs \<leftarrow> memfs_remove_from_dcache dir i len fs;
            Some (None, remove_delayed r dir fs)
          }
      else do {
        LASSERT (wbc_inode_written_out (fs_inode fs dir));
        if e_remove env i \<noteq> None then Some (e_remove env i, fs)
        else Some (if wbc_inode_reserved (fs_inode fs i) then e_simple_remove env i else None, fs)
      })"

definition memfs_unlink :: "wbc_env \<Rightarrow> nat \<Rightarrow> nat \<Rightarrow> nat \<Rightarrow> wbc_fs \<Rightarrow> (rc \<times> wbc_fs) option" where
  "memfs_unlink env dir i len fs =
     (if wbc_inode_complete (fs_inode fs dir) then
        case memfs_remove_policy env dir i fs of
          (Inl e, fs) \<Rightarrow> Some (Some e, fs)
        | (Inr r, fs) \<Rightarrow> do {
            fs \<leftarrow> memfs_remove_from_dcache dir i len fs;
            Some (None, remove_delayed r dir (wbc_inode_data_lru_del i fs))
          }
      else if e_remove env i \<noteq> None then Some (e_remove env i, fs)
      else Some (if wbc_inode_reserved (fs_inode fs i) then e_simple_remove env i else None, fs))"

section \<open>Data\<close>

definition wbc_inode_acct_page :: "nat \<Rightarrow> nat \<Rightarrow> wbc_fs \<Rightarrow> bool \<times> wbc_fs" where
  "wbc_inode_acct_page i nr_pages fs =
     (let conf = wbcs_conf (fs_super fs) in
      if of_nat (i_nrpages (fs_inode fs i)) + of_nat nr_pages > wbcc_max_nrpages_per_file conf
      then (False, fs)
      else if wbcc_max_pages conf \<noteq> 0 then
        if wbcc_used_pages conf > sint (wbcc_max_pages conf - of_nat nr_pages) then (False, fs)
        else
          let conf = conf\<lparr> wbcc_used_pages := wbcc_used_pages conf + int nr_pages \<rparr>;
              fs = upd_super (\<lambda>s. s\<lparr> wbcs_conf := conf \<rparr>) fs
          in (True, if wbc_cache_too_much_pages conf
                    then upd_super (\<lambda>s. s\<lparr> wbcs_reclaim_woken := True \<rparr>) fs else fs)
      else (True, fs))"

definition memfs_fsync :: "wbc_env \<Rightarrow> nat \<Rightarrow> wbc_fs \<Rightarrow> (rc \<times> wbc_fs) option" where
  "memfs_fsync env i fs = do {
     (rc, fs) \<leftarrow> (if \<not> wbc_inode_was_flushed (fs_inode fs i) then wbc_make_inode_sync env i fs
                 else Some (None, fs));
     (rc, fs) \<leftarrow> (if i_type (fs_inode fs i) = S_IFREG
                 then map_option (\<lambda>(r, fs). (rc_of r, fs)) (wbcfs_commit_cache_pages env i fs)
                 else Some (rc, fs));
     if rc \<noteq> None then Some (rc, fs)
     else do {
       LASSERT (wbc_inode_written_out (fs_inode fs i));
       Some (e_fsync env, fs)
     }
   }"

end
