(* ===== verification/WBC_Conf.thy ===== *)
theory WBC_Conf
  imports WBC_Flush
begin

text \<open>
  The configuration of the metadata writeback cache: the commands written to the control files
  (\<open>wbc_cmd_parse\<close> and its helpers in \<open>wbc.c\<close>, the handlers of the files in \<open>llite_wbc.c\<close>), and
  what they do to the limits, modes and policies.

  The parsers of numbers of the kernel are the argument \<open>lib\<close>: \<open>kstrtoul\<close> and \<open>kstrtouint\<close> (an error or
  the number), \<open>memparse\<close> (the number with its suffix applied, and the rest of the string),
  \<open>kstrtobool\<close>, together with the size of memory in pages and the page shift.
\<close>

section \<open>Commands\<close>

datatype wbc_cmd_type = WBC_CMD_DISABLE | WBC_CMD_ENABLE | WBC_CMD_CONFIG | WBC_CMD_CHANGE | WBC_CMD_CLEAR

definition WBC_CMD_OP_CACHE_MODE :: u32 where [simp]: "WBC_CMD_OP_CACHE_MODE = 0x0001"
definition WBC_CMD_OP_FLUSH_MODE :: u32 where [simp]: "WBC_CMD_OP_FLUSH_MODE = 0x0002"
definition WBC_CMD_OP_MAX_RPCS :: u32 where [simp]: "WBC_CMD_OP_MAX_RPCS = 0x0004"
definition WBC_CMD_OP_RMPOL :: u32 where [simp]: "WBC_CMD_OP_RMPOL = 0x0008"
definition WBC_CMD_OP_INODES_LIMIT :: u32 where [simp]: "WBC_CMD_OP_INODES_LIMIT = 0x0010"
definition WBC_CMD_OP_PAGES_LIMIT :: u32 where [simp]: "WBC_CMD_OP_PAGES_LIMIT = 0x0020"
definition WBC_CMD_OP_READDIR_POL :: u32 where [simp]: "WBC_CMD_OP_READDIR_POL = 0x0040"
definition WBC_CMD_OP_RECLAIM_RATIO :: u32 where [simp]: "WBC_CMD_OP_RECLAIM_RATIO = 0x0080"
definition WBC_CMD_OP_FLUSH_POL :: u32 where [simp]: "WBC_CMD_OP_FLUSH_POL = 0x0100"
definition WBC_CMD_OP_MAX_BATCH_COUNT :: u32 where [simp]: "WBC_CMD_OP_MAX_BATCH_COUNT = 0x0200"
definition WBC_CMD_OP_MAX_QLEN :: u32 where [simp]: "WBC_CMD_OP_MAX_QLEN = 0x0400"
definition WBC_CMD_OP_MAX_NRPAGES_PER_FILE :: u32 where [simp]: "WBC_CMD_OP_MAX_NRPAGES_PER_FILE = 0x0800"
definition WBC_CMD_OP_MAX_RMFID_COUNT :: u32 where [simp]: "WBC_CMD_OP_MAX_RMFID_COUNT = 0x1000"
definition WBC_CMD_OP_DIRTY_FLUSH_THRESH :: u32 where [simp]: "WBC_CMD_OP_DIRTY_FLUSH_THRESH = 0x2000"
definition WBC_CMD_OP_ACTIVE_DATA_WRITEBACK :: u32 where [simp]: "WBC_CMD_OP_ACTIVE_DATA_WRITEBACK = 0x4000"

record wbc_cmd =
  cmd_flags :: u32
  cmd_cmd :: wbc_cmd_type
  cmd_conf :: wbc_conf

text \<open>Memory filled with zeros read as a command; the command of value 0 is \<open>WBC_CMD_DISABLE\<close>.\<close>

definition cmd_zero :: wbc_cmd where
  "cmd_zero = \<lparr> cmd_flags = 0, cmd_cmd = WBC_CMD_DISABLE, cmd_conf = conf_zero \<rparr>"

record str_lib =
  l_kstrtoul :: "string \<Rightarrow> errno + u64"
  l_kstrtouint :: "string \<Rightarrow> errno + u32"
  l_memparse :: "string \<Rightarrow> u64 \<times> string"
  l_kstrtobool :: "string \<Rightarrow> errno + bool"
  l_totalram_pages :: u64
  l_page_shift :: nat

section \<open>Parsing\<close>

text \<open>\<open>strsep\<close> with one delimiter: the token, and the rest unless the delimiter is missing.\<close>

definition strsep :: "char \<Rightarrow> string \<Rightarrow> string \<times> string option" where
  "strsep d s = (takeWhile (\<lambda>c. c \<noteq> d) s,
     case dropWhile (\<lambda>c. c \<noteq> d) s of [] \<Rightarrow> None | _ # rest \<Rightarrow> Some rest)"

lemma strsep_shorter: "strsep d s = (t, Some r) \<Longrightarrow> length r < length s"
proof -
  assume "strsep d s = (t, Some r)"
  then obtain c where "dropWhile (\<lambda>c. c \<noteq> d) s = c # r" by (auto simp: strsep_def split: list.splits)
  then have "length r < length (dropWhile (\<lambda>c. c \<noteq> d) s)" by simp
  also have "\<dots> \<le> length s" by (rule length_dropWhile_le)
  finally show ?thesis .
qed

definition cmd_set :: "u32 \<Rightarrow> (wbc_conf \<Rightarrow> wbc_conf) \<Rightarrow> wbc_cmd \<Rightarrow> errno + wbc_cmd" where
  "cmd_set fl f cmd = Inr (cmd\<lparr> cmd_conf := f (cmd_conf cmd), cmd_flags := cmd_flags cmd OR fl \<rparr>)"

text \<open>The branches that read a plain decimal number with \<open>kstrtoul\<close>.\<close>

definition cmd_number ::
    "str_lib \<Rightarrow> string \<Rightarrow> u32 \<Rightarrow> (u64 \<Rightarrow> wbc_conf \<Rightarrow> wbc_conf) \<Rightarrow> wbc_cmd \<Rightarrow> errno + wbc_cmd" where
  "cmd_number lib val fl f cmd = (case l_kstrtoul lib val of Inl e \<Rightarrow> Inl e | Inr num \<Rightarrow> cmd_set fl (f num) cmd)"

definition parse_flush_mode :: "string \<Rightarrow> lu_wbc_flush_mode option" where
  "parse_flush_mode val =
     (if val = ''lazy'' then Some WBC_FLUSH_LAZY_DEFAULT
      else if val = ''lazy_drop'' then Some WBC_FLUSH_LAZY_DROP
      else if val = ''lazy_keep'' then Some WBC_FLUSH_LAZY_KEEP
      else if val = ''aging_drop'' then Some WBC_FLUSH_AGING_DROP
      else if val = ''aging_keep'' then Some WBC_FLUSH_AGING_KEEP
      else None)"

definition parse_size :: "str_lib \<Rightarrow> string \<Rightarrow> errno + u64" where
  "parse_size lib val =
     (let (size, rest) = l_memparse lib val;
          (size, rest) = (case rest of
              [] \<Rightarrow> (size, rest)
            | c # rest' \<Rightarrow> if c = CHR ''%''
                then ((push_bit (l_page_shift lib) size * l_totalram_pages lib) div 100, rest')
                else (size, rest))
      in if rest \<noteq> [] then Inl EINVAL
         else Inr ((size + (2 ^ l_page_shift lib - 1)) div 2 ^ l_page_shift lib))"

definition wbc_parse_value_pair :: "str_lib \<Rightarrow> wbc_cmd \<Rightarrow> string \<Rightarrow> errno + wbc_cmd" where
  "wbc_parse_value_pair lib cmd buffer =
     (case strsep CHR ''='' buffer of
        (key, None) \<Rightarrow> Inl EINVAL
      | (key, Some val) \<Rightarrow>
        if val = [] then Inl EINVAL
        else if key = ''cache_mode'' then
          if val = ''memfs'' then cmd_set WBC_CMD_OP_CACHE_MODE (\<lambda>c. c\<lparr> wbcc_cache_mode := WBC_MODE_MEMFS \<rparr>) cmd
          else if val = ''dop'' then cmd_set WBC_CMD_OP_CACHE_MODE (\<lambda>c. c\<lparr> wbcc_cache_mode := WBC_MODE_DATA_PCC \<rparr>) cmd
          else Inl EINVAL
        else if key = ''flush_mode'' then
          (case parse_flush_mode val of None \<Rightarrow> Inl EINVAL
           | Some m \<Rightarrow> cmd_set WBC_CMD_OP_FLUSH_MODE (\<lambda>c. c\<lparr> wbcc_flush_mode := m \<rparr>) cmd)
        else if key = ''max_rpcs'' then
          cmd_number lib val WBC_CMD_OP_MAX_RPCS (\<lambda>num c. c\<lparr> wbcc_max_rpcs := ucast num \<rparr>) cmd
        else if key = ''max_qlen'' then
          cmd_number lib val WBC_CMD_OP_MAX_QLEN (\<lambda>num c. c\<lparr> wbcc_max_qlen := ucast num \<rparr>) cmd
        else if key = ''max_nrpages_per_file'' then
          cmd_number lib val WBC_CMD_OP_MAX_NRPAGES_PER_FILE (\<lambda>num c. c\<lparr> wbcc_max_nrpages_per_file := num \<rparr>) cmd
        else if key = ''max_rmfid_count'' then
          cmd_number lib val WBC_CMD_OP_MAX_RMFID_COUNT (\<lambda>num c. c\<lparr> wbcc_max_rmfid_count := ucast num \<rparr>) cmd
        else if key = ''rmpol'' then
          if val = ''sync'' then cmd_set WBC_CMD_OP_RMPOL (\<lambda>c. c\<lparr> wbcc_rmpol := WBC_RMPOL_SYNC \<rparr>) cmd
          else if val = ''delay'' then cmd_set WBC_CMD_OP_RMPOL (\<lambda>c. c\<lparr> wbcc_rmpol := WBC_RMPOL_DELAY \<rparr>) cmd
          else if val = ''subtree'' then cmd_set WBC_CMD_OP_RMPOL (\<lambda>c. c\<lparr> wbcc_rmpol := WBC_RMPOL_SUBTREE \<rparr>) cmd
          else Inl EINVAL
        else if key = ''readdir_pol'' then
          if val = ''dcache_compat''
          then cmd_set WBC_CMD_OP_READDIR_POL (\<lambda>c. c\<lparr> wbcc_readdir_pol := WBC_READDIR_DCACHE_COMPAT \<rparr>) cmd
          else if val = ''dcache_decomp''
          then cmd_set WBC_CMD_OP_READDIR_POL (\<lambda>c. c\<lparr> wbcc_readdir_pol := WBC_READDIR_DCACHE_DECOMPLETE \<rparr>) cmd
          else Inl EINVAL
        else if key = ''hiwm_ratio'' then
          (case l_kstrtoul lib val of Inl e \<Rightarrow> Inl e
           | Inr num \<Rightarrow> if num \<ge> 100 then Inl ERANGE
               else cmd_set WBC_CMD_OP_RECLAIM_RATIO (\<lambda>c. c\<lparr> wbcc_hiwm_ratio := uint num \<rparr>) cmd)
        else if key = ''max_inodes'' then
          (case l_memparse lib val of (num, rest) \<Rightarrow> if rest \<noteq> [] then Inl EINVAL
             else cmd_set WBC_CMD_OP_INODES_LIMIT (\<lambda>c. c\<lparr> wbcc_max_inodes := num \<rparr>) cmd)
        else if key = ''max_pages'' then
          (case l_memparse lib val of (num, rest) \<Rightarrow> if rest \<noteq> [] then Inl EINVAL
             else cmd_set WBC_CMD_OP_PAGES_LIMIT (\<lambda>c. c\<lparr> wbcc_max_pages := num \<rparr>) cmd)
        else if key = ''size'' then
          (case parse_size lib val of Inl e \<Rightarrow> Inl e
           | Inr num \<Rightarrow> cmd_set WBC_CMD_OP_PAGES_LIMIT (\<lambda>c. c\<lparr> wbcc_max_pages := num \<rparr>) cmd)
        else if key = ''flush_pol'' then
          if val = ''batch'' then cmd_set WBC_CMD_OP_FLUSH_POL (\<lambda>c. c\<lparr> wbcc_flush_pol := WBC_FLUSH_POL_BATCH \<rparr>) cmd
          else if val = ''rqset'' then cmd_set WBC_CMD_OP_FLUSH_POL (\<lambda>c. c\<lparr> wbcc_flush_pol := WBC_FLUSH_POL_RQSET \<rparr>) cmd
          else Inl EINVAL
        else if key = ''max_batch_count'' then
          cmd_number lib val WBC_CMD_OP_MAX_BATCH_COUNT (\<lambda>num c. c\<lparr> wbcc_max_batch_count := ucast num \<rparr>) cmd
        else if key = ''dirty_flush_thresh'' then
          cmd_number lib val WBC_CMD_OP_DIRTY_FLUSH_THRESH (\<lambda>num c. c\<lparr> wbcc_dirty_flush_thresh := num \<rparr>) cmd
        else if key = ''active_data_writeback'' \<or> key = ''adw'' then
          (case l_kstrtobool lib val of Inl e \<Rightarrow> Inl e
           | Inr b \<Rightarrow> cmd_set WBC_CMD_OP_ACTIVE_DATA_WRITEBACK (\<lambda>c. c\<lparr> wbcc_active_data_writeback := b \<rparr>) cmd)
        else Inl EINVAL)"

function wbc_parse_value_pairs :: "str_lib \<Rightarrow> wbc_cmd \<Rightarrow> string \<Rightarrow> errno + wbc_cmd" where
  "wbc_parse_value_pairs lib cmd val =
     (if val = [] then Inr cmd
      else case strsep CHR '' '' val of
        (token, rest) \<Rightarrow> (case wbc_parse_value_pair lib cmd token of
            Inl e \<Rightarrow> Inl e
          | Inr cmd \<Rightarrow> (case rest of None \<Rightarrow> Inr cmd | Some r \<Rightarrow> wbc_parse_value_pairs lib cmd r)))"
  by auto
termination
  by (relation "measure (\<lambda>(_, _, s). length s)") (auto dest: strsep_shorter [OF sym])

definition wbc_cmd_parse :: "wbc_env \<Rightarrow> str_lib \<Rightarrow> string \<Rightarrow> errno + wbc_cmd" where
  "wbc_cmd_parse env lib buffer =
     (if \<not> e_alloc env then Inl ENOMEM
      else if take 7 buffer = ''disable'' then Inr (cmd_zero\<lparr> cmd_cmd := WBC_CMD_DISABLE \<rparr>)
      else if take 6 buffer = ''enable'' then Inr (cmd_zero\<lparr> cmd_cmd := WBC_CMD_ENABLE \<rparr>)
      else if take 5 buffer = ''clear'' then Inr (cmd_zero\<lparr> cmd_cmd := WBC_CMD_CLEAR \<rparr>)
      else case strsep CHR '' '' buffer of
        (token, None) \<Rightarrow> Inl EINVAL
      | (token, Some val) \<Rightarrow>
          if val = [] then Inl EINVAL
          else if token = ''conf'' then wbc_parse_value_pairs lib (cmd_zero\<lparr> cmd_cmd := WBC_CMD_CONFIG \<rparr>) val
          else Inl EINVAL)"

section \<open>Changing the configuration\<close>

definition OBD_MAX_FIDS_IN_ARRAY :: u32 where
  "OBD_MAX_FIDS_IN_ARRAY = 4096"

definition wbc_super_reset_common_conf :: "wbc_conf \<Rightarrow> wbc_conf" where
  "wbc_super_reset_common_conf conf = conf\<lparr>
     wbcc_rmpol := WBC_RMPOL_DEFAULT, wbcc_readdir_pol := WBC_READDIR_POL_DEFAULT,
     wbcc_flush_pol := WBC_FLUSH_POL_DEFAULT, wbcc_max_batch_count := 0, wbcc_max_rpcs := 0,
     wbcc_max_qlen := 8192, wbcc_max_nrpages_per_file := - 1,
     wbcc_max_rmfid_count := OBD_MAX_FIDS_IN_ARRAY, wbcc_background_async_rpc := False,
     wbcc_max_inodes := 0, wbcc_free_inodes := 0, wbcc_max_pages := 0, wbcc_hiwm_ratio := 0,
     wbcc_hiwm_inodes_count := 0, wbcc_hiwm_pages_count := 0, wbcc_active_data_writeback := True \<rparr>"

definition wbc_super_conf_default :: "wbc_conf \<Rightarrow> wbc_conf" where
  "wbc_super_conf_default conf = conf\<lparr>
     wbcc_cache_mode := WBC_MODE_MEMFS, wbcc_flush_mode := WBC_FLUSH_DEFAULT_MODE,
     wbcc_rmpol := WBC_RMPOL_DEFAULT, wbcc_max_rpcs := 0, wbcc_max_qlen := 8192,
     wbcc_max_nrpages_per_file := - 1, wbcc_max_rmfid_count := OBD_MAX_FIDS_IN_ARRAY \<rparr>"

definition op_set :: "u32 \<Rightarrow> wbc_cmd \<Rightarrow> (wbc_conf \<Rightarrow> wbc_conf) \<Rightarrow> wbc_conf \<Rightarrow> wbc_conf" where
  "op_set fl cmd f conf = (if cmd_flags cmd AND fl \<noteq> 0 then f conf else conf)"

text \<open>The limits, which are set first, and the other settings in their order.\<close>

definition conf_update_limits :: "wbc_cmd \<Rightarrow> wbc_conf \<Rightarrow> wbc_conf" where
  "conf_update_limits cmd conf =
     (let new = cmd_conf cmd;
          conf = op_set WBC_CMD_OP_INODES_LIMIT cmd (\<lambda>c. c\<lparr>
            wbcc_free_inodes := wbcc_free_inodes c + (wbcc_max_inodes new - wbcc_max_inodes c),
            wbcc_max_inodes := wbcc_max_inodes new \<rparr>) conf;
          conf = op_set WBC_CMD_OP_PAGES_LIMIT cmd (\<lambda>c. c\<lparr> wbcc_max_pages := wbcc_max_pages new \<rparr>) conf
      in op_set WBC_CMD_OP_RECLAIM_RATIO cmd (\<lambda>c. c\<lparr>
            wbcc_hiwm_ratio := wbcc_hiwm_ratio new,
            wbcc_hiwm_inodes_count := ucast (wbcc_max_inodes c * of_int (wbcc_hiwm_ratio new) div 100),
            wbcc_hiwm_pages_count := ucast (wbcc_max_pages c * of_int (wbcc_hiwm_ratio new) div 100) \<rparr>) conf)"

definition conf_update_rest :: "wbc_cmd \<Rightarrow> wbc_conf \<Rightarrow> wbc_conf" where
  "conf_update_rest cmd conf =
     (let new = cmd_conf cmd;
          conf = (if wbcc_cache_mode conf = WBC_MODE_NONE
                  then conf\<lparr> wbcc_cache_mode := WBC_MODE_DEFAULT \<rparr> else conf);
          conf = op_set WBC_CMD_OP_CACHE_MODE cmd (\<lambda>c. c\<lparr> wbcc_cache_mode := wbcc_cache_mode new \<rparr>) conf;
          conf = op_set WBC_CMD_OP_FLUSH_MODE cmd (\<lambda>c. c\<lparr> wbcc_flush_mode := wbcc_flush_mode new \<rparr>) conf;
          conf = op_set WBC_CMD_OP_MAX_RPCS cmd (\<lambda>c. c\<lparr> wbcc_max_rpcs := wbcc_max_rpcs new \<rparr>) conf;
          conf = op_set WBC_CMD_OP_MAX_QLEN cmd (\<lambda>c. c\<lparr> wbcc_max_qlen := wbcc_max_qlen new \<rparr>) conf;
          conf = op_set WBC_CMD_OP_MAX_NRPAGES_PER_FILE cmd
                   (\<lambda>c. c\<lparr> wbcc_max_nrpages_per_file := wbcc_max_nrpages_per_file new \<rparr>) conf;
          conf = op_set WBC_CMD_OP_MAX_RMFID_COUNT cmd
                   (\<lambda>c. c\<lparr> wbcc_max_rmfid_count := wbcc_max_rmfid_count new \<rparr>) conf;
          conf = op_set WBC_CMD_OP_RMPOL cmd (\<lambda>c. c\<lparr> wbcc_rmpol := wbcc_rmpol new \<rparr>) conf;
          conf = op_set WBC_CMD_OP_READDIR_POL cmd (\<lambda>c. c\<lparr> wbcc_readdir_pol := wbcc_readdir_pol new \<rparr>) conf;
          conf = op_set WBC_CMD_OP_FLUSH_POL cmd (\<lambda>c. c\<lparr> wbcc_flush_pol := wbcc_flush_pol new \<rparr>) conf;
          conf = op_set WBC_CMD_OP_MAX_BATCH_COUNT cmd
                   (\<lambda>c. c\<lparr> wbcc_max_batch_count := wbcc_max_batch_count new \<rparr>) conf;
          conf = op_set WBC_CMD_OP_DIRTY_FLUSH_THRESH cmd
                   (\<lambda>c. c\<lparr> wbcc_dirty_flush_thresh := wbcc_dirty_flush_thresh new \<rparr>) conf
      in op_set WBC_CMD_OP_ACTIVE_DATA_WRITEBACK cmd
           (\<lambda>c. c\<lparr> wbcc_active_data_writeback := wbcc_active_data_writeback new \<rparr>) conf)"

definition wbc_super_conf_update :: "wbc_cmd \<Rightarrow> wbc_super \<Rightarrow> rc \<times> wbc_super" where
  "wbc_super_conf_update cmd super =
     (let conf = wbcs_conf super; new = cmd_conf cmd in
      if cmd_flags cmd AND WBC_CMD_OP_INODES_LIMIT \<noteq> 0
         \<and> wbcc_max_inodes conf - wbcc_free_inodes conf > wbcc_max_inodes new then (Some EINVAL, super)
      else if cmd_flags cmd AND WBC_CMD_OP_PAGES_LIMIT \<noteq> 0
         \<and> wbcc_used_pages conf > sint (wbcc_max_pages new) then (Some EINVAL, super)
      else
        let super = upd_conf (\<lambda>c. conf_update_rest cmd (conf_update_limits cmd c)) super
        in (None, if cmd_flags cmd AND WBC_CMD_OP_DIRTY_FLUSH_THRESH \<noteq> 0
                  then upd_mwb (\<lambda>m. m\<lparr> wb_dirty_flush_thresh := wbcc_dirty_flush_thresh new \<rparr>) super
                  else super))"

section \<open>Handling commands\<close>

partial_function (option) disable_loop ::
    "(wbc_fs \<Rightarrow> wbc_fs option) \<Rightarrow> wbc_env \<Rightarrow> wbc_fs \<Rightarrow> wbc_fs option" where
  "disable_loop kill env fs = do {
     let fs = upd_super (upd_conf (\<lambda>c. c\<lparr> wbcc_cache_mode := WBC_MODE_NONE,
                                         wbcc_flush_mode := WBC_FLUSH_NONE \<rparr>)) fs;
     (_, fs) \<leftarrow> wbc_super_shrink_roots kill env fs;
     if wbcc_cache_mode (wbcs_conf (fs_super fs)) \<noteq> WBC_MODE_NONE then disable_loop kill env fs
     else Some fs
   }"

definition wbc_super_disable_cache ::
    "(wbc_fs \<Rightarrow> wbc_fs option) \<Rightarrow> wbc_env \<Rightarrow> wbc_fs \<Rightarrow> wbc_fs option" where
  "wbc_super_disable_cache kill env fs = do {
     fs \<leftarrow> disable_loop kill env fs;
     let conf = wbcs_conf (fs_super fs);
     LASSERT (wbcc_max_inodes conf = wbcc_free_inodes conf \<and> wbcc_used_pages conf = 0);
     Some (upd_super (upd_conf wbc_super_reset_common_conf) fs)
   }"

definition new_generation :: "wbc_fs \<Rightarrow> wbc_fs" where
  "new_generation = upd_super (\<lambda>s. s\<lparr> wbcs_generation := wbcs_generation s + 1 \<rparr>)"

definition wbc_cmd_handle ::
    "(wbc_fs \<Rightarrow> wbc_fs option) \<Rightarrow> wbc_env \<Rightarrow> wbc_cmd \<Rightarrow> wbc_fs \<Rightarrow> (rc \<times> wbc_fs) option" where
  "wbc_cmd_handle kill env cmd fs = (case cmd_cmd cmd of
       WBC_CMD_DISABLE \<Rightarrow> do {
         fs \<leftarrow> wbc_super_disable_cache kill env fs;
         Some (None, new_generation fs)
       }
     | WBC_CMD_ENABLE \<Rightarrow>
         if wbcc_cache_mode (wbcs_conf (fs_super fs)) = WBC_MODE_NONE
         then Some (None, new_generation (upd_super (upd_conf wbc_super_conf_default) fs))
         else Some (Some EALREADY, fs)
     | WBC_CMD_CLEAR \<Rightarrow> wbc_super_shrink_roots kill env fs
     | _ \<Rightarrow>
         let (rc, super) = wbc_super_conf_update cmd (fs_super fs);
             fs = fs\<lparr> fs_super := super \<rparr>
         in Some (rc, if rc = None then new_generation fs else fs))"

definition wbc_cmd_parse_and_handle ::
    "(wbc_fs \<Rightarrow> wbc_fs option) \<Rightarrow> wbc_env \<Rightarrow> str_lib \<Rightarrow> string \<Rightarrow> wbc_fs \<Rightarrow> (rc \<times> wbc_fs) option" where
  "wbc_cmd_parse_and_handle kill env lib buffer fs = (case wbc_cmd_parse env lib buffer of
       Inl e \<Rightarrow> Some (Some e, fs)
     | Inr cmd \<Rightarrow> wbc_cmd_handle kill env cmd fs)"

text \<open>
  The handlers of the control files; \<open>efault\<close> tells whether the copy from user space fails, and
  the result on success is the number of bytes.
\<close>

definition seq_result :: "nat \<Rightarrow> rc \<times> wbc_fs \<Rightarrow> (errno + nat) \<times> wbc_fs" where
  "seq_result count = (\<lambda>(rc, fs). (case rc of Some e \<Rightarrow> Inl e | None \<Rightarrow> Inr count, fs))"




definition LPROCFS_WR_WBC_MAX_CMD :: nat where
  "LPROCFS_WR_WBC_MAX_CMD = 4096"

definition wbc_conf_seq_write ::
    "(wbc_fs \<Rightarrow> wbc_fs option) \<Rightarrow> wbc_env \<Rightarrow> str_lib \<Rightarrow> bool \<Rightarrow> string \<Rightarrow> wbc_fs
       \<Rightarrow> ((errno + nat) \<times> wbc_fs) option" where
  "wbc_conf_seq_write kill env lib efault buffer fs =
     (if length buffer \<ge> LPROCFS_WR_WBC_MAX_CMD then Some (Inl EINVAL, fs)
      else if \<not> e_alloc env then Some (Inl ENOMEM, fs)
      else if efault then Some (Inl EFAULT, fs)
      else map_option (seq_result (length buffer)) (wbc_cmd_parse_and_handle kill env lib buffer fs))"

section \<open>Properties\<close>

declare disable_loop.simps [code]

text \<open>The configuration after \<open>enable\<close>, and number parsers for the examples.\<close>

definition conf_on :: wbc_conf where
  "conf_on = wbc_super_conf_default (wbc_super_reset_common_conf conf_zero)"


declare wbc_parse_value_pairs.simps [simp del]

lemma strsep_none: "d \<notin> set s \<Longrightarrow> strsep d s = (s, None)"
  by (induction s) (auto simp: strsep_def)

lemma parse_one_pair:
  "CHR '' '' \<notin> set s \<Longrightarrow> s \<noteq> [] \<Longrightarrow> wbc_parse_value_pairs lib cmd s = wbc_parse_value_pair lib cmd s"
  by (subst wbc_parse_value_pairs.simps) (simp add: strsep_none split: sum.split)

lemma parse_conf:
  "CHR '' '' \<notin> set s \<Longrightarrow> s \<noteq> [] \<Longrightarrow> wbc_cmd_parse env lib (''conf '' @ s) = (if \<not> e_alloc env then Inl ENOMEM
    else wbc_parse_value_pair lib (cmd_zero\<lparr> cmd_cmd := WBC_CMD_CONFIG \<rparr>) s)"
  by (simp add: wbc_cmd_parse_def strsep_def parse_one_pair)

text \<open>
  C27. The names that the control file prints for modes and policies are read back as the same modes
  and policies. The exceptions are the values no command can set (no cache mode, no flush mode,
  caching everything on PCC, the policies printed as unknown) and the default flush policy: its
  name \<open>ptlrpcd\<close> is refused with \<open>EINVAL\<close>, so once another policy is chosen the default can only come
  back by disabling the cache.
\<close>

theorem conf_names_roundtrip:
  "wbc_cmd_parse env lib (''conf '' @ ''flush_mode='' @ wbc_flushmode2string fm) =
     (if \<not> e_alloc env then Inl ENOMEM else if fm = WBC_FLUSH_NONE then Inl EINVAL
      else cmd_set WBC_CMD_OP_FLUSH_MODE (\<lambda>c. c\<lparr> wbcc_flush_mode := fm \<rparr>) (cmd_zero\<lparr> cmd_cmd := WBC_CMD_CONFIG \<rparr>))
   \<and> wbc_cmd_parse env lib (''conf '' @ ''cache_mode='' @ wbc_cachemode2string cm) =
     (if \<not> e_alloc env then Inl ENOMEM else if cm = WBC_MODE_NONE \<or> cm = WBC_MODE_PCC_ALL then Inl EINVAL
      else cmd_set WBC_CMD_OP_CACHE_MODE (\<lambda>c. c\<lparr> wbcc_cache_mode := cm \<rparr>) (cmd_zero\<lparr> cmd_cmd := WBC_CMD_CONFIG \<rparr>))
   \<and> wbc_cmd_parse env lib (''conf '' @ ''rmpol='' @ wbc_rmpol2string rp) =
     (if \<not> e_alloc env then Inl ENOMEM else if rp = WBC_RMPOL_NONE then Inl EINVAL
      else cmd_set WBC_CMD_OP_RMPOL (\<lambda>c. c\<lparr> wbcc_rmpol := rp \<rparr>) (cmd_zero\<lparr> cmd_cmd := WBC_CMD_CONFIG \<rparr>))
   \<and> wbc_cmd_parse env lib (''conf '' @ ''flush_pol='' @ wbc_flushpol2string fp) =
     (if \<not> e_alloc env then Inl ENOMEM else if fp = WBC_FLUSH_POL_PTLRPCD then Inl EINVAL
      else cmd_set WBC_CMD_OP_FLUSH_POL (\<lambda>c. c\<lparr> wbcc_flush_pol := fp \<rparr>) (cmd_zero\<lparr> cmd_cmd := WBC_CMD_CONFIG \<rparr>))
   \<and> wbc_cmd_parse env lib (''conf '' @ ''readdir_pol='' @ wbc_readdir_pol2string dp) =
     (if \<not> e_alloc env then Inl ENOMEM
      else if dp = WBC_READDIR_HTREE_RUNTIME \<or> dp = WBC_READDIR_HTREE_RESIDENT then Inl EINVAL
      else cmd_set WBC_CMD_OP_READDIR_POL (\<lambda>c. c\<lparr> wbcc_readdir_pol := dp \<rparr>) (cmd_zero\<lparr> cmd_cmd := WBC_CMD_CONFIG \<rparr>))"
proof (intro conjI, goal_cases)
  case 1 show ?case
    by (cases fm) (simp_all add: parse_conf [of "''flush_mode='' @ _", simplified] wbc_flushmode2string_def wbc_parse_value_pair_def strsep_def parse_flush_mode_def)
next
  case 2 show ?case
    by (cases cm) (simp_all add: parse_conf [of "''cache_mode='' @ _", simplified] wbc_cachemode2string_def wbc_parse_value_pair_def strsep_def)
next
  case 3 show ?case
    by (cases rp) (simp_all add: parse_conf [of "''rmpol='' @ _", simplified] wbc_rmpol2string_def wbc_parse_value_pair_def strsep_def)
next
  case 4 show ?case
    by (cases fp) (simp_all add: parse_conf [of "''flush_pol='' @ _", simplified] wbc_flushpol2string_def wbc_parse_value_pair_def strsep_def)
next
  case 5 show ?case
    by (cases dp) (simp_all add: parse_conf [of "''readdir_pol='' @ _", simplified] wbc_readdir_pol2string_def wbc_parse_value_pair_def strsep_def)
qed





lemma conf_limits_sel:
  "wbcc_max_inodes (conf_update_rest cmd c) = wbcc_max_inodes c"
  "wbcc_free_inodes (conf_update_rest cmd c) = wbcc_free_inodes c"
  by (simp_all add: conf_update_rest_def op_set_def Let_def)

lemma conf_update_limits_inodes:
  "wbcc_max_inodes (conf_update_limits cmd c) = (if cmd_flags cmd AND WBC_CMD_OP_INODES_LIMIT \<noteq> 0
     then wbcc_max_inodes (cmd_conf cmd) else wbcc_max_inodes c)"
  "wbcc_free_inodes (conf_update_limits cmd c) = (if cmd_flags cmd AND WBC_CMD_OP_INODES_LIMIT \<noteq> 0
     then wbcc_free_inodes c + (wbcc_max_inodes (cmd_conf cmd) - wbcc_max_inodes c) else wbcc_free_inodes c)"
  by (simp_all add: conf_update_limits_def op_set_def Let_def)

lemma minus_le_word: "(u :: u64) \<le> m \<Longrightarrow> m - u \<le> m"
  by (simp add: word_sub_le)

lemma limits_kept:
  assumes "wbc_super_conf_update cmd s = (rc, s')" and "wbcc_free_inodes (wbcs_conf s) \<le> wbcc_max_inodes (wbcs_conf s)"
  shows "wbcc_max_inodes (wbcs_conf s') - wbcc_free_inodes (wbcs_conf s')
      = wbcc_max_inodes (wbcs_conf s) - wbcc_free_inodes (wbcs_conf s)"
    and "wbcc_free_inodes (wbcs_conf s') \<le> wbcc_max_inodes (wbcs_conf s')"
    and "rc = None \<Longrightarrow> cmd_flags cmd AND WBC_CMD_OP_INODES_LIMIT \<noteq> 0 \<Longrightarrow>
      wbcc_max_inodes (wbcs_conf s') = wbcc_max_inodes (cmd_conf cmd)"
    and "rc \<noteq> None \<Longrightarrow> s' = s"
proof -
  let ?m = "wbcc_max_inodes (cmd_conf cmd)" and ?c = "wbcs_conf s"
  have all: "wbcc_max_inodes (wbcs_conf s') - wbcc_free_inodes (wbcs_conf s') = wbcc_max_inodes ?c - wbcc_free_inodes ?c
    \<and> wbcc_free_inodes (wbcs_conf s') \<le> wbcc_max_inodes (wbcs_conf s')
    \<and> (rc = None \<longrightarrow> cmd_flags cmd AND WBC_CMD_OP_INODES_LIMIT \<noteq> 0 \<longrightarrow> wbcc_max_inodes (wbcs_conf s') = ?m)
    \<and> (rc \<noteq> None \<longrightarrow> s' = s)"
  proof (cases "rc = None \<and> cmd_flags cmd AND WBC_CMD_OP_INODES_LIMIT \<noteq> 0")
    case True
    from True assms(1) have le: "wbcc_max_inodes ?c - wbcc_free_inodes ?c \<le> ?m"
      by (auto simp: wbc_super_conf_update_def Let_def not_less split: if_splits)
    from True assms(1) have "wbcs_conf s' = conf_update_rest cmd (conf_update_limits cmd ?c)"
      by (auto simp: wbc_super_conf_update_def Let_def upd_conf_def upd_mwb_def split: if_splits)
    then have s': "wbcc_max_inodes (wbcs_conf s') = ?m"
      "wbcc_free_inodes (wbcs_conf s') = ?m - (wbcc_max_inodes ?c - wbcc_free_inodes ?c)"
      using True by (simp_all add: conf_limits_sel conf_update_limits_inodes)
    show ?thesis unfolding s' using True minus_le_word [OF le] by simp
  next
    case False
    then show ?thesis using assms
      by (auto simp: wbc_super_conf_update_def Let_def upd_conf_def upd_mwb_def conf_limits_sel
          conf_update_limits_inodes split: if_splits)
  qed
  show "wbcc_max_inodes (wbcs_conf s') - wbcc_free_inodes (wbcs_conf s') = wbcc_max_inodes ?c - wbcc_free_inodes ?c"
    "wbcc_free_inodes (wbcs_conf s') \<le> wbcc_max_inodes (wbcs_conf s')"
    "rc = None \<Longrightarrow> cmd_flags cmd AND WBC_CMD_OP_INODES_LIMIT \<noteq> 0 \<Longrightarrow> wbcc_max_inodes (wbcs_conf s') = ?m"
    "rc \<noteq> None \<Longrightarrow> s' = s"
    using all by blast+
qed

text \<open>
  C14. Changing the limits while files are cached keeps the number of inodes in use (limit minus
  free) and never lets more inodes be free than allowed; a limit below the number in use is
  refused and then nothing changes.
\<close>

theorem conf_update_keeps_used:
  assumes "wbc_super_conf_update cmd s = (rc, s')" and "wbcc_free_inodes (wbcs_conf s) \<le> wbcc_max_inodes (wbcs_conf s)"
  shows "wbcc_max_inodes (wbcs_conf s') - wbcc_free_inodes (wbcs_conf s')
        = wbcc_max_inodes (wbcs_conf s) - wbcc_free_inodes (wbcs_conf s)
    \<and> wbcc_free_inodes (wbcs_conf s') \<le> wbcc_max_inodes (wbcs_conf s')
    \<and> (if rc = None \<and> cmd_flags cmd AND WBC_CMD_OP_INODES_LIMIT \<noteq> 0
       then wbcc_max_inodes (wbcs_conf s') = wbcc_max_inodes (cmd_conf cmd)
       else wbcs_conf s' = wbcs_conf s \<or> rc = None)"
  using limits_kept [OF assms] by auto

text \<open>Witness for the previous property: the limit grows from 8 to 16 with 3 inodes in use.\<close>

theorem conf_update_keeps_used_witness:
  "let s = super_on (conf_on\<lparr> wbcc_max_inodes := 8, wbcc_free_inodes := 5 \<rparr>);
       c = cmd_zero\<lparr> cmd_flags := WBC_CMD_OP_INODES_LIMIT, cmd_conf := conf_zero\<lparr> wbcc_max_inodes := 16 \<rparr> \<rparr>
   in fst (wbc_super_conf_update c s) = None
    \<and> wbcc_max_inodes (wbcs_conf (snd (wbc_super_conf_update c s)))
      - wbcc_free_inodes (wbcs_conf (snd (wbc_super_conf_update c s))) = 3"
proof -
  let ?s = "super_on (conf_on\<lparr> wbcc_max_inodes := 8, wbcc_free_inodes := 5 \<rparr>)"
    and ?c = "cmd_zero\<lparr> cmd_flags := WBC_CMD_OP_INODES_LIMIT, cmd_conf := conf_zero\<lparr> wbcc_max_inodes := 16 \<rparr> \<rparr>"
  have "wbcc_free_inodes (wbcs_conf ?s) \<le> wbcc_max_inodes (wbcs_conf ?s)" by code_simp
  from conf_update_keeps_used [OF prod.collapse [symmetric] this, of ?c]
  have "wbcc_max_inodes (wbcs_conf (snd (wbc_super_conf_update ?c ?s)))
    - wbcc_free_inodes (wbcs_conf (snd (wbc_super_conf_update ?c ?s)))
    = wbcc_max_inodes (wbcs_conf ?s) - wbcc_free_inodes (wbcs_conf ?s)" by (rule conjunct1)
  also have "\<dots> = 3" by code_simp
  finally have used: "wbcc_max_inodes (wbcs_conf (snd (wbc_super_conf_update ?c ?s)))
    - wbcc_free_inodes (wbcs_conf (snd (wbc_super_conf_update ?c ?s))) = 3" .
  have "fst (wbc_super_conf_update ?c ?s) = None" by code_simp
  then show ?thesis unfolding Let_def using used by (rule conjI)
qed

text \<open>
  The watermarks are computed when the ratio is set and not when a limit is: setting the ratio
  first and the limit afterwards leaves the watermark at 0, so that the first inode that is
  reserved already wakes the reclaimer.
\<close>

lemma ratio_before_limit:
  assumes "cmd_flags c1 = WBC_CMD_OP_RECLAIM_RATIO" "wbcc_hiwm_ratio (cmd_conf c1) \<noteq> 0"
    and "cmd_flags c2 = WBC_CMD_OP_INODES_LIMIT" "wbcc_max_inodes (cmd_conf c2) \<noteq> 0"
    and "wbcc_max_inodes (wbcs_conf s) = 0" "wbcc_free_inodes (wbcs_conf s) = 0"
  shows "case wbc_super_conf_update c1 s of (rc1, s1) \<Rightarrow> (case wbc_super_conf_update c2 s1 of (rc2, s2) \<Rightarrow>
      rc1 = None \<and> rc2 = None \<and> wbcc_max_inodes (wbcs_conf s2) = wbcc_max_inodes (cmd_conf c2)
      \<and> wbcc_hiwm_inodes_count (wbcs_conf s2) = 0
      \<and> fst (wbc_reserve_inode s2) = None \<and> wbcs_reclaim_woken (snd (wbc_reserve_inode s2)))"
  using assms
  by (simp add: wbc_super_conf_update_def conf_update_limits_def conf_update_rest_def op_set_def upd_conf_def
      Let_def wbc_reserve_inode_def wbc_cache_too_much_inodes_def word_gt_0)

text \<open>Witness for the previous property: a ratio of 50 percent, then a limit of 1000 inodes.\<close>

lemma ratio_before_limit_witness:
  "let c1 = cmd_zero\<lparr> cmd_flags := WBC_CMD_OP_RECLAIM_RATIO, cmd_conf := conf_zero\<lparr> wbcc_hiwm_ratio := 50 \<rparr> \<rparr>;
       c2 = cmd_zero\<lparr> cmd_flags := WBC_CMD_OP_INODES_LIMIT, cmd_conf := conf_zero\<lparr> wbcc_max_inodes := 1000 \<rparr> \<rparr>
   in wbcs_reclaim_woken (snd (wbc_reserve_inode (snd (wbc_super_conf_update c2
        (snd (wbc_super_conf_update c1 (super_on conf_on)))))))"
  unfolding Let_def
  using ratio_before_limit [of
      "cmd_zero\<lparr> cmd_flags := WBC_CMD_OP_RECLAIM_RATIO, cmd_conf := conf_zero\<lparr> wbcc_hiwm_ratio := 50 \<rparr> \<rparr>"
      "cmd_zero\<lparr> cmd_flags := WBC_CMD_OP_INODES_LIMIT, cmd_conf := conf_zero\<lparr> wbcc_max_inodes := 1000 \<rparr> \<rparr>"
      "super_on conf_on"]
  by (simp add: super_on_def conf_on_def wbc_super_conf_default_def wbc_super_reset_common_conf_def split: prod.splits)

end
