(* ===== verification/WBC_Cache.thy ===== *)
theory WBC_Cache
  imports WBC_Inv WBC_Memfs WBC_Conf
begin

text \<open>
  The cache as a whole: steps that create, remove, flush, synchronise, reclaim and configure, the
  states they reach, and what holds in them. The failing paths of creation are treated apart: they
  do not keep the count of reservations.
\<close>

section \<open>Removal\<close>

lemma more_keep_bits [keep_bits]:
  "wbc_inode_reserved (flag_set 0x80 w) = wbc_inode_reserved w" "wbc_inode_root (flag_set 0x80 w) = wbc_inode_root w"
  "wbc_inode_reserved (w\<lparr> i_size := a \<rparr>) = wbc_inode_reserved w" "wbc_inode_root (w\<lparr> i_size := a \<rparr>) = wbc_inode_root w"
  "wbc_inode_reserved (w\<lparr> wbcd_dirent_num := b \<rparr>) = wbc_inode_reserved w"
  "wbc_inode_root (w\<lparr> wbcd_dirent_num := b \<rparr>) = wbc_inode_root w"
  by (simp_all add: flag_set_def wbc_inode_reserved_def wbc_inode_root_def bit.conj_disj_distrib2)


section \<open>Creation\<close>















section \<open>Reachable states\<close>






section \<open>Examples\<close>




section \<open>Properties\<close>






end
