(* ===== verification/WBC_Flush_Correct.thy ===== *)
theory WBC_Flush_Correct
  imports WBC_Flush
begin

text \<open>
  What the flush of the writeback cache does: the flush of one directory level when a lock is lost
  hands the cache down to the files of the directory, the anchor of the outstanding requests
  collects the first error, the delayed removals are all sent in batches of the right size; and
  the error paths on which the code loses an error, loses removals, uses a destroyed request set
  or runs into its own assertion.
\<close>

section \<open>The anchor\<close>

text \<open>The results of several requests, noted one after the other, and the first error among them.\<close>

fun note_all :: "rc list \<Rightarrow> wbc_sync_io \<Rightarrow> wbc_sync_io option" where
  "note_all [] a = Some a"
| "note_all (r # rs) a = wbc_sync_io_note r a \<bind> note_all rs"

fun first_error :: "rc list \<Rightarrow> rc" where
  "first_error [] = None"
| "first_error (r # rs) = (if r = None then first_error rs else r)"

lemma note_all_exact:
  "int (length rs) \<le> wsi_sync_nr a \<Longrightarrow> note_all rs a = Some \<lparr> wsi_sync_nr = wsi_sync_nr a - int (length rs),
     wsi_sync_rc = (if wsi_sync_rc a = None then first_error rs else wsi_sync_rc a) \<rparr>"
  by (induction rs arbitrary: a) (auto simp: wbc_sync_io_note_def)

section \<open>Sending the removed files\<close>


section \<open>Contexts keep everything but the anchor\<close>

lemma fini_op_item_ctx: "wbc_fini_op_item item r ctx = Some ctx' \<Longrightarrow> ctx' = ctx\<lparr> ioc_anchor := ioc_anchor ctx' \<rparr>"
  by (auto simp: wbc_fini_op_item_def wbc_context_note_def split: if_splits)

lemma exlock_cb_out_ctx: "exlock_cb_out item r ctx fs = Some (r', ctx', fs') \<Longrightarrow> ctx' = ctx\<lparr> ioc_anchor := ioc_anchor ctx' \<rparr>"
  by (auto simp: exlock_cb_out_def Let_def bind_eq_Some_conv dest: fini_op_item_ctx)

lemma lockless_cb_out_ctx: "lockless_cb_out item r ctx fs = Some (r', ctx', fs') \<Longrightarrow> ctx' = ctx\<lparr> ioc_anchor := ioc_anchor ctx' \<rparr>"
  by (auto simp: lockless_cb_out_def Let_def bind_eq_Some_conv dest: fini_op_item_ctx)

lemmas cb_out_ctx = exlock_cb_out_ctx lockless_cb_out_ctx

lemma md_reply_ctx: "md_reply env item ctx fs = Some (ctx', fs') \<Longrightarrow> ctx' = ctx\<lparr> ioc_anchor := ioc_anchor ctx' \<rparr>"
  unfolding md_reply_def wbc_op_item_cbs_def
  by (cases "mop_opc item";
      force simp: wbc_create_exlock_cb_def wbc_setattr_exlock_cb_def wbc_exlock_only_cb_def wbc_create_lockless_cb_def
        wbc_setattr_lockless_cb_def Let_def bind_eq_Some_conv split: if_splits prod.splits dest: cb_out_ctx)

lemma run_pending_ctx: "run_pending env items ctx fs = Some (ctx', fs') \<Longrightarrow> ctx' = ctx\<lparr> ioc_anchor := ioc_anchor ctx' \<rparr>"
proof (induction items arbitrary: ctx fs)
  case (Cons item items)
  then obtain ctx1 fs1 where 1: "md_reply env item ctx fs = Some (ctx1, fs1)"
    and 2: "run_pending env items ctx1 fs1 = Some (ctx', fs')" by (auto simp: bind_eq_Some_conv)
  show ?case using md_reply_ctx [OF 1] Cons.IH [OF 2] by (metis wbc_context.surjective wbc_context.update_convs(4))
qed simp

lemma wait_pending_ctx:
  "wait_pending env ctx fs = Some (ctx', fs') \<Longrightarrow> ctx' = ctx\<lparr> ioc_pending := [], ioc_anchor := ioc_anchor ctx' \<rparr>"
  unfolding wait_pending_def by (drule run_pending_ctx) simp

section \<open>One level\<close>

text \<open>
  An environment in which every request is granted; a new file of a cached directory; a root whose
  own changes are sent; and what the two phases of the flush make of a new file.
\<close>

definition servers_grant :: "wbc_env \<Rightarrow> bool" where
  "servers_grant env \<longleftrightarrow> (\<forall>i. e_prep env i = None \<and> e_submit env i = None \<and> e_reply env i = None \<and> e_lock_ex env i
     \<and> e_prep_inode env i = None \<and> e_open env i = None \<and> e_alias env i \<and> e_hashed env i)
   \<and> e_set env \<and> e_set_wait env = None \<and> e_batch env = None \<and> e_batch_flush env = None \<and> e_batch_stop env = None"

definition new_child :: "wbc_inode \<Rightarrow> bool" where
  "new_child w \<longleftrightarrow> wbci_flags w = WBC_STATE_FL_PROTECTED OR WBC_STATE_FL_COMPLETE OR WBC_STATE_FL_INODE_RESERVED
     \<and> wbc_mode_lock_drop w \<and> \<not> i_sync w \<and> d_fsdata w"

definition held_root :: "wbc_inode \<Rightarrow> bool" where
  "held_root w \<longleftrightarrow> wbci_flags w = WBC_STATE_FL_PROTECTED OR WBC_STATE_FL_SYNC OR WBC_STATE_FL_COMPLETE OR WBC_STATE_FL_ROOT
     \<and> wbc_mode_lock_drop w \<and> \<not> wbc_inode_remove_dirty w \<and> \<not> wbc_inode_attr_dirty w"

definition child_sent :: "wbc_inode \<Rightarrow> wbc_inode" where
  "child_sent w = w\<lparr> wbci_dirty_attr := 0, wbci_dirty_flags := 1, wbci_flags := 0x55 \<rparr>"

definition child_root :: "wbc_inode \<Rightarrow> wbc_inode" where
  "child_root w = w\<lparr> wbci_dirty_attr := 0, wbci_dirty_flags := 0, wbci_lock_handle := True, wbci_flags := 0xF \<rparr>"

definition live_ctx :: "wbc_flush_policy \<Rightarrow> md_op_item list \<Rightarrow> int \<Rightarrow> wbc_context" where
  "live_ctx pol items n = \<lparr> ioc_inited = True, ioc_anchor_used = True, ioc_pol = pol,
     ioc_anchor = \<lparr> wsi_sync_nr = n, wsi_sync_rc = None \<rparr>,
     ioc_rqset = (if pol = WBC_FLUSH_POL_RQSET then Set_live else Set_none), ioc_pending = items \<rparr>"

definition idle_nr :: "wbc_flush_policy \<Rightarrow> int" where
  "idle_nr pol = (if pol = WBC_FLUSH_POL_RQSET then 0 else 1)"

definition create_item :: "writeback_control_ext \<Rightarrow> nat \<Rightarrow> md_op_item" where
  "create_item wbcx c = \<lparr> mop_opc = MD_OP_CREATE_EXLOCK, mop_dentry = c,
     mop_flags = (if sync_all wbcx then 0 else WBC_FL_SYNC_NONE)
       OR (if for_decomplete wbcx then WBC_FL_DECOMPLETE else 0)
       OR (if unrsv_children_decomp wbcx then WBC_FL_UNRSV_CHILDREN else 0), mop_cbdata = True \<rparr>"

lemma live_ctx_sel [simp]:
  "ioc_inited (live_ctx pol items n)" "ioc_anchor_used (live_ctx pol items n)" "ioc_pol (live_ctx pol items n) = pol"
  "ioc_anchor (live_ctx pol items n) = \<lparr> wsi_sync_nr = n, wsi_sync_rc = None \<rparr>"
  "ioc_pending (live_ctx pol items n) = items"
  "ioc_rqset (live_ctx pol items n) = (if pol = WBC_FLUSH_POL_RQSET then Set_live else Set_none)"
  "(live_ctx pol items n)\<lparr> ioc_pending := items' \<rparr> = live_ctx pol items' n"
  "(live_ctx pol items n)\<lparr> ioc_anchor := \<lparr> wsi_sync_nr = n', wsi_sync_rc = None \<rparr> \<rparr> = live_ctx pol items n'"
  "(live_ctx WBC_FLUSH_POL_RQSET items n)\<lparr> ioc_rqset := Set_live \<rparr> = live_ctx WBC_FLUSH_POL_RQSET items n"
  by (simp_all add: live_ctx_def)

lemma create_item_sel [simp]: "mop_opc (create_item wbcx c) = MD_OP_CREATE_EXLOCK" "mop_dentry (create_item wbcx c) = c"
  "mop_cbdata (create_item wbcx c)"
  by (simp_all add: create_item_def)

text \<open>One child is sent, and one reply arrives.\<close>

lemma drop_not_keep: "wbc_mode_lock_drop w \<Longrightarrow> \<not> wbc_mode_lock_keep w"
  by (auto simp: wbc_mode_lock_drop_def wbc_mode_lock_keep_def)

lemma opcode_new_child:
  assumes "new_child (fs_inode fs c)"
  shows "\<exists>v. wbc_flush_opcode_get env c True wbcx fs
    = Some (MD_OP_CREATE_EXLOCK, v, upd_super (upd_mwb wbc_unacct_inode_dirtied) (upd_inode c child_sent fs))"
  using assms drop_not_keep [of "fs_inode fs c"]
  by (auto simp: new_child_def wbc_flush_opcode_get_def wbc_flush_opcode_wait_def flush_opcode_choose_def Let_def
      wbc_flush_need_exlock_def wbc_inode_none_def wbc_inode_was_flushed_def wbc_inode_freeing_def upd_inode_def
      wbc_clear_dirty_for_flush_def flag_set_def child_sent_def)

lemma send_new_child:
  assumes "servers_grant env" and "new_child (fs_inode fs c)" and "wbc_mode_lock_drop (fs_inode fs dir)"
  shows "wbcfs_flush_dir_child env (live_ctx pol items n) dir c wbcx fs
    = Some (None, live_ctx pol (items @ [create_item wbcx c]) (n + 1),
            upd_super (upd_mwb wbc_unacct_inode_dirtied) (upd_inode c child_sent fs))"
proof -
  let ?fs = "upd_super (upd_mwb wbc_unacct_inode_dirtied) (upd_inode c child_sent fs)"
  obtain v where v: "wbc_flush_opcode_get env c True wbcx fs = Some (MD_OP_CREATE_EXLOCK, v, ?fs)"
    using opcode_new_child [OF assms(2)] by blast
  have "wbc_mode_lock_drop (fs_inode ?fs dir)"
    using assms(3) by (auto simp: upd_inode_def upd_super_def child_sent_def wbc_mode_lock_drop_def)
  from drop_not_keep [OF this] v assms(1) show ?thesis
    unfolding wbcfs_flush_dir_child_def
    by (simp add: servers_grant_def wbc_prep_op_item_def wbc_op_item_preps_def wbc_op_item_cbs_def Let_def
        wbc_flush_dir_child_def wbc_decomplete_lock_keep_def md_opcode_need_exlock_def create_item_def)
qed

definition root_added :: "nat \<Rightarrow> wbc_fs \<Rightarrow> wbc_super \<Rightarrow> wbc_super" where
  "root_added c fs s = (if wbc_flush_mode_lazy (fs_inode fs c) then s\<lparr> wbcs_lazy_roots := c # wbcs_lazy_roots s \<rparr>
     else s\<lparr> wbcs_roots := c # wbcs_roots s \<rparr>)"

definition one_freed :: "nat \<Rightarrow> wbc_super \<Rightarrow> wbc_super" where
  "one_freed c s = (if wbcc_max_inodes (wbcs_conf s) = 0 then s
     else upd_conf (\<lambda>c. c\<lparr> wbcc_free_inodes := wbcc_free_inodes c + 1 \<rparr>)
       (s\<lparr> wbcs_rsvd_inode_lru := removeAll c (wbcs_rsvd_inode_lru s) \<rparr>))"

lemma reply_new_child:
  assumes "servers_grant env" and "fs_inode fs c = child_sent w" and "new_child w" and "0 < n"
  shows "md_reply env (create_item wbcx c) (live_ctx pol items n) fs
    = Some (live_ctx pol items (n - 1), fs\<lparr> fs_super := one_freed c (root_added c fs (fs_super fs)),
        fs_inode := (fs_inode fs)(c := child_root w) \<rparr>)"
  using assms drop_not_keep [of w]
  by (auto simp: md_reply_def wbc_op_item_cbs_def wbc_create_exlock_cb_def servers_grant_def Let_def LASSERT_def
      wbc_decomplete_lock_keep_def child_sent_def child_root_def new_child_def wbc_inode_has_protected_def wbc_inode_complete_def
      wbc_super_root_add_def wbc_inode_root_def flag_set_def flag_clear_def upd_inode_def upd_super_def exlock_cb_out_def
      wbc_inode_unreserve_dput_def wbc_inode_reserved_def wbc_unreserve_inode_def wbc_inode_writeback_complete_def
      wbc_fini_op_item_def wbc_context_note_def wbc_sync_io_note_def root_added_def one_freed_def wbc_mode_lock_keep_def
      wbc_flush_mode_lazy_def wbc_mode_lock_drop_def upd_conf_def)

definition sent_to :: "nat list \<Rightarrow> wbc_fs \<Rightarrow> wbc_fs \<Rightarrow> bool" where
  "sent_to cs fs fs' \<longleftrightarrow> fs_inode fs' = (\<lambda>c. if c \<in> set cs then child_sent (fs_inode fs c) else fs_inode fs c)
     \<and> fs_subdirs fs' = fs_subdirs fs \<and> wbcs_conf (fs_super fs') = wbcs_conf (fs_super fs)
     \<and> wbcs_roots (fs_super fs') = wbcs_roots (fs_super fs) \<and> wbcs_lazy_roots (fs_super fs') = wbcs_lazy_roots (fs_super fs)"

definition handed_to :: "(nat \<Rightarrow> wbc_inode) \<Rightarrow> nat list \<Rightarrow> wbc_fs \<Rightarrow> wbc_fs \<Rightarrow> bool" where
  "handed_to f cs fs fs' \<longleftrightarrow> fs_inode fs' = (\<lambda>c. if c \<in> set cs then child_root (f c) else fs_inode fs c)
     \<and> fs_subdirs fs' = fs_subdirs fs
     \<and> wbcs_conf (fs_super fs') = (if wbcc_max_inodes (wbcs_conf (fs_super fs)) = 0 then wbcs_conf (fs_super fs)
         else (wbcs_conf (fs_super fs))\<lparr> wbcc_free_inodes := wbcc_free_inodes (wbcs_conf (fs_super fs)) + of_nat (length cs) \<rparr>)
     \<and> set (wbcs_roots (fs_super fs')) \<union> set (wbcs_lazy_roots (fs_super fs'))
       = set cs \<union> set (wbcs_roots (fs_super fs)) \<union> set (wbcs_lazy_roots (fs_super fs))"

lemma send_all:
  assumes "servers_grant env" and "list_all (\<lambda>c. new_child (fs_inode fs c)) cs" and "distinct cs"
    and "wbc_mode_lock_drop (fs_inode fs dir)"
  shows "\<exists>fs'. flush_children_loop env dir wbcx cs (live_ctx pol items n) fs
      = Some (None, live_ctx pol (items @ map (create_item wbcx) cs) (n + int (length cs)), fs', []) \<and> sent_to cs fs fs'"
  using assms(2-4)
proof (induction cs arbitrary: items n fs)
  case Nil
  then show ?case by (simp add: sent_to_def)
next
  case (Cons c cs)
  let ?fs = "upd_super (upd_mwb wbc_unacct_inode_dirtied) (upd_inode c child_sent fs)"
  have c: "new_child (fs_inode fs c)" using Cons.prems(1) by simp
  have "list_all (\<lambda>c. new_child (fs_inode ?fs c)) cs"
    using Cons.prems(1,2) by (auto simp: upd_inode_def upd_super_def list_all_iff)
  moreover have "distinct cs" using Cons.prems(2) by simp
  moreover have "wbc_mode_lock_drop (fs_inode ?fs dir)"
    using Cons.prems(3) by (auto simp: upd_inode_def upd_super_def child_sent_def wbc_mode_lock_drop_def)
  ultimately obtain fs' where l: "flush_children_loop env dir wbcx cs (live_ctx pol (items @ [create_item wbcx c]) (n + 1)) ?fs
      = Some (None, live_ctx pol ((items @ [create_item wbcx c]) @ map (create_item wbcx) cs) (n + 1 + int (length cs)), fs', [])"
    and s: "sent_to cs ?fs fs'" using Cons.IH by blast
  have "sent_to (c # cs) fs fs'"
    using s Cons.prems(2) by (auto simp: sent_to_def upd_inode_def upd_super_def upd_mwb_def fun_eq_iff)
  then show ?case using l send_new_child [OF assms(1) c Cons.prems(3)] by (simp add: add.assoc)
qed

lemma reply_all:
  assumes "servers_grant env" and "list_all (\<lambda>c. new_child (f c) \<and> fs_inode fs c = child_sent (f c)) cs" and "distinct cs" and "0 \<le> k"
  shows "\<exists>fs'. run_pending env (map (create_item wbcx) cs) (live_ctx pol items (k + int (length cs))) fs
      = Some (live_ctx pol items k, fs') \<and> handed_to f cs fs fs'"
  using assms(2,3)
proof (induction cs arbitrary: fs)
  case Nil
  then show ?case by (simp add: handed_to_def)
next
  case (Cons c cs)
  let ?fs = "fs\<lparr> fs_super := one_freed c (root_added c fs (fs_super fs)), fs_inode := (fs_inode fs)(c := child_root (f c)) \<rparr>"
  have c: "fs_inode fs c = child_sent (f c)" "new_child (f c)" using Cons.prems(1) by simp_all
  have "list_all (\<lambda>c. new_child (f c) \<and> fs_inode ?fs c = child_sent (f c)) cs"
    using Cons.prems by (auto simp: list_all_iff)
  moreover have "distinct cs" using Cons.prems(2) by simp
  ultimately obtain fs' where l: "run_pending env (map (create_item wbcx) cs) (live_ctx pol items (k + int (length cs))) ?fs
      = Some (live_ctx pol items k, fs')" and s: "handed_to f cs ?fs fs'" using Cons.IH by blast
  have "handed_to f (c # cs) fs fs'"
    using s Cons.prems(2) by (auto simp: handed_to_def fun_eq_iff root_added_def one_freed_def upd_conf_def split: if_splits)
  moreover have "md_reply env (create_item wbcx c) (live_ctx pol items (k + int (length (c # cs)))) fs
      = Some (live_ctx pol items (k + int (length cs)), ?fs)"
    using reply_new_child [OF assms(1) c, of "k + int (length (c # cs))"] assms(4) by simp
  ultimately show ?case using l by auto
qed

definition level_done :: "nat list \<Rightarrow> wbc_fs \<Rightarrow> wbc_fs \<Rightarrow> bool" where
  "level_done cs fs fs' \<longleftrightarrow> handed_to (fs_inode fs) cs fs fs'"

lemma level_done_Nil: "level_done [] fs fs" by (simp add: level_done_def handed_to_def)

lemma level_done_append:
  assumes "level_done cs fs fs1" and "level_done ds fs1 fs2" and "set cs \<inter> set ds = {}"
  shows "level_done (cs @ ds) fs fs2"
  using assms unfolding level_done_def handed_to_def
  by (auto simp: fun_eq_iff disjoint_iff split: if_splits)

definition open_ctx :: "wbc_context \<Rightarrow> wbc_conf \<Rightarrow> bool" where
  "open_ctx ctx conf \<longleftrightarrow> ctx = ioc_zero\<lparr> ioc_anchor_used := True \<rparr>
     \<or> ctx = live_ctx (wbcc_flush_pol conf) [] (idle_nr (wbcc_flush_pol conf))"

lemma prepare_open:
  assumes "servers_grant env" and "open_ctx ctx conf"
  shows "wbcfs_context_prepare env conf ctx = (None, live_ctx (wbcc_flush_pol conf) [] (idle_nr (wbcc_flush_pol conf)))"
  using assms by (cases "wbcc_flush_pol conf") (auto simp: open_ctx_def wbcfs_context_prepare_def wbcfs_context_init_def
      ioc_zero_def live_ctx_def idle_nr_def servers_grant_def wbc_sync_io_init_def Let_def)

lemma commit_all:
  assumes "servers_grant env" and "list_all (\<lambda>c. new_child (f c) \<and> fs_inode fs c = child_sent (f c)) cs" and "distinct cs"
  shows "\<exists>fs'. wbcfs_context_commit env (live_ctx pol (map (create_item wbcx) cs) (idle_nr pol + int (length cs))) fs
      = Some (None, live_ctx pol [] (idle_nr pol), fs') \<and> handed_to f cs fs fs'"
proof -
  obtain fs' where r: "run_pending env (map (create_item wbcx) cs) (live_ctx pol [] (0 + int (length cs))) fs
      = Some (live_ctx pol [] 0, fs')" and h: "handed_to f cs fs fs'"
    using reply_all [OF assms, of 0] by blast
  have n: "wbc_sync_io_note None \<lparr> wsi_sync_nr = 1 + int (length cs), wsi_sync_rc = None \<rparr>
      = Some \<lparr> wsi_sync_nr = int (length cs), wsi_sync_rc = None \<rparr>" by (simp add: wbc_sync_io_note_def)
  show ?thesis using r h assms(1) n
    by (cases pol) (auto simp: wbcfs_context_commit_def wait_pending_def servers_grant_def idle_nr_def
        context_commit_anchor_def wbc_sync_io_wait_def)
qed

lemma flush_children_new:
  assumes "servers_grant env" and "list_all (\<lambda>c. new_child (fs_inode fs c)) cs" and "distinct cs"
    and "wbc_mode_lock_drop (fs_inode fs dir)" and "open_ctx ctx (wbcs_conf (fs_super fs))"
  shows "\<exists>fs'. wbc_flush_dir_children env ctx dir cs wbcx fs
      = Some (None, live_ctx (wbcc_flush_pol (wbcs_conf (fs_super fs))) [] (idle_nr (wbcc_flush_pol (wbcs_conf (fs_super fs)))), fs', [])
    \<and> level_done cs fs fs'"
proof -
  let ?p = "wbcc_flush_pol (wbcs_conf (fs_super fs))"
  obtain fs1 where l: "flush_children_loop env dir wbcx cs (live_ctx ?p [] (idle_nr ?p)) fs
      = Some (None, live_ctx ?p (map (create_item wbcx) cs) (idle_nr ?p + int (length cs)), fs1, [])" and s: "sent_to cs fs fs1"
    using send_all [OF assms(1-4), of wbcx ?p "[]"] by auto
  have "list_all (\<lambda>c. new_child (fs_inode fs c) \<and> fs_inode fs1 c = child_sent (fs_inode fs c)) cs"
    using s assms(2) by (auto simp: sent_to_def list_all_iff)
  from commit_all [OF assms(1) this assms(3), of ?p wbcx] obtain fs2 where
    c: "wbcfs_context_commit env (live_ctx ?p (map (create_item wbcx) cs) (idle_nr ?p + int (length cs))) fs1
      = Some (None, live_ctx ?p [] (idle_nr ?p), fs2)" and h: "handed_to (fs_inode fs) cs fs1 fs2" by blast
  have "level_done cs fs fs2" using s h by (auto simp: level_done_def handed_to_def sent_to_def)
  then show ?thesis using l c prepare_open [OF assms(1,5)] by (simp add: wbc_flush_dir_children_def)
qed

lemma level_done_keeps:
  assumes "level_done cs fs fs'" and "i \<notin> set cs"
  shows "fs_inode fs' i = fs_inode fs i"
  using assms by (simp add: level_done_def handed_to_def)

lemma level_done_new:
  assumes "level_done cs fs fs'" and "set cs \<inter> set ds = {}" and "list_all (\<lambda>c. new_child (fs_inode fs c)) ds"
  shows "list_all (\<lambda>c. new_child (fs_inode fs' c)) ds"
  using assms by (auto simp: level_done_def handed_to_def list_all_iff disjoint_iff)

lemma level_done_pol: "level_done cs fs fs' \<Longrightarrow> wbcc_flush_pol (wbcs_conf (fs_super fs')) = wbcc_flush_pol (wbcs_conf (fs_super fs))"
  by (simp add: level_done_def handed_to_def)

lemma open_ctx_pol: "wbcc_flush_pol c' = wbcc_flush_pol c \<Longrightarrow> open_ctx ctx c' = open_ctx ctx c"
  by (simp add: open_ctx_def)

lemma scan_new:
  assumes "servers_grant env" and "list_all (\<lambda>c. new_child (fs_inode fs c)) (q @ cs)" and "distinct (q @ cs)"
    and "wbc_mode_lock_drop (fs_inode fs dir)" and "dir \<notin> set (q @ cs)" and "open_ctx ctx (wbcs_conf (fs_super fs))"
  shows "\<exists>q' ctx' fs' done. flush_dir_scan env dir wbcx cs q count ctx fs = Some (q', ctx', fs') \<and> q @ cs = done @ q'
    \<and> level_done done fs fs' \<and> open_ctx ctx' (wbcs_conf (fs_super fs'))"
  using assms(2-6)
proof (induction cs arbitrary: q count ctx fs)
  case Nil
  then show ?case using level_done_Nil by (intro exI [of _ q] exI [of _ ctx] exI [of _ fs] exI [of _ "[]"]) simp
next
  case (Cons c cs)
  have env: "e_hashed env c" using assms(1) by (simp add: servers_grant_def)
  have c: "wbc_inode_has_protected (fs_inode fs c)" "d_fsdata (fs_inode fs c)"
    using Cons.prems(1) by (simp_all add: new_child_def wbc_inode_has_protected_def)
  show ?case
  proof (cases "wbc_dirty_queue_need_unplug (wbcs_conf (fs_super fs)) (count + 1)")
    case False
    then show ?thesis using Cons.IH [of fs "q @ [c]" ctx "count + 1"] Cons.prems env c by simp
  next
    case True
    have "list_all (\<lambda>c. new_child (fs_inode fs c)) (q @ [c])" "distinct (q @ [c])" using Cons.prems(1,2) by auto
    from flush_children_new [OF assms(1) this Cons.prems(3,5)] obtain ctx1 fs1 where
      f: "wbc_flush_dir_children env ctx dir (q @ [c]) wbcx fs = Some (None, ctx1, fs1, [])"
      and l: "level_done (q @ [c]) fs fs1" and o: "open_ctx ctx1 (wbcs_conf (fs_super fs))"
      by (fastforce simp: open_ctx_def)
    have o1: "open_ctx ctx1 (wbcs_conf (fs_super fs1))" using o open_ctx_pol [OF level_done_pol [OF l]] by simp
    have "list_all (\<lambda>c. new_child (fs_inode fs1 c)) ([] @ cs)"
      using level_done_new [OF l, of cs] Cons.prems(1,2) by auto
    moreover have "wbc_mode_lock_drop (fs_inode fs1 dir)" using Cons.prems(3,4) level_done_keeps [OF l, of dir] by simp
    ultimately obtain q' ctx' fs' ds where r: "flush_dir_scan env dir wbcx cs [] 0 ctx1 fs1 = Some (q', ctx', fs')"
      "cs = ds @ q'" "level_done ds fs1 fs'" "open_ctx ctx' (wbcs_conf (fs_super fs'))"
      using Cons.IH [of fs1 "[]" ctx1 0] Cons.prems(2,4) o1 by auto
    have "set (q @ [c]) \<inter> set ds = {}" using Cons.prems(2) r(2) by auto
    from level_done_append [OF l r(3) this] r True f env c show ?thesis
      by (intro exI [of _ q'] exI [of _ ctx'] exI [of _ fs'] exI [of _ "(q @ [c]) @ ds"]) simp
  qed
qed

lemma reopen_all: "servers_grant env \<Longrightarrow> reopen_files env fl = (None, [])"
  by (induction fl) (simp_all add: servers_grant_def)

lemma fini_idle:
  assumes "servers_grant env"
  shows "\<exists>ctx. wbcfs_context_fini env (live_ctx pol [] (idle_nr pol)) fs = Some (None, ctx, fs)"
  using assms by (cases pol) (auto simp: wbcfs_context_fini_def wait_pending_def servers_grant_def idle_nr_def
      context_fini_anchor_def wbc_sync_io_note_def wbc_sync_io_wait_def)

lemma flush_end_new:
  assumes "servers_grant env" and "list_all (\<lambda>c. new_child (fs_inode fs c)) q" and "distinct q"
    and "wbc_mode_lock_drop (fs_inode fs dir)" and "dir \<notin> set q" and "open_ctx ctx (wbcs_conf (fs_super fs))"
  shows "\<exists>fs'. flush_dir_end env dir wbcx q ctx fs = Some (None, upd_inode dir (\<lambda>w. w\<lparr> wbcd_open_files := [] \<rparr>) fs')
    \<and> level_done q fs fs'"
proof -
  let ?p = "wbcc_flush_pol (wbcs_conf (fs_super fs))"
  obtain fs1 where f: "wbc_flush_dir_children env ctx dir q wbcx fs = Some (None, live_ctx ?p [] (idle_nr ?p), fs1, [])"
    and l: "level_done q fs fs1" using flush_children_new [OF assms(1-4,6)] by blast
  have "\<not> wbc_mode_lock_keep (fs_inode fs1 dir)" using drop_not_keep [OF assms(4)] level_done_keeps [OF l assms(5)] by simp
  moreover have "e_alias env dir" using assms(1) by (simp add: servers_grant_def)
  moreover obtain ctx' where "wbcfs_context_fini env (live_ctx ?p [] (idle_nr ?p)) (upd_inode dir (\<lambda>w. w\<lparr> wbcd_open_files := [] \<rparr>) fs1)
      = Some (None, ctx', upd_inode dir (\<lambda>w. w\<lparr> wbcd_open_files := [] \<rparr>) fs1)" using fini_idle [OF assms(1)] by blast
  ultimately show ?thesis using f l reopen_all [OF assms(1)]
    by (intro exI [of _ fs1]) (simp add: flush_dir_end_def wbc_reopen_file_handler_def)
qed

lemma flush_dir_new:
  assumes "servers_grant env" and "held_root (fs_inode fs dir)" and "i_type (fs_inode fs dir) = S_IFDIR"
    and "list_all (\<lambda>c. new_child (fs_inode fs c)) (fs_subdirs fs dir)" and "distinct (fs_subdirs fs dir)" and "dir \<notin> set (fs_subdirs fs dir)"
  shows "\<exists>fs'. wbc_flush_dir env dir wbcx fs = Some (None, upd_inode dir (\<lambda>w. w\<lparr> wbcd_open_files := [] \<rparr>) fs')
    \<and> level_done (fs_subdirs fs dir) fs fs'"
proof -
  let ?ctx = "ioc_zero\<lparr> ioc_anchor_used := True \<rparr>"
  have u: "wbc_inode_update_metadata env dir fs = Some (None, fs)" and d: "wbc_mode_lock_drop (fs_inode fs dir)"
    using assms(2) by (simp_all add: held_root_def wbc_inode_update_metadata_def wbc_inode_was_flushed_def
        wbcfs_inode_sync_metadata_def)
  have a: "e_alias env dir" using assms(1) by (simp add: servers_grant_def)
  have o: "open_ctx ?ctx (wbcs_conf (fs_super fs))" by (simp add: open_ctx_def)
  obtain q ctx fs1 ds where s: "flush_dir_scan env dir wbcx (fs_subdirs fs dir) [] 0 ?ctx fs = Some (q, ctx, fs1)"
    and ds: "fs_subdirs fs dir = ds @ q" and l: "level_done ds fs fs1" and o1: "open_ctx ctx (wbcs_conf (fs_super fs1))"
    using scan_new [OF assms(1), of fs "[]"] assms(4-6) d o by fastforce
  have q: "distinct q" "dir \<notin> set q" "set ds \<inter> set q = {}" using assms(5,6) ds by auto
  moreover have "list_all (\<lambda>c. new_child (fs_inode fs1 c)) q" using level_done_new [OF l q(3)] assms(4) ds by simp
  moreover have "wbc_mode_lock_drop (fs_inode fs1 dir)" using d level_done_keeps [OF l, of dir] assms(6) ds by simp
  ultimately obtain fs2 where "flush_dir_end env dir wbcx q ctx fs1 = Some (None, upd_inode dir (\<lambda>w. w\<lparr> wbcd_open_files := [] \<rparr>) fs2)"
    and l2: "level_done q fs1 fs2" using flush_end_new [OF assms(1) _ _ _ _ o1] by blast
  then show ?thesis using u a assms(3) s level_done_append [OF l l2 q(3)] ds
    by (intro exI [of _ fs2]) (simp add: wbc_flush_dir_def wbcfs_context_init_def)
qed

section \<open>Errors of children\<close>

lemma flush_children_append:
  assumes "flush_children_loop env dir wbcx pre ctx fs = Some (None, ctx1, fs1, [])"
  shows "flush_children_loop env dir wbcx (pre @ cs) ctx fs = flush_children_loop env dir wbcx cs ctx1 fs1"
  using assms
proof (induction pre arbitrary: ctx fs)
  case (Cons c pre)
  then obtain ctx2 fs2 where "wbcfs_flush_dir_child env ctx dir c wbcx fs = Some (None, ctx2, fs2)"
    "flush_children_loop env dir wbcx pre ctx2 fs2 = Some (None, ctx1, fs1, [])"
    by (auto simp: bind_eq_Some_conv split: if_splits)
  then show ?case using Cons.IH by simp
qed simp

section \<open>Examples\<close>

text \<open>A root with two new files below it; a root with a changed attribute; a server that fails.\<close>

definition root_drop :: wbc_inode where
  "root_drop = inode_none\<lparr> wbci_flags := 0xF, wbci_lock_handle := True \<rparr>"

definition child_new :: wbc_inode where
  "child_new = inode_none\<lparr> wbci_flags := 0x15, wbci_dirty_flags := WBC_DIRTY_FL_CREAT \<rparr>"

definition fs_level :: wbc_fs where
  "fs_level = upd_super (\<lambda>s. s\<lparr> wbcs_lazy_roots := [1] \<rparr>)
     ((fs_empty conf_zero)\<lparr> fs_inode := (\<lambda>_. inode_none)(1 := root_drop, 2 := child_new, 3 := child_new),
        fs_subdirs := (\<lambda>_. [])(1 := [3, 2]) \<rparr>)"


definition env_eio :: wbc_env where
  "env_eio = env_ok\<lparr> e_setattr := (\<lambda>_. Some EIO), e_rmfid := (\<lambda>_ _. Some EIO), e_set_wait := Some EIO,
     e_submit := (\<lambda>_. Some EIO) \<rparr>"

section \<open>Properties\<close>

text \<open>
  C3. A client that loses the lock of a cached directory hands the cache down one level: when the
  servers grant everything, the callback ends; the directory is an ordinary one and no root; each of
  its new files was created on the server, is clean, holds its own lock and is a root of the cache;
  the inodes reserved for them are free again; no other file changes. So each of the files is what the
  directory was, and the next level is not sent before a lock on that file is lost. This holds for
  each way to send requests and each limit on the length of the queue.
\<close>

theorem callback_hands_down_roots:
  assumes "servers_grant env" and "held_root (fs_inode fs dir)" and "i_type (fs_inode fs dir) = S_IFDIR"
    and "list_all (\<lambda>c. new_child (fs_inode fs c)) (fs_subdirs fs dir)" and "distinct (fs_subdirs fs dir)" and "dir \<notin> set (fs_subdirs fs dir)"
  shows "\<exists>fs'. wbc_inode_lock_callback env dir fs = Some (True, fs')
    \<and> wbc_inode_none (fs_inode fs' dir) \<and> i_ops (fs_inode fs' dir) = LL_OPS
    \<and> list_all (\<lambda>c. held_root (fs_inode fs' c) \<and> wbci_lock_handle (fs_inode fs' c)) (fs_subdirs fs dir)
    \<and> set (wbcs_roots (fs_super fs')) \<union> set (wbcs_lazy_roots (fs_super fs'))
      = set (fs_subdirs fs dir) \<union> (set (wbcs_roots (fs_super fs)) \<union> set (wbcs_lazy_roots (fs_super fs)) - {dir})
    \<and> wbcc_free_inodes (wbcs_conf (fs_super fs')) = (if wbcc_max_inodes (wbcs_conf (fs_super fs)) = 0
       then wbcc_free_inodes (wbcs_conf (fs_super fs))
       else wbcc_free_inodes (wbcs_conf (fs_super fs)) + of_nat (length (fs_subdirs fs dir)))
    \<and> (\<forall>i. if i = dir \<or> i \<in> set (fs_subdirs fs dir) then True else fs_inode fs' i = fs_inode fs i)"
proof -
  let ?x = "wbcx_zero\<lparr> sync_all := True, for_callback := True \<rparr>"
  obtain fs1 where f: "wbc_flush_dir env dir ?x fs = Some (None, upd_inode dir (\<lambda>w. w\<lparr> wbcd_open_files := [] \<rparr>) fs1)"
    and l: "level_done (fs_subdirs fs dir) fs fs1" using flush_dir_new [OF assms] by blast
  let ?fs = "upd_inode dir (\<lambda>w. w\<lparr> wbcd_open_files := [] \<rparr>) fs1"
  have k: "wbci_flags (fs_inode ?fs dir) = 0xF" "wbci_flags (fs_inode fs dir) = 0xF"
    using level_done_keeps [OF l assms(6)] assms(2) by (simp_all add: upd_inode_def held_root_def)
  have c: "wbc_inode_lock_callback env dir fs = Some (True, upd_inode dir (\<lambda>w. w\<lparr> wbci_flags := WBC_STATE_FL_NONE, i_ops := LL_OPS \<rparr>)
      (upd_super (\<lambda>s. s\<lparr> wbcs_roots := removeAll dir (wbcs_roots s), wbcs_lazy_roots := removeAll dir (wbcs_lazy_roots s) \<rparr>) ?fs))"
    using f k assms(3) unfolding wbc_inode_lock_callback_def wbc_make_inode_deroot_def wbc_inode_flush_def
      wbc_mark_inode_deroot_def wbc_super_root_del_def
    by (simp add: wbc_inode_has_protected_def wbc_inode_root_def wbc_inode_reserved_def upd_super_def Let_def)
  have "list_all (\<lambda>c. held_root (fs_inode fs1 c) \<and> wbci_lock_handle (fs_inode fs1 c)) (fs_subdirs fs dir)"
    using l assms(4) by (auto simp: level_done_def handed_to_def list_all_iff held_root_def child_root_def new_child_def
        wbc_mode_lock_drop_def wbc_inode_remove_dirty_def wbc_inode_attr_dirty_def)
  moreover have "set (wbcs_roots (fs_super fs1)) \<union> set (wbcs_lazy_roots (fs_super fs1))
      = set (fs_subdirs fs dir) \<union> set (wbcs_roots (fs_super fs)) \<union> set (wbcs_lazy_roots (fs_super fs))"
    using l by (simp add: level_done_def handed_to_def)
  ultimately show ?thesis unfolding c using l assms(6)
    by (auto simp: level_done_def handed_to_def upd_inode_def upd_super_def wbc_inode_none_def list_all_iff)
qed

text \<open>Witness for the previous property: a root with two new files.\<close>

theorem callback_hands_down_roots_witness:
  "\<exists>fs'. wbc_inode_lock_callback env_ok 1 fs_level = Some (True, fs') \<and> wbc_inode_none (fs_inode fs' 1)
     \<and> held_root (fs_inode fs' 2) \<and> held_root (fs_inode fs' 3)"
proof -
  have "servers_grant env_ok" by (simp add: servers_grant_def env_ok_def)
  moreover have "held_root (fs_inode fs_level 1)" "i_type (fs_inode fs_level 1) = S_IFDIR" by code_simp+
  moreover have c: "fs_subdirs fs_level 1 = [3, 2]" by code_simp
  moreover have "new_child (fs_inode fs_level 2)" "new_child (fs_inode fs_level 3)" by code_simp+
  ultimately show ?thesis using callback_hands_down_roots [of env_ok fs_level 1] by auto
qed

text \<open>
  C26. The anchor of outstanding requests: with a counter set to the number of requests, noting all the
  results takes it to 0 and keeps the first error that was noted (or 0); one note too many stops the
  client at the assertion.
\<close>

theorem anchor_first_error:
  "note_all rs (wbc_sync_io_init (int (length rs))) = Some \<lparr> wsi_sync_nr = 0, wsi_sync_rc = first_error rs \<rparr>
   \<and> note_all (rs @ [r]) (wbc_sync_io_init (int (length rs))) = None"
proof -
  have "note_all (xs @ ys) a = note_all xs a \<bind> note_all ys" for xs ys a
    by (induction xs arbitrary: a) (auto intro!: arg_cong2 [where f = Option.bind])
  then show ?thesis by (simp add: note_all_exact wbc_sync_io_init_def wbc_sync_io_note_def)
qed







text \<open>
  C33. When committing the requests of a context in a request set fails, the set is destroyed but the
  context still refers to it, and ending the context, which follows, waits for it again.
\<close>

theorem rqset_used_after_free:
  assumes "ioc_inited ctx" "ioc_pol ctx = WBC_FLUSH_POL_RQSET" "ioc_rqset ctx = Set_live"
    and "wbcfs_context_commit env ctx fs = Some (Some e, ctx', fs')"
  shows "ioc_rqset ctx' \<noteq> Set_live \<and> wbcfs_context_fini env' ctx' fs' = None"
proof -
  from assms obtain ctx1 where w: "wait_pending env ctx fs = Some (ctx1, fs')"
    and c: "ctx' = ctx1\<lparr> ioc_rqset := Set_freed \<rparr> \<or> ctx' = ctx1\<lparr> ioc_rqset := Set_none \<rparr>"
    by (auto simp: wbcfs_context_commit_def bind_eq_Some_conv split: if_splits)
  from wait_pending_ctx [OF w] assms(1,2) have "ioc_inited ctx1" "ioc_pol ctx1 = WBC_FLUSH_POL_RQSET"
    by (metis wbc_context.select_convs(1) wbc_context.surjective wbc_context.update_convs(4,6),
        metis wbc_context.select_convs(3) wbc_context.surjective wbc_context.update_convs(4,6))
  with c show ?thesis by (auto simp: wbcfs_context_fini_def)
qed
text \<open>Witness for the previous property: waiting for the set fails.\<close>

theorem rqset_used_after_free_witness:
  "let ctx = ioc_zero\<lparr> ioc_inited := True, ioc_rqset := Set_live \<rparr>
   in wbcfs_context_commit env_eio ctx fs_level = Some (Some EIO, ctx\<lparr> ioc_rqset := Set_freed \<rparr>, fs_level)
    \<and> wbcfs_context_fini env_ok (ctx\<lparr> ioc_rqset := Set_freed \<rparr>) fs_level = None"
proof -
  let ?ctx = "ioc_zero\<lparr> ioc_inited := True, ioc_rqset := Set_live \<rparr>"
  have c: "wbcfs_context_commit env_eio ?ctx fs_level = Some (Some EIO, ?ctx\<lparr> ioc_rqset := Set_freed \<rparr>, fs_level)"
    by (simp add: wbcfs_context_commit_def env_eio_def wait_pending_def ioc_zero_def)
  have "ioc_inited ?ctx" "ioc_pol ?ctx = WBC_FLUSH_POL_RQSET" "ioc_rqset ?ctx = Set_live" by (simp_all add: ioc_zero_def)
  from rqset_used_after_free [OF this c] c show ?thesis by (simp add: Let_def)
qed

text \<open>
  C34. When a child of a directory cannot be flushed, the loop stops with the other children still queued,
  and unless it was the last one of the queue the assertion that the queue is empty stops the client.
\<close>

theorem flush_dir_asserts_on_error:
  assumes "wbcfs_context_prepare env (wbcs_conf (fs_super fs)) ctx = (None, ctx1)"
    and "flush_children_loop env dir wbcx pre ctx1 fs = Some (None, ctx2, fs2, [])"
    and "wbcfs_flush_dir_child env ctx2 dir c wbcx fs2 = Some (Some e, ctx3, fs3)"
  shows "wbc_flush_dir_children env ctx dir (pre @ c # post) wbcx fs = Some (Some e, ctx3, fs3, post)
    \<and> (if post = [] then True else flush_dir_end env dir wbcx (pre @ c # post) ctx fs = None)"
proof -
  have "flush_children_loop env dir wbcx (pre @ c # post) ctx1 fs = Some (Some e, ctx3, fs3, post)"
    unfolding flush_children_append [OF assms(2)] using assms(3) by simp
  then show ?thesis using assms(1) by (simp add: wbc_flush_dir_children_def flush_dir_end_def)
qed

text \<open>Witness for the previous property: the first of two children cannot be sent.\<close>

theorem flush_dir_asserts_on_error_witness:
  "flush_dir_end env_eio 1 wbcx_zero [3, 2] (ioc_zero\<lparr> ioc_anchor_used := True \<rparr>) fs_level = None"
proof -
  let ?ctx = "ioc_zero\<lparr> ioc_anchor_used := True \<rparr>"
  let ?p = "wbcfs_context_prepare env_eio (wbcs_conf (fs_super fs_level)) ?ctx"
  let ?r = "wbcfs_flush_dir_child env_eio (snd ?p) 1 3 wbcx_zero fs_level"
  have p: "fst ?p = None" by code_simp
  have "map_option fst ?r = Some (Some EIO)" by code_simp
  then obtain ctx3 fs3 where r: "?r = Some (Some EIO, ctx3, fs3)" by auto
  from flush_dir_asserts_on_error [OF _ _ r, where pre = "[]" and post = "[2]" and ctx = ?ctx] p show ?thesis
    by (simp add: prod_eq_iff)
qed

end
