(* ===== verification/WBC_Sync.thy ===== *)
theory WBC_Sync
  imports WBC_Flush
begin

text \<open>
  Synchronising a file with its ancestors (\<open>wbc_make_inode_sync\<close> of \<open>wbc.c\<close>): the climb to the first
  ancestor that was written, and the flush of the files found on the way from the top down.
\<close>

section \<open>The way up\<close>








section \<open>The flush from the top down\<close>









section \<open>An example\<close>


section \<open>Properties\<close>



end
