(* ===== verification/WBC_Writeback.thy ===== *)
theory WBC_Writeback
  imports WBC_Flush "HOL-Library.Multiset"
begin

text \<open>
  The background flusher of the writeback cache (second half of \<open>wbc.c\<close>): the lists of dirty inodes
  it shares with the kernel's own flusher, the work items for directories flushed in parallel, and
  the work function.

  The lists are those of \<open>struct bdi_writeback\<close>, written from \<open>next\<close> to \<open>prev\<close>; the times when
  inodes were dirtied and the bits \<open>I_SYNC_QUEUED\<close> are kept with them. The bits of an inode that only the kernel
  changes (\<open>I_NEW\<close>, \<open>I_FREEING\<close>, \<open>I_DIRTY_TIME\<close>) and the file system an inode belongs to are
  arguments.
\<close>

section \<open>Lists of dirty inodes\<close>

record bdi_writeback =
  b_dirty :: "nat list"
  b_io :: "nat list"
  b_more_io :: "nat list"
  b_dirty_time :: "nat list"
  WB_has_dirty_io :: bool
  dirtied_when :: "nat \<Rightarrow> u64"
  I_SYNC_QUEUED :: "nat \<Rightarrow> bool"

record inode_bits =
  I_NEW_or_freeing :: "nat \<Rightarrow> bool"
  I_FREEING :: "nat \<Rightarrow> bool"
  I_DIRTY_TIME :: "nat \<Rightarrow> bool"
  i_sb :: "nat \<Rightarrow> nat"
  i_bad :: "nat \<Rightarrow> bool"

definition time_before :: "u64 \<Rightarrow> u64 \<Rightarrow> bool" where
  "time_before a b \<longleftrightarrow> sint (a - b) < 0"

definition wb_io_lists_populated :: "bdi_writeback \<Rightarrow> bool \<times> bdi_writeback" where
  "wb_io_lists_populated wb = (if WB_has_dirty_io wb then (False, wb) else (True, wb\<lparr> WB_has_dirty_io := True \<rparr>))"

definition wb_io_lists_depopulated :: "bdi_writeback \<Rightarrow> bdi_writeback" where
  "wb_io_lists_depopulated wb =
     (if WB_has_dirty_io wb \<and> b_dirty wb = [] \<and> b_io wb = [] \<and> b_more_io wb = []
      then wb\<lparr> WB_has_dirty_io := False \<rparr> else wb)"

definition list_unlink :: "nat \<Rightarrow> bdi_writeback \<Rightarrow> bdi_writeback" where
  "list_unlink i wb = wb\<lparr> b_dirty := removeAll i (b_dirty wb), b_io := removeAll i (b_io wb),
     b_more_io := removeAll i (b_more_io wb), b_dirty_time := removeAll i (b_dirty_time wb) \<rparr>"

datatype io_list = L_dirty | L_more_io | L_dirty_time

definition inode_io_list_move_locked :: "nat \<Rightarrow> io_list \<Rightarrow> bdi_writeback \<Rightarrow> bool \<times> bdi_writeback" where
  "inode_io_list_move_locked i head wb =
     (let wb = list_unlink i wb in
      wb_io_lists_populated (case head of
          L_dirty \<Rightarrow> wb\<lparr> b_dirty := i # b_dirty wb \<rparr>
        | L_more_io \<Rightarrow> wb\<lparr> b_more_io := i # b_more_io wb \<rparr>
        | L_dirty_time \<Rightarrow> wb\<lparr> b_dirty_time := i # b_dirty_time wb \<rparr>))"

definition inode_io_list_del_locked :: "nat \<Rightarrow> bdi_writeback \<Rightarrow> bdi_writeback" where
  "inode_io_list_del_locked i wb =
     wb_io_lists_depopulated (list_unlink i (wb\<lparr> I_SYNC_QUEUED := (I_SYNC_QUEUED wb)(i := False) \<rparr>))"

definition redirty_tail_locked :: "u64 \<Rightarrow> nat \<Rightarrow> bdi_writeback \<Rightarrow> bdi_writeback" where
  "redirty_tail_locked jiffies i wb =
     (let wb = (if b_dirty wb \<noteq> [] \<and> time_before (dirtied_when wb i) (dirtied_when wb (hd (b_dirty wb)))
                then wb\<lparr> dirtied_when := (dirtied_when wb)(i := jiffies) \<rparr> else wb);
          (_, wb) = inode_io_list_move_locked i L_dirty wb
      in wb\<lparr> I_SYNC_QUEUED := (I_SYNC_QUEUED wb)(i := False) \<rparr>)"

definition requeue_io :: "nat \<Rightarrow> bdi_writeback \<Rightarrow> bdi_writeback" where
  "requeue_io i wb = snd (inode_io_list_move_locked i L_more_io wb)"

definition inode_dirtied_after :: "bdi_writeback \<Rightarrow> nat \<Rightarrow> u64 \<Rightarrow> bool" where
  "inode_dirtied_after wb i t = time_before t (dirtied_when wb i)"

text \<open>
  \<open>move_expired_inodes\<close>: the first loop takes inodes from the end of the queue to the front of a
  temporary list; the second moves them to the dispatch queue, one file system at a time.
\<close>

function take_expired :: "(nat \<Rightarrow> bool) \<Rightarrow> nat list \<Rightarrow> nat list \<Rightarrow> nat list \<times> nat list" where
  "take_expired after delaying tmp =
     (if delaying = [] \<or> after (last delaying) then (delaying, tmp)
      else take_expired after (butlast delaying) (last delaying # tmp))"
  by auto
termination
  by (relation "measure (\<lambda>(_, d, _). length d)") auto

function group_by_sb :: "(nat \<Rightarrow> nat) \<Rightarrow> nat list \<Rightarrow> nat list \<Rightarrow> nat list" where
  "group_by_sb sb tmp dispatch =
     (if tmp = [] then dispatch
      else let s = sb (last tmp)
           in group_by_sb sb (filter (\<lambda>i. sb i \<noteq> s) tmp) (filter (\<lambda>i. sb i = s) tmp @ dispatch))"
  by auto
termination
  by (relation "measure (\<lambda>(_, t, _). length t)")
    (auto intro!: length_filter_less [of "last _"])

declare take_expired.simps [simp del] group_by_sb.simps [simp del]

definition move_expired_inodes ::
    "(nat \<Rightarrow> nat) \<Rightarrow> (nat \<Rightarrow> bool) \<Rightarrow> nat list \<Rightarrow> nat list \<Rightarrow> nat \<times> nat list \<times> nat list \<times> nat list" where
  "move_expired_inodes sb after delaying_queue dispatch_queue =
     (let (delaying, tmp) = take_expired after delaying_queue [];
          do_sb_sort = (\<exists>i \<in> set tmp. sb i \<noteq> sb (hd tmp))
      in (length tmp, tmp, delaying,
          if do_sb_sort then group_by_sb sb tmp dispatch_queue else tmp @ dispatch_queue))"

definition queue_io :: "inode_bits \<Rightarrow> u64 \<Rightarrow> bdi_writeback \<Rightarrow> bdi_writeback" where
  "queue_io bits dirtied_before wb =
     (let wb = wb\<lparr> b_io := b_more_io wb @ b_io wb, b_more_io := [] \<rparr>;
          (moved, tmp, delaying, dispatch) =
            move_expired_inodes (i_sb bits) (\<lambda>i. inode_dirtied_after wb i dirtied_before) (b_dirty wb) (b_io wb);
          wb = wb\<lparr> b_dirty := delaying, b_io := dispatch,
                   I_SYNC_QUEUED := (\<lambda>i. i \<in> set tmp \<or> I_SYNC_QUEUED wb i) \<rparr>
      in if moved \<noteq> 0 then snd (wb_io_lists_populated wb) else wb)"

section \<open>Writing inodes\<close>

record wb_control =
  c_sync_or_tagged :: bool
  c_pages_skipped :: bool

definition requeue_inode ::
    "inode_bits \<Rightarrow> u64 \<Rightarrow> wb_control \<Rightarrow> nat \<Rightarrow> bool \<Rightarrow> bdi_writeback \<Rightarrow> bdi_writeback" where
  "requeue_inode bits jiffies wbc i dirty wb =
     (if I_FREEING bits i then wb
      else
        let wb = (if dirty \<and> c_sync_or_tagged wbc
                  then wb\<lparr> dirtied_when := (dirtied_when wb)(i := jiffies) \<rparr> else wb)
        in if c_pages_skipped wbc then redirty_tail_locked jiffies i wb
           else if dirty then redirty_tail_locked jiffies i wb
           else if I_DIRTY_TIME bits i then
             let wb = snd (inode_io_list_move_locked i L_dirty_time
                        (wb\<lparr> dirtied_when := (dirtied_when wb)(i := jiffies) \<rparr>))
             in wb\<lparr> I_SYNC_QUEUED := (I_SYNC_QUEUED wb)(i := False) \<rparr>
           else inode_io_list_del_locked i wb)"

text \<open>
  \<open>__writeback_single_inode\<close> with \<open>write_inode\<close>: the inode is marked clean and written when it was
  dirty. The code that is returned starts from an uninitialised variable and is not used.
\<close>

definition writeback_single_inode ::
    "wbc_env \<Rightarrow> inode_bits \<Rightarrow> writeback_control_ext \<Rightarrow> nat \<Rightarrow> wbc_context \<Rightarrow> wbc_fs
       \<Rightarrow> (wbc_context \<times> wbc_fs) option" where
  "writeback_single_inode env bits wbcx i wctx fs =
     (let dirty = i_dirty (fs_inode fs i);
          fs = upd_inode i (\<lambda>w. w\<lparr> i_dirty := False \<rparr>) fs
      in if dirty \<and> \<not> i_bad bits i then do {
           (_, wctx, fs) \<leftarrow> wbc_write_inode env i wbcx wctx fs;
           Some (wctx, fs)
         } else Some (wctx, fs))"

definition wbc_inode_check_parent :: "wbc_env \<Rightarrow> nat \<Rightarrow> wbc_fs \<Rightarrow> bool" where
  "wbc_inode_check_parent env i fs =
     (if \<not> e_alias env i then False
      else let wbci = fs_inode fs (fs_parent fs i) in
        if wbci_flags wbci = WBC_STATE_FL_NONE then True
        else if wbci_flags wbci AND WBC_STATE_FL_SYNC \<noteq> 0 then True
        else e_garbage env)"

definition inode_sync_complete :: "nat \<Rightarrow> wbc_fs \<Rightarrow> wbc_fs" where
  "inode_sync_complete i = upd_inode i (\<lambda>w. w\<lparr> i_sync := False \<rparr>)"

partial_function (option) wbc_writeback_sb_inodes ::
    "wbc_env \<Rightarrow> inode_bits \<Rightarrow> u64 \<Rightarrow> nat \<Rightarrow> bool \<Rightarrow> wb_control \<Rightarrow> writeback_control_ext
       \<Rightarrow> wbc_context \<Rightarrow> wbc_fs \<Rightarrow> bdi_writeback \<Rightarrow> (wbc_context \<times> wbc_fs \<times> bdi_writeback) option" where
  "wbc_writeback_sb_inodes env bits jiffies sb work_sb wbc wbcx wctx fs wb =
     (if b_io wb = [] then Some (wctx, fs, wb)
      else let i = last (b_io wb) in
        if i_sb bits i \<noteq> sb then
          if work_sb then
            wbc_writeback_sb_inodes env bits jiffies sb work_sb wbc wbcx wctx fs (redirty_tail_locked jiffies i wb)
          else Some (wctx, fs, wb)
        else if \<not> wbc_inode_check_parent env i fs then Some (wctx, fs, wb)
        else if I_NEW_or_freeing bits i then
          wbc_writeback_sb_inodes env bits jiffies sb work_sb wbc wbcx wctx fs (redirty_tail_locked jiffies i wb)
        else if i_sync (fs_inode fs i) \<or> wbc_inode_writeback (fs_inode fs i) then Some (wctx, fs, wb)
        else do {
          let fs = upd_inode i (\<lambda>w. w\<lparr> i_sync := True \<rparr>) fs;
          (wctx, fs) \<leftarrow> writeback_single_inode env bits wbcx i wctx fs;
          let wb = requeue_inode bits jiffies wbc i (i_dirty (fs_inode fs i)) wb;
          wbc_writeback_sb_inodes env bits jiffies sb work_sb wbc wbcx wctx (inode_sync_complete i fs) wb
        })"

partial_function (option) wb_writeback ::
    "wbc_env \<Rightarrow> inode_bits \<Rightarrow> u64 \<Rightarrow> nat \<Rightarrow> bool \<Rightarrow> wb_control \<Rightarrow> writeback_control_ext
       \<Rightarrow> wbc_context \<Rightarrow> wbc_fs \<Rightarrow> bdi_writeback \<Rightarrow> (wbc_context \<times> wbc_fs \<times> bdi_writeback) option" where
  "wb_writeback env bits jiffies sb work_sb wbc wbcx wctx fs wb = do {
     let wb = (if b_io wb = [] then queue_io bits jiffies wb else wb);
     (wctx, fs, wb) \<leftarrow> wbc_writeback_sb_inodes env bits jiffies sb work_sb wbc wbcx wctx fs wb;
     if b_more_io wb = [] then Some (wctx, fs, wb)
     else wb_writeback env bits jiffies sb work_sb wbc wbcx wctx fs wb
   }"


section \<open>Work items and the work function\<close>







section \<open>Properties\<close>




text \<open>The diagram in the comment of \<open>queue_io\<close>, with A to g as 1 to 7.\<close>

definition wb_demo :: bdi_writeback where
  "wb_demo = \<lparr> b_dirty = [7, 6], b_io = [5, 4, 3], b_more_io = [2, 1], b_dirty_time = [], WB_has_dirty_io = True,
     dirtied_when = (\<lambda>i. if i = 7 then 20 else 10), I_SYNC_QUEUED = (\<lambda>_. False) \<rparr>"

definition bits_demo :: inode_bits where
  "bits_demo = \<lparr> I_NEW_or_freeing = (\<lambda>_. False), I_FREEING = (\<lambda>_. False), I_DIRTY_TIME = (\<lambda>_. False),
     i_sb = (\<lambda>_. 0), i_bad = (\<lambda>_. False) \<rparr>"

lemma queue_io_diagram:
  "b_dirty (queue_io bits_demo 15 wb_demo) = [7] \<and> b_io (queue_io bits_demo 15 wb_demo) = [6, 2, 1, 5, 4, 3]
   \<and> b_more_io (queue_io bits_demo 15 wb_demo) = []"
  by code_simp

text \<open>
  C29. \<open>wb_writeback\<close> does not return when the inode to be written next cannot be written (its parent is
  not flushed, or it is being written) while \<open>b_more_io\<close> is not empty: the inner loop gives up at
  once and leaves all lists as they are, and the outer loop goes round as long as \<open>b_more_io\<close> has
  inodes, with the lock on the lists held; it depends on another thread to change that inode.
\<close>

theorem wb_writeback_livelock:
  assumes "b_io wb \<noteq> []" and "i_sb bits (last (b_io wb)) = sb" and "b_more_io wb \<noteq> []"
    and "\<not> wbc_inode_check_parent env (last (b_io wb)) fs \<or>
      \<not> I_NEW_or_freeing bits (last (b_io wb)) \<and>
      (i_sync (fs_inode fs (last (b_io wb))) \<or> wbc_inode_writeback (fs_inode fs (last (b_io wb))))"
  shows "wb_writeback env bits jiffies sb work_sb wbc wbcx wctx fs wb = None"
proof (rule ccontr)
  assume "\<not> ?thesis"
  then obtain r where r: "wb_writeback env bits jiffies sb work_sb wbc wbcx wctx fs wb = Some r" by auto
  let ?blocked = "\<lambda>env bits sb fs wb. b_io wb \<noteq> [] \<and> i_sb bits (last (b_io wb)) = sb \<and> b_more_io wb \<noteq> []
    \<and> (\<not> wbc_inode_check_parent env (last (b_io wb)) fs \<or>
      \<not> I_NEW_or_freeing bits (last (b_io wb)) \<and>
      (i_sync (fs_inode fs (last (b_io wb))) \<or> wbc_inode_writeback (fs_inode fs (last (b_io wb)))))"
  have "?blocked env bits sb fs wb \<longrightarrow> False"
  proof (rule wb_writeback.raw_induct [OF _ r, where P = "\<lambda>env bits _ sb _ _ _ _ fs wb _. ?blocked env bits sb fs wb \<longrightarrow> False"], goal_cases)
    case (1 f env bits jiffies sb work_sb wbc wbcx wctx fs wb r)
    show ?case
    proof
      assume b: "?blocked env bits sb fs wb"
      have "wbc_writeback_sb_inodes env bits jiffies sb work_sb wbc wbcx wctx fs wb = Some (wctx, fs, wb)"
        using b by (subst wbc_writeback_sb_inodes.simps) (auto simp: Let_def)
      then have "f env bits jiffies sb work_sb wbc wbcx wctx fs wb = Some r"
        using 1(2) b by simp
      from 1(1) [OF this] b show False by blast
    qed
  qed
  then show False using assms by blast
qed

text \<open>Witness for the previous property: the inode 3 is being written while 2 and 1 wait.\<close>

theorem wb_writeback_livelock_witness:
  "wb_writeback env_ok bits_demo 15 0 False \<lparr> c_sync_or_tagged = False, c_pages_skipped = False \<rparr> wbcx_zero ioc_zero
     (upd_inode 3 (flag_set WBC_STATE_FL_WRITEBACK) (fs_empty conf_zero)) wb_demo = None"
  by (rule wb_writeback_livelock)
    (simp_all add: wb_demo_def bits_demo_def upd_inode_def flag_set_def wbc_inode_writeback_def fs_empty_def
      inode_none_def)



text \<open>
  The flusher is started by a dirtied inode only when more than half of the threshold is dirty,
  and at the latest when the threshold is exceeded by the error of the per-CPU counter, given that the
  approximate value of the counter is within its error bound.
\<close>

lemma flusher_start_bounds:
  assumes "\<bar>e_stat_read env - (wb_inode_dirty mwb + 1)\<bar> \<le> uint (e_stat_error env)"
    and "uint (e_stat_error env) < 2 ^ 63" and "wb_dirty_flush_thresh mwb \<noteq> 0" and "wb_inode_dirty mwb \<ge> 0"
    and "\<not> wb_running mwb" "\<not> wb_armed mwb" "e_has_dirty_io env"
  shows "(if wb_armed (wbc_account_inode_dirtied env mwb)
          then 2 * (wb_inode_dirty mwb + 1) > uint (wb_dirty_flush_thresh mwb)
          else wb_inode_dirty mwb + 1 \<le> uint (wb_dirty_flush_thresh mwb) + uint (e_stat_error env))"
proof -
  let ?m = "mwb\<lparr> wb_inode_dirty := wb_inode_dirty mwb + 1 \<rparr>" and ?t = "uint (wb_dirty_flush_thresh mwb)"
  have armed: "wb_armed (wbc_account_inode_dirtied env mwb) \<longleftrightarrow> wbc_over_dirty_threshold env ?m"
    using assms(3,5-7) by (simp add: wbc_account_inode_dirtied_def wbc_cap_account_dirty_def wbc_check_dirty_flush_def
        wbc_cap_flush_parallel_def wbc_flush_in_progress_def wbc_start_background_writeback_def wbc_wakeup_def word_gt_0)
  have twice: "uint (2 * e_stat_error env) = 2 * uint (e_stat_error env)"
    using assms(2) by (simp add: uint_word_ariths)
  have "wb_dirty_flush_thresh mwb < 2 * e_stat_error env \<longleftrightarrow> ?t < 2 * uint (e_stat_error env)"
    by (simp add: word_less_def twice)
  then show ?thesis unfolding armed wbc_over_dirty_threshold_def using assms(1,4) by (auto split: if_splits)
qed

text \<open>Witness for the previous property: the inode after the hundredth with a threshold of 100.\<close>

lemma flusher_start_bounds_witness:
  "let m = \<lparr> wb_running = False, wb_inode_dirty = 100, wb_dirty_flush_thresh = 100, wb_work_list = [],
             wb_armed = False \<rparr>;
       env = env_ok\<lparr> e_stat_read := 90 \<rparr>
   in if wb_armed (wbc_account_inode_dirtied env m) then 2 * (wb_inode_dirty m + 1) > 100
      else wb_inode_dirty m + 1 \<le> 164"
proof -
  let ?m = "\<lparr> wb_running = False, wb_inode_dirty = 100, wb_dirty_flush_thresh = 100, wb_work_list = [],
             wb_armed = False \<rparr>" and ?env = "env_ok\<lparr> e_stat_read := 90 \<rparr>"
  from flusher_start_bounds [of ?env ?m] show ?thesis by (simp add: Let_def env_ok_def)
qed

end
