(* ===== verification/Spec2Isabelle.thy ===== *)
theory Spec2Isabelle
  imports Lov_Offset Seq_Cluster WBC_Cache WBC_Flush_Correct WBC_Sync WBC_Writeback
begin

text \<open>
  Verification of the core logic of the Lustre file system with the metadata writeback
  cache (WBC).
\<close>

end
